(* ===== verification/Prelude.thy ===== *)
theory Prelude
  imports Main "HOL-Library.Word"
begin

text \<open>
  Shared vocabulary of the development.

  The type synonyms name the integer widths of the C and SystemVerilog sources. A SystemVerilog
  part select \<open>w[hi:lo]\<close> is \<open>fld hi lo w\<close>, a concatenation \<open>{a, b, c}\<close> is \<open>cat\<close> of a list of
  width/value pairs with the most significant field first. The collections \<open>bit_defs\<close> (bit
  level unfolding of both) and \<open>run_simps\<close> (equations that run a model on a given input) are
  filled by the component theories.
\<close>

unbundle bit_operations_syntax

named_theorems bit_defs "bit-level characterisation of part selects and concatenations"
named_theorems run_simps "equations that execute the models"

type_synonym u8 = "8 word"
type_synonym u16 = "16 word"
type_synonym u32 = "32 word"
type_synonym u64 = "64 word"

section \<open>Part selects and concatenations\<close>

definition fld :: "nat \<Rightarrow> nat \<Rightarrow> 'a::len word \<Rightarrow> 'b::len word" where
  "fld hi lo w = ucast (take_bit (Suc hi - lo) (drop_bit lo w))"

fun cat_width :: "(nat \<times> 'a::len word) list \<Rightarrow> nat" where
  "cat_width [] = 0"
| "cat_width ((k, v) # fs) = k + cat_width fs"

fun cat :: "(nat \<times> 'a::len word) list \<Rightarrow> 'a word" where
  "cat [] = 0"
| "cat ((k, v) # fs) = push_bit (cat_width fs) (take_bit k v) OR cat fs"

declare cat.simps [simp del]

lemmas cat_simps [run_simps] = cat.simps

definition b1 :: "bool \<Rightarrow> 'a::len word" where
  "b1 b = (if b then 1 else 0)"

lemma b1_simps [simp]: "b1 True = 1" "b1 False = 0"
  by (simp_all add: b1_def)

lemma b1_eq_iff [simp]: "b1 b = 1 \<longleftrightarrow> b" "b1 b = 0 \<longleftrightarrow> \<not> b"
  by (simp_all add: b1_def)

lemma bit_b1 [bit_defs]: "bit (b1 b :: 'a::len word) n \<longleftrightarrow> b \<and> n = 0"
  by (cases n) (simp_all add: b1_def)

lemma bit_fld [bit_defs]:
  "bit (fld hi lo w :: 'b::len word) n \<longleftrightarrow> n < LENGTH('b) \<and> n < Suc hi - lo \<and> bit w (lo + n)"
  by (auto simp: fld_def bit_simps)

lemma bit_cat_Nil [bit_defs]: "\<not> bit (cat []) n"
  by (simp add: cat.simps)

lemma bit_cat_Cons [bit_defs]:
  "bit (cat ((k, v) # fs) :: 'a::len word) n \<longleftrightarrow>
     (cat_width fs \<le> n \<and> n < LENGTH('a) \<and> n - cat_width fs < k \<and> bit v (n - cat_width fs))
      \<or> bit (cat fs) n"
  by (auto simp: cat.simps bit_simps)

lemma bit_ucast_word [bit_defs]:
  "bit (ucast (w :: 'a::len word) :: 'b::len word) n \<longleftrightarrow> n < LENGTH('b) \<and> bit w n"
  by (auto simp: bit_simps)

lemma cat_bits_below: "bit (cat fs) n \<Longrightarrow> n < cat_width fs"
proof (induction fs)
  case Nil
  then show ?case by (simp add: bit_cat_Nil)
next
  case (Cons f fs)
  obtain k v where f: "f = (k, v)" by (cases f)
  from Cons.prems show ?case
    unfolding f bit_cat_Cons using Cons.IH by auto
qed

lemma fld_cat_below:
  assumes "Suc hi \<le> cat_width fs"
  shows "fld hi lo (cat ((k, v) # fs)) = (fld hi lo (cat fs) :: 'b::len word)"
proof (rule bit_word_eqI)
  fix n
  show "bit (fld hi lo (cat ((k, v) # fs)) :: 'b word) n = bit (fld hi lo (cat fs) :: 'b word) n"
    using assms by (auto simp: bit_fld bit_cat_Cons)
qed

lemma fld_cat_top:
  assumes "lo = cat_width fs" and "Suc hi = lo + k" and "Suc hi \<le> LENGTH('a)"
  shows "fld hi lo (cat ((k, v :: 'a::len word) # fs)) = (ucast (take_bit k v) :: 'b::len word)"
proof (rule bit_word_eqI)
  fix n
  have "\<not> bit (cat fs) (cat_width fs + n)"
    using cat_bits_below by fastforce
  with assms show "bit (fld hi lo (cat ((k, v) # fs)) :: 'b word) n
      = bit (ucast (take_bit k v) :: 'b word) n"
    by (auto simp: bit_fld bit_cat_Cons bit_simps)
qed

lemma bit_cat_below:
  "n < cat_width fs \<Longrightarrow> bit (cat ((k, v) # fs)) n = bit (cat fs) n"
  by (auto simp: bit_cat_Cons)

lemma bit_cat_top:
  assumes "n = cat_width fs" and "0 < k" and "n < LENGTH('a)"
  shows "bit (cat ((k, v :: 'a::len word) # fs)) n = bit v 0"
proof -
  have "\<not> bit (cat fs) n" using cat_bits_below assms(1) by fastforce
  with assms show ?thesis by (simp add: bit_cat_Cons)
qed

text \<open>Truncating a value that was widened from a narrower word gives the value back.\<close>

lemma take_bit_ucast_self:
  "LENGTH('a) \<le> k \<Longrightarrow> take_bit k (ucast (w :: 'a::len word) :: 'b::len word) = ucast w"
  by (rule bit_word_eqI) (auto simp: bit_simps dest: bit_imp_le_length)

lemma ucast_ucast_self:
  "LENGTH('a) \<le> LENGTH('b) \<Longrightarrow> ucast (ucast (w :: 'a::len word) :: 'b::len word) = w"
  by (rule bit_word_eqI) (auto simp: bit_simps dest: bit_imp_le_length)

lemma ucast_fld: "Suc hi - lo \<le> LENGTH('b) \<Longrightarrow>
    (ucast (fld hi lo (w :: 'a::len word) :: 'b::len word) :: 'c::len word) = fld hi lo w"
  by (intro bit_word_eqI) (auto simp: bit_simps bit_fld)

lemma take_bit_fld: "Suc hi - lo \<le> k \<Longrightarrow> take_bit k (fld hi lo w) = fld hi lo w"
  by (intro bit_word_eqI) (auto simp: bit_fld bit_take_bit_iff)

lemma cat_merge:
  assumes "Suc hi' = lo" and "lo' + k' = lo" and "Suc hi = lo + k" and "k + k' \<le> LENGTH('a)"
  shows "cat ((k, fld hi lo w :: 'a::len word) # (k', fld hi' lo' w) # fs) =
    cat ((k + k', fld hi lo' w) # fs)"
proof (rule bit_word_eqI)
  fix n
  assume n: "n < LENGTH('a)"
  let ?c = "cat_width fs"
  from assms have e: "lo = lo' + k'" "Suc hi' = lo' + k'" "Suc hi = lo' + k' + k"
    by simp_all
  consider (low) "n < ?c" | (mid) m where "n = ?c + m" "m < k'" | (high) m where "n = ?c + k' + m"
    by (metis add.assoc le_add_diff_inverse not_less)
  then show "bit (cat ((k, fld hi lo w) # (k', fld hi' lo' w) # fs)) n
      = bit (cat ((k + k', fld hi lo' w :: 'a word) # fs)) n"
  proof cases
    case low
    then show ?thesis by (simp add: bit_cat_Cons)
  next
    case mid
    with n e assms(4) show ?thesis by (simp add: bit_cat_Cons bit_fld)
  next
    case high
    have "\<not> bit (cat fs) n" using high cat_bits_below by fastforce
    with n e assms(4) high show ?thesis by (simp add: bit_cat_Cons bit_fld add.assoc)
  qed
qed

lemma fld_cat_fld:
  assumes "lo = cat_width fs" and "Suc hi = lo + k" and "Suc hi \<le> LENGTH('a)" and "Suc h - l \<le> k"
  shows "fld hi lo (cat ((k, fld h l w :: 'a::len word) # fs)) = (fld h l w :: 'b::len word)"
  using assms by (simp add: fld_cat_top take_bit_fld ucast_fld)

lemma bit_cat_fld:
  assumes "n = cat_width fs" and "n < LENGTH('a)" "h = l"
  shows "bit (cat ((1, fld h l w :: 'a::len word) # fs)) n = bit w l"
  using assms by (simp add: bit_cat_top bit_fld)

lemma fld_whole: "LENGTH('a) \<le> Suc hi \<Longrightarrow> fld hi 0 (w :: 'a::len word) = ucast w"
  by (intro bit_word_eqI) (auto simp: bit_fld bit_simps dest: bit_imp_le_length)

lemma fld_cat_ucast:
  assumes "lo = cat_width fs" and "Suc hi = lo + k" and "Suc hi \<le> LENGTH('a)" and "LENGTH('c) \<le> k"
  shows "fld hi lo (cat ((k, ucast (x :: 'c::len word) :: 'a::len word) # fs)) = (ucast x :: 'b::len word)"
  using assms
  by (simp add: fld_cat_top take_bit_ucast_self)
    (intro bit_word_eqI; auto simp: bit_simps dest: bit_imp_le_length)

lemma cat_single: "LENGTH('a) \<le> k \<Longrightarrow> cat [(k, v :: 'a::len word)] = v"
  by (simp add: cat.simps take_bit_word_eq_self)

text \<open>Reading a field of a concatenation of fields.\<close>

lemmas cat_fields = fld_cat_below fld_cat_ucast fld_cat_fld ucast_fld take_bit_fld cat_merge
  fld_whole cat_single take_bit_ucast_self

section \<open>Bytes\<close>

text \<open>The word whose bytes are given, least significant byte first.\<close>

definition word_le :: "u8 list \<Rightarrow> 'a::len word" where
  "word_le bs = foldr (\<lambda>b w. ucast b OR push_bit 8 w) bs 0"

lemma bit_word_le:
  "bit (word_le bs :: 'a::len word) n \<longleftrightarrow>
     n < LENGTH('a) \<and> n < 8 * length bs \<and> bit (bs ! (n div 8)) (n mod 8)"
proof (induction bs arbitrary: n)
  case Nil
  then show ?case by (simp add: word_le_def)
next
  case (Cons b bs)
  have step: "(word_le (b # bs) :: 'a word) = ucast b OR push_bit 8 (word_le bs)"
    by (simp add: word_le_def)
  show ?case
  proof (cases "n < 8")
    case True
    then show ?thesis by (auto simp: step bit_simps)
  next
    case False
    then obtain m where n: "n = m + 8" by (metis add.commute le_add_diff_inverse not_less)
    have d: "(m + 8) div 8 = Suc (m div 8)" by simp
    show ?thesis using Cons.IH [of m]
      by (auto simp: step n d bit_simps dest: bit_imp_le_length)
  qed
qed

section \<open>Lists and options\<close>

lemma list_all_nthI: "list_all P xs \<Longrightarrow> i < length xs \<Longrightarrow> P (xs ! i)"
  by (simp add: list_all_length)

lemma map_of_Some_set: "map_of xs k = Some v \<Longrightarrow> (k, v) \<in> set xs"
  by (rule map_of_SomeD)

end
