(* ===== verification/Remote_Bitbang.thy ===== *)
theory Remote_Bitbang
  imports Prelude
begin

text \<open>
  The JTAG remote-bitbang server of \<open>tb/remote_bitbang/remote_bitbang.c\<close> and its DPI entry
  point \<open>jtag_tick\<close> of \<open>tb/remote_bitbang/sim_jtag.c\<close>.

  The globals of \<open>remote_bitbang.c\<close> are the record \<open>rbs\<close>, the operating system is a value
  \<open>os\<close> of the record \<open>posix\<close>: one function per system call the file makes, over an arbitrary
  world \<open>'w\<close> that the calls thread. A function of the file returns \<open>None\<close> when one of its loops
  never ends, \<open>Some (Inl r)\<close> when it calls \<open>abort()\<close>, and \<open>Some (Inr (s, w))\<close> when it returns.
  The messages on \<open>stderr\<close> are diagnostics only and are not modelled.
\<close>

section \<open>The operating system the server runs on\<close>

record sockaddr_in =
  sin_addr :: u32
  sin_port :: u16

record 'w posix =
  sys_socket :: "'w \<Rightarrow> int \<times> 'w"
  sys_fcntl_nonblock :: "int \<Rightarrow> 'w \<Rightarrow> 'w"
  sys_setsockopt :: "int \<Rightarrow> 'w \<Rightarrow> int \<times> 'w"
  sys_bind :: "int \<Rightarrow> sockaddr_in \<Rightarrow> 'w \<Rightarrow> int \<times> 'w"
  sys_listen :: "int \<Rightarrow> int \<Rightarrow> 'w \<Rightarrow> int \<times> 'w"
  sys_getsockname :: "int \<Rightarrow> 'w \<Rightarrow> int \<times> 'w"
  sys_accept :: "int \<Rightarrow> 'w \<Rightarrow> int \<times> 'w"
  sys_read :: "int \<Rightarrow> 'w \<Rightarrow> (int \<times> char) \<times> 'w"
  sys_write :: "int \<Rightarrow> char \<Rightarrow> 'w \<Rightarrow> int \<times> 'w"
  sys_close :: "int \<Rightarrow> 'w \<Rightarrow> 'w"
  os_errno :: "'w \<Rightarrow> int"
  os_EAGAIN :: int
  os_INADDR_ANY :: u32
  os_htons :: "u16 \<Rightarrow> u16"

section \<open>The globals of the server\<close>

record rbs =
  rbs_err :: int
  tck :: u8
  tms :: u8
  tdi :: u8
  trstn :: u8
  tdo :: u8
  quit :: u8
  socket_fd :: int
  client_fd :: int
  recv_start :: int
  recv_end :: int

datatype abort = Socket_Failed | Setsockopt_Failed | Bind_Failed | Listen_Failed
  | Getsockname_Failed | Accept_Failed | Read_Failed | Write_Failed

type_synonym 'a result = "(abort + 'a) option"

definition ret :: "'a \<Rightarrow> 'a result" where
  "ret x = Some (Inr x)"

definition abort_with :: "abort \<Rightarrow> 'a result" where
  "abort_with e = Some (Inl e)"

definition seq :: "'a result \<Rightarrow> ('a \<Rightarrow> 'b result) \<Rightarrow> 'b result" where
  "seq m f = (case m of None \<Rightarrow> None | Some (Inl e) \<Rightarrow> Some (Inl e) | Some (Inr x) \<Rightarrow> f x)"

lemma seq_simps [simp]:
  "seq None f = None"
  "seq (Some (Inl e)) f = Some (Inl e)"
  "seq (Some (Inr x)) f = f x"
  "seq (ret x) f = f x"
  "seq (abort_with e) f = abort_with e"
  by (simp_all add: seq_def ret_def abort_with_def)

lemma result_inject [simp]:
  "ret x = ret y \<longleftrightarrow> x = y" "abort_with e = abort_with e' \<longleftrightarrow> e = e'"
  "ret x \<noteq> abort_with e" "abort_with e \<noteq> ret x" "ret x \<noteq> None" "abort_with e \<noteq> None"
  by (simp_all add: ret_def abort_with_def)

lemma seq_eq_ret: "seq m f = ret y \<longleftrightarrow> (\<exists>x. m = ret x \<and> f x = ret y)"
  by (auto simp: seq_def ret_def split: option.splits sum.splits)

section \<open>Starting the server\<close>

text \<open>
  \<open>rbs_init\<close>: every failing call aborts, in the order of the source; the pins are set to 1
  and \<open>quit\<close> cleared at the end. The C function returns 1, kept as the first component.
\<close>

definition rbs_init :: "'w posix \<Rightarrow> u16 \<Rightarrow> rbs \<Rightarrow> 'w \<Rightarrow> (int \<times> rbs \<times> 'w) result" where
  "rbs_init os port s w =
    (let s = s\<lparr>socket_fd := 0, client_fd := 0, recv_start := 0, recv_end := 0, rbs_err := 0\<rparr>;
         (fd, w) = sys_socket os w;
         s = s\<lparr>socket_fd := fd\<rparr>
     in if fd = -1 then abort_with Socket_Failed
     else let w = sys_fcntl_nonblock os fd w;
              (r, w) = sys_setsockopt os fd w
     in if r = -1 then abort_with Setsockopt_Failed
     else let addr = \<lparr>sin_addr = os_INADDR_ANY os, sin_port = os_htons os port\<rparr>;
              (r, w) = sys_bind os fd addr w
     in if r = -1 then abort_with Bind_Failed
     else let (r, w) = sys_listen os fd 1 w
     in if r = -1 then abort_with Listen_Failed
     else let (r, w) = sys_getsockname os fd w
     in if r = -1 then abort_with Getsockname_Failed
     else ret (1, s\<lparr>tck := 1, tms := 1, tdi := 1, trstn := 1, quit := 0\<rparr>, w))"

section \<open>Accepting the client\<close>

text \<open>
  \<open>rbs_accept\<close> polls the listening socket until a client is there; \<open>EAGAIN\<close> polls again,
  any other error aborts.
\<close>

partial_function (option) accept_loop :: "'w posix \<Rightarrow> int \<Rightarrow> 'w \<Rightarrow> (int \<times> 'w) result" where
  "accept_loop os fd w =
    (let (c, w') = sys_accept os fd w
     in if c = -1
        then (if os_errno os w' = os_EAGAIN os then accept_loop os fd w' else abort_with Accept_Failed)
        else ret (c, sys_fcntl_nonblock os c w'))"

definition rbs_accept :: "'w posix \<Rightarrow> rbs \<Rightarrow> 'w \<Rightarrow> (rbs \<times> 'w) result" where
  "rbs_accept os s w =
    seq (accept_loop os (socket_fd s) w) (\<lambda>(c, w'). ret (s\<lparr>client_fd := c\<rparr>, w'))"

section \<open>Executing one command\<close>

definition rbs_reset :: "rbs \<Rightarrow> rbs" where
  "rbs_reset s = s\<lparr>trstn := 0\<rparr>"

definition rbs_set :: "rbs \<Rightarrow> rbs" where
  "rbs_set s = s\<lparr>trstn := 1\<rparr>"

definition rbs_set_pins :: "u8 \<Rightarrow> u8 \<Rightarrow> u8 \<Rightarrow> rbs \<Rightarrow> rbs" where
  "rbs_set_pins a b c s = s\<lparr>tck := a, tms := b, tdi := c\<rparr>"

text \<open>
  The first loop of \<open>rbs_execute_command\<close>: \<open>None\<close> in the result is the end of file, which
  makes the C function return at once, \<open>Some c\<close> the command read.
\<close>

partial_function (option) read_loop :: "'w posix \<Rightarrow> int \<Rightarrow> 'w \<Rightarrow> (char option \<times> 'w) result" where
  "read_loop os fd w =
    (let ((n, c), w') = sys_read os fd w
     in if n = -1
        then (if os_errno os w' = os_EAGAIN os then read_loop os fd w' else abort_with Read_Failed)
        else if n = 0 then ret (None, w')
        else ret (Some c, w'))"

text \<open>The reply loop: a write of no bytes is tried again.\<close>

partial_function (option) send_loop :: "'w posix \<Rightarrow> int \<Rightarrow> char \<Rightarrow> 'w \<Rightarrow> 'w result" where
  "send_loop os fd c w =
    (let (n, w') = sys_write os fd c w
     in if n = -1 then abort_with Write_Failed
        else if n > 0 then ret w'
        else send_loop os fd c w')"

text \<open>
  The \<open>switch\<close>: the new globals and, for a read request, the character to send. A blink
  command and an unsupported one leave the globals as they are.
\<close>

definition exec_switch :: "char \<Rightarrow> rbs \<Rightarrow> rbs \<times> char option" where
  "exec_switch command s =
    (if command = CHR ''B'' then (s, None)
     else if command = CHR ''b'' then (s, None)
     else if command = CHR ''r'' then (rbs_set s, None)
     else if command = CHR ''s'' then (rbs_set s, None)
     else if command = CHR ''t'' then (rbs_reset s, None)
     else if command = CHR ''u'' then (rbs_reset s, None)
     else if command = CHR ''0'' then (rbs_set_pins 0 0 0 s, None)
     else if command = CHR ''1'' then (rbs_set_pins 0 0 1 s, None)
     else if command = CHR ''2'' then (rbs_set_pins 0 1 0 s, None)
     else if command = CHR ''3'' then (rbs_set_pins 0 1 1 s, None)
     else if command = CHR ''4'' then (rbs_set_pins 1 0 0 s, None)
     else if command = CHR ''5'' then (rbs_set_pins 1 0 1 s, None)
     else if command = CHR ''6'' then (rbs_set_pins 1 1 0 s, None)
     else if command = CHR ''7'' then (rbs_set_pins 1 1 1 s, None)
     else if command = CHR ''R'' then (s, Some (if tdo s \<noteq> 0 then CHR ''1'' else CHR ''0''))
     else if command = CHR ''Q'' then (s\<lparr>quit := 1\<rparr>, None)
     else (s, None))"

definition rbs_execute_command :: "'w posix \<Rightarrow> rbs \<Rightarrow> 'w \<Rightarrow> (rbs \<times> 'w) result" where
  "rbs_execute_command os s w =
    seq (read_loop os (client_fd s) w) (\<lambda>(cmd, w).
      case cmd of
        None \<Rightarrow> ret (s, w)
      | Some command \<Rightarrow>
          (let (s, tosend) = exec_switch command s
           in seq (case tosend of None \<Rightarrow> ret w | Some c \<Rightarrow> send_loop os (client_fd s) c w) (\<lambda>w.
              if quit s \<noteq> 0
              then ret (s\<lparr>client_fd := 0\<rparr>, sys_close os (client_fd s) w)
              else ret (s, w))))"

section \<open>The tick\<close>

type_synonym pins = "u8 \<times> u8 \<times> u8 \<times> u8"

definition pins_of :: "rbs \<Rightarrow> pins" where
  "pins_of s = (tck s, tms s, tdi s, trstn s)"

definition rbs_tick :: "'w posix \<Rightarrow> u8 \<Rightarrow> rbs \<Rightarrow> 'w \<Rightarrow> (pins \<times> rbs \<times> 'w) result" where
  "rbs_tick os jtag_tdo s w =
    seq (if client_fd s > 0
         then rbs_execute_command os (s\<lparr>tdo := jtag_tdo\<rparr>) w
         else rbs_accept os s w)
      (\<lambda>(s, w). ret (pins_of s, s, w))"

definition rbs_done :: "rbs \<Rightarrow> u8" where
  "rbs_done s = quit s"

definition rbs_exit_code :: "rbs \<Rightarrow> int" where
  "rbs_exit_code s = rbs_err s"

text \<open>
  \<open>jtag_tick\<close> of \<open>sim_jtag.c\<close>: the first call starts the server; an out-of-range port is
  reported and then truncated by the conversion to \<open>uint16_t\<close>. The result is 0 while the
  session runs and \<open>rbs_exit_code() << 1 | 1\<close> once it is done.
\<close>

record sim =
  sim_init :: int
  sim_rbs :: rbs

definition jtag_tick :: "'w posix \<Rightarrow> int \<Rightarrow> u8 \<Rightarrow> sim \<Rightarrow> 'w \<Rightarrow> (int \<times> pins \<times> sim \<times> 'w) result" where
  "jtag_tick os port jtag_tdo sim w =
    seq (if sim_init sim = 0
         then seq (rbs_init os (word_of_int port) (sim_rbs sim) w)
                (\<lambda>(r, s, w). ret (sim\<lparr>sim_init := r, sim_rbs := s\<rparr>, w))
         else ret (sim, w))
      (\<lambda>(sim, w). seq (rbs_tick os jtag_tdo (sim_rbs sim) w)
        (\<lambda>(ps, s, w). ret
          ((if rbs_done s \<noteq> 0 then (push_bit 1 (rbs_exit_code s)) OR 1 else 0),
           ps, sim\<lparr>sim_rbs := s\<rparr>, w)))"

end
