(* ===== verification/Bitbang_Session.thy ===== *)
theory Bitbang_Session
  imports Remote_Bitbang
begin

text \<open>
  What the remote-bitbang server promises to OpenOCD: the abstract bit-bang machine of the
  protocol, the server's refinement of it over a byte-stream socket, when its loops return, and
  the end of a session.
\<close>

section \<open>The protocol, independent of the server\<close>

type_synonym bb_pins = "bool \<times> bool \<times> bool \<times> bool"

text \<open>
  A write command is the digit of the three pin bits \<open>4 * tck + 2 * tms + tdi\<close>; \<open>r\<close> and \<open>s\<close>
  deassert \<open>TRSTn\<close>, \<open>t\<close> and \<open>u\<close> assert it; \<open>R\<close> asks for the level of TDO.
\<close>

definition bb_digit :: "char \<Rightarrow> bool" where
  "bb_digit c \<longleftrightarrow> 48 \<le> (of_char c :: nat) \<and> (of_char c :: nat) < 56"

definition bb_encode :: "bool \<Rightarrow> bool \<Rightarrow> bool \<Rightarrow> char" where
  "bb_encode a b c = char_of (48 + 4 * of_bool a + 2 * of_bool b + of_bool c :: nat)"

definition bb_pins_step :: "char \<Rightarrow> bb_pins \<Rightarrow> bb_pins" where
  "bb_pins_step c = (\<lambda>(a, b, d, r).
    if bb_digit c
    then let v = of_char c - (48 :: nat) in (bit v 2, bit v 1, bit v 0, r)
    else (a, b, d, (r \<or> c \<in> {CHR ''r'', CHR ''s''}) \<and> c \<notin> {CHR ''t'', CHR ''u''}))"

definition bb_reply :: "char \<Rightarrow> u8 \<Rightarrow> char list" where
  "bb_reply c level = (if c = CHR ''R'' then [if level \<noteq> 0 then CHR ''1'' else CHR ''0''] else [])"

primrec bb_trace :: "bb_pins \<Rightarrow> char list \<Rightarrow> bb_pins list" where
  "bb_trace p [] = []"
| "bb_trace p (c # cs) = bb_pins_step c p # bb_trace (bb_pins_step c p) cs"

primrec bb_replies :: "char list \<Rightarrow> u8 list \<Rightarrow> char list" where
  "bb_replies cs [] = []"
| "bb_replies cs (l # ls) = (case cs of [] \<Rightarrow> [] | c # cs' \<Rightarrow> bb_reply c l @ bb_replies cs' ls)"

definition pins_abs :: "pins \<Rightarrow> bb_pins" where
  "pins_abs = (\<lambda>(a, b, c, d). (a \<noteq> 0, b \<noteq> 0, c \<noteq> 0, d \<noteq> 0))"

section \<open>One command\<close>

lemma bb_digit_iff:
  "bb_digit c \<longleftrightarrow> c \<in> set ''01234567''"
proof
  assume "bb_digit c"
  then have "(of_char c :: nat) \<in> {48, 49, 50, 51, 52, 53, 54, 55}"
    unfolding bb_digit_def by simp arith
  then have "c \<in> char_of ` {48, 49, 50, 51, 52, 53, 54, 55 :: nat}"
    by (metis char_of_char image_eqI)
  then show "c \<in> set ''01234567''"
    by (simp add: char_of_def bit_0)
next
  assume "c \<in> set ''01234567''"
  then show "bb_digit c" by (auto simp: bb_digit_def)
qed

text \<open>The switch of the server implements the abstract step on the pins and on the reply.\<close>

lemma exec_switch_refines:
  assumes "exec_switch c s = (s', tosend)"
  shows "pins_abs (pins_of s') = bb_pins_step c (pins_abs (pins_of s))"
    and "tosend = (case bb_reply c (tdo s) of [] \<Rightarrow> None | x # _ \<Rightarrow> Some x)"
    and "client_fd s' = client_fd s"
    and "quit s' = (if c = CHR ''Q'' then 1 else quit s)"
    and "rbs_err s' = rbs_err s" and "socket_fd s' = socket_fd s"
  using assms
  by (auto simp: exec_switch_def bb_pins_step_def bb_digit_iff bb_reply_def pins_abs_def pins_of_def
      rbs_set_pins_def rbs_set_def rbs_reset_def bit_0 split: if_splits)

lemma bb_encode_digit: "bb_digit (bb_encode a b c)"
  by (cases a; cases b; cases c) (simp_all add: bb_encode_def bb_digit_def)

lemma bb_pins_step_encode: "bb_pins_step (bb_encode a b c) (x, y, z, r) = (a, b, c, r)"
  by (cases a; cases b; cases c) (simp_all add: bb_pins_step_def bb_encode_def bb_digit_def bit_0)

section \<open>The loops\<close>

lemma read_loop_eager:
  "sys_read os fd w = ((n, c), w') \<Longrightarrow> n \<noteq> -1 \<Longrightarrow>
     read_loop os fd w = ret (if n = 0 then None else Some c, w')"
  by (subst read_loop.simps) simp

lemma read_loop_again:
  "sys_read os fd w = ((-1, c), w') \<Longrightarrow> os_errno os w' = os_EAGAIN os \<Longrightarrow>
     read_loop os fd w = read_loop os fd w'"
  by (subst read_loop.simps) simp

lemma send_loop_ok: "sys_write os fd c w = (n, w') \<Longrightarrow> 0 < n \<Longrightarrow> send_loop os fd c w = ret w'"
  by (subst send_loop.simps) simp

text \<open>A socket that never has data keeps the read loop running: it does not return.\<close>

lemma read_loop_diverges:
  assumes again: "\<And>w. \<exists>c w'. sys_read os fd w = ((-1, c), w') \<and> os_errno os w' = os_EAGAIN os"
  shows "read_loop os fd w = None"
proof (rule ccontr)
  assume "read_loop os fd w \<noteq> None"
  then obtain r where r: "read_loop os fd w = Some r" by blast
  have "(\<forall>w. \<exists>c w'. sys_read os fd w = ((-1, c), w') \<and> os_errno os w' = os_EAGAIN os) \<longrightarrow> False"
  proof (rule read_loop.raw_induct [where P = "\<lambda>os fd w r. (\<forall>w. \<exists>c w'. sys_read os fd w
      = ((-1, c), w') \<and> os_errno os w' = os_EAGAIN os) \<longrightarrow> False", OF _ r], rule impI)
    fix f :: "'a posix \<Rightarrow> int \<Rightarrow> 'a \<Rightarrow> (char option \<times> 'a) result" and os fd w r
    assume IH: "\<And>os fd w r. f os fd w = Some r \<Longrightarrow> (\<forall>w. \<exists>c w'. sys_read os fd w
          = ((-1, c), w') \<and> os_errno os w' = os_EAGAIN os) \<longrightarrow> False"
      and eq: "(let ((n, c), w') = sys_read os fd w
          in if n = -1
             then (if os_errno os w' = os_EAGAIN os then f os fd w' else abort_with Read_Failed)
             else if n = 0 then ret (None, w') else ret (Some c, w')) = Some r"
      and ag: "\<forall>w. \<exists>c w'. sys_read os fd w = ((-1, c), w') \<and> os_errno os w' = os_EAGAIN os"
    from ag obtain c w' where "sys_read os fd w = ((-1, c), w')" "os_errno os w' = os_EAGAIN os"
      by blast
    with eq have "f os fd w' = Some r" by simp
    with IH ag show False by blast
  qed
  with again show False by blast
qed

section \<open>A byte-stream socket\<close>

text \<open>
  What the server relies on from the client socket: while bytes are pending, a read either says
  \<open>EAGAIN\<close>, finitely often (\<open>delay\<close> decreases), or delivers the next byte; a write of one byte
  takes it.
\<close>

definition socket_stream ::
  "'w posix \<Rightarrow> int \<Rightarrow> ('w \<Rightarrow> char list) \<Rightarrow> ('w \<Rightarrow> char list) \<Rightarrow> ('w \<Rightarrow> nat) \<Rightarrow> bool" where
  "socket_stream os fd inq outq delay \<longleftrightarrow>
    (\<forall>w. inq w \<noteq> [] \<and> 0 < delay w \<longrightarrow>
      (\<exists>c w'. sys_read os fd w = ((-1, c), w') \<and> os_errno os w' = os_EAGAIN os \<and>
        delay w' < delay w \<and> inq w' = inq w \<and> outq w' = outq w)) \<and>
    (\<forall>w. inq w \<noteq> [] \<and> delay w = 0 \<longrightarrow>
      (\<exists>w'. sys_read os fd w = ((1, hd (inq w)), w') \<and> inq w' = tl (inq w) \<and> outq w' = outq w)) \<and>
    (\<forall>w c. \<exists>w'. sys_write os fd c w = (1, w') \<and> inq w' = inq w \<and> outq w' = outq w @ [c])"

lemma socket_stream_again:
  "socket_stream os fd inq outq delay \<Longrightarrow> inq w \<noteq> [] \<Longrightarrow> 0 < delay w \<Longrightarrow>
    \<exists>c w'. sys_read os fd w = ((-1, c), w') \<and> os_errno os w' = os_EAGAIN os \<and>
      delay w' < delay w \<and> inq w' = inq w \<and> outq w' = outq w"
  unfolding socket_stream_def by blast

lemma socket_stream_data:
  "socket_stream os fd inq outq delay \<Longrightarrow> inq w = c # cs \<Longrightarrow> delay w = 0 \<Longrightarrow>
    \<exists>w'. sys_read os fd w = ((1, c), w') \<and> inq w' = cs \<and> outq w' = outq w"
  unfolding socket_stream_def by (metis list.sel(1,3) list.distinct(1))

lemma socket_stream_write:
  "socket_stream os fd inq outq delay \<Longrightarrow>
    \<exists>w'. sys_write os fd c w = (1, w') \<and> inq w' = inq w \<and> outq w' = outq w @ [c]"
  unfolding socket_stream_def by blast

lemma read_loop_stream:
  assumes stream: "socket_stream os fd inq outq delay"
  shows "inq w = c # cs \<Longrightarrow>
    \<exists>w'. read_loop os fd w = ret (Some c, w') \<and> inq w' = cs \<and> outq w' = outq w"
proof (induction "delay w" arbitrary: w rule: less_induct)
  case less
  show ?case
  proof (cases "delay w = 0")
    case True
    from socket_stream_data [OF stream less.prems True] show ?thesis
      by (auto simp: read_loop_eager)
  next
    case False
    with socket_stream_again [OF stream, of w] less.prems obtain d w' where
      w': "sys_read os fd w = ((-1, d), w')" "os_errno os w' = os_EAGAIN os"
        "delay w' < delay w" "inq w' = inq w" "outq w' = outq w"
      by auto
    from less.hyps [OF w'(3)] w'(4,5) less.prems show ?thesis
      by (auto simp: read_loop_again [OF w'(1,2)])
  qed
qed

lemma execute_command_stream:
  assumes stream: "socket_stream os (client_fd s) inq outq delay"
    and pending: "inq w = c # cs" and run: "quit s = 0" "c \<noteq> CHR ''Q''"
  shows "\<exists>w'. rbs_execute_command os s w = ret (fst (exec_switch c s), w') \<and>
    inq w' = cs \<and> outq w' = outq w @ bb_reply c (tdo s)"
proof -
  obtain s' snd_c where sw: "exec_switch c s = (s', snd_c)" by (cases "exec_switch c s")
  note ref = exec_switch_refines [OF sw]
  from read_loop_stream [OF stream pending] obtain w1 where
    w1: "read_loop os (client_fd s) w = ret (Some c, w1)" "inq w1 = cs" "outq w1 = outq w" by blast
  from socket_stream_write [OF stream] obtain w2 where
    w2: "sys_write os (client_fd s) (if tdo s \<noteq> 0 then CHR ''1'' else CHR ''0'') w1 = (1, w2)"
      "inq w2 = inq w1" "outq w2 = outq w1 @ [if tdo s \<noteq> 0 then CHR ''1'' else CHR ''0'']" by blast
  show ?thesis
    using ref(2-4) run w1 w2
    by (auto simp: rbs_execute_command_def sw bb_reply_def send_loop_ok split: if_splits)
qed

section \<open>A session: one tick after another\<close>

text \<open>
  The simulator calls the tick once per JTAG clock edge with the level of TDO it sees; a session
  is the list of those levels, its result the list of the pin levels the ticks drive.
\<close>

primrec rbs_session :: "'w posix \<Rightarrow> u8 list \<Rightarrow> rbs \<Rightarrow> 'w \<Rightarrow> (pins list \<times> rbs \<times> 'w) result" where
  "rbs_session os [] s w = ret ([], s, w)"
| "rbs_session os (l # ls) s w =
    seq (rbs_tick os l s w) (\<lambda>(p, s, w).
      seq (rbs_session os ls s w) (\<lambda>(ps, s, w). ret (p # ps, s, w)))"

lemma tick_stream:
  assumes stream: "socket_stream os (client_fd s) inq outq delay" and conn: "client_fd s > 0"
    and pending: "inq w = c # cs" and run: "quit s = 0" "c \<noteq> CHR ''Q''"
  shows "\<exists>s' w'. rbs_tick os l s w = ret (pins_of s', s', w') \<and>
    pins_abs (pins_of s') = bb_pins_step c (pins_abs (pins_of s)) \<and>
    client_fd s' = client_fd s \<and> quit s' = 0 \<and> inq w' = cs \<and> outq w' = outq w @ bb_reply c l"
proof -
  obtain s' snd_c where sw: "exec_switch c (s\<lparr>tdo := l\<rparr>) = (s', snd_c)"
    by (cases "exec_switch c (s\<lparr>tdo := l\<rparr>)")
  have "\<exists>w'. rbs_execute_command os (s\<lparr>tdo := l\<rparr>) w = ret (s', w') \<and> inq w' = cs \<and>
      outq w' = outq w @ bb_reply c l"
    using execute_command_stream [of os "s\<lparr>tdo := l\<rparr>" inq outq delay w c cs] assms sw by simp
  moreover have "pins_of (s\<lparr>tdo := l\<rparr>) = pins_of s" by (simp add: pins_of_def)
  ultimately show ?thesis
    using exec_switch_refines [OF sw] conn run by (auto simp: rbs_tick_def)
qed

lemma session_stream:
  assumes stream: "socket_stream os fd inq outq delay" and fd: "fd > 0"
  shows "client_fd s = fd \<Longrightarrow> quit s = 0 \<Longrightarrow> length ls \<le> length (inq w) \<Longrightarrow>
    CHR ''Q'' \<notin> set (take (length ls) (inq w)) \<Longrightarrow>
    \<exists>ps s' w'. rbs_session os ls s w = ret (ps, s', w') \<and>
      map pins_abs ps = bb_trace (pins_abs (pins_of s)) (take (length ls) (inq w)) \<and>
      inq w' = drop (length ls) (inq w) \<and>
      outq w' = outq w @ bb_replies (take (length ls) (inq w)) ls \<and>
      client_fd s' = fd \<and> quit s' = 0"
proof (induction ls arbitrary: s w)
  case Nil
  then show ?case by simp
next
  case (Cons l ls)
  from Cons.prems(3) obtain c cs where inq: "inq w = c # cs" by (cases "inq w") auto
  with Cons.prems tick_stream [of os s inq outq delay w c cs l] stream fd obtain s1 w1 where
    t: "rbs_tick os l s w = ret (pins_of s1, s1, w1)"
      "pins_abs (pins_of s1) = bb_pins_step c (pins_abs (pins_of s))"
      "client_fd s1 = fd" "quit s1 = 0" "inq w1 = cs" "outq w1 = outq w @ bb_reply c l"
    by auto
  from Cons.IH [of s1 w1] Cons.prems t inq obtain ps s' w' where
    "rbs_session os ls s1 w1 = ret (ps, s', w')"
    "map pins_abs ps = bb_trace (pins_abs (pins_of s1)) (take (length ls) cs)"
    "inq w' = drop (length ls) cs"
    "outq w' = outq w1 @ bb_replies (take (length ls) cs) ls"
    "client_fd s' = fd" "quit s' = 0"
    by auto
  with t inq show ?case by auto
qed

section \<open>Where a session starts and ends\<close>

lemma exec_switch_quit: "quit s \<noteq> 0 \<Longrightarrow> exec_switch c s = (s', t) \<Longrightarrow> quit s' \<noteq> 0"
  using exec_switch_refines(4) [of c s s' t] by (auto split: if_splits)

lemma seq_eq_SomeInr: "seq m f = Some (Inr y) \<longleftrightarrow> (\<exists>x. m = ret x \<and> f x = Some (Inr y))"
  by (auto simp: seq_def ret_def split: option.splits sum.splits)

text \<open>What a returning command can have done to the globals.\<close>

lemma execute_command_cases:
  assumes "rbs_execute_command os s w = ret (s', w')"
  obtains (eof) "s' = s"
  | (run) c t where "exec_switch c s = (s', t)" "quit s' = 0"
  | (closed) c t s1 where "exec_switch c s = (s1, t)" "quit s1 \<noteq> 0" "s' = s1\<lparr>client_fd := 0\<rparr>"
proof -
  from assms obtain cmd w1 where cmd: "(case cmd of None \<Rightarrow> ret (s, w1) | Some command \<Rightarrow>
      (let (s, tosend) = exec_switch command s
       in seq (case tosend of None \<Rightarrow> ret w1 | Some c \<Rightarrow> send_loop os (client_fd s) c w1) (\<lambda>w.
          if quit s \<noteq> 0 then ret (s\<lparr>client_fd := 0\<rparr>, sys_close os (client_fd s) w)
          else ret (s, w)))) = ret (s', w')"
    unfolding rbs_execute_command_def seq_eq_ret by auto
  show thesis
  proof (cases cmd)
    case None
    with cmd show thesis by (auto intro: eof)
  next
    case (Some c)
    obtain s1 t where sw: "exec_switch c s = (s1, t)" by (cases "exec_switch c s")
    from cmd Some sw have "s' = (if quit s1 \<noteq> 0 then s1\<lparr>client_fd := 0\<rparr> else s1)"
      by (auto simp: seq_eq_ret split: if_splits)
    with sw show thesis by (cases "quit s1 = 0") (auto intro: run closed)
  qed
qed

lemma rbs_accept_frame:
  "rbs_accept os s w = ret (s', w') \<Longrightarrow> \<exists>c. s' = s\<lparr>client_fd := c\<rparr>"
  by (auto simp: rbs_accept_def seq_eq_ret)

text \<open>
  The invariant of the globals between two ticks: no code path sets \<open>rbs_err\<close>, and \<open>quit\<close> is a
  flag that, once set, stays set.
\<close>

definition rbs_inv :: "rbs \<Rightarrow> bool" where
  "rbs_inv s \<longleftrightarrow> rbs_err s = 0 \<and> (quit s = 0 \<or> quit s = 1)"

lemma rbs_tick_inv:
  assumes "rbs_tick os l s w = ret (p, s', w')"
  shows "rbs_inv s \<Longrightarrow> rbs_inv s'" and "quit s \<noteq> 0 \<Longrightarrow> quit s' \<noteq> 0" and "p = pins_of s'"
proof -
  consider (exec) "rbs_execute_command os (s\<lparr>tdo := l\<rparr>) w = ret (s', w')"
    | (accept) "rbs_accept os s w = ret (s', w')"
    and "p = pins_of s'"
    using assms by (auto simp: rbs_tick_def seq_eq_ret split: if_splits)
  then have "(rbs_inv s \<longrightarrow> rbs_inv s') \<and> (quit s \<noteq> 0 \<longrightarrow> quit s' \<noteq> 0)"
  proof cases
    case exec
    then show ?thesis
    proof (cases rule: execute_command_cases)
      case (run c t)
      with exec_switch_refines(4,5) [OF run(1)] exec_switch_quit [OF _ run(1)] show ?thesis
        by (auto simp: rbs_inv_def split: if_splits)
    next
      case (closed c t s1)
      with exec_switch_refines(4,5) [OF closed(1)] show ?thesis
        by (auto simp: rbs_inv_def split: if_splits)
    qed (auto simp: rbs_inv_def)
  next
    case accept
    then show ?thesis using rbs_accept_frame [OF accept(1)] by (auto simp: rbs_inv_def)
  qed
  then show "rbs_inv s \<Longrightarrow> rbs_inv s'" and "quit s \<noteq> 0 \<Longrightarrow> quit s' \<noteq> 0" by auto
  show "p = pins_of s'" using assms by (auto simp: rbs_tick_def seq_eq_ret)
qed

lemma rbs_init_inv: "rbs_init os port s w = ret (r, s', w') \<Longrightarrow> rbs_inv s' \<and> r = 1 \<and> quit s' = 0"
  by (auto simp: rbs_init_def rbs_inv_def Let_def split: prod.splits if_splits)

text \<open>A scripted operating system: one client, its pending bytes, the bytes sent to it.\<close>

definition script_os :: "(nat \<times> char list \<times> char list) posix" where
  "script_os = \<lparr>
    sys_socket = (\<lambda>w. (3, w)), sys_fcntl_nonblock = (\<lambda>fd w. w), sys_setsockopt = (\<lambda>fd w. (0, w)),
    sys_bind = (\<lambda>fd a w. (0, w)), sys_listen = (\<lambda>fd n w. (0, w)), sys_getsockname = (\<lambda>fd w. (0, w)),
    sys_accept = (\<lambda>fd w. (4, w)),
    sys_read = (\<lambda>fd (d, i, out). if 0 < d then ((-1, CHR ''?''), (d - 1, i, out)) else
      (case i of [] \<Rightarrow> ((0, CHR ''?''), (d, i, out)) | c # cs \<Rightarrow> ((1, c), (d, cs, out)))),
    sys_write = (\<lambda>fd c (d, i, out). (1, (d, i, out @ [c]))),
    sys_close = (\<lambda>fd w. w), os_errno = (\<lambda>w. 11), os_EAGAIN = 11, os_INADDR_ANY = 0,
    os_htons = (\<lambda>p. push_bit 8 p OR drop_bit 8 p)\<rparr>"

lemma script_os_stream:
  "socket_stream script_os fd (\<lambda>(d, i, out). i) (\<lambda>(d, i, out). out) (\<lambda>(d, i, out). d)"
  by (auto simp: socket_stream_def script_os_def split: list.splits)

text \<open>The statically zero-initialised globals of the C file.\<close>

definition rbs_zero :: rbs where
  "rbs_zero = \<lparr>rbs_err = 0, tck = 0, tms = 0, tdi = 0, trstn = 0, tdo = 0, quit = 0,
    socket_fd = 0, client_fd = 0, recv_start = 0, recv_end = 0\<rparr>"

section \<open>Properties of the server\<close>

text \<open>C28: refinement of the remote-bitbang protocol. Over a byte-stream client socket, a
  session of ticks returns; the pins it drives are those of the abstract protocol machine on the
  pending command bytes, one byte per tick and in order, and the bytes it sends are exactly one
  TDO sample per read request, taken at that tick.\<close>

theorem session_refines_protocol:
  assumes "socket_stream os (client_fd s) inq outq delay"
    and "0 < client_fd s" and "quit s = 0"
    and "length levels \<le> length (inq w)"
    and "CHR ''Q'' \<notin> set (take (length levels) (inq w))"
  shows "\<exists>ps s' w'. rbs_session os levels s w = ret (ps, s', w') \<and>
    map pins_abs ps = bb_trace (pins_abs (pins_of s)) (take (length levels) (inq w)) \<and>
    outq w' = outq w @ bb_replies (take (length levels) (inq w)) levels \<and>
    inq w' = drop (length levels) (inq w)"
  using session_stream [OF assms(1,2) refl assms(3-5)] by blast

lemma session_refines_protocol_witness:
  "\<exists>ps s' w'. rbs_session script_os [0, 1, 0] (rbs_zero\<lparr>client_fd := 4, trstn := 1\<rparr>)
      (2, ''6R3'', []) = ret (ps, s', w') \<and>
    map pins_abs ps = [(True, True, False, True), (True, True, False, True), (False, True, True, True)] \<and>
    snd (snd w') = ''1''"
proof -
  let ?s = "rbs_zero\<lparr>client_fd := 4, trstn := 1\<rparr>"
  have pre: "0 < client_fd ?s" "quit ?s = 0" by (simp_all add: rbs_zero_def)
  obtain ps s' w' where r: "rbs_session script_os [0, 1, 0] ?s (2, ''6R3'', []) = ret (ps, s', w')"
      "map pins_abs ps = bb_trace (pins_abs (pins_of ?s)) ''6R3''"
      "snd (snd w') = bb_replies ''6R3'' [0, 1, 0]"
    using session_refines_protocol [OF script_os_stream pre, of "[0, 1, 0]" "(2, ''6R3'', [])"]
    by (auto split: prod.splits)
  have "bb_trace (pins_abs (pins_of ?s)) ''6R3'' =
      [(True, True, False, True), (True, True, False, True), (False, True, True, True)]"
    by (simp add: rbs_zero_def pins_abs_def pins_of_def bb_pins_step_def bb_digit_def bit_0)
  moreover have "bb_replies ''6R3'' [0, 1, 0] = ''1''"
    by (simp add: bb_reply_def)
  ultimately show ?thesis using r by auto
qed

text \<open>Round trip of the pin encoding. Executing the command byte that encodes three pin
  levels drives exactly those levels, leaves TRSTn and the rest of the state alone and sends
  nothing.\<close>

theorem pin_write_roundtrip:
  "exec_switch (bb_encode a b c) s = (s\<lparr>tck := b1 a, tms := b1 b, tdi := b1 c\<rparr>, None)"
  by (cases a; cases b; cases c)
    (simp_all add: bb_encode_def exec_switch_def rbs_set_pins_def char_of_def bit_0)

text \<open>The command loop busy-waits. While the client has sent nothing, a call of
  \<open>rbs_execute_command\<close> does not return to the simulation.\<close>

theorem execute_command_busy_waits:
  assumes "\<And>w. \<exists>c w'. sys_read os (client_fd s) w = ((-1, c), w') \<and> os_errno os w' = os_EAGAIN os"
  shows "rbs_execute_command os s w = None"
  using read_loop_diverges [of os "client_fd s" w, OF assms] by (simp add: rbs_execute_command_def)

lemma execute_command_busy_waits_witness:
  "rbs_execute_command (script_os\<lparr>sys_read := \<lambda>fd w. ((-1, CHR ''?''), w)\<rparr>) rbs_zero (0, [], []) = None"
  by (rule execute_command_busy_waits) (simp add: script_os_def del: split_paired_Ex)

text \<open>A client that hangs up without \<open>Q\<close> is never noticed. When every read reports the
  end of file, any number of ticks keeps the pins, keeps the descriptor and never sets \<open>quit\<close>.\<close>

theorem eof_never_ends_session:
  assumes eof: "\<And>w. \<exists>c w'. sys_read os fd w = ((0, c), w')"
    and "client_fd s = fd" and "0 < fd" and "quit s = 0"
  shows "\<exists>ps s' w'. rbs_session os levels s w = ret (ps, s', w') \<and>
    set ps \<subseteq> {pins_of s} \<and> length ps = length levels \<and> client_fd s' = fd \<and> quit s' = 0"
  using assms(2-)
proof (induction levels arbitrary: s w)
  case Nil
  then show ?case by simp
next
  case (Cons l ls)
  let ?s = "s\<lparr>tdo := l\<rparr>"
  obtain c w1 where "sys_read os fd w = ((0, c), w1)" using eof by blast
  with Cons.prems have "rbs_tick os l s w = ret (pins_of s, ?s, w1)"
    by (simp add: rbs_tick_def rbs_execute_command_def read_loop_eager pins_of_def)
  with Cons.IH [of ?s w1] Cons.prems show ?case by (auto simp: pins_of_def)
qed

lemma eof_never_ends_session_witness:
  "\<exists>ps s' w'. rbs_session (script_os\<lparr>sys_read := \<lambda>fd w. ((0, CHR ''?''), w)\<rparr>) [0, 1]
      (rbs_zero\<lparr>client_fd := 4\<rparr>) (0, [], []) = ret (ps, s', w') \<and>
    set ps \<subseteq> {pins_of (rbs_zero\<lparr>client_fd := 4\<rparr>)} \<and> length ps = length [0, 1 :: u8] \<and>
    client_fd s' = 4 \<and> quit s' = 0"
  by (rule eof_never_ends_session) (simp_all add: rbs_zero_def del: split_paired_Ex)

text \<open>The end of a session. Executing \<open>Q\<close> closes the client and raises \<open>quit\<close>.
  \<open>quit\<close> is never cleared again, so a client accepted later is closed after its first
  command, whatever it is.\<close>

theorem quit_closes_and_sticks:
  assumes "0 < client_fd s" and "sys_read os (client_fd s) w = ((1, c), w1)"
    and "c = CHR ''Q'' \<or> quit s \<noteq> 0"
    and "rbs_tick os level s w = ret (p, s', w')"
  shows "client_fd s' = 0 \<and> quit s' \<noteq> 0"
proof -
  obtain s1 t where sw: "exec_switch c (s\<lparr>tdo := level\<rparr>) = (s1, t)"
    by (cases "exec_switch c (s\<lparr>tdo := level\<rparr>)")
  with exec_switch_refines(4) [OF sw] assms(3) have "quit s1 \<noteq> 0" by (auto split: if_splits)
  with assms sw show ?thesis
    by (auto simp: rbs_tick_def rbs_execute_command_def read_loop_eager seq_eq_ret)
qed

lemma quit_closes_and_sticks_witness:
  "rbs_tick script_os 0 (rbs_zero\<lparr>client_fd := 4\<rparr>) (0, ''Q'', []) =
      ret ((0, 0, 0, 0), rbs_zero\<lparr>quit := 1\<rparr>, (0, [], [])) \<and>
   client_fd (rbs_zero\<lparr>quit := 1\<rparr>) = 0 \<and> quit (rbs_zero\<lparr>quit := 1\<rparr>) \<noteq> 0"
proof -
  have t: "rbs_tick script_os 0 (rbs_zero\<lparr>client_fd := 4\<rparr>) (0, ''Q'', []) =
      ret ((0, 0, 0, 0), rbs_zero\<lparr>quit := 1\<rparr>, (0, [], []))"
    by (simp add: rbs_tick_def rbs_execute_command_def read_loop_eager script_os_def rbs_zero_def
        exec_switch_def pins_of_def)
  have "client_fd (rbs_zero\<lparr>quit := 1\<rparr>) = 0 \<and> quit (rbs_zero\<lparr>quit := 1\<rparr>) \<noteq> 0"
    by (rule quit_closes_and_sticks [OF _ _ _ t]) (simp_all add: rbs_zero_def script_os_def)
  with t show ?thesis by simp
qed

text \<open>The result of \<open>jtag_tick\<close>. From any state in which the globals are well formed
  (the initial one is), a tick that returns reports 0 while the session runs and 1 once a quit
  request was executed, hands out the pins of the new state, keeps the globals well formed, and
  after the end of the session keeps reporting 1.\<close>

theorem jtag_tick_exit_code:
  assumes "rbs_inv (sim_rbs sim)"
    and "jtag_tick os port level sim w = ret (r, p, sim', w')"
  shows "r = (if quit (sim_rbs sim') = 0 then 0 else 1) \<and> p = pins_of (sim_rbs sim') \<and>
    rbs_inv (sim_rbs sim') \<and> sim_init sim' \<noteq> 0 \<and>
    (sim_init sim \<noteq> 0 \<and> quit (sim_rbs sim) \<noteq> 0 \<longrightarrow> r = 1)"
proof -
  from assms(2) obtain sim1 w1 p1 s1 where
    start: "sim_init sim1 \<noteq> 0" "rbs_inv (sim_rbs sim1)" "sim_init sim \<noteq> 0 \<longrightarrow> sim1 = sim"
    and tick: "rbs_tick os level (sim_rbs sim1) w1 = ret (p1, s1, w')"
    and out: "p = p1" "sim' = sim1\<lparr>sim_rbs := s1\<rparr>"
      "r = (if rbs_done s1 \<noteq> 0 then push_bit 1 (rbs_exit_code s1) OR 1 else 0)"
  proof (cases "sim_init sim = 0")
    case True
    with assms(2) obtain i s0 w0 where i: "rbs_init os (word_of_int port) (sim_rbs sim) w = ret (i, s0, w0)"
      and "seq (rbs_tick os level s0 w0) (\<lambda>(ps, s, w). ret
          (if rbs_done s \<noteq> 0 then push_bit 1 (rbs_exit_code s) OR 1 else 0, ps,
           \<lparr>sim_init = i, sim_rbs = s\<rparr>, w)) = ret (r, p, sim', w')"
      by (auto simp: jtag_tick_def seq_eq_ret)
    with True rbs_init_inv [OF i] show thesis
      by (intro that [of "\<lparr>sim_init = i, sim_rbs = s0\<rparr>" w0 p "sim_rbs sim'"])
        (auto simp: seq_eq_ret)
  next
    case False
    with assms show thesis
      by (intro that [of sim w p "sim_rbs sim'"]) (auto simp: jtag_tick_def seq_eq_ret)
  qed
  with rbs_tick_inv [OF tick] show ?thesis
    by (auto simp: rbs_done_def rbs_exit_code_def rbs_inv_def)
qed

lemma jtag_tick_exit_code_witness:
  "rbs_inv rbs_zero \<and> (\<exists>r p sim' w'. jtag_tick script_os 9823 0 \<lparr>sim_init = 0, sim_rbs = rbs_zero\<rparr> (0, ''Q'', [])
      = ret (r, p, sim', w') \<and> r = 0 \<and> p = (1, 1, 1, 1))"
proof -
  have inv: "rbs_inv (sim_rbs \<lparr>sim_init = 0, sim_rbs = rbs_zero\<rparr>)"
    by (simp add: rbs_inv_def rbs_zero_def)
  obtain r p sim' and w' :: "nat \<times> char list \<times> char list" where t: "jtag_tick script_os 9823 0 \<lparr>sim_init = 0, sim_rbs = rbs_zero\<rparr> (0, ''Q'', [])
      = ret (r, p, sim', w')" "quit (sim_rbs sim') = 0" "pins_of (sim_rbs sim') = (1, 1, 1, 1)"
    by (simp add: jtag_tick_def rbs_init_def script_os_def rbs_zero_def rbs_tick_def rbs_accept_def
        accept_loop.simps pins_of_def rbs_done_def)
  from jtag_tick_exit_code [OF inv t(1)] inv t show ?thesis
    by (simp del: split_paired_Ex)
qed

text \<open>A server start that returns has bound its listening socket to every interface
  (\<open>INADDR_ANY\<close>) on the requested port in network byte order, with none of the calls failing,
  and hands over all pins at 1, TRSTn deasserted and no client.\<close>

theorem rbs_init_listens:
  assumes "rbs_init os port s w = ret (r, s', w')"
  shows "let (fd, w1) = sys_socket os w;
             (r1, w2) = sys_setsockopt os fd (sys_fcntl_nonblock os fd w1);
             (r2, w3) = sys_bind os fd \<lparr>sin_addr = os_INADDR_ANY os, sin_port = os_htons os port\<rparr> w2;
             (r3, w4) = sys_listen os fd 1 w3
         in fd \<noteq> -1 \<and> r1 \<noteq> -1 \<and> r2 \<noteq> -1 \<and> r3 \<noteq> -1 \<and> r = 1 \<and>
            socket_fd s' = fd \<and> client_fd s' = 0 \<and> pins_of s' = (1, 1, 1, 1) \<and> quit s' = 0"
  using assms by (auto simp: rbs_init_def Let_def pins_of_def split: prod.splits if_splits)

lemma rbs_init_listens_witness:
  "\<exists>s'. rbs_init script_os 9823 rbs_zero (0, [], []) = ret (1, s', (0, [], [])) \<and>
    socket_fd s' = 3 \<and> pins_of s' = (1, 1, 1, 1)"
proof -
  obtain s' where t: "rbs_init script_os 9823 rbs_zero (0, [], []) = ret (1, s', (0, [], []))"
    by (simp add: rbs_init_def script_os_def)
  from rbs_init_listens [OF t] t show ?thesis by (simp add: script_os_def)
qed

end
