(* ===== verification/Encoding_Insn.thy ===== *)
theory Encoding_Insn
  imports Prelude
begin

text \<open>
  The instruction encodings of \<open>debug_rom/encoding.h\<close>, the header \<open>debug_rom.S\<close> includes. Each
  pair of macros \<open>MATCH_X\<close>, \<open>MASK_X\<close> is one row of a \<open>match_mask\<close> table, and the
  \<open>DECLARE_INSN\<close> section, which names the rows, is \<open>declared_insns\<close>. \<open>decode\<close> is the
  disassembly these declarations induce: the names of all rows whose masked bits agree with a word.
\<close>

section \<open>The MATCH and MASK macros\<close>

type_synonym encoding = "string \<times> u32 \<times> u32"

definition match_mask_1 :: "encoding list" where
  "match_mask_1 = [
    (''BEQ'', 0x63, 0x707f), (''BNE'', 0x1063, 0x707f), (''BLT'', 0x4063, 0x707f),
    (''BGE'', 0x5063, 0x707f), (''BLTU'', 0x6063, 0x707f), (''BGEU'', 0x7063, 0x707f),
    (''JALR'', 0x67, 0x707f), (''JAL'', 0x6f, 0x7f), (''LUI'', 0x37, 0x7f),
    (''AUIPC'', 0x17, 0x7f), (''ADDI'', 0x13, 0x707f), (''SLLI'', 0x1013, 0xfc00707f),
    (''SLTI'', 0x2013, 0x707f), (''SLTIU'', 0x3013, 0x707f), (''XORI'', 0x4013, 0x707f),
    (''SRLI'', 0x5013, 0xfc00707f), (''SRAI'', 0x40005013, 0xfc00707f),
    (''ORI'', 0x6013, 0x707f), (''ANDI'', 0x7013, 0x707f), (''ADD'', 0x33, 0xfe00707f),
    (''SUB'', 0x40000033, 0xfe00707f), (''SLL'', 0x1033, 0xfe00707f),
    (''SLT'', 0x2033, 0xfe00707f), (''SLTU'', 0x3033, 0xfe00707f),
    (''XOR'', 0x4033, 0xfe00707f), (''SRL'', 0x5033, 0xfe00707f),
    (''SRA'', 0x40005033, 0xfe00707f), (''OR'', 0x6033, 0xfe00707f),
    (''AND'', 0x7033, 0xfe00707f), (''ADDIW'', 0x1b, 0x707f), (''SLLIW'', 0x101b, 0xfe00707f),
    (''SRLIW'', 0x501b, 0xfe00707f), (''SRAIW'', 0x4000501b, 0xfe00707f),
    (''ADDW'', 0x3b, 0xfe00707f), (''SUBW'', 0x4000003b, 0xfe00707f),
    (''SLLW'', 0x103b, 0xfe00707f), (''SRLW'', 0x503b, 0xfe00707f),
    (''SRAW'', 0x4000503b, 0xfe00707f), (''LB'', 0x3, 0x707f), (''LH'', 0x1003, 0x707f),
    (''LW'', 0x2003, 0x707f), (''LD'', 0x3003, 0x707f), (''LBU'', 0x4003, 0x707f),
    (''LHU'', 0x5003, 0x707f), (''LWU'', 0x6003, 0x707f), (''SB'', 0x23, 0x707f),
    (''SH'', 0x1023, 0x707f), (''SW'', 0x2023, 0x707f), (''SD'', 0x3023, 0x707f),
    (''FENCE'', 0xf, 0x707f), (''FENCE_I'', 0x100f, 0x707f), (''MUL'', 0x2000033, 0xfe00707f),
    (''MULH'', 0x2001033, 0xfe00707f), (''MULHSU'', 0x2002033, 0xfe00707f),
    (''MULHU'', 0x2003033, 0xfe00707f), (''DIV'', 0x2004033, 0xfe00707f),
    (''DIVU'', 0x2005033, 0xfe00707f), (''REM'', 0x2006033, 0xfe00707f),
    (''REMU'', 0x2007033, 0xfe00707f), (''MULW'', 0x200003b, 0xfe00707f),
    (''DIVW'', 0x200403b, 0xfe00707f), (''DIVUW'', 0x200503b, 0xfe00707f),
    (''REMW'', 0x200603b, 0xfe00707f), (''REMUW'', 0x200703b, 0xfe00707f),
    (''AMOADD_W'', 0x202f, 0xf800707f), (''AMOXOR_W'', 0x2000202f, 0xf800707f),
    (''AMOOR_W'', 0x4000202f, 0xf800707f), (''AMOAND_W'', 0x6000202f, 0xf800707f),
    (''AMOMIN_W'', 0x8000202f, 0xf800707f), (''AMOMAX_W'', 0xa000202f, 0xf800707f),
    (''AMOMINU_W'', 0xc000202f, 0xf800707f), (''AMOMAXU_W'', 0xe000202f, 0xf800707f),
    (''AMOSWAP_W'', 0x800202f, 0xf800707f), (''LR_W'', 0x1000202f, 0xf9f0707f),
    (''SC_W'', 0x1800202f, 0xf800707f)]"

definition match_mask_2 :: "encoding list" where
  "match_mask_2 = [
    (''AMOADD_D'', 0x302f, 0xf800707f), (''AMOXOR_D'', 0x2000302f, 0xf800707f),
    (''AMOOR_D'', 0x4000302f, 0xf800707f), (''AMOAND_D'', 0x6000302f, 0xf800707f),
    (''AMOMIN_D'', 0x8000302f, 0xf800707f), (''AMOMAX_D'', 0xa000302f, 0xf800707f),
    (''AMOMINU_D'', 0xc000302f, 0xf800707f), (''AMOMAXU_D'', 0xe000302f, 0xf800707f),
    (''AMOSWAP_D'', 0x800302f, 0xf800707f), (''LR_D'', 0x1000302f, 0xf9f0707f),
    (''SC_D'', 0x1800302f, 0xf800707f), (''ECALL'', 0x73, 0xffffffff),
    (''EBREAK'', 0x100073, 0xffffffff), (''URET'', 0x200073, 0xffffffff),
    (''SRET'', 0x10200073, 0xffffffff), (''MRET'', 0x30200073, 0xffffffff),
    (''DRET'', 0x7b200073, 0xffffffff), (''SFENCE_VMA'', 0x12000073, 0xfe007fff),
    (''WFI'', 0x10500073, 0xffffffff), (''CSRRW'', 0x1073, 0x707f), (''CSRRS'', 0x2073, 0x707f),
    (''CSRRC'', 0x3073, 0x707f), (''CSRRWI'', 0x5073, 0x707f), (''CSRRSI'', 0x6073, 0x707f),
    (''CSRRCI'', 0x7073, 0x707f), (''FADD_S'', 0x53, 0xfe00007f),
    (''FSUB_S'', 0x8000053, 0xfe00007f), (''FMUL_S'', 0x10000053, 0xfe00007f),
    (''FDIV_S'', 0x18000053, 0xfe00007f), (''FSGNJ_S'', 0x20000053, 0xfe00707f),
    (''FSGNJN_S'', 0x20001053, 0xfe00707f), (''FSGNJX_S'', 0x20002053, 0xfe00707f),
    (''FMIN_S'', 0x28000053, 0xfe00707f), (''FMAX_S'', 0x28001053, 0xfe00707f),
    (''FSQRT_S'', 0x58000053, 0xfff0007f), (''FADD_D'', 0x2000053, 0xfe00007f),
    (''FSUB_D'', 0xa000053, 0xfe00007f), (''FMUL_D'', 0x12000053, 0xfe00007f),
    (''FDIV_D'', 0x1a000053, 0xfe00007f), (''FSGNJ_D'', 0x22000053, 0xfe00707f),
    (''FSGNJN_D'', 0x22001053, 0xfe00707f), (''FSGNJX_D'', 0x22002053, 0xfe00707f),
    (''FMIN_D'', 0x2a000053, 0xfe00707f), (''FMAX_D'', 0x2a001053, 0xfe00707f),
    (''FCVT_S_D'', 0x40100053, 0xfff0007f), (''FCVT_D_S'', 0x42000053, 0xfff0007f),
    (''FSQRT_D'', 0x5a000053, 0xfff0007f), (''FADD_Q'', 0x6000053, 0xfe00007f),
    (''FSUB_Q'', 0xe000053, 0xfe00007f), (''FMUL_Q'', 0x16000053, 0xfe00007f),
    (''FDIV_Q'', 0x1e000053, 0xfe00007f), (''FSGNJ_Q'', 0x26000053, 0xfe00707f),
    (''FSGNJN_Q'', 0x26001053, 0xfe00707f), (''FSGNJX_Q'', 0x26002053, 0xfe00707f),
    (''FMIN_Q'', 0x2e000053, 0xfe00707f), (''FMAX_Q'', 0x2e001053, 0xfe00707f),
    (''FCVT_S_Q'', 0x40300053, 0xfff0007f), (''FCVT_Q_S'', 0x46000053, 0xfff0007f),
    (''FCVT_D_Q'', 0x42300053, 0xfff0007f), (''FCVT_Q_D'', 0x46100053, 0xfff0007f),
    (''FSQRT_Q'', 0x5e000053, 0xfff0007f), (''FLE_S'', 0xa0000053, 0xfe00707f),
    (''FLT_S'', 0xa0001053, 0xfe00707f), (''FEQ_S'', 0xa0002053, 0xfe00707f),
    (''FLE_D'', 0xa2000053, 0xfe00707f), (''FLT_D'', 0xa2001053, 0xfe00707f),
    (''FEQ_D'', 0xa2002053, 0xfe00707f), (''FLE_Q'', 0xa6000053, 0xfe00707f),
    (''FLT_Q'', 0xa6001053, 0xfe00707f), (''FEQ_Q'', 0xa6002053, 0xfe00707f),
    (''FCVT_W_S'', 0xc0000053, 0xfff0007f), (''FCVT_WU_S'', 0xc0100053, 0xfff0007f),
    (''FCVT_L_S'', 0xc0200053, 0xfff0007f), (''FCVT_LU_S'', 0xc0300053, 0xfff0007f),
    (''FMV_X_W'', 0xe0000053, 0xfff0707f)]"

definition match_mask_3 :: "encoding list" where
  "match_mask_3 = [
    (''FCLASS_S'', 0xe0001053, 0xfff0707f), (''FCVT_W_D'', 0xc2000053, 0xfff0007f),
    (''FCVT_WU_D'', 0xc2100053, 0xfff0007f), (''FCVT_L_D'', 0xc2200053, 0xfff0007f),
    (''FCVT_LU_D'', 0xc2300053, 0xfff0007f), (''FMV_X_D'', 0xe2000053, 0xfff0707f),
    (''FCLASS_D'', 0xe2001053, 0xfff0707f), (''FCVT_W_Q'', 0xc6000053, 0xfff0007f),
    (''FCVT_WU_Q'', 0xc6100053, 0xfff0007f), (''FCVT_L_Q'', 0xc6200053, 0xfff0007f),
    (''FCVT_LU_Q'', 0xc6300053, 0xfff0007f), (''FMV_X_Q'', 0xe6000053, 0xfff0707f),
    (''FCLASS_Q'', 0xe6001053, 0xfff0707f), (''FCVT_S_W'', 0xd0000053, 0xfff0007f),
    (''FCVT_S_WU'', 0xd0100053, 0xfff0007f), (''FCVT_S_L'', 0xd0200053, 0xfff0007f),
    (''FCVT_S_LU'', 0xd0300053, 0xfff0007f), (''FMV_W_X'', 0xf0000053, 0xfff0707f),
    (''FCVT_D_W'', 0xd2000053, 0xfff0007f), (''FCVT_D_WU'', 0xd2100053, 0xfff0007f),
    (''FCVT_D_L'', 0xd2200053, 0xfff0007f), (''FCVT_D_LU'', 0xd2300053, 0xfff0007f),
    (''FMV_D_X'', 0xf2000053, 0xfff0707f), (''FCVT_Q_W'', 0xd6000053, 0xfff0007f),
    (''FCVT_Q_WU'', 0xd6100053, 0xfff0007f), (''FCVT_Q_L'', 0xd6200053, 0xfff0007f),
    (''FCVT_Q_LU'', 0xd6300053, 0xfff0007f), (''FMV_Q_X'', 0xf6000053, 0xfff0707f),
    (''FLW'', 0x2007, 0x707f), (''FLD'', 0x3007, 0x707f), (''FLQ'', 0x4007, 0x707f),
    (''FSW'', 0x2027, 0x707f), (''FSD'', 0x3027, 0x707f), (''FSQ'', 0x4027, 0x707f),
    (''FMADD_S'', 0x43, 0x600007f), (''FMSUB_S'', 0x47, 0x600007f),
    (''FNMSUB_S'', 0x4b, 0x600007f), (''FNMADD_S'', 0x4f, 0x600007f),
    (''FMADD_D'', 0x2000043, 0x600007f), (''FMSUB_D'', 0x2000047, 0x600007f),
    (''FNMSUB_D'', 0x200004b, 0x600007f), (''FNMADD_D'', 0x200004f, 0x600007f),
    (''FMADD_Q'', 0x6000043, 0x600007f), (''FMSUB_Q'', 0x6000047, 0x600007f),
    (''FNMSUB_Q'', 0x600004b, 0x600007f), (''FNMADD_Q'', 0x600004f, 0x600007f),
    (''C_NOP'', 0x1, 0xffff), (''C_ADDI16SP'', 0x6101, 0xef83), (''C_JR'', 0x8002, 0xf07f),
    (''C_JALR'', 0x9002, 0xf07f), (''C_EBREAK'', 0x9002, 0xffff), (''C_LD'', 0x6000, 0xe003),
    (''C_SD'', 0xe000, 0xe003), (''C_ADDIW'', 0x2001, 0xe003), (''C_LDSP'', 0x6002, 0xe003),
    (''C_SDSP'', 0xe002, 0xe003), (''C_ADDI4SPN'', 0x0, 0xe003), (''C_FLD'', 0x2000, 0xe003),
    (''C_LW'', 0x4000, 0xe003), (''C_FLW'', 0x6000, 0xe003), (''C_FSD'', 0xa000, 0xe003),
    (''C_SW'', 0xc000, 0xe003), (''C_FSW'', 0xe000, 0xe003), (''C_ADDI'', 0x1, 0xe003),
    (''C_JAL'', 0x2001, 0xe003), (''C_LI'', 0x4001, 0xe003), (''C_LUI'', 0x6001, 0xe003),
    (''C_SRLI'', 0x8001, 0xec03), (''C_SRAI'', 0x8401, 0xec03), (''C_ANDI'', 0x8801, 0xec03),
    (''C_SUB'', 0x8c01, 0xfc63), (''C_XOR'', 0x8c21, 0xfc63), (''C_OR'', 0x8c41, 0xfc63),
    (''C_AND'', 0x8c61, 0xfc63), (''C_SUBW'', 0x9c01, 0xfc63)]"

definition match_mask_4 :: "encoding list" where
  "match_mask_4 = [
    (''C_ADDW'', 0x9c21, 0xfc63), (''C_J'', 0xa001, 0xe003), (''C_BEQZ'', 0xc001, 0xe003),
    (''C_BNEZ'', 0xe001, 0xe003), (''C_SLLI'', 0x2, 0xe003), (''C_FLDSP'', 0x2002, 0xe003),
    (''C_LWSP'', 0x4002, 0xe003), (''C_FLWSP'', 0x6002, 0xe003), (''C_MV'', 0x8002, 0xf003),
    (''C_ADD'', 0x9002, 0xf003), (''C_FSDSP'', 0xa002, 0xe003), (''C_SWSP'', 0xc002, 0xe003),
    (''C_FSWSP'', 0xe002, 0xe003), (''CUSTOM0'', 0xb, 0x707f),
    (''CUSTOM0_RS1'', 0x200b, 0x707f), (''CUSTOM0_RS1_RS2'', 0x300b, 0x707f),
    (''CUSTOM0_RD'', 0x400b, 0x707f), (''CUSTOM0_RD_RS1'', 0x600b, 0x707f),
    (''CUSTOM0_RD_RS1_RS2'', 0x700b, 0x707f), (''CUSTOM1'', 0x2b, 0x707f),
    (''CUSTOM1_RS1'', 0x202b, 0x707f), (''CUSTOM1_RS1_RS2'', 0x302b, 0x707f),
    (''CUSTOM1_RD'', 0x402b, 0x707f), (''CUSTOM1_RD_RS1'', 0x602b, 0x707f),
    (''CUSTOM1_RD_RS1_RS2'', 0x702b, 0x707f), (''CUSTOM2'', 0x5b, 0x707f),
    (''CUSTOM2_RS1'', 0x205b, 0x707f), (''CUSTOM2_RS1_RS2'', 0x305b, 0x707f),
    (''CUSTOM2_RD'', 0x405b, 0x707f), (''CUSTOM2_RD_RS1'', 0x605b, 0x707f),
    (''CUSTOM2_RD_RS1_RS2'', 0x705b, 0x707f), (''CUSTOM3'', 0x7b, 0x707f),
    (''CUSTOM3_RS1'', 0x207b, 0x707f), (''CUSTOM3_RS1_RS2'', 0x307b, 0x707f),
    (''CUSTOM3_RD'', 0x407b, 0x707f), (''CUSTOM3_RD_RS1'', 0x607b, 0x707f),
    (''CUSTOM3_RD_RS1_RS2'', 0x707b, 0x707f)]"

definition insn_table :: "encoding list" where
  "insn_table = match_mask_1 @ match_mask_2 @ match_mask_3 @ match_mask_4"

section \<open>The DECLARE\_INSN section\<close>

text \<open>Each line names an instruction and the two macros that encode it.\<close>

definition declared_insns_1 :: "(string \<times> string \<times> string) list" where
  "declared_insns_1 = [
    (''beq'', ''BEQ'', ''BEQ''), (''bne'', ''BNE'', ''BNE''), (''blt'', ''BLT'', ''BLT''),
    (''bge'', ''BGE'', ''BGE''), (''bltu'', ''BLTU'', ''BLTU''), (''bgeu'', ''BGEU'', ''BGEU''),
    (''jalr'', ''JALR'', ''JALR''), (''jal'', ''JAL'', ''JAL''), (''lui'', ''LUI'', ''LUI''),
    (''auipc'', ''AUIPC'', ''AUIPC''), (''addi'', ''ADDI'', ''ADDI''),
    (''slli'', ''SLLI'', ''SLLI''), (''slti'', ''SLTI'', ''SLTI''),
    (''sltiu'', ''SLTIU'', ''SLTIU''), (''xori'', ''XORI'', ''XORI''),
    (''srli'', ''SRLI'', ''SRLI''), (''srai'', ''SRAI'', ''SRAI''), (''ori'', ''ORI'', ''ORI''),
    (''andi'', ''ANDI'', ''ANDI''), (''add'', ''ADD'', ''ADD''), (''sub'', ''SUB'', ''SUB''),
    (''sll'', ''SLL'', ''SLL''), (''slt'', ''SLT'', ''SLT''), (''sltu'', ''SLTU'', ''SLTU''),
    (''xor'', ''XOR'', ''XOR''), (''srl'', ''SRL'', ''SRL''), (''sra'', ''SRA'', ''SRA''),
    (''or'', ''OR'', ''OR''), (''and'', ''AND'', ''AND''), (''addiw'', ''ADDIW'', ''ADDIW''),
    (''slliw'', ''SLLIW'', ''SLLIW''), (''srliw'', ''SRLIW'', ''SRLIW''),
    (''sraiw'', ''SRAIW'', ''SRAIW''), (''addw'', ''ADDW'', ''ADDW''),
    (''subw'', ''SUBW'', ''SUBW''), (''sllw'', ''SLLW'', ''SLLW''),
    (''srlw'', ''SRLW'', ''SRLW''), (''sraw'', ''SRAW'', ''SRAW''), (''lb'', ''LB'', ''LB''),
    (''lh'', ''LH'', ''LH''), (''lw'', ''LW'', ''LW''), (''ld'', ''LD'', ''LD''),
    (''lbu'', ''LBU'', ''LBU''), (''lhu'', ''LHU'', ''LHU''), (''lwu'', ''LWU'', ''LWU''),
    (''sb'', ''SB'', ''SB''), (''sh'', ''SH'', ''SH''), (''sw'', ''SW'', ''SW''),
    (''sd'', ''SD'', ''SD''), (''fence'', ''FENCE'', ''FENCE''),
    (''fence_i'', ''FENCE_I'', ''FENCE_I''), (''mul'', ''MUL'', ''MUL''),
    (''mulh'', ''MULH'', ''MULH''), (''mulhsu'', ''MULHSU'', ''MULHSU''),
    (''mulhu'', ''MULHU'', ''MULHU''), (''div'', ''DIV'', ''DIV''),
    (''divu'', ''DIVU'', ''DIVU''), (''rem'', ''REM'', ''REM''), (''remu'', ''REMU'', ''REMU''),
    (''mulw'', ''MULW'', ''MULW''), (''divw'', ''DIVW'', ''DIVW''),
    (''divuw'', ''DIVUW'', ''DIVUW''), (''remw'', ''REMW'', ''REMW''),
    (''remuw'', ''REMUW'', ''REMUW''), (''amoadd_w'', ''AMOADD_W'', ''AMOADD_W''),
    (''amoxor_w'', ''AMOXOR_W'', ''AMOXOR_W''), (''amoor_w'', ''AMOOR_W'', ''AMOOR_W''),
    (''amoand_w'', ''AMOAND_W'', ''AMOAND_W''), (''amomin_w'', ''AMOMIN_W'', ''AMOMIN_W''),
    (''amomax_w'', ''AMOMAX_W'', ''AMOMAX_W''), (''amominu_w'', ''AMOMINU_W'', ''AMOMINU_W''),
    (''amomaxu_w'', ''AMOMAXU_W'', ''AMOMAXU_W''),
    (''amoswap_w'', ''AMOSWAP_W'', ''AMOSWAP_W''), (''lr_w'', ''LR_W'', ''LR_W''),
    (''sc_w'', ''SC_W'', ''SC_W''), (''amoadd_d'', ''AMOADD_D'', ''AMOADD_D''),
    (''amoxor_d'', ''AMOXOR_D'', ''AMOXOR_D''), (''amoor_d'', ''AMOOR_D'', ''AMOOR_D''),
    (''amoand_d'', ''AMOAND_D'', ''AMOAND_D''), (''amomin_d'', ''AMOMIN_D'', ''AMOMIN_D''),
    (''amomax_d'', ''AMOMAX_D'', ''AMOMAX_D''), (''amominu_d'', ''AMOMINU_D'', ''AMOMINU_D''),
    (''amomaxu_d'', ''AMOMAXU_D'', ''AMOMAXU_D''),
    (''amoswap_d'', ''AMOSWAP_D'', ''AMOSWAP_D''), (''lr_d'', ''LR_D'', ''LR_D''),
    (''sc_d'', ''SC_D'', ''SC_D''), (''ecall'', ''ECALL'', ''ECALL''),
    (''ebreak'', ''EBREAK'', ''EBREAK''), (''uret'', ''URET'', ''URET''),
    (''sret'', ''SRET'', ''SRET''), (''mret'', ''MRET'', ''MRET''),
    (''dret'', ''DRET'', ''DRET''), (''sfence_vma'', ''SFENCE_VMA'', ''SFENCE_VMA''),
    (''wfi'', ''WFI'', ''WFI''), (''csrrw'', ''CSRRW'', ''CSRRW''),
    (''csrrs'', ''CSRRS'', ''CSRRS''), (''csrrc'', ''CSRRC'', ''CSRRC''),
    (''csrrwi'', ''CSRRWI'', ''CSRRWI''), (''csrrsi'', ''CSRRSI'', ''CSRRSI''),
    (''csrrci'', ''CSRRCI'', ''CSRRCI''), (''fadd_s'', ''FADD_S'', ''FADD_S''),
    (''fsub_s'', ''FSUB_S'', ''FSUB_S''), (''fmul_s'', ''FMUL_S'', ''FMUL_S''),
    (''fdiv_s'', ''FDIV_S'', ''FDIV_S''), (''fsgnj_s'', ''FSGNJ_S'', ''FSGNJ_S''),
    (''fsgnjn_s'', ''FSGNJN_S'', ''FSGNJN_S''), (''fsgnjx_s'', ''FSGNJX_S'', ''FSGNJX_S''),
    (''fmin_s'', ''FMIN_S'', ''FMIN_S''), (''fmax_s'', ''FMAX_S'', ''FMAX_S''),
    (''fsqrt_s'', ''FSQRT_S'', ''FSQRT_S''), (''fadd_d'', ''FADD_D'', ''FADD_D''),
    (''fsub_d'', ''FSUB_D'', ''FSUB_D''), (''fmul_d'', ''FMUL_D'', ''FMUL_D''),
    (''fdiv_d'', ''FDIV_D'', ''FDIV_D''), (''fsgnj_d'', ''FSGNJ_D'', ''FSGNJ_D''),
    (''fsgnjn_d'', ''FSGNJN_D'', ''FSGNJN_D''), (''fsgnjx_d'', ''FSGNJX_D'', ''FSGNJX_D''),
    (''fmin_d'', ''FMIN_D'', ''FMIN_D''), (''fmax_d'', ''FMAX_D'', ''FMAX_D''),
    (''fcvt_s_d'', ''FCVT_S_D'', ''FCVT_S_D''), (''fcvt_d_s'', ''FCVT_D_S'', ''FCVT_D_S''),
    (''fsqrt_d'', ''FSQRT_D'', ''FSQRT_D''), (''fadd_q'', ''FADD_Q'', ''FADD_Q''),
    (''fsub_q'', ''FSUB_Q'', ''FSUB_Q''), (''fmul_q'', ''FMUL_Q'', ''FMUL_Q''),
    (''fdiv_q'', ''FDIV_Q'', ''FDIV_Q''), (''fsgnj_q'', ''FSGNJ_Q'', ''FSGNJ_Q''),
    (''fsgnjn_q'', ''FSGNJN_Q'', ''FSGNJN_Q''), (''fsgnjx_q'', ''FSGNJX_Q'', ''FSGNJX_Q''),
    (''fmin_q'', ''FMIN_Q'', ''FMIN_Q''), (''fmax_q'', ''FMAX_Q'', ''FMAX_Q'')]"

definition declared_insns_2 :: "(string \<times> string \<times> string) list" where
  "declared_insns_2 = [
    (''fcvt_s_q'', ''FCVT_S_Q'', ''FCVT_S_Q''), (''fcvt_q_s'', ''FCVT_Q_S'', ''FCVT_Q_S''),
    (''fcvt_d_q'', ''FCVT_D_Q'', ''FCVT_D_Q''), (''fcvt_q_d'', ''FCVT_Q_D'', ''FCVT_Q_D''),
    (''fsqrt_q'', ''FSQRT_Q'', ''FSQRT_Q''), (''fle_s'', ''FLE_S'', ''FLE_S''),
    (''flt_s'', ''FLT_S'', ''FLT_S''), (''feq_s'', ''FEQ_S'', ''FEQ_S''),
    (''fle_d'', ''FLE_D'', ''FLE_D''), (''flt_d'', ''FLT_D'', ''FLT_D''),
    (''feq_d'', ''FEQ_D'', ''FEQ_D''), (''fle_q'', ''FLE_Q'', ''FLE_Q''),
    (''flt_q'', ''FLT_Q'', ''FLT_Q''), (''feq_q'', ''FEQ_Q'', ''FEQ_Q''),
    (''fcvt_w_s'', ''FCVT_W_S'', ''FCVT_W_S''), (''fcvt_wu_s'', ''FCVT_WU_S'', ''FCVT_WU_S''),
    (''fcvt_l_s'', ''FCVT_L_S'', ''FCVT_L_S''), (''fcvt_lu_s'', ''FCVT_LU_S'', ''FCVT_LU_S''),
    (''fmv_x_w'', ''FMV_X_W'', ''FMV_X_W''), (''fclass_s'', ''FCLASS_S'', ''FCLASS_S''),
    (''fcvt_w_d'', ''FCVT_W_D'', ''FCVT_W_D''), (''fcvt_wu_d'', ''FCVT_WU_D'', ''FCVT_WU_D''),
    (''fcvt_l_d'', ''FCVT_L_D'', ''FCVT_L_D''), (''fcvt_lu_d'', ''FCVT_LU_D'', ''FCVT_LU_D''),
    (''fmv_x_d'', ''FMV_X_D'', ''FMV_X_D''), (''fclass_d'', ''FCLASS_D'', ''FCLASS_D''),
    (''fcvt_w_q'', ''FCVT_W_Q'', ''FCVT_W_Q''), (''fcvt_wu_q'', ''FCVT_WU_Q'', ''FCVT_WU_Q''),
    (''fcvt_l_q'', ''FCVT_L_Q'', ''FCVT_L_Q''), (''fcvt_lu_q'', ''FCVT_LU_Q'', ''FCVT_LU_Q''),
    (''fmv_x_q'', ''FMV_X_Q'', ''FMV_X_Q''), (''fclass_q'', ''FCLASS_Q'', ''FCLASS_Q''),
    (''fcvt_s_w'', ''FCVT_S_W'', ''FCVT_S_W''), (''fcvt_s_wu'', ''FCVT_S_WU'', ''FCVT_S_WU''),
    (''fcvt_s_l'', ''FCVT_S_L'', ''FCVT_S_L''), (''fcvt_s_lu'', ''FCVT_S_LU'', ''FCVT_S_LU''),
    (''fmv_w_x'', ''FMV_W_X'', ''FMV_W_X''), (''fcvt_d_w'', ''FCVT_D_W'', ''FCVT_D_W''),
    (''fcvt_d_wu'', ''FCVT_D_WU'', ''FCVT_D_WU''), (''fcvt_d_l'', ''FCVT_D_L'', ''FCVT_D_L''),
    (''fcvt_d_lu'', ''FCVT_D_LU'', ''FCVT_D_LU''), (''fmv_d_x'', ''FMV_D_X'', ''FMV_D_X''),
    (''fcvt_q_w'', ''FCVT_Q_W'', ''FCVT_Q_W''), (''fcvt_q_wu'', ''FCVT_Q_WU'', ''FCVT_Q_WU''),
    (''fcvt_q_l'', ''FCVT_Q_L'', ''FCVT_Q_L''), (''fcvt_q_lu'', ''FCVT_Q_LU'', ''FCVT_Q_LU''),
    (''fmv_q_x'', ''FMV_Q_X'', ''FMV_Q_X''), (''flw'', ''FLW'', ''FLW''),
    (''fld'', ''FLD'', ''FLD''), (''flq'', ''FLQ'', ''FLQ''), (''fsw'', ''FSW'', ''FSW''),
    (''fsd'', ''FSD'', ''FSD''), (''fsq'', ''FSQ'', ''FSQ''),
    (''fmadd_s'', ''FMADD_S'', ''FMADD_S''), (''fmsub_s'', ''FMSUB_S'', ''FMSUB_S''),
    (''fnmsub_s'', ''FNMSUB_S'', ''FNMSUB_S''), (''fnmadd_s'', ''FNMADD_S'', ''FNMADD_S''),
    (''fmadd_d'', ''FMADD_D'', ''FMADD_D''), (''fmsub_d'', ''FMSUB_D'', ''FMSUB_D''),
    (''fnmsub_d'', ''FNMSUB_D'', ''FNMSUB_D''), (''fnmadd_d'', ''FNMADD_D'', ''FNMADD_D''),
    (''fmadd_q'', ''FMADD_Q'', ''FMADD_Q''), (''fmsub_q'', ''FMSUB_Q'', ''FMSUB_Q''),
    (''fnmsub_q'', ''FNMSUB_Q'', ''FNMSUB_Q''), (''fnmadd_q'', ''FNMADD_Q'', ''FNMADD_Q''),
    (''c_nop'', ''C_NOP'', ''C_NOP''), (''c_addi16sp'', ''C_ADDI16SP'', ''C_ADDI16SP''),
    (''c_jr'', ''C_JR'', ''C_JR''), (''c_jalr'', ''C_JALR'', ''C_JALR''),
    (''c_ebreak'', ''C_EBREAK'', ''C_EBREAK''), (''c_ld'', ''C_LD'', ''C_LD''),
    (''c_sd'', ''C_SD'', ''C_SD''), (''c_addiw'', ''C_ADDIW'', ''C_ADDIW''),
    (''c_ldsp'', ''C_LDSP'', ''C_LDSP''), (''c_sdsp'', ''C_SDSP'', ''C_SDSP''),
    (''c_addi4spn'', ''C_ADDI4SPN'', ''C_ADDI4SPN''), (''c_fld'', ''C_FLD'', ''C_FLD''),
    (''c_lw'', ''C_LW'', ''C_LW''), (''c_flw'', ''C_FLW'', ''C_FLW''),
    (''c_fsd'', ''C_FSD'', ''C_FSD''), (''c_sw'', ''C_SW'', ''C_SW''),
    (''c_fsw'', ''C_FSW'', ''C_FSW''), (''c_addi'', ''C_ADDI'', ''C_ADDI''),
    (''c_jal'', ''C_JAL'', ''C_JAL''), (''c_li'', ''C_LI'', ''C_LI''),
    (''c_lui'', ''C_LUI'', ''C_LUI''), (''c_srli'', ''C_SRLI'', ''C_SRLI''),
    (''c_srai'', ''C_SRAI'', ''C_SRAI''), (''c_andi'', ''C_ANDI'', ''C_ANDI''),
    (''c_sub'', ''C_SUB'', ''C_SUB''), (''c_xor'', ''C_XOR'', ''C_XOR''),
    (''c_or'', ''C_OR'', ''C_OR''), (''c_and'', ''C_AND'', ''C_AND''),
    (''c_subw'', ''C_SUBW'', ''C_SUBW''), (''c_addw'', ''C_ADDW'', ''C_ADDW''),
    (''c_j'', ''C_J'', ''C_J''), (''c_beqz'', ''C_BEQZ'', ''C_BEQZ''),
    (''c_bnez'', ''C_BNEZ'', ''C_BNEZ''), (''c_slli'', ''C_SLLI'', ''C_SLLI''),
    (''c_fldsp'', ''C_FLDSP'', ''C_FLDSP''), (''c_lwsp'', ''C_LWSP'', ''C_LWSP''),
    (''c_flwsp'', ''C_FLWSP'', ''C_FLWSP''), (''c_mv'', ''C_MV'', ''C_MV''),
    (''c_add'', ''C_ADD'', ''C_ADD''), (''c_fsdsp'', ''C_FSDSP'', ''C_FSDSP''),
    (''c_swsp'', ''C_SWSP'', ''C_SWSP''), (''c_fswsp'', ''C_FSWSP'', ''C_FSWSP''),
    (''custom0'', ''CUSTOM0'', ''CUSTOM0''),
    (''custom0_rs1'', ''CUSTOM0_RS1'', ''CUSTOM0_RS1''),
    (''custom0_rs1_rs2'', ''CUSTOM0_RS1_RS2'', ''CUSTOM0_RS1_RS2''),
    (''custom0_rd'', ''CUSTOM0_RD'', ''CUSTOM0_RD''),
    (''custom0_rd_rs1'', ''CUSTOM0_RD_RS1'', ''CUSTOM0_RD_RS1''),
    (''custom0_rd_rs1_rs2'', ''CUSTOM0_RD_RS1_RS2'', ''CUSTOM0_RD_RS1_RS2''),
    (''custom1'', ''CUSTOM1'', ''CUSTOM1''),
    (''custom1_rs1'', ''CUSTOM1_RS1'', ''CUSTOM1_RS1''),
    (''custom1_rs1_rs2'', ''CUSTOM1_RS1_RS2'', ''CUSTOM1_RS1_RS2''),
    (''custom1_rd'', ''CUSTOM1_RD'', ''CUSTOM1_RD''),
    (''custom1_rd_rs1'', ''CUSTOM1_RD_RS1'', ''CUSTOM1_RD_RS1''),
    (''custom1_rd_rs1_rs2'', ''CUSTOM1_RD_RS1_RS2'', ''CUSTOM1_RD_RS1_RS2''),
    (''custom2'', ''CUSTOM2'', ''CUSTOM2''),
    (''custom2_rs1'', ''CUSTOM2_RS1'', ''CUSTOM2_RS1''),
    (''custom2_rs1_rs2'', ''CUSTOM2_RS1_RS2'', ''CUSTOM2_RS1_RS2''),
    (''custom2_rd'', ''CUSTOM2_RD'', ''CUSTOM2_RD''),
    (''custom2_rd_rs1'', ''CUSTOM2_RD_RS1'', ''CUSTOM2_RD_RS1''),
    (''custom2_rd_rs1_rs2'', ''CUSTOM2_RD_RS1_RS2'', ''CUSTOM2_RD_RS1_RS2''),
    (''custom3'', ''CUSTOM3'', ''CUSTOM3''),
    (''custom3_rs1'', ''CUSTOM3_RS1'', ''CUSTOM3_RS1''),
    (''custom3_rs1_rs2'', ''CUSTOM3_RS1_RS2'', ''CUSTOM3_RS1_RS2''),
    (''custom3_rd'', ''CUSTOM3_RD'', ''CUSTOM3_RD''),
    (''custom3_rd_rs1'', ''CUSTOM3_RD_RS1'', ''CUSTOM3_RD_RS1''),
    (''custom3_rd_rs1_rs2'', ''CUSTOM3_RD_RS1_RS2'', ''CUSTOM3_RD_RS1_RS2'')]"

definition declared_insns :: "(string \<times> string \<times> string) list" where
  "declared_insns = declared_insns_1 @ declared_insns_2"

section \<open>Decoding by the table\<close>

definition enc_matches :: "u32 \<Rightarrow> encoding \<Rightarrow> bool" where
  "enc_matches w = (\<lambda>(n, m, k). w AND k = m)"

definition decode :: "u32 \<Rightarrow> string list" where
  "decode w = map fst (filter (enc_matches w) insn_table)"

text \<open>A word of the 32-bit format has its two low bits set; the others are compressed.\<close>

definition full_width :: "encoding \<Rightarrow> bool" where
  "full_width = (\<lambda>(n, m, k). bit m 0 \<and> bit m 1 \<and> bit k 0 \<and> bit k 1)"

definition compressed :: "encoding \<Rightarrow> bool" where
  "compressed = (\<lambda>(n, m, k). bit k 0 \<and> bit k 1 \<and> \<not> (bit m 0 \<and> bit m 1))"

section \<open>Decision trees over the encodings\<close>

text \<open>
  A tree of bit tests with row numbers in its leaves. \<open>route\<close> follows the fixed bits of an
  encoding and fails on a bit the encoding leaves open; \<open>walk\<close> follows the bits of a word. When
  every row routes to its own number, at most one row matches a word.
\<close>

datatype dtree = DLeaf nat | DNode nat dtree dtree

fun walk :: "dtree \<Rightarrow> u32 \<Rightarrow> nat" where
  "walk (DLeaf i) w = i"
| "walk (DNode b l r) w = walk (if bit w b then r else l) w"

fun route :: "dtree \<Rightarrow> u32 \<Rightarrow> u32 \<Rightarrow> nat option" where
  "route (DLeaf i) m k = Some i"
| "route (DNode b l r) m k =
     (if bit k b then if bit m b then route r m k else route l m k else None)"

fun routed :: "dtree \<Rightarrow> nat \<Rightarrow> encoding list \<Rightarrow> bool" where
  "routed t i [] = True"
| "routed t i ((n, m, k) # es) =
     ((full_width (n, m, k) \<longrightarrow> route t m k = Some i) \<and> routed t (Suc i) es)"

lemma route_walk: "route t m k = Some i \<Longrightarrow> w AND k = m \<Longrightarrow> walk t w = i"
  by (induction t) (auto simp: bit_simps split: if_splits)

lemma routed_append: "routed t i (xs @ ys) \<longleftrightarrow> routed t i xs \<and> routed t (i + length xs) ys"
  by (induction t i xs rule: routed.induct) auto

lemma routed_none:
  "routed t i es \<Longrightarrow> walk t w < i \<Longrightarrow> filter (enc_matches w) (filter full_width es) = []"
  by (induction t i es rule: routed.induct) (auto simp: enc_matches_def dest: route_walk)

lemma routed_unambiguous:
  "routed t i es \<Longrightarrow> length (filter (enc_matches w) (filter full_width es)) \<le> 1"
proof (induction t i es rule: routed.induct)
  case (2 t i n m k es)
  show ?case
  proof (cases "full_width (n, m, k) \<and> enc_matches w (n, m, k)")
    case True
    with 2 have "walk t w = i" by (auto simp: enc_matches_def dest: route_walk)
    with 2 routed_none [of t "Suc i" es w] True show ?thesis by simp
  next
    case False
    with 2 show ?thesis by auto
  qed
qed simp

text \<open>The tree for the 32-bit instructions.\<close>

definition full_tree :: dtree where
  "full_tree =
    (DNode 6 (DNode 3 (DNode 5 (DNode 4 (DNode 13 (DNode 12 (DNode 2 (DNode 14 (DLeaf 38) (DLeaf
    42)) (DLeaf 180)) (DNode 14 (DLeaf 39) (DLeaf 43))) (DNode 2 (DNode 12 (DNode 14 (DLeaf 40)
    (DLeaf 44)) (DLeaf 41)) (DNode 12 (DLeaf 178) (DLeaf 179)))) (DNode 2 (DNode 12 (DNode 13
    (DNode 14 (DLeaf 10) (DLeaf 14)) (DNode 14 (DLeaf 12) (DLeaf 17))) (DNode 13 (DNode 14
    (DLeaf 11) (DNode 30 (DLeaf 15) (DLeaf 16))) (DNode 14 (DLeaf 13) (DLeaf 18)))) (DLeaf 9)))
    (DNode 4 (DNode 2 (DNode 12 (DNode 13 (DLeaf 45) (DLeaf 47)) (DNode 13 (DLeaf 46) (DLeaf
    48))) (DNode 12 (DNode 13 (DLeaf 183) (DLeaf 181)) (DLeaf 182))) (DNode 2 (DNode 12 (DNode
    13 (DNode 14 (DNode 25 (DNode 30 (DLeaf 19) (DLeaf 20)) (DLeaf 51)) (DNode 25 (DLeaf 24)
    (DLeaf 55))) (DNode 14 (DNode 25 (DLeaf 22) (DLeaf 53)) (DNode 25 (DLeaf 27) (DLeaf 57))))
    (DNode 13 (DNode 14 (DNode 25 (DLeaf 21) (DLeaf 52)) (DNode 25 (DNode 30 (DLeaf 25) (DLeaf
    26)) (DLeaf 56))) (DNode 14 (DNode 25 (DLeaf 23) (DLeaf 54)) (DNode 25 (DLeaf 28) (DLeaf
    58))))) (DLeaf 8)))) (DNode 2 (DNode 4 (DNode 5 (DNode 14 (DNode 12 (DNode 13 (DLeaf 238)
    (DLeaf 239)) (DLeaf 240)) (DNode 12 (DNode 13 (DLeaf 241) (DLeaf 242)) (DLeaf 243))) (DNode
    14 (DNode 12 (DNode 13 (DLeaf 244) (DLeaf 245)) (DLeaf 246)) (DNode 12 (DNode 13 (DLeaf 247)
    (DLeaf 248)) (DLeaf 249)))) (DNode 12 (DNode 14 (DNode 5 (DLeaf 29) (DNode 25 (DNode 30
    (DLeaf 33) (DLeaf 34)) (DLeaf 59))) (DNode 13 (DLeaf 60) (DLeaf 62))) (DNode 5 (DNode 14
    (DLeaf 30) (DNode 30 (DLeaf 31) (DLeaf 32))) (DNode 25 (DNode 14 (DLeaf 35) (DNode 30 (DLeaf
    36) (DLeaf 37))) (DNode 13 (DLeaf 61) (DLeaf 63)))))) (DNode 12 (DNode 5 (DLeaf 49) (DNode
    29 (DNode 27 (DNode 30 (DNode 28 (DNode 31 (DLeaf 64) (DLeaf 68)) (DLeaf 73)) (DNode 31
    (DLeaf 66) (DLeaf 70))) (DNode 28 (DLeaf 72) (DLeaf 74))) (DNode 30 (DNode 31 (DLeaf 65)
    (DLeaf 69)) (DNode 31 (DLeaf 67) (DLeaf 71))))) (DNode 5 (DLeaf 50) (DNode 29 (DNode 27
    (DNode 30 (DNode 28 (DNode 31 (DLeaf 75) (DLeaf 79)) (DLeaf 84)) (DNode 31 (DLeaf 77) (DLeaf
    81))) (DNode 28 (DLeaf 83) (DLeaf 85))) (DNode 30 (DNode 31 (DLeaf 76) (DLeaf 80)) (DNode 31
    (DLeaf 78) (DLeaf 82)))))))) (DNode 5 (DNode 3 (DNode 25 (DNode 4 (DNode 2 (DLeaf 184)
    (DLeaf 185)) (DNode 30 (DNode 27 (DNode 31 (DNode 29 (DNode 28 (DLeaf 100) (DLeaf 102))
    (DNode 12 (DNode 13 (DLeaf 104) (DLeaf 106)) (DLeaf 105))) (DNode 12 (DNode 13 (DLeaf 136)
    (DLeaf 138)) (DLeaf 137))) (DNode 29 (DNode 28 (DLeaf 101) (DLeaf 103)) (DNode 12 (DLeaf
    107) (DLeaf 108)))) (DNode 20 (DNode 28 (DNode 29 (DNode 21 (DLeaf 145) (DLeaf 147)) (DNode
    12 (DLeaf 149) (DLeaf 150))) (DNode 21 (DNode 27 (DNode 29 (DLeaf 163) (DLeaf 167)) (DLeaf
    109)) (DLeaf 165))) (DNode 21 (DNode 28 (DNode 31 (DLeaf 119) (DLeaf 146)) (DLeaf 164))
    (DNode 28 (DNode 31 (DLeaf 131) (DLeaf 148)) (DLeaf 166)))))) (DNode 26 (DNode 4 (DNode 2
    (DLeaf 188) (DLeaf 189)) (DNode 30 (DNode 27 (DNode 31 (DNode 29 (DNode 28 (DLeaf 110)
    (DLeaf 112)) (DNode 12 (DNode 13 (DLeaf 114) (DLeaf 116)) (DLeaf 115))) (DNode 12 (DNode 13
    (DLeaf 139) (DLeaf 141)) (DLeaf 140))) (DNode 29 (DNode 28 (DLeaf 111) (DLeaf 113)) (DNode
    12 (DLeaf 117) (DLeaf 118)))) (DNode 28 (DNode 20 (DNode 29 (DNode 21 (DNode 31 (DLeaf 120)
    (DLeaf 151)) (DLeaf 153)) (DNode 12 (DLeaf 155) (DLeaf 156))) (DNode 21 (DLeaf 152) (DNode
    31 (DLeaf 133) (DLeaf 154)))) (DNode 20 (DNode 21 (DNode 27 (DNode 29 (DLeaf 168) (DLeaf
    172)) (DLeaf 121)) (DLeaf 170)) (DNode 21 (DLeaf 169) (DLeaf 171)))))) (DNode 4 (DNode 2
    (DLeaf 192) (DLeaf 193)) (DNode 30 (DNode 27 (DNode 31 (DNode 29 (DNode 28 (DLeaf 122)
    (DLeaf 124)) (DNode 12 (DNode 13 (DLeaf 126) (DLeaf 128)) (DLeaf 127))) (DNode 12 (DNode 13
    (DLeaf 142) (DLeaf 144)) (DLeaf 143))) (DNode 29 (DNode 28 (DLeaf 123) (DLeaf 125)) (DNode
    12 (DLeaf 129) (DLeaf 130)))) (DNode 28 (DNode 20 (DNode 29 (DNode 21 (DNode 31 (DLeaf 132)
    (DLeaf 157)) (DLeaf 159)) (DNode 12 (DLeaf 161) (DLeaf 162))) (DNode 21 (DNode 31 (DLeaf
    134) (DLeaf 158)) (DLeaf 160))) (DNode 20 (DNode 21 (DNode 27 (DNode 29 (DLeaf 173) (DLeaf
    177)) (DLeaf 135)) (DLeaf 175)) (DNode 21 (DLeaf 174) (DLeaf 176)))))))) (DNode 4 (DNode 2
    (DNode 25 (DLeaf 186) (DNode 26 (DLeaf 190) (DLeaf 194))) (DNode 25 (DLeaf 187) (DNode 26
    (DLeaf 191) (DLeaf 195)))) (DNode 14 (DNode 12 (DNode 13 (DLeaf 250) (DLeaf 251)) (DLeaf
    252)) (DNode 12 (DNode 13 (DLeaf 253) (DLeaf 254)) (DLeaf 255))))) (DNode 4 (DNode 2 (DNode
    12 (DNode 13 (DNode 14 (DLeaf 0) (DLeaf 2)) (DLeaf 4)) (DNode 13 (DNode 14 (DLeaf 1) (DLeaf
    3)) (DLeaf 5))) (DNode 3 (DLeaf 6) (DLeaf 7))) (DNode 13 (DNode 3 (DNode 12 (DNode 28 (DNode
    20 (DNode 21 (DLeaf 86) (DLeaf 88)) (DLeaf 87)) (DNode 25 (DNode 20 (DNode 29 (DLeaf 89)
    (DLeaf 90)) (DLeaf 93)) (DNode 27 (DLeaf 92) (DLeaf 91)))) (DNode 14 (DLeaf 94) (DLeaf 97)))
    (DNode 14 (DLeaf 256) (DLeaf 259))) (DNode 3 (DNode 12 (DNode 14 (DLeaf 95) (DLeaf 98))
    (DNode 14 (DLeaf 96) (DLeaf 99))) (DNode 12 (DNode 14 (DLeaf 257) (DLeaf 260)) (DNode 14
    (DLeaf 258) (DLeaf 261))))))))"

lemma match_mask_full:
  "list_all (\<lambda>e. full_width e \<or> compressed e) match_mask_1"
  "list_all (\<lambda>e. full_width e \<or> compressed e) match_mask_2"
  "list_all (\<lambda>e. full_width e \<or> compressed e) match_mask_3"
  "list_all (\<lambda>e. full_width e \<or> compressed e) match_mask_4"
  by (simp_all add: match_mask_1_def match_mask_2_def match_mask_3_def match_mask_4_def
      full_width_def compressed_def)

lemma full_tree_routes:
  "routed full_tree 0 match_mask_1"
  "routed full_tree 75 match_mask_2"
  "routed full_tree 150 match_mask_3"
  "routed full_tree 225 match_mask_4"
  by (simp_all add: full_tree_def match_mask_1_def match_mask_2_def match_mask_3_def
      match_mask_4_def full_width_def)

lemma match_mask_lengths:
  "length match_mask_1 = 75" "length match_mask_2 = 75" "length match_mask_3 = 75"
  by (simp_all add: match_mask_1_def match_mask_2_def match_mask_3_def)

lemma insn_table_routed: "routed full_tree 0 insn_table"
  by (simp add: insn_table_def routed_append full_tree_routes match_mask_lengths)

lemma insn_table_widths: "e \<in> set insn_table \<Longrightarrow> full_width e \<or> compressed e"
  using match_mask_full unfolding insn_table_def list_all_iff by auto

text \<open>A compressed encoding never matches a word of the 32-bit format.\<close>

lemma compressed_no_match: "compressed e \<Longrightarrow> bit w 0 \<Longrightarrow> bit w 1 \<Longrightarrow> \<not> enc_matches w e"
  by (auto simp: compressed_def enc_matches_def bit_simps split: prod.splits)

lemma decode_full:
  assumes "bit w 0" and "bit w 1"
  shows "decode w = map fst (filter (enc_matches w) (filter full_width insn_table))"
proof -
  have "filter (enc_matches w) insn_table = filter (enc_matches w) (filter full_width insn_table)"
    unfolding filter_filter
    by (rule filter_cong [OF refl])
      (use insn_table_widths compressed_no_match [OF _ assms] in blast)
  then show ?thesis by (simp add: decode_def)
qed

lemma decode_length: "bit w 0 \<Longrightarrow> bit w 1 \<Longrightarrow> length (decode w) \<le> 1"
  using routed_unambiguous [OF insn_table_routed, of w] by (simp only: decode_full length_map)

text \<open>One matching row determines the decoding of a word.\<close>

lemma decode_eqI:
  assumes "(n, m, k) \<in> set insn_table" and "w AND k = m" and "bit w 0" and "bit w 1"
  shows "decode w = [n]"
proof -
  have "n \<in> set (decode w)"
    using assms(1,2) by (force simp: decode_def enc_matches_def)
  with decode_length [OF assms(3,4)] show ?thesis
    by (cases "decode w") (auto simp: le_Suc_eq)
qed

section \<open>Properties of the encodings\<close>

text \<open>Rows of the table that match a word are found by \<open>decode\<close>, in the order of the table.\<close>

lemma decode_short: "decode 1 = [''C_NOP'', ''C_ADDI'']"
  by (simp add: decode_def enc_matches_def insn_table_def match_mask_1_def match_mask_2_def match_mask_3_def match_mask_4_def)

text \<open>C34: decoding is unambiguous for the 32-bit format. At most one declared instruction matches a word
  whose two low bits are set, which is how the format is marked. For the words of the 16-bit format, which
  the same table describes, this does not hold: the word 1 matches both \<open>c.nop\<close> and \<open>c.addi\<close>.\<close>

theorem decode_unambiguous:
  assumes "bit w 0" and "bit w 1"
  shows "length (decode w) \<le> 1 \<and> decode 1 = [''C_NOP'', ''C_ADDI'']"
  using decode_length [OF assms] decode_short by blast

lemma decode_unambiguous_witness: "length (decode 0x7b200073) \<le> 1 \<and> bit (0x7b200073 :: u32) 0"
  using decode_unambiguous [of "0x7b200073"] by simp

text \<open>ASCII upper case on letters, digits and underscore.\<close>

fun upper_char :: "char \<Rightarrow> char" where
  "upper_char (Char a b c d e f g h) = Char a b c d e (f \<and> \<not> (g \<and> \<not> h)) g h"

lemma match_in_mask:
  "list_all (\<lambda>(n, m, k). m AND k = m) match_mask_1"
  "list_all (\<lambda>(n, m, k). m AND k = m) match_mask_2"
  "list_all (\<lambda>(n, m, k). m AND k = m) match_mask_3"
  "list_all (\<lambda>(n, m, k). m AND k = m) match_mask_4"
  by (simp_all add: match_mask_1_def match_mask_2_def match_mask_3_def match_mask_4_def)

lemma declared_same_macro:
  "list_all (\<lambda>(n, m, k). map upper_char n = m \<and> m = k) declared_insns_1"
  "list_all (\<lambda>(n, m, k). map upper_char n = m \<and> m = k) declared_insns_2"
  by (simp_all add: declared_insns_1_def declared_insns_2_def)

lemma declared_names_1:
  "map (\<lambda>(n, m, k). m) declared_insns_1 @ map (\<lambda>(n, m, k). m) declared_insns_2 = map fst insn_table"
  by (simp add: insn_table_def declared_insns_1_def declared_insns_2_def match_mask_1_def
      match_mask_2_def match_mask_3_def match_mask_4_def)

text \<open>The declaration section and the macros agree. The declared instructions are exactly
  the encoded ones in the same order, each uses the match and the mask of the same name, and that
  name is its own in upper case; and no match sets a bit outside its mask, so every declared
  instruction is decodable.\<close>

theorem declared_insns_encoded:
  "map (\<lambda>(n, m, k). m) declared_insns = map fst insn_table \<and>
   list_all (\<lambda>(n, m, k). map upper_char n = m \<and> m = k) declared_insns \<and>
   list_all (\<lambda>(n, m, k). m AND k = m) insn_table"
  using declared_names_1 declared_same_macro match_in_mask
  by (simp add: declared_insns_def insn_table_def)

end
