(* ===== verification/Encoding_Csr.thy ===== *)
theory Encoding_Csr
  imports Prelude
begin

text \<open>
  The CSR numbers and the trap causes of \<open>debug_rom/encoding.h\<close>, as the macros define them and
  as the \<open>DECLARE_CSR\<close> and \<open>DECLARE_CAUSE\<close> sections name them.
\<close>

section \<open>CSR numbers\<close>

type_synonym csr_row = "string \<times> 12 word"

definition csr_numbers_1 :: "csr_row list" where
  "csr_numbers_1 = [
    (''FFLAGS'', 0x1), (''FRM'', 0x2), (''FCSR'', 0x3), (''CYCLE'', 0xc00), (''TIME'', 0xc01),
    (''INSTRET'', 0xc02), (''HPMCOUNTER3'', 0xc03), (''HPMCOUNTER4'', 0xc04),
    (''HPMCOUNTER5'', 0xc05), (''HPMCOUNTER6'', 0xc06), (''HPMCOUNTER7'', 0xc07),
    (''HPMCOUNTER8'', 0xc08), (''HPMCOUNTER9'', 0xc09), (''HPMCOUNTER10'', 0xc0a),
    (''HPMCOUNTER11'', 0xc0b), (''HPMCOUNTER12'', 0xc0c), (''HPMCOUNTER13'', 0xc0d),
    (''HPMCOUNTER14'', 0xc0e), (''HPMCOUNTER15'', 0xc0f), (''HPMCOUNTER16'', 0xc10),
    (''HPMCOUNTER17'', 0xc11), (''HPMCOUNTER18'', 0xc12), (''HPMCOUNTER19'', 0xc13),
    (''HPMCOUNTER20'', 0xc14), (''HPMCOUNTER21'', 0xc15), (''HPMCOUNTER22'', 0xc16),
    (''HPMCOUNTER23'', 0xc17), (''HPMCOUNTER24'', 0xc18), (''HPMCOUNTER25'', 0xc19),
    (''HPMCOUNTER26'', 0xc1a), (''HPMCOUNTER27'', 0xc1b), (''HPMCOUNTER28'', 0xc1c),
    (''HPMCOUNTER29'', 0xc1d), (''HPMCOUNTER30'', 0xc1e), (''HPMCOUNTER31'', 0xc1f),
    (''SSTATUS'', 0x100), (''SIE'', 0x104), (''STVEC'', 0x105), (''SCOUNTEREN'', 0x106),
    (''SSCRATCH'', 0x140), (''SEPC'', 0x141), (''SCAUSE'', 0x142), (''STVAL'', 0x143),
    (''SIP'', 0x144), (''SATP'', 0x180), (''MSTATUS'', 0x300), (''MISA'', 0x301),
    (''MEDELEG'', 0x302), (''MIDELEG'', 0x303), (''MIE'', 0x304), (''MTVEC'', 0x305),
    (''MCOUNTEREN'', 0x306), (''MSCRATCH'', 0x340), (''MEPC'', 0x341), (''MCAUSE'', 0x342),
    (''MTVAL'', 0x343), (''MIP'', 0x344), (''PMPCFG0'', 0x3a0), (''PMPCFG1'', 0x3a1),
    (''PMPCFG2'', 0x3a2), (''PMPCFG3'', 0x3a3), (''PMPADDR0'', 0x3b0), (''PMPADDR1'', 0x3b1),
    (''PMPADDR2'', 0x3b2), (''PMPADDR3'', 0x3b3), (''PMPADDR4'', 0x3b4), (''PMPADDR5'', 0x3b5),
    (''PMPADDR6'', 0x3b6), (''PMPADDR7'', 0x3b7), (''PMPADDR8'', 0x3b8), (''PMPADDR9'', 0x3b9),
    (''PMPADDR10'', 0x3ba), (''PMPADDR11'', 0x3bb), (''PMPADDR12'', 0x3bc),
    (''PMPADDR13'', 0x3bd), (''PMPADDR14'', 0x3be), (''PMPADDR15'', 0x3bf),
    (''TSELECT'', 0x7a0), (''TDATA1'', 0x7a1), (''TDATA2'', 0x7a2), (''TDATA3'', 0x7a3),
    (''DCSR'', 0x7b0), (''DPC'', 0x7b1), (''DSCRATCH'', 0x7b2), (''DSCRATCH0'', 0x7b2),
    (''DSCRATCH1'', 0x7b3), (''MCYCLE'', 0xb00), (''MINSTRET'', 0xb02),
    (''MHPMCOUNTER3'', 0xb03), (''MHPMCOUNTER4'', 0xb04), (''MHPMCOUNTER5'', 0xb05),
    (''MHPMCOUNTER6'', 0xb06), (''MHPMCOUNTER7'', 0xb07), (''MHPMCOUNTER8'', 0xb08),
    (''MHPMCOUNTER9'', 0xb09), (''MHPMCOUNTER10'', 0xb0a), (''MHPMCOUNTER11'', 0xb0b),
    (''MHPMCOUNTER12'', 0xb0c), (''MHPMCOUNTER13'', 0xb0d), (''MHPMCOUNTER14'', 0xb0e),
    (''MHPMCOUNTER15'', 0xb0f), (''MHPMCOUNTER16'', 0xb10), (''MHPMCOUNTER17'', 0xb11),
    (''MHPMCOUNTER18'', 0xb12), (''MHPMCOUNTER19'', 0xb13), (''MHPMCOUNTER20'', 0xb14),
    (''MHPMCOUNTER21'', 0xb15), (''MHPMCOUNTER22'', 0xb16), (''MHPMCOUNTER23'', 0xb17),
    (''MHPMCOUNTER24'', 0xb18), (''MHPMCOUNTER25'', 0xb19), (''MHPMCOUNTER26'', 0xb1a),
    (''MHPMCOUNTER27'', 0xb1b), (''MHPMCOUNTER28'', 0xb1c), (''MHPMCOUNTER29'', 0xb1d),
    (''MHPMCOUNTER30'', 0xb1e), (''MHPMCOUNTER31'', 0xb1f), (''MHPMEVENT3'', 0x323),
    (''MHPMEVENT4'', 0x324), (''MHPMEVENT5'', 0x325), (''MHPMEVENT6'', 0x326),
    (''MHPMEVENT7'', 0x327), (''MHPMEVENT8'', 0x328), (''MHPMEVENT9'', 0x329),
    (''MHPMEVENT10'', 0x32a), (''MHPMEVENT11'', 0x32b), (''MHPMEVENT12'', 0x32c),
    (''MHPMEVENT13'', 0x32d), (''MHPMEVENT14'', 0x32e), (''MHPMEVENT15'', 0x32f),
    (''MHPMEVENT16'', 0x330), (''MHPMEVENT17'', 0x331), (''MHPMEVENT18'', 0x332),
    (''MHPMEVENT19'', 0x333), (''MHPMEVENT20'', 0x334), (''MHPMEVENT21'', 0x335),
    (''MHPMEVENT22'', 0x336), (''MHPMEVENT23'', 0x337), (''MHPMEVENT24'', 0x338),
    (''MHPMEVENT25'', 0x339), (''MHPMEVENT26'', 0x33a), (''MHPMEVENT27'', 0x33b),
    (''MHPMEVENT28'', 0x33c), (''MHPMEVENT29'', 0x33d), (''MHPMEVENT30'', 0x33e),
    (''MHPMEVENT31'', 0x33f), (''MVENDORID'', 0xf11), (''MARCHID'', 0xf12), (''MIMPID'', 0xf13),
    (''MHARTID'', 0xf14)]"

definition csr_numbers_2 :: "csr_row list" where
  "csr_numbers_2 = [
    (''CYCLEH'', 0xc80), (''TIMEH'', 0xc81), (''INSTRETH'', 0xc82), (''HPMCOUNTER3H'', 0xc83),
    (''HPMCOUNTER4H'', 0xc84), (''HPMCOUNTER5H'', 0xc85), (''HPMCOUNTER6H'', 0xc86),
    (''HPMCOUNTER7H'', 0xc87), (''HPMCOUNTER8H'', 0xc88), (''HPMCOUNTER9H'', 0xc89),
    (''HPMCOUNTER10H'', 0xc8a), (''HPMCOUNTER11H'', 0xc8b), (''HPMCOUNTER12H'', 0xc8c),
    (''HPMCOUNTER13H'', 0xc8d), (''HPMCOUNTER14H'', 0xc8e), (''HPMCOUNTER15H'', 0xc8f),
    (''HPMCOUNTER16H'', 0xc90), (''HPMCOUNTER17H'', 0xc91), (''HPMCOUNTER18H'', 0xc92),
    (''HPMCOUNTER19H'', 0xc93), (''HPMCOUNTER20H'', 0xc94), (''HPMCOUNTER21H'', 0xc95),
    (''HPMCOUNTER22H'', 0xc96), (''HPMCOUNTER23H'', 0xc97), (''HPMCOUNTER24H'', 0xc98),
    (''HPMCOUNTER25H'', 0xc99), (''HPMCOUNTER26H'', 0xc9a), (''HPMCOUNTER27H'', 0xc9b),
    (''HPMCOUNTER28H'', 0xc9c), (''HPMCOUNTER29H'', 0xc9d), (''HPMCOUNTER30H'', 0xc9e),
    (''HPMCOUNTER31H'', 0xc9f), (''MCYCLEH'', 0xb80), (''MINSTRETH'', 0xb82),
    (''MHPMCOUNTER3H'', 0xb83), (''MHPMCOUNTER4H'', 0xb84), (''MHPMCOUNTER5H'', 0xb85),
    (''MHPMCOUNTER6H'', 0xb86), (''MHPMCOUNTER7H'', 0xb87), (''MHPMCOUNTER8H'', 0xb88),
    (''MHPMCOUNTER9H'', 0xb89), (''MHPMCOUNTER10H'', 0xb8a), (''MHPMCOUNTER11H'', 0xb8b),
    (''MHPMCOUNTER12H'', 0xb8c), (''MHPMCOUNTER13H'', 0xb8d), (''MHPMCOUNTER14H'', 0xb8e),
    (''MHPMCOUNTER15H'', 0xb8f), (''MHPMCOUNTER16H'', 0xb90), (''MHPMCOUNTER17H'', 0xb91),
    (''MHPMCOUNTER18H'', 0xb92), (''MHPMCOUNTER19H'', 0xb93), (''MHPMCOUNTER20H'', 0xb94),
    (''MHPMCOUNTER21H'', 0xb95), (''MHPMCOUNTER22H'', 0xb96), (''MHPMCOUNTER23H'', 0xb97),
    (''MHPMCOUNTER24H'', 0xb98), (''MHPMCOUNTER25H'', 0xb99), (''MHPMCOUNTER26H'', 0xb9a),
    (''MHPMCOUNTER27H'', 0xb9b), (''MHPMCOUNTER28H'', 0xb9c), (''MHPMCOUNTER29H'', 0xb9d),
    (''MHPMCOUNTER30H'', 0xb9e), (''MHPMCOUNTER31H'', 0xb9f)]"

definition csr_table :: "csr_row list" where
  "csr_table = csr_numbers_1 @ csr_numbers_2"

definition csr_number :: "string \<Rightarrow> 12 word option" where
  "csr_number n = map_of csr_table n"

definition declared_csrs_1 :: "(string \<times> string) list" where
  "declared_csrs_1 = [
    (''fflags'', ''FFLAGS''), (''frm'', ''FRM''), (''fcsr'', ''FCSR''), (''cycle'', ''CYCLE''),
    (''time'', ''TIME''), (''instret'', ''INSTRET''), (''hpmcounter3'', ''HPMCOUNTER3''),
    (''hpmcounter4'', ''HPMCOUNTER4''), (''hpmcounter5'', ''HPMCOUNTER5''),
    (''hpmcounter6'', ''HPMCOUNTER6''), (''hpmcounter7'', ''HPMCOUNTER7''),
    (''hpmcounter8'', ''HPMCOUNTER8''), (''hpmcounter9'', ''HPMCOUNTER9''),
    (''hpmcounter10'', ''HPMCOUNTER10''), (''hpmcounter11'', ''HPMCOUNTER11''),
    (''hpmcounter12'', ''HPMCOUNTER12''), (''hpmcounter13'', ''HPMCOUNTER13''),
    (''hpmcounter14'', ''HPMCOUNTER14''), (''hpmcounter15'', ''HPMCOUNTER15''),
    (''hpmcounter16'', ''HPMCOUNTER16''), (''hpmcounter17'', ''HPMCOUNTER17''),
    (''hpmcounter18'', ''HPMCOUNTER18''), (''hpmcounter19'', ''HPMCOUNTER19''),
    (''hpmcounter20'', ''HPMCOUNTER20''), (''hpmcounter21'', ''HPMCOUNTER21''),
    (''hpmcounter22'', ''HPMCOUNTER22''), (''hpmcounter23'', ''HPMCOUNTER23''),
    (''hpmcounter24'', ''HPMCOUNTER24''), (''hpmcounter25'', ''HPMCOUNTER25''),
    (''hpmcounter26'', ''HPMCOUNTER26''), (''hpmcounter27'', ''HPMCOUNTER27''),
    (''hpmcounter28'', ''HPMCOUNTER28''), (''hpmcounter29'', ''HPMCOUNTER29''),
    (''hpmcounter30'', ''HPMCOUNTER30''), (''hpmcounter31'', ''HPMCOUNTER31''),
    (''sstatus'', ''SSTATUS''), (''sie'', ''SIE''), (''stvec'', ''STVEC''),
    (''scounteren'', ''SCOUNTEREN''), (''sscratch'', ''SSCRATCH''), (''sepc'', ''SEPC''),
    (''scause'', ''SCAUSE''), (''stval'', ''STVAL''), (''sip'', ''SIP''), (''satp'', ''SATP''),
    (''mstatus'', ''MSTATUS''), (''misa'', ''MISA''), (''medeleg'', ''MEDELEG''),
    (''mideleg'', ''MIDELEG''), (''mie'', ''MIE''), (''mtvec'', ''MTVEC''),
    (''mcounteren'', ''MCOUNTEREN''), (''mscratch'', ''MSCRATCH''), (''mepc'', ''MEPC''),
    (''mcause'', ''MCAUSE''), (''mtval'', ''MTVAL''), (''mip'', ''MIP''),
    (''pmpcfg0'', ''PMPCFG0''), (''pmpcfg1'', ''PMPCFG1''), (''pmpcfg2'', ''PMPCFG2''),
    (''pmpcfg3'', ''PMPCFG3''), (''pmpaddr0'', ''PMPADDR0''), (''pmpaddr1'', ''PMPADDR1''),
    (''pmpaddr2'', ''PMPADDR2''), (''pmpaddr3'', ''PMPADDR3''), (''pmpaddr4'', ''PMPADDR4''),
    (''pmpaddr5'', ''PMPADDR5''), (''pmpaddr6'', ''PMPADDR6''), (''pmpaddr7'', ''PMPADDR7''),
    (''pmpaddr8'', ''PMPADDR8''), (''pmpaddr9'', ''PMPADDR9''), (''pmpaddr10'', ''PMPADDR10''),
    (''pmpaddr11'', ''PMPADDR11''), (''pmpaddr12'', ''PMPADDR12''),
    (''pmpaddr13'', ''PMPADDR13''), (''pmpaddr14'', ''PMPADDR14''),
    (''pmpaddr15'', ''PMPADDR15''), (''tselect'', ''TSELECT''), (''tdata1'', ''TDATA1''),
    (''tdata2'', ''TDATA2''), (''tdata3'', ''TDATA3''), (''dcsr'', ''DCSR''),
    (''dpc'', ''DPC''), (''dscratch'', ''DSCRATCH''), (''dscratch0'', ''DSCRATCH0''),
    (''dscratch1'', ''DSCRATCH1''), (''mcycle'', ''MCYCLE''), (''minstret'', ''MINSTRET''),
    (''mhpmcounter3'', ''MHPMCOUNTER3''), (''mhpmcounter4'', ''MHPMCOUNTER4''),
    (''mhpmcounter5'', ''MHPMCOUNTER5''), (''mhpmcounter6'', ''MHPMCOUNTER6''),
    (''mhpmcounter7'', ''MHPMCOUNTER7''), (''mhpmcounter8'', ''MHPMCOUNTER8''),
    (''mhpmcounter9'', ''MHPMCOUNTER9''), (''mhpmcounter10'', ''MHPMCOUNTER10''),
    (''mhpmcounter11'', ''MHPMCOUNTER11''), (''mhpmcounter12'', ''MHPMCOUNTER12''),
    (''mhpmcounter13'', ''MHPMCOUNTER13''), (''mhpmcounter14'', ''MHPMCOUNTER14''),
    (''mhpmcounter15'', ''MHPMCOUNTER15''), (''mhpmcounter16'', ''MHPMCOUNTER16''),
    (''mhpmcounter17'', ''MHPMCOUNTER17''), (''mhpmcounter18'', ''MHPMCOUNTER18''),
    (''mhpmcounter19'', ''MHPMCOUNTER19''), (''mhpmcounter20'', ''MHPMCOUNTER20''),
    (''mhpmcounter21'', ''MHPMCOUNTER21''), (''mhpmcounter22'', ''MHPMCOUNTER22''),
    (''mhpmcounter23'', ''MHPMCOUNTER23''), (''mhpmcounter24'', ''MHPMCOUNTER24''),
    (''mhpmcounter25'', ''MHPMCOUNTER25''), (''mhpmcounter26'', ''MHPMCOUNTER26''),
    (''mhpmcounter27'', ''MHPMCOUNTER27''), (''mhpmcounter28'', ''MHPMCOUNTER28''),
    (''mhpmcounter29'', ''MHPMCOUNTER29''), (''mhpmcounter30'', ''MHPMCOUNTER30''),
    (''mhpmcounter31'', ''MHPMCOUNTER31''), (''mhpmevent3'', ''MHPMEVENT3''),
    (''mhpmevent4'', ''MHPMEVENT4''), (''mhpmevent5'', ''MHPMEVENT5''),
    (''mhpmevent6'', ''MHPMEVENT6''), (''mhpmevent7'', ''MHPMEVENT7''),
    (''mhpmevent8'', ''MHPMEVENT8''), (''mhpmevent9'', ''MHPMEVENT9''),
    (''mhpmevent10'', ''MHPMEVENT10''), (''mhpmevent11'', ''MHPMEVENT11''),
    (''mhpmevent12'', ''MHPMEVENT12''), (''mhpmevent13'', ''MHPMEVENT13''),
    (''mhpmevent14'', ''MHPMEVENT14''), (''mhpmevent15'', ''MHPMEVENT15''),
    (''mhpmevent16'', ''MHPMEVENT16''), (''mhpmevent17'', ''MHPMEVENT17''),
    (''mhpmevent18'', ''MHPMEVENT18''), (''mhpmevent19'', ''MHPMEVENT19''),
    (''mhpmevent20'', ''MHPMEVENT20''), (''mhpmevent21'', ''MHPMEVENT21''),
    (''mhpmevent22'', ''MHPMEVENT22''), (''mhpmevent23'', ''MHPMEVENT23''),
    (''mhpmevent24'', ''MHPMEVENT24''), (''mhpmevent25'', ''MHPMEVENT25''),
    (''mhpmevent26'', ''MHPMEVENT26''), (''mhpmevent27'', ''MHPMEVENT27''),
    (''mhpmevent28'', ''MHPMEVENT28''), (''mhpmevent29'', ''MHPMEVENT29''),
    (''mhpmevent30'', ''MHPMEVENT30''), (''mhpmevent31'', ''MHPMEVENT31''),
    (''mvendorid'', ''MVENDORID''), (''marchid'', ''MARCHID''), (''mimpid'', ''MIMPID''),
    (''mhartid'', ''MHARTID'')]"

definition declared_csrs_2 :: "(string \<times> string) list" where
  "declared_csrs_2 = [
    (''cycleh'', ''CYCLEH''), (''timeh'', ''TIMEH''), (''instreth'', ''INSTRETH''),
    (''hpmcounter3h'', ''HPMCOUNTER3H''), (''hpmcounter4h'', ''HPMCOUNTER4H''),
    (''hpmcounter5h'', ''HPMCOUNTER5H''), (''hpmcounter6h'', ''HPMCOUNTER6H''),
    (''hpmcounter7h'', ''HPMCOUNTER7H''), (''hpmcounter8h'', ''HPMCOUNTER8H''),
    (''hpmcounter9h'', ''HPMCOUNTER9H''), (''hpmcounter10h'', ''HPMCOUNTER10H''),
    (''hpmcounter11h'', ''HPMCOUNTER11H''), (''hpmcounter12h'', ''HPMCOUNTER12H''),
    (''hpmcounter13h'', ''HPMCOUNTER13H''), (''hpmcounter14h'', ''HPMCOUNTER14H''),
    (''hpmcounter15h'', ''HPMCOUNTER15H''), (''hpmcounter16h'', ''HPMCOUNTER16H''),
    (''hpmcounter17h'', ''HPMCOUNTER17H''), (''hpmcounter18h'', ''HPMCOUNTER18H''),
    (''hpmcounter19h'', ''HPMCOUNTER19H''), (''hpmcounter20h'', ''HPMCOUNTER20H''),
    (''hpmcounter21h'', ''HPMCOUNTER21H''), (''hpmcounter22h'', ''HPMCOUNTER22H''),
    (''hpmcounter23h'', ''HPMCOUNTER23H''), (''hpmcounter24h'', ''HPMCOUNTER24H''),
    (''hpmcounter25h'', ''HPMCOUNTER25H''), (''hpmcounter26h'', ''HPMCOUNTER26H''),
    (''hpmcounter27h'', ''HPMCOUNTER27H''), (''hpmcounter28h'', ''HPMCOUNTER28H''),
    (''hpmcounter29h'', ''HPMCOUNTER29H''), (''hpmcounter30h'', ''HPMCOUNTER30H''),
    (''hpmcounter31h'', ''HPMCOUNTER31H''), (''mcycleh'', ''MCYCLEH''),
    (''minstreth'', ''MINSTRETH''), (''mhpmcounter3h'', ''MHPMCOUNTER3H''),
    (''mhpmcounter4h'', ''MHPMCOUNTER4H''), (''mhpmcounter5h'', ''MHPMCOUNTER5H''),
    (''mhpmcounter6h'', ''MHPMCOUNTER6H''), (''mhpmcounter7h'', ''MHPMCOUNTER7H''),
    (''mhpmcounter8h'', ''MHPMCOUNTER8H''), (''mhpmcounter9h'', ''MHPMCOUNTER9H''),
    (''mhpmcounter10h'', ''MHPMCOUNTER10H''), (''mhpmcounter11h'', ''MHPMCOUNTER11H''),
    (''mhpmcounter12h'', ''MHPMCOUNTER12H''), (''mhpmcounter13h'', ''MHPMCOUNTER13H''),
    (''mhpmcounter14h'', ''MHPMCOUNTER14H''), (''mhpmcounter15h'', ''MHPMCOUNTER15H''),
    (''mhpmcounter16h'', ''MHPMCOUNTER16H''), (''mhpmcounter17h'', ''MHPMCOUNTER17H''),
    (''mhpmcounter18h'', ''MHPMCOUNTER18H''), (''mhpmcounter19h'', ''MHPMCOUNTER19H''),
    (''mhpmcounter20h'', ''MHPMCOUNTER20H''), (''mhpmcounter21h'', ''MHPMCOUNTER21H''),
    (''mhpmcounter22h'', ''MHPMCOUNTER22H''), (''mhpmcounter23h'', ''MHPMCOUNTER23H''),
    (''mhpmcounter24h'', ''MHPMCOUNTER24H''), (''mhpmcounter25h'', ''MHPMCOUNTER25H''),
    (''mhpmcounter26h'', ''MHPMCOUNTER26H''), (''mhpmcounter27h'', ''MHPMCOUNTER27H''),
    (''mhpmcounter28h'', ''MHPMCOUNTER28H''), (''mhpmcounter29h'', ''MHPMCOUNTER29H''),
    (''mhpmcounter30h'', ''MHPMCOUNTER30H''), (''mhpmcounter31h'', ''MHPMCOUNTER31H'')]"

section \<open>Trap causes\<close>

definition cause_numbers :: "(string \<times> nat) list" where
  "cause_numbers = [
    (''MISALIGNED_FETCH'', 0x0), (''FETCH_ACCESS'', 0x1), (''ILLEGAL_INSTRUCTION'', 0x2),
    (''BREAKPOINT'', 0x3), (''MISALIGNED_LOAD'', 0x4), (''LOAD_ACCESS'', 0x5),
    (''MISALIGNED_STORE'', 0x6), (''STORE_ACCESS'', 0x7), (''USER_ECALL'', 0x8),
    (''SUPERVISOR_ECALL'', 0x9), (''HYPERVISOR_ECALL'', 0xa), (''MACHINE_ECALL'', 0xb),
    (''FETCH_PAGE_FAULT'', 0xc), (''LOAD_PAGE_FAULT'', 0xd), (''STORE_PAGE_FAULT'', 0xf)]"

definition declared_causes :: "(string \<times> string) list" where
  "declared_causes = [
    (''misaligned fetch'', ''MISALIGNED_FETCH''), (''fetch access'', ''FETCH_ACCESS''),
    (''illegal instruction'', ''ILLEGAL_INSTRUCTION''), (''breakpoint'', ''BREAKPOINT''),
    (''misaligned load'', ''MISALIGNED_LOAD''), (''load access'', ''LOAD_ACCESS''),
    (''misaligned store'', ''MISALIGNED_STORE''), (''store access'', ''STORE_ACCESS''),
    (''user_ecall'', ''USER_ECALL''), (''supervisor_ecall'', ''SUPERVISOR_ECALL''),
    (''hypervisor_ecall'', ''HYPERVISOR_ECALL''), (''machine_ecall'', ''MACHINE_ECALL''),
    (''fetch page fault'', ''FETCH_PAGE_FAULT''), (''load page fault'', ''LOAD_PAGE_FAULT''),
    (''store page fault'', ''STORE_PAGE_FAULT'')]"

section \<open>Properties of the CSR numbers\<close>

text \<open>
  The RISC-V address convention: bits 9:8 of a CSR number are the lowest privilege level that may
  access it, and a number with bits 11:10 both set is read-only. Names start with the level's
  letter; the physical memory protection registers belong to the machine level.
\<close>

definition csr_level_ok :: "csr_row \<Rightarrow> bool" where
  "csr_level_ok = (\<lambda>(n, a).
    (hd n \<in> set ''MP'' \<longrightarrow> bit a 8 \<and> bit a 9) \<and>
    (hd n = CHR ''S'' \<longrightarrow> bit a 8 \<and> \<not> bit a 9) \<and>
    (hd n = CHR ''F'' \<longrightarrow> \<not> bit a 8 \<and> \<not> bit a 9) \<and>
    (hd n \<in> set ''CHI'' \<longrightarrow> \<not> bit a 8 \<and> \<not> bit a 9 \<and> bit a 10 \<and> bit a 11) \<and>
    (hd n = CHR ''D'' \<longrightarrow> bit a 4 \<and> bit a 5 \<and> bit a 7 \<and> bit a 8 \<and> bit a 9))"

lemma csr_level_rows:
  "list_all csr_level_ok csr_numbers_1" "list_all csr_level_ok csr_numbers_2"
  by (simp_all add: csr_numbers_1_def csr_numbers_2_def csr_level_ok_def)

lemma declared_csr_names:
  "map snd declared_csrs_1 = map fst csr_numbers_1"
  "map snd declared_csrs_2 = map fst csr_numbers_2"
  by (simp_all add: declared_csrs_1_def declared_csrs_2_def csr_numbers_1_def csr_numbers_2_def)

text \<open>The CSR numbers follow the privilege convention, the declaration section declares
  exactly the numbered CSRs in order, and it does the same for the trap causes.\<close>

theorem csr_numbers_by_privilege:
  "list_all csr_level_ok csr_table \<and>
   map snd (declared_csrs_1 @ declared_csrs_2) = map fst csr_table \<and>
   map snd declared_causes = map fst cause_numbers"
  using csr_level_rows declared_csr_names
  by (simp add: csr_table_def declared_causes_def cause_numbers_def)

end
