(* ===== verification/Encoding_Fields.thy ===== *)
theory Encoding_Fields
  imports Prelude
begin

text \<open>
  The field masks and constants in the first part of \<open>debug_rom/encoding.h\<close>: status registers,
  the debug control register, triggers, interrupts, address translation and physical memory
  protection. A family of macros is a list of name/mask pairs, a macro with arguments a function.
\<close>

section \<open>Status registers\<close>

type_synonym field = "string \<times> u64"

definition mstatus_fields :: "field list" where
  "mstatus_fields = [
    (''UIE'', 0x00000001), (''SIE'', 0x00000002), (''HIE'', 0x00000004), (''MIE'', 0x00000008),
    (''UPIE'', 0x00000010), (''SPIE'', 0x00000020), (''HPIE'', 0x00000040), (''MPIE'', 0x00000080),
    (''SPP'', 0x00000100), (''HPP'', 0x00000600), (''MPP'', 0x00001800), (''FS'', 0x00006000),
    (''XS'', 0x00018000), (''MPRV'', 0x00020000), (''SUM'', 0x00040000), (''MXR'', 0x00080000),
    (''TVM'', 0x00100000), (''TW'', 0x00200000), (''TSR'', 0x00400000), (''32_SD'', 0x80000000),
    (''UXL'', 0x0000000300000000), (''SXL'', 0x0000000C00000000), (''64_SD'', 0x8000000000000000)]"

definition sstatus_fields :: "field list" where
  "sstatus_fields = [
    (''UIE'', 0x00000001), (''SIE'', 0x00000002), (''UPIE'', 0x00000010), (''SPIE'', 0x00000020),
    (''SPP'', 0x00000100), (''FS'', 0x00006000), (''XS'', 0x00018000), (''SUM'', 0x00040000),
    (''MXR'', 0x00080000), (''32_SD'', 0x80000000), (''UXL'', 0x0000000300000000),
    (''64_SD'', 0x8000000000000000)]"

section \<open>The debug control register\<close>

definition dcsr_fields :: "field list" where
  "dcsr_fields = [
    (''XDEBUGVER'', push_bit 30 3), (''NDRESET'', push_bit 29 1), (''FULLRESET'', push_bit 28 1),
    (''EBREAKM'', push_bit 15 1), (''EBREAKH'', push_bit 14 1), (''EBREAKS'', push_bit 13 1),
    (''EBREAKU'', push_bit 12 1), (''STOPCYCLE'', push_bit 10 1), (''STOPTIME'', push_bit 9 1),
    (''CAUSE'', push_bit 6 7), (''DEBUGINT'', push_bit 5 1), (''HALT'', push_bit 3 1),
    (''STEP'', push_bit 2 1), (''PRV'', push_bit 0 3)]"

definition dcsr_causes :: "(string \<times> u64) list" where
  "dcsr_causes = [
    (''NONE'', 0), (''SWBP'', 1), (''HWBP'', 2), (''DEBUGINT'', 3), (''STEP'', 4), (''HALT'', 5)]"

section \<open>Triggers\<close>

definition MCONTROL_TYPE :: "nat \<Rightarrow> u64" where
  "MCONTROL_TYPE xlen = push_bit (xlen - 4) 0xf"

definition MCONTROL_DMODE :: "nat \<Rightarrow> u64" where
  "MCONTROL_DMODE xlen = push_bit (xlen - 5) 1"

definition MCONTROL_MASKMAX :: "nat \<Rightarrow> u64" where
  "MCONTROL_MASKMAX xlen = push_bit (xlen - 11) 0x3f"

definition mcontrol_fields :: "field list" where
  "mcontrol_fields = [
    (''SELECT'', push_bit 19 1), (''TIMING'', push_bit 18 1), (''ACTION'', push_bit 12 0x3f),
    (''CHAIN'', push_bit 11 1), (''MATCH'', push_bit 7 0xf), (''M'', push_bit 6 1),
    (''H'', push_bit 5 1), (''S'', push_bit 4 1), (''U'', push_bit 3 1),
    (''EXECUTE'', push_bit 2 1), (''STORE'', push_bit 1 1), (''LOAD'', push_bit 0 1)]"

definition mcontrol_types :: "(string \<times> u64) list" where
  "mcontrol_types = [(''NONE'', 0), (''MATCH'', 2)]"

definition mcontrol_actions :: "(string \<times> u64) list" where
  "mcontrol_actions = [
    (''DEBUG_EXCEPTION'', 0), (''DEBUG_MODE'', 1), (''TRACE_START'', 2), (''TRACE_STOP'', 3),
    (''TRACE_EMIT'', 4)]"

definition mcontrol_matches :: "(string \<times> u64) list" where
  "mcontrol_matches = [
    (''EQUAL'', 0), (''NAPOT'', 1), (''GE'', 2), (''LT'', 3), (''MASK_LOW'', 4), (''MASK_HIGH'', 5)]"

section \<open>Interrupts\<close>

definition irq_numbers :: "(string \<times> nat) list" where
  "irq_numbers = [
    (''S_SOFT'', 1), (''H_SOFT'', 2), (''M_SOFT'', 3), (''S_TIMER'', 5), (''H_TIMER'', 6),
    (''M_TIMER'', 7), (''S_EXT'', 9), (''H_EXT'', 10), (''M_EXT'', 11), (''COP'', 12), (''HOST'', 13)]"

definition IRQ :: "string \<Rightarrow> nat" where
  "IRQ n = (case map_of irq_numbers n of Some i \<Rightarrow> i | None \<Rightarrow> 0)"

definition mip_fields :: "field list" where
  "mip_fields = [
    (''SSIP'', push_bit (IRQ ''S_SOFT'') 1), (''HSIP'', push_bit (IRQ ''H_SOFT'') 1),
    (''MSIP'', push_bit (IRQ ''M_SOFT'') 1), (''STIP'', push_bit (IRQ ''S_TIMER'') 1),
    (''HTIP'', push_bit (IRQ ''H_TIMER'') 1), (''MTIP'', push_bit (IRQ ''M_TIMER'') 1),
    (''SEIP'', push_bit (IRQ ''S_EXT'') 1), (''HEIP'', push_bit (IRQ ''H_EXT'') 1),
    (''MEIP'', push_bit (IRQ ''M_EXT'') 1)]"

definition MIP :: "string \<Rightarrow> u64" where
  "MIP n = (case map_of mip_fields n of Some m \<Rightarrow> m | None \<Rightarrow> 0)"

definition sip_fields :: "field list" where
  "sip_fields = [(''SSIP'', MIP ''SSIP''), (''STIP'', MIP ''STIP'')]"

definition prv_levels :: "(string \<times> u64) list" where
  "prv_levels = [(''U'', 0), (''S'', 1), (''H'', 2), (''M'', 3)]"

section \<open>Address translation and memory protection\<close>

definition satp32_fields :: "field list" where
  "satp32_fields = [(''MODE'', 0x80000000), (''ASID'', 0x7FC00000), (''PPN'', 0x003FFFFF)]"

definition satp64_fields :: "field list" where
  "satp64_fields = [
    (''MODE'', 0xF000000000000000), (''ASID'', 0x0FFFF00000000000), (''PPN'', 0x00000FFFFFFFFFFF)]"

definition satp_modes :: "(string \<times> u64) list" where
  "satp_modes = [
    (''OFF'', 0), (''SV32'', 1), (''SV39'', 8), (''SV48'', 9), (''SV57'', 10), (''SV64'', 11)]"

definition pmp_fields :: "field list" where
  "pmp_fields = [(''R'', 0x01), (''W'', 0x02), (''X'', 0x04), (''A'', 0x18), (''L'', 0x80)]"

definition pmp_modes :: "field list" where
  "pmp_modes = [(''TOR'', 0x08), (''NA4'', 0x10), (''NAPOT'', 0x18)]"

definition PMP_SHIFT :: nat where
  "PMP_SHIFT = 2"

definition DEFAULT_RSTVEC :: nat where "DEFAULT_RSTVEC = 0x00001000"
definition CLINT_BASE :: nat where "CLINT_BASE = 0x02000000"
definition CLINT_SIZE :: nat where "CLINT_SIZE = 0x000c0000"
definition EXT_IO_BASE :: nat where "EXT_IO_BASE = 0x40000000"
definition DRAM_BASE :: nat where "DRAM_BASE = 0x80000000"

definition pte_fields :: "field list" where
  "pte_fields = [
    (''V'', 0x001), (''R'', 0x002), (''W'', 0x004), (''X'', 0x008), (''U'', 0x010), (''G'', 0x020),
    (''A'', 0x040), (''D'', 0x080), (''SOFT'', 0x300)]"

definition PTE :: "string \<Rightarrow> u64" where
  "PTE n = (case map_of pte_fields n of Some m \<Rightarrow> m | None \<Rightarrow> 0)"

definition PTE_PPN_SHIFT :: nat where
  "PTE_PPN_SHIFT = 10"

definition PTE_TABLE :: "u64 \<Rightarrow> bool" where
  "PTE_TABLE pte \<longleftrightarrow> pte AND (PTE ''V'' OR PTE ''R'' OR PTE ''W'' OR PTE ''X'') = PTE ''V''"

text \<open>The macros that depend on the register width of the target.\<close>

definition field_of :: "field list \<Rightarrow> string \<Rightarrow> u64" where
  "field_of fs n = (case map_of fs n of Some m \<Rightarrow> m | None \<Rightarrow> 0)"

definition MSTATUS_SD :: "nat \<Rightarrow> u64" where
  "MSTATUS_SD xlen = (if xlen = 64 then field_of mstatus_fields ''64_SD'' else field_of mstatus_fields ''32_SD'')"

definition SSTATUS_SD :: "nat \<Rightarrow> u64" where
  "SSTATUS_SD xlen = (if xlen = 64 then field_of sstatus_fields ''64_SD'' else field_of sstatus_fields ''32_SD'')"

definition RISCV_PGLEVEL_BITS :: "nat \<Rightarrow> nat" where
  "RISCV_PGLEVEL_BITS xlen = (if xlen = 64 then 9 else 10)"

definition SATP_MODE :: "nat \<Rightarrow> u64" where
  "SATP_MODE xlen = (if xlen = 64 then field_of satp64_fields ''MODE'' else field_of satp32_fields ''MODE'')"

definition RISCV_PGSHIFT :: nat where "RISCV_PGSHIFT = 12"
definition RISCV_PGSIZE :: nat where "RISCV_PGSIZE = push_bit RISCV_PGSHIFT 1"

section \<open>Fields of a register do not overlap\<close>

text \<open>\<open>disjoint_above acc fs\<close>: the fields are non-empty and share no bit with \<open>acc\<close> or each other.\<close>

fun disjoint_above :: "u64 \<Rightarrow> field list \<Rightarrow> bool" where
  "disjoint_above acc [] = True"
| "disjoint_above acc ((n, m) # fs) = (acc AND m = 0 \<and> m \<noteq> 0 \<and> disjoint_above (acc OR m) fs)"

lemma disjoint_above_base: "disjoint_above acc fs \<Longrightarrow> (n, m) \<in> set fs \<Longrightarrow> acc AND m = 0"
  by (induction acc fs rule: disjoint_above.induct) (auto simp: bit_eq_iff bit_simps)

lemma disjoint_above_pairwise:
  "disjoint_above acc fs \<Longrightarrow> sorted_wrt (\<lambda>(_, m) (_, m'). m AND m' = 0) fs"
proof (induction acc fs rule: disjoint_above.induct)
  case (2 acc n m fs)
  have "m AND m' = 0" if "(n', m') \<in> set fs" for n' m'
    using disjoint_above_base [of "acc OR m" fs n' m'] 2 that by (auto simp: bit_eq_iff bit_simps)
  with 2 show ?case by auto
qed simp

lemma disjoint_above_nonempty: "disjoint_above acc fs \<Longrightarrow> (n, m) \<in> set fs \<Longrightarrow> m \<noteq> 0"
  by (induction acc fs rule: disjoint_above.induct) auto

text \<open>The trigger control register for a register width, and the registers with their fields.\<close>

definition mcontrol_register :: "nat \<Rightarrow> field list" where
  "mcontrol_register xlen = [(''TYPE'', MCONTROL_TYPE xlen), (''DMODE'', MCONTROL_DMODE xlen),
     (''MASKMAX'', MCONTROL_MASKMAX xlen)] @ mcontrol_fields"

definition register_fields :: "field list list" where
  "register_fields = [mstatus_fields, sstatus_fields, dcsr_fields, mip_fields, satp32_fields,
     satp64_fields, pmp_fields, pte_fields, mcontrol_register 32, mcontrol_register 64]"

definition all_bits :: "field list \<Rightarrow> u64" where
  "all_bits fs = foldr (\<lambda>(_, m) a. m OR a) fs 0"

text \<open>A value fits a field if it has no bit outside the mask, moved to the lowest bit of the mask.\<close>

definition fits :: "u64 \<Rightarrow> u64 \<Rightarrow> bool" where
  "fits m v \<longleftrightarrow> (v * (m AND - m)) AND NOT m = 0"

definition field_values :: "(u64 \<times> (string \<times> u64) list) list" where
  "field_values = [(field_of dcsr_fields ''CAUSE'', dcsr_causes), (field_of dcsr_fields ''PRV'', prv_levels),
     (field_of mstatus_fields ''MPP'', prv_levels), (field_of mcontrol_fields ''ACTION'', mcontrol_actions),
     (field_of mcontrol_fields ''MATCH'', mcontrol_matches), (MCONTROL_TYPE 32, mcontrol_types),
     (MCONTROL_TYPE 64, mcontrol_types), (SATP_MODE 64, satp_modes)]"

lemma field_values_ok:
  "list_all (\<lambda>(m, vs). distinct (map snd vs) \<and> list_all (\<lambda>(_, v). fits m v) vs) field_values"
  by (simp add: field_values_def field_of_def dcsr_fields_def dcsr_causes_def prv_levels_def mstatus_fields_def
      mcontrol_fields_def mcontrol_actions_def mcontrol_matches_def mcontrol_types_def MCONTROL_TYPE_def
      SATP_MODE_def satp64_fields_def satp_modes_def fits_def)

lemmas width_defs = MSTATUS_SD_def SSTATUS_SD_def RISCV_PGLEVEL_BITS_def RISCV_PGSIZE_def RISCV_PGSHIFT_def field_of_def
  mstatus_fields_def sstatus_fields_def

text \<open>The header describes consistent registers. The field masks of each register are non-empty and
  pairwise disjoint, the trigger fields for both register widths; the translation register's fields
  cover it completely; the supervisor registers are views of the machine ones, field by field; the
  values named for a field are distinct and fit it; the dirty bit is the top bit of either width, a
  page table of either width fills a page exactly; and the parts of the memory map do not overlap.\<close>

theorem field_masks_disjoint:
  "list_all (\<lambda>fs. sorted_wrt (\<lambda>(_, m) (_, m'). m AND m' = 0) fs \<and> list_all (\<lambda>(_, m). m \<noteq> 0) fs) register_fields \<and>
   all_bits satp32_fields = mask 32 \<and> all_bits satp64_fields = mask 64 \<and>
   set sstatus_fields \<subseteq> set mstatus_fields \<and> set sip_fields \<subseteq> set mip_fields \<and>
   list_all (\<lambda>(m, vs). distinct (map snd vs) \<and> list_all (\<lambda>(_, v). fits m v) vs) field_values \<and>
   list_all (\<lambda>xlen. MSTATUS_SD xlen = push_bit (xlen - 1) 1 \<and> SSTATUS_SD xlen = MSTATUS_SD xlen \<and>
     2 ^ RISCV_PGLEVEL_BITS xlen * (xlen div 8) = RISCV_PGSIZE) [32, 64] \<and>
   DEFAULT_RSTVEC < CLINT_BASE \<and> CLINT_BASE + CLINT_SIZE \<le> EXT_IO_BASE \<and> EXT_IO_BASE < DRAM_BASE"
proof (intro conjI)
  have "list_all (disjoint_above 0) register_fields"
    by (simp add: register_fields_def mcontrol_register_def mstatus_fields_def sstatus_fields_def
        dcsr_fields_def mip_fields_def satp32_fields_def satp64_fields_def pmp_fields_def pte_fields_def
        mcontrol_fields_def MCONTROL_TYPE_def MCONTROL_DMODE_def MCONTROL_MASKMAX_def IRQ_def irq_numbers_def)
  then show "list_all (\<lambda>fs. sorted_wrt (\<lambda>(_, m) (_, m'). m AND m' = 0) fs \<and>
      list_all (\<lambda>(_, m). m \<noteq> 0) fs) register_fields"
    by (auto simp: list_all_iff intro: disjoint_above_pairwise dest: disjoint_above_nonempty)
  show "all_bits satp32_fields = mask 32" "all_bits satp64_fields = mask 64"
    by (simp_all add: all_bits_def satp32_fields_def satp64_fields_def mask_numeral)
  show "set sstatus_fields \<subseteq> set mstatus_fields" "set sip_fields \<subseteq> set mip_fields"
    by (simp_all add: sstatus_fields_def mstatus_fields_def sip_fields_def MIP_def mip_fields_def IRQ_def irq_numbers_def)
  show "list_all (\<lambda>xlen. MSTATUS_SD xlen = push_bit (xlen - 1) 1 \<and> SSTATUS_SD xlen = MSTATUS_SD xlen \<and>
      2 ^ RISCV_PGLEVEL_BITS xlen * (xlen div 8) = RISCV_PGSIZE) [32, 64]"
    by (simp add: width_defs)
qed (rule field_values_ok, simp_all add: DEFAULT_RSTVEC_def CLINT_BASE_def CLINT_SIZE_def EXT_IO_BASE_def DRAM_BASE_def)

text \<open>\<open>PTE_TABLE\<close> recognises exactly the valid page-table entries that grant none of
  read, write and execute, whatever the other bits are.\<close>

theorem pte_table_iff:
  "PTE_TABLE pte \<longleftrightarrow> bit pte 0 \<and> \<not> bit pte 1 \<and> \<not> bit pte 2 \<and> \<not> bit pte 3"
proof -
  have m: "PTE ''V'' OR PTE ''R'' OR PTE ''W'' OR PTE ''X'' = (15 :: u64)" "PTE ''V'' = 1"
    by (simp_all add: PTE_def pte_fields_def)
  have low: "pte AND 15 = take_bit 4 pte"
    by (simp add: take_bit_eq_mask mask_numeral)
  have "take_bit 4 pte = 1 \<longleftrightarrow> (\<forall>n < 4. bit pte n = (n = 0))" (is "?l \<longleftrightarrow> ?r")
  proof
    assume eq: ?l
    show ?r
    proof (intro allI impI)
      fix n :: nat
      assume "n < 4"
      then show "bit pte n = (n = 0)"
        using arg_cong [OF eq, of "\<lambda>v. bit v n"] by (simp add: bit_take_bit_iff bit_1_iff)
    qed
  next
    assume ?r
    then show ?l
      by (intro bit_word_eqI) (auto simp: bit_take_bit_iff bit_1_iff)
  qed
  with low have "pte AND 15 = 1 \<longleftrightarrow> (\<forall>n < 4. bit pte n = (n = 0))" by simp
  moreover have "(\<forall>n < 4. bit pte n = (n = 0)) \<longleftrightarrow>
      bit pte 0 \<and> \<not> bit pte 1 \<and> \<not> bit pte 2 \<and> \<not> bit pte 3"
    by (auto simp: numeral_eq_Suc less_Suc_eq)
  ultimately show ?thesis
    unfolding PTE_TABLE_def m(1) unfolding m(2) by blast
qed

end
