(* ===== verification/Dm_Pkg.thy ===== *)
theory Dm_Pkg
  imports Prelude
begin

text \<open>
  The SystemVerilog package \<open>dm\<close> of \<open>src/dm_pkg.sv\<close>: constants, packed structures and the
  helpers that generate RISC-V instructions. A packed structure is a record with the width of every
  field in its type, together with the packing to and from the bus word; an enumeration whose
  values are cast from bus bits is a word with named constants, because the cast can produce
  values without a name.
\<close>

section \<open>Constants\<close>

definition DbgVersion013 :: "4 word" where "DbgVersion013 = 0x2"
definition ProgBufSize :: nat where "ProgBufSize = 8"
definition DataCount :: nat where "DataCount = 2"
definition HaltAddress :: u64 where "HaltAddress = 0x800"
definition ResumeAddress :: u64 where "ResumeAddress = HaltAddress + 8"
definition ExceptionAddress :: u64 where "ExceptionAddress = HaltAddress + 16"
definition DataAddr :: "12 word" where "DataAddr = 0x380"

lemmas dm_constants [run_simps] = DbgVersion013_def ProgBufSize_def DataCount_def HaltAddress_def
  ResumeAddress_def ExceptionAddress_def DataAddr_def

text \<open>The CSR enumeration, by name.\<close>

definition csr_reg_t :: "(string \<times> 12 word) list" where
  "csr_reg_t = [
    (''FFLAGS'', 0x001), (''FRM'', 0x002), (''FCSR'', 0x003), (''FTRAN'', 0x800),
    (''SSTATUS'', 0x100), (''SIE'', 0x104), (''STVEC'', 0x105), (''SCOUNTEREN'', 0x106),
    (''SSCRATCH'', 0x140), (''SEPC'', 0x141), (''SCAUSE'', 0x142), (''STVAL'', 0x143),
    (''SIP'', 0x144), (''SATP'', 0x180), (''MSTATUS'', 0x300), (''MISA'', 0x301),
    (''MEDELEG'', 0x302), (''MIDELEG'', 0x303), (''MIE'', 0x304), (''MTVEC'', 0x305),
    (''MCOUNTEREN'', 0x306), (''MSCRATCH'', 0x340), (''MEPC'', 0x341), (''MCAUSE'', 0x342),
    (''MTVAL'', 0x343), (''MIP'', 0x344), (''PMPCFG0'', 0x3A0), (''PMPADDR0'', 0x3B0),
    (''MVENDORID'', 0xF11), (''MARCHID'', 0xF12), (''MIMPID'', 0xF13), (''MHARTID'', 0xF14),
    (''MCYCLE'', 0xB00), (''MINSTRET'', 0xB02), (''DCACHE'', 0x701), (''ICACHE'', 0x700),
    (''TSELECT'', 0x7A0), (''TDATA1'', 0x7A1), (''TDATA2'', 0x7A2), (''TDATA3'', 0x7A3),
    (''TINFO'', 0x7A4), (''DCSR'', 0x7b0), (''DPC'', 0x7b1), (''DSCRATCH0'', 0x7b2),
    (''DSCRATCH1'', 0x7b3), (''CYCLE'', 0xC00), (''TIME'', 0xC01), (''INSTRET'', 0xC02)]"

definition CSR_DSCRATCH0 :: "12 word" where "CSR_DSCRATCH0 = 0x7b2"
definition CSR_DSCRATCH1 :: "12 word" where "CSR_DSCRATCH1 = 0x7b3"
definition CSR_MHARTID :: "12 word" where "CSR_MHARTID = 0xF14"

section \<open>Instruction generation\<close>

text \<open>Each helper is the concatenation its function returns.\<close>

definition jal :: "5 word \<Rightarrow> 21 word \<Rightarrow> u32" where
  "jal rd imm = cat [(1, fld 20 20 imm), (10, fld 10 1 imm), (1, fld 11 11 imm),
     (8, fld 19 12 imm), (5, ucast rd), (7, 0x6f)]"

definition jalr :: "5 word \<Rightarrow> 5 word \<Rightarrow> 12 word \<Rightarrow> u32" where
  "jalr rd rs1 offset = cat [(12, ucast offset), (5, ucast rs1), (3, 0), (5, ucast rd), (7, 0x67)]"

definition andi :: "5 word \<Rightarrow> 5 word \<Rightarrow> 12 word \<Rightarrow> u32" where
  "andi rd rs1 imm = cat [(12, ucast imm), (5, ucast rs1), (3, 7), (5, ucast rd), (7, 0x13)]"

definition slli :: "5 word \<Rightarrow> 5 word \<Rightarrow> 6 word \<Rightarrow> u32" where
  "slli rd rs1 shamt =
     cat [(6, 0), (6, ucast shamt), (5, ucast rs1), (3, 1), (5, ucast rd), (7, 0x13)]"

definition srli :: "5 word \<Rightarrow> 5 word \<Rightarrow> 6 word \<Rightarrow> u32" where
  "srli rd rs1 shamt =
     cat [(6, 0), (6, ucast shamt), (5, ucast rs1), (3, 5), (5, ucast rd), (7, 0x13)]"

definition load :: "3 word \<Rightarrow> 5 word \<Rightarrow> 5 word \<Rightarrow> 12 word \<Rightarrow> u32" where
  "load sz dest base offset =
     cat [(12, ucast offset), (5, ucast base), (3, ucast sz), (5, ucast dest), (7, 0x03)]"

definition auipc :: "5 word \<Rightarrow> 21 word \<Rightarrow> u32" where
  "auipc rd imm = cat [(1, fld 20 20 imm), (10, fld 10 1 imm), (1, fld 11 11 imm),
     (8, fld 19 12 imm), (5, ucast rd), (7, 0x17)]"

definition store :: "3 word \<Rightarrow> 5 word \<Rightarrow> 5 word \<Rightarrow> 12 word \<Rightarrow> u32" where
  "store sz src base offset = cat [(7, fld 11 5 offset), (5, ucast src), (5, ucast base),
     (3, ucast sz), (5, fld 4 0 offset), (7, 0x23)]"

definition float_load :: "3 word \<Rightarrow> 5 word \<Rightarrow> 5 word \<Rightarrow> 12 word \<Rightarrow> u32" where
  "float_load sz dest base offset =
     cat [(12, ucast offset), (5, ucast base), (3, ucast sz), (5, ucast dest), (7, 0x07)]"

definition float_store :: "3 word \<Rightarrow> 5 word \<Rightarrow> 5 word \<Rightarrow> 12 word \<Rightarrow> u32" where
  "float_store sz src base offset = cat [(7, fld 11 5 offset), (5, ucast src), (5, ucast base),
     (3, ucast sz), (5, fld 4 0 offset), (7, 0x27)]"

definition csrw :: "12 word \<Rightarrow> 5 word \<Rightarrow> u32" where
  "csrw csr rs1 = cat [(12, ucast csr), (5, ucast rs1), (3, 1), (5, 0), (7, 0x73)]"

definition csrr :: "12 word \<Rightarrow> 5 word \<Rightarrow> u32" where
  "csrr csr dest = cat [(12, ucast csr), (5, 0), (3, 2), (5, ucast dest), (7, 0x73)]"

definition branch :: "5 word \<Rightarrow> 5 word \<Rightarrow> 3 word \<Rightarrow> 12 word \<Rightarrow> u32" where
  "branch src2 src1 funct3 offset = cat [(1, fld 11 11 offset), (6, fld 9 4 offset),
     (5, ucast src2), (5, ucast src1), (3, ucast funct3), (4, fld 3 0 offset),
     (1, fld 10 10 offset), (7, 0x63)]"

definition ebreak :: u32 where "ebreak = 0x00100073"
definition wfi :: u32 where "wfi = 0x10500073"
definition nop :: u32 where "nop = 0x00000013"
definition illegal :: u32 where "illegal = 0x00000000"

lemmas generator_defs = jal_def jalr_def andi_def slli_def srli_def load_def auipc_def store_def
  float_load_def float_store_def csrw_def csrr_def branch_def

section \<open>DMI and DTM structures\<close>

definition DTM_NOP :: "2 word" where "DTM_NOP = 0"
definition DTM_READ :: "2 word" where "DTM_READ = 1"
definition DTM_WRITE :: "2 word" where "DTM_WRITE = 2"
definition DTM_SUCCESS :: "2 word" where "DTM_SUCCESS = 0"
definition DTM_ERR :: "2 word" where "DTM_ERR = 2"
definition DTM_BUSY :: "2 word" where "DTM_BUSY = 3"

lemmas dtm_constants [run_simps] = DTM_NOP_def DTM_READ_def DTM_WRITE_def DTM_SUCCESS_def
  DTM_ERR_def DTM_BUSY_def

record dmi_req_t =
  dmi_addr :: "7 word"
  dmi_op :: "2 word"
  dmi_data :: u32

record dmi_resp_t =
  resp_data :: u32
  resp_resp :: "2 word"

record dtmcs_t =
  dtmcs_zero1 :: "14 word"
  dmihardreset :: bool
  dmireset :: bool
  dtmcs_zero0 :: bool
  dtmcs_idle :: "3 word"
  dmistat :: "2 word"
  abits :: "6 word"
  dtmcs_version :: "4 word"

definition pack_dtmcs :: "dtmcs_t \<Rightarrow> u32" where
  "pack_dtmcs d = cat [(14, ucast (dtmcs_zero1 d)), (1, b1 (dmihardreset d)), (1, b1 (dmireset d)),
     (1, b1 (dtmcs_zero0 d)), (3, ucast (dtmcs_idle d)), (2, ucast (dmistat d)),
     (6, ucast (abits d)), (4, ucast (dtmcs_version d))]"

definition unpack_dtmcs :: "u32 \<Rightarrow> dtmcs_t" where
  "unpack_dtmcs w = \<lparr>dtmcs_zero1 = fld 31 18 w, dmihardreset = bit w 17, dmireset = bit w 16,
     dtmcs_zero0 = bit w 15, dtmcs_idle = fld 14 12 w, dmistat = fld 11 10 w, abits = fld 9 4 w,
     dtmcs_version = fld 3 0 w\<rparr>"

lemmas unpack_simps = fld_cat_below fld_cat_top bit_cat_below bit_cat_top take_bit_ucast_self
  ucast_ucast_self bit_b1

lemma unpack_pack_dtmcs: "unpack_dtmcs (pack_dtmcs d) = d"
  by (simp add: pack_dtmcs_def unpack_dtmcs_def unpack_simps)

text \<open>Packing an unpacked word gives the word back, field by field from the low end.\<close>

lemma cat_whole: "cat fs = take_bit LENGTH('a) (w :: 'a::len word) \<Longrightarrow> cat fs = w"
  by simp

lemma cat_fldI:
  assumes "Suc hi = n" and "lo + k = n" and "0 < k" and "cat_width fs = lo"
    and "cat fs = take_bit lo w"
  shows "cat ((k, fld hi lo (w :: 'a::len word)) # fs) = take_bit n w"
  using assms by (intro bit_word_eqI) (auto simp: bit_cat_Cons bit_fld bit_take_bit_iff)

lemma cat_bitI:
  assumes "n = Suc lo" and "lo < LENGTH('a)" and "cat_width fs = lo" and "cat fs = take_bit lo w"
  shows "cat ((1, b1 (bit (w :: 'a::len word) lo)) # fs) = take_bit n w"
  using assms
  by (intro bit_word_eqI) (auto simp: bit_cat_Cons bit_b1 bit_take_bit_iff less_Suc_eq)

lemma cat_nilI: "cat [] = take_bit 0 w"
  by (simp add: cat.simps)

lemmas repack = cat_fldI cat_bitI cat_nilI

lemma pack_unpack_dtmcs: "pack_dtmcs (unpack_dtmcs w) = w"
  unfolding pack_dtmcs_def unpack_dtmcs_def
  by (rule cat_whole, simp add: ucast_fld del: One_nat_def) (intro repack; simp)

end
