(* ===== verification/Riscv.thy ===== *)
theory Riscv
  imports Dm_Pkg
begin

text \<open>
  The RV64 instructions that the debug ROM and the generated abstract commands use: their formats,
  and what they do to a hart. This is the language of \<open>debug_rom/debug_rom.S\<close>. An instruction
  outside this subset is not executed: the run stops with \<open>Stuck\<close>.

  The hart fetches from \<open>code\<close> and loads from \<open>ram\<close>; a store is recorded in \<open>stores\<close> (newest
  last) and leaves \<open>code\<close> and \<open>ram\<close> alone, since the stores the park loop makes go to the
  debug module, which reacts to the access and stores nothing.
\<close>

section \<open>Instruction formats\<close>

datatype instr =
    JAL "5 word" "21 word"
  | JALR "5 word" "5 word" "12 word"
  | BRANCH "3 word" "5 word" "5 word" "13 word"
  | LOAD "3 word" "5 word" "5 word" "12 word"
  | STORE "3 word" "5 word" "5 word" "12 word"
  | FLOAD "3 word" "5 word" "5 word" "12 word"
  | FSTORE "3 word" "5 word" "5 word" "12 word"
  | ADDI "5 word" "5 word" "12 word"
  | ANDI "5 word" "5 word" "12 word"
  | SLLI "5 word" "5 word" "6 word"
  | SRLI "5 word" "5 word" "6 word"
  | ADD "5 word" "5 word" "5 word"
  | AUIPC "5 word" "20 word"
  | CSRRW "5 word" "12 word" "5 word"
  | CSRRS "5 word" "12 word" "5 word"
  | FENCE
  | EBREAK
  | WFI
  | DRET

definition f_rd :: "u32 \<Rightarrow> 5 word" where "f_rd w = fld 11 7 w"
definition f_rs1 :: "u32 \<Rightarrow> 5 word" where "f_rs1 w = fld 19 15 w"
definition f_rs2 :: "u32 \<Rightarrow> 5 word" where "f_rs2 w = fld 24 20 w"
definition f_op :: "u32 \<Rightarrow> 7 word" where "f_op w = fld 6 0 w"
definition f_f3 :: "u32 \<Rightarrow> 3 word" where "f_f3 w = fld 14 12 w"
definition imm_i :: "u32 \<Rightarrow> 12 word" where "imm_i w = fld 31 20 w"

definition imm_s :: "u32 \<Rightarrow> 12 word" where
  "imm_s w = cat [(7, fld 31 25 w), (5, fld 11 7 w)]"

definition imm_b :: "u32 \<Rightarrow> 13 word" where
  "imm_b w = cat [(1, fld 31 31 w), (1, fld 7 7 w), (6, fld 30 25 w), (4, fld 11 8 w), (1, 0)]"

definition imm_j :: "u32 \<Rightarrow> 21 word" where
  "imm_j w = cat [(1, fld 31 31 w), (8, fld 19 12 w), (1, fld 20 20 w), (10, fld 30 21 w), (1, 0)]"

definition disasm :: "u32 \<Rightarrow> instr option" where
  "disasm w =
    (if f_op w = 0x6f then Some (JAL (f_rd w) (imm_j w))
     else if f_op w = 0x67 then
       (if f_f3 w = 0 then Some (JALR (f_rd w) (f_rs1 w) (imm_i w)) else None)
     else if f_op w = 0x63 then Some (BRANCH (f_f3 w) (f_rs2 w) (f_rs1 w) (imm_b w))
     else if f_op w = 0x03 then Some (LOAD (f_f3 w) (f_rd w) (f_rs1 w) (imm_i w))
     else if f_op w = 0x23 then Some (STORE (f_f3 w) (f_rs2 w) (f_rs1 w) (imm_s w))
     else if f_op w = 0x07 then Some (FLOAD (f_f3 w) (f_rd w) (f_rs1 w) (imm_i w))
     else if f_op w = 0x27 then Some (FSTORE (f_f3 w) (f_rs2 w) (f_rs1 w) (imm_s w))
     else if f_op w = 0x13 then
       (if f_f3 w = 0 then Some (ADDI (f_rd w) (f_rs1 w) (imm_i w))
        else if f_f3 w = 7 then Some (ANDI (f_rd w) (f_rs1 w) (imm_i w))
        else if f_f3 w = 1 \<and> fld 31 26 w = (0 :: 6 word)
          then Some (SLLI (f_rd w) (f_rs1 w) (fld 25 20 w))
        else if f_f3 w = 5 \<and> fld 31 26 w = (0 :: 6 word)
          then Some (SRLI (f_rd w) (f_rs1 w) (fld 25 20 w))
        else None)
     else if f_op w = 0x33 then
       (if f_f3 w = 0 \<and> fld 31 25 w = (0 :: 7 word) then Some (ADD (f_rd w) (f_rs1 w) (f_rs2 w))
        else None)
     else if f_op w = 0x17 then Some (AUIPC (f_rd w) (fld 31 12 w))
     else if f_op w = 0x0f then (if f_f3 w = 0 then Some FENCE else None)
     else if f_op w = 0x73 then
       (if w = 0x00100073 then Some EBREAK
        else if w = 0x10500073 then Some WFI
        else if w = 0x7b200073 then Some DRET
        else if f_f3 w = 1 then Some (CSRRW (f_rd w) (imm_i w) (f_rs1 w))
        else if f_f3 w = 2 then Some (CSRRS (f_rd w) (imm_i w) (f_rs1 w))
        else None)
     else None)"

lemmas format_defs = f_rd_def f_rs1_def f_rs2_def f_op_def f_f3_def imm_i_def imm_s_def imm_b_def
  imm_j_def

section \<open>Hart state\<close>

record hart =
  pc :: u64
  gpr :: "5 word \<Rightarrow> u64"
  fpr :: "5 word \<Rightarrow> u64"
  csr :: "12 word \<Rightarrow> u64"
  code :: "u64 \<Rightarrow> u32"
  ram :: "u64 \<Rightarrow> u8"
  stores :: "(u64 \<times> nat \<times> u64) list"

datatype outcome = Running hart | At_Ebreak hart | Returned hart | Stuck

text \<open>Register \<open>x0\<close> reads as zero and ignores writes.\<close>

definition rd_reg :: "hart \<Rightarrow> 5 word \<Rightarrow> u64" where
  "rd_reg h r = (if r = 0 then 0 else gpr h r)"

definition wr_reg :: "5 word \<Rightarrow> u64 \<Rightarrow> hart \<Rightarrow> hart" where
  "wr_reg r v h = (if r = 0 then h else h\<lparr>gpr := (gpr h)(r := v)\<rparr>)"

definition next_pc :: "hart \<Rightarrow> hart" where
  "next_pc h = h\<lparr>pc := pc h + 4\<rparr>"

definition load_bytes :: "hart \<Rightarrow> u64 \<Rightarrow> nat \<Rightarrow> u64" where
  "load_bytes h a n = foldr (\<lambda>i v. push_bit 8 v OR ucast (ram h (a + of_nat i))) [0..<n] 0"

text \<open>The load formats: \<open>lb lh lw ld lbu lhu lwu\<close> by their \<open>funct3\<close>.\<close>

definition load_value :: "hart \<Rightarrow> 3 word \<Rightarrow> u64 \<Rightarrow> u64 option" where
  "load_value h sz a =
    (if sz = 0 then Some (signed_take_bit 7 (load_bytes h a 1))
     else if sz = 1 then Some (signed_take_bit 15 (load_bytes h a 2))
     else if sz = 2 then Some (signed_take_bit 31 (load_bytes h a 4))
     else if sz = 3 then Some (load_bytes h a 8)
     else if sz = 4 then Some (load_bytes h a 1)
     else if sz = 5 then Some (load_bytes h a 2)
     else if sz = 6 then Some (load_bytes h a 4)
     else None)"

definition store_size :: "3 word \<Rightarrow> nat option" where
  "store_size sz = (if sz = 0 then Some 1 else if sz = 1 then Some 2 else if sz = 2 then Some 4
     else if sz = 3 then Some 8 else None)"

definition log_store :: "u64 \<Rightarrow> nat \<Rightarrow> u64 \<Rightarrow> hart \<Rightarrow> hart" where
  "log_store a n v h = h\<lparr>stores := stores h @ [(a, n, take_bit (8 * n) v)]\<rparr>"

definition branch_taken :: "3 word \<Rightarrow> u64 \<Rightarrow> u64 \<Rightarrow> bool option" where
  "branch_taken f a b =
    (if f = 0 then Some (a = b) else if f = 1 then Some (a \<noteq> b)
     else if f = 4 then Some (a <s b) else if f = 5 then Some (b \<le>s a)
     else if f = 6 then Some (a < b) else if f = 7 then Some (b \<le> a) else None)"

section \<open>Execution\<close>

fun exec :: "instr \<Rightarrow> hart \<Rightarrow> outcome" where
  "exec (JAL rd imm) h = Running ((wr_reg rd (pc h + 4) h)\<lparr>pc := pc h + scast imm\<rparr>)"
| "exec (JALR rd rs1 imm) h =
     Running ((wr_reg rd (pc h + 4) h)\<lparr>pc := (rd_reg h rs1 + scast imm) AND NOT 1\<rparr>)"
| "exec (BRANCH f rs2 rs1 imm) h =
     (case branch_taken f (rd_reg h rs1) (rd_reg h rs2) of
        None \<Rightarrow> Stuck
      | Some t \<Rightarrow> Running (if t then h\<lparr>pc := pc h + scast imm\<rparr> else next_pc h))"
| "exec (LOAD f rd rs1 imm) h =
     (case load_value h f (rd_reg h rs1 + scast imm) of
        None \<Rightarrow> Stuck
      | Some v \<Rightarrow> Running (next_pc (wr_reg rd v h)))"
| "exec (STORE f rs2 rs1 imm) h =
     (case store_size f of
        None \<Rightarrow> Stuck
      | Some n \<Rightarrow> Running (next_pc (log_store (rd_reg h rs1 + scast imm) n (rd_reg h rs2) h)))"
| "exec (FLOAD f rd rs1 imm) h =
     (if f = 2 \<or> f = 3
      then Running (next_pc (h\<lparr>fpr := (fpr h)(rd :=
        (if f = 2 then 0xffffffff00000000 OR load_bytes h (rd_reg h rs1 + scast imm) 4
         else load_bytes h (rd_reg h rs1 + scast imm) 8))\<rparr>))
      else Stuck)"
| "exec (FSTORE f rs2 rs1 imm) h =
     (if f = 2 \<or> f = 3
      then Running (next_pc (log_store (rd_reg h rs1 + scast imm) (if f = 2 then 4 else 8)
        (fpr h rs2) h))
      else Stuck)"
| "exec (ADDI rd rs1 imm) h = Running (next_pc (wr_reg rd (rd_reg h rs1 + scast imm) h))"
| "exec (ANDI rd rs1 imm) h = Running (next_pc (wr_reg rd (rd_reg h rs1 AND scast imm) h))"
| "exec (SLLI rd rs1 s) h = Running (next_pc (wr_reg rd (push_bit (unat s) (rd_reg h rs1)) h))"
| "exec (SRLI rd rs1 s) h = Running (next_pc (wr_reg rd (drop_bit (unat s) (rd_reg h rs1)) h))"
| "exec (ADD rd rs1 rs2) h = Running (next_pc (wr_reg rd (rd_reg h rs1 + rd_reg h rs2) h))"
| "exec (AUIPC rd imm) h =
     Running (next_pc (wr_reg rd (pc h + scast (push_bit 12 (ucast imm :: u32))) h))"
| "exec (CSRRW rd c rs1) h =
     Running (next_pc (wr_reg rd (csr h c) (h\<lparr>csr := (csr h)(c := rd_reg h rs1)\<rparr>)))"
| "exec (CSRRS rd c rs1) h =
     Running (next_pc (wr_reg rd (csr h c)
       (if rs1 = 0 then h else h\<lparr>csr := (csr h)(c := csr h c OR rd_reg h rs1)\<rparr>)))"
| "exec FENCE h = Running (next_pc h)"
| "exec EBREAK h = At_Ebreak h"
| "exec WFI h = Stuck"
| "exec DRET h = Returned h"

definition step :: "hart \<Rightarrow> outcome" where
  "step h = (case disasm (code h (pc h)) of None \<Rightarrow> Stuck | Some i \<Rightarrow> exec i h)"

text \<open>\<open>run n\<close> takes at most \<open>n\<close> steps and stops early at \<open>ebreak\<close> and \<open>dret\<close>.\<close>

primrec run :: "nat \<Rightarrow> hart \<Rightarrow> outcome" where
  "run 0 h = Running h"
| "run (Suc n) h = (case step h of Running h' \<Rightarrow> run n h' | r \<Rightarrow> r)"

lemma run_add: "run (m + n) h = (case run m h of Running h' \<Rightarrow> run n h' | r \<Rightarrow> r)"
  by (induction m arbitrary: h) (auto split: outcome.splits)

section \<open>The generators produce the instruction they name\<close>

lemma imm_s_store: "imm_s (store sz rs2 rs1 imm) = imm"
  by (simp add: imm_s_def store_def cat_fields)

lemma imm_s_float_store: "imm_s (float_store sz rs2 rs1 imm) = imm"
  by (simp add: imm_s_def float_store_def cat_fields)

lemma imm_j_jal: "imm_j (jal rd j) = cat [(20, fld 20 1 j), (1, 0)]"
  by (simp add: imm_j_def jal_def cat_fields)

lemma imm_b_branch: "imm_b (branch rs2 rs1 f off) = cat [(12, ucast off), (1, 0)]"
  by (simp add: imm_b_def branch_def cat_fields)

lemma op_fields:
  "f_op (jal rd j) = 0x6f" "f_op (jalr rd rs1 imm) = 0x67" "f_op (andi rd rs1 imm) = 0x13"
  "f_op (slli rd rs1 sh) = 0x13" "f_op (srli rd rs1 sh) = 0x13" "f_op (load sz rd rs1 imm) = 0x03"
  "f_op (store sz rs2 rs1 imm) = 0x23" "f_op (float_load sz rd rs1 imm) = 0x07"
  "f_op (float_store sz rs2 rs1 imm) = 0x27" "f_op (csrw c rs1) = 0x73" "f_op (csrr c rd) = 0x73"
  "f_op (branch rs2 rs1 f off) = 0x63" "f_op (auipc rd j) = 0x17"
  by (simp_all add: f_op_def generator_defs unpack_simps)

lemma f3_fields:
  "f_f3 (jalr rd rs1 imm) = 0" "f_f3 (andi rd rs1 imm) = 7"
  "f_f3 (slli rd rs1 sh) = 1" "f_f3 (srli rd rs1 sh) = 5" "f_f3 (load sz rd rs1 imm) = sz"
  "f_f3 (store sz rs2 rs1 imm) = sz" "f_f3 (float_load sz rd rs1 imm) = sz"
  "f_f3 (float_store sz rs2 rs1 imm) = sz" "f_f3 (csrw c rs1) = 1" "f_f3 (csrr c rd) = 2"
  "f_f3 (branch rs2 rs1 f off) = f"
  by (simp_all add: f_f3_def generator_defs unpack_simps)

lemma rd_fields:
  "f_rd (jal rd j) = rd" "f_rd (jalr rd rs1 imm) = rd" "f_rd (andi rd rs1 imm) = rd"
  "f_rd (slli rd rs1 sh) = rd" "f_rd (srli rd rs1 sh) = rd" "f_rd (load sz rd rs1 imm) = rd"
  "f_rd (float_load sz rd rs1 imm) = rd" "f_rd (csrw c rs1) = 0" "f_rd (csrr c rd) = rd"
  "f_rd (auipc rd j) = rd"
  by (simp_all add: f_rd_def generator_defs unpack_simps)

lemma rs_fields:
  "f_rs1 (jalr rd rs1 imm) = rs1" "f_rs1 (andi rd rs1 imm) = rs1" "f_rs1 (slli rd rs1 sh) = rs1"
  "f_rs1 (srli rd rs1 sh) = rs1" "f_rs1 (load sz rd rs1 imm) = rs1"
  "f_rs1 (store sz rs2 rs1 imm) = rs1" "f_rs1 (float_load sz rd rs1 imm) = rs1"
  "f_rs1 (float_store sz rs2 rs1 imm) = rs1" "f_rs1 (csrw c rs1) = rs1" "f_rs1 (csrr c rd) = 0"
  "f_rs1 (branch rs2 rs1 f off) = rs1"
  "f_rs2 (store sz rs2 rs1 imm) = rs2" "f_rs2 (float_store sz rs2 rs1 imm) = rs2"
  "f_rs2 (branch rs2 rs1 f off) = rs2"
  by (simp_all add: f_rs1_def f_rs2_def generator_defs unpack_simps)

lemma imm_fields:
  "imm_i (jalr rd rs1 imm) = imm" "imm_i (andi rd rs1 imm) = imm"
  "imm_i (load sz rd rs1 imm) = imm" "imm_i (float_load sz rd rs1 imm) = imm"
  "imm_i (csrw imm rs1) = imm" "imm_i (csrr imm rd) = imm"
  "fld 31 26 (slli rd rs1 sh) = (0 :: 6 word)" "fld 31 26 (srli rd rs1 sh) = (0 :: 6 word)"
  "fld 25 20 (slli rd rs1 sh) = sh" "fld 25 20 (srli rd rs1 sh) = sh"
  by (simp_all add: imm_i_def generator_defs unpack_simps)

text \<open>Reading the function field of the two-operand system words separates them from the CSR
  instructions.\<close>

lemma f3_system: "f_f3 0x00100073 = 0" "f_f3 0x10500073 = 0" "f_f3 0x7b200073 = 0"
  by (simp_all add: f_f3_def fld_def)

lemma csr_not_system:
  "csrw c rs1 \<noteq> 0x00100073" "csrw c rs1 \<noteq> 0x10500073" "csrw c rs1 \<noteq> 0x7b200073"
  "csrr c rd \<noteq> 0x00100073" "csrr c rd \<noteq> 0x10500073" "csrr c rd \<noteq> 0x7b200073"
  by (auto dest!: arg_cong [where f = f_f3] simp: f3_system f3_fields)

lemmas generator_fields = op_fields f3_fields rd_fields rs_fields imm_fields csr_not_system
  imm_s_store imm_s_float_store imm_j_jal imm_b_branch

lemma disasm_generators:
  "disasm (jal rd j) = Some (JAL rd (cat [(20, fld 20 1 j), (1, 0)]))"
  "disasm (jalr rd rs1 imm) = Some (JALR rd rs1 imm)"
  "disasm (andi rd rs1 imm) = Some (ANDI rd rs1 imm)"
  "disasm (slli rd rs1 sh) = Some (SLLI rd rs1 sh)"
  "disasm (srli rd rs1 sh) = Some (SRLI rd rs1 sh)"
  "disasm (load sz rd rs1 imm) = Some (LOAD sz rd rs1 imm)"
  "disasm (store sz rs2 rs1 imm) = Some (STORE sz rs2 rs1 imm)"
  "disasm (float_load sz rd rs1 imm) = Some (FLOAD sz rd rs1 imm)"
  "disasm (float_store sz rs2 rs1 imm) = Some (FSTORE sz rs2 rs1 imm)"
  "disasm (csrw c rs1) = Some (CSRRW 0 c rs1)"
  "disasm (csrr c rd) = Some (CSRRS rd c 0)"
  "disasm (branch rs2 rs1 f off) = Some (BRANCH f rs2 rs1 (cat [(12, ucast off), (1, 0)]))"
  by (simp_all add: disasm_def generator_fields)

lemma disasm_constants:
  "disasm ebreak = Some EBREAK" "disasm wfi = Some WFI" "disasm nop = Some (ADDI 0 0 0)"
  "disasm illegal = None"
  by (simp_all add: disasm_def format_defs fld_def ebreak_def wfi_def nop_def illegal_def)

end
