(* ===== verification/Pkg_Encoding.thy ===== *)
theory Pkg_Encoding
  imports Riscv Encoding_Insn Encoding_Csr
begin

text \<open>
  The two places of the repository that know instruction encodings agree: the generators of
  \<open>src/dm_pkg.sv\<close>, which build the abstract commands at run time, and the tables of
  \<open>debug_rom/encoding.h\<close>, with which the debug ROM is assembled.
\<close>

section \<open>The masks of the table as fields\<close>

lemma mask_values:
  "(0x7f :: u32) = mask 7"
  "(0x707f :: u32) = push_bit 12 (mask 3) OR mask 7"
  "(0xfc00707f :: u32) = push_bit 26 (mask 6) OR push_bit 12 (mask 3) OR mask 7"
  by (simp_all add: mask_numeral)

lemma and_opcode: "w AND 0x7f = ucast (f_op w)"
  unfolding mask_values(1) by (intro bit_word_eqI) (auto simp: f_op_def bit_fld bit_simps)

lemma and_funct3: "w AND 0x707f = cat [(3, ucast (f_f3 w)), (5, 0), (7, ucast (f_op w))]"
  unfolding mask_values(2)
  by (intro bit_word_eqI)
    (auto simp: f_op_def f_f3_def bit_fld bit_cat_Cons bit_cat_Nil bit_simps)

lemma and_shift: "w AND 0xfc00707f =
    cat [(6, fld 31 26 w), (11, 0), (3, ucast (f_f3 w)), (5, 0), (7, ucast (f_op w))]"
  unfolding mask_values(3)
  by (intro bit_word_eqI)
    (auto simp: f_op_def f_f3_def bit_fld bit_cat_Cons bit_cat_Nil bit_simps)

lemma opcode_bits: "bit w 0 \<longleftrightarrow> bit (f_op w) 0" "bit w 1 \<longleftrightarrow> bit (f_op w) 1"
  by (simp_all add: f_op_def bit_fld)

text \<open>How a word with a given opcode, or opcode and function field, decodes. The last premise
  says that the opcode ends in \<open>11\<close>, as every 32-bit instruction does.\<close>

definition wide_opcode :: "7 word \<Rightarrow> bool" where
  "wide_opcode p \<longleftrightarrow> bit p 0 \<and> bit p 1"

lemma decode_wide:
  assumes "(n, m, k) \<in> set insn_table" and "w AND k = m" and "wide_opcode (f_op w)"
  shows "decode w = [n]"
  using assms(3) decode_eqI [OF assms(1,2)] unfolding wide_opcode_def opcode_bits by blast

lemma decode_by_opcode:
  assumes "(n, ucast (f_op w), 0x7f) \<in> set insn_table" and "wide_opcode (f_op w)"
  shows "decode w = [n]"
  by (rule decode_wide [OF assms(1) and_opcode assms(2)])

lemma decode_by_funct3:
  assumes "(n, cat [(3, ucast (f_f3 w)), (5, 0), (7, ucast (f_op w))], 0x707f) \<in> set insn_table"
    and "wide_opcode (f_op w)"
  shows "decode w = [n]"
  by (rule decode_wide [OF assms(1) and_funct3 assms(2)])

lemma decode_by_shift:
  assumes "(n, cat [(6, fld 31 26 w), (11, 0), (3, ucast (f_f3 w)), (5, 0), (7, ucast (f_op w))],
      0xfc00707f) \<in> set insn_table"
    and "wide_opcode (f_op w)"
  shows "decode w = [n]"
  by (rule decode_wide [OF assms(1) and_shift assms(2)])

lemma wide_opcodes:
  "wide_opcode 0x6f" "wide_opcode 0x67" "wide_opcode 0x13" "wide_opcode 0x03" "wide_opcode 0x23"
  "wide_opcode 0x07" "wide_opcode 0x27" "wide_opcode 0x73" "wide_opcode 0x63" "wide_opcode 0x17"
  by (simp_all add: wide_opcode_def)

lemma shift_zero:
  "fld 31 26 (slli rd rs1 sh) = (0 :: u32)" "fld 31 26 (srli rd rs1 sh) = (0 :: u32)"
  by (simp_all add: generator_defs unpack_simps)

lemma row_values:
  "cat [(3, 7), (5, 0), (7, 0x13)] = (0x7013 :: u32)"
  "cat [(6, 0), (11, 0), (3, 1), (5, 0), (7, 0x13)] = (0x1013 :: u32)"
  "cat [(6, 0), (11, 0), (3, 5), (5, 0), (7, 0x13)] = (0x5013 :: u32)"
  "cat [(3, 0), (5, 0), (7, 0x67)] = (0x67 :: u32)"
  "cat [(3, 1), (5, 0), (7, 0x73)] = (0x1073 :: u32)"
  "cat [(3, 2), (5, 0), (7, 0x73)] = (0x2073 :: u32)"
  by (simp_all add: cat_simps)

section \<open>The rows in question\<close>

lemma table_rows_in:
  "r \<in> set match_mask_1 \<Longrightarrow> r \<in> set insn_table"
  "r \<in> set match_mask_2 \<Longrightarrow> r \<in> set insn_table"
  "r \<in> set match_mask_3 \<Longrightarrow> r \<in> set insn_table"
  by (simp_all add: insn_table_def)

lemma table_rows_1:
  "(''BEQ'', 0x63, 0x707f) \<in> set insn_table" "(''BNE'', 0x1063, 0x707f) \<in> set insn_table"
  "(''BLT'', 0x4063, 0x707f) \<in> set insn_table" "(''BGE'', 0x5063, 0x707f) \<in> set insn_table"
  "(''BLTU'', 0x6063, 0x707f) \<in> set insn_table" "(''BGEU'', 0x7063, 0x707f) \<in> set insn_table"
  "(''JALR'', 0x67, 0x707f) \<in> set insn_table" "(''JAL'', 0x6f, 0x7f) \<in> set insn_table"
  "(''AUIPC'', 0x17, 0x7f) \<in> set insn_table" "(''ADDI'', 0x13, 0x707f) \<in> set insn_table"
  "(''SLLI'', 0x1013, 0xfc00707f) \<in> set insn_table"
  "(''SRLI'', 0x5013, 0xfc00707f) \<in> set insn_table"
  "(''ANDI'', 0x7013, 0x707f) \<in> set insn_table" "(''LB'', 0x3, 0x707f) \<in> set insn_table"
  "(''LH'', 0x1003, 0x707f) \<in> set insn_table" "(''LW'', 0x2003, 0x707f) \<in> set insn_table"
  "(''LD'', 0x3003, 0x707f) \<in> set insn_table" "(''LBU'', 0x4003, 0x707f) \<in> set insn_table"
  "(''LHU'', 0x5003, 0x707f) \<in> set insn_table" "(''LWU'', 0x6003, 0x707f) \<in> set insn_table"
  "(''SB'', 0x23, 0x707f) \<in> set insn_table" "(''SH'', 0x1023, 0x707f) \<in> set insn_table"
  "(''SW'', 0x2023, 0x707f) \<in> set insn_table" "(''SD'', 0x3023, 0x707f) \<in> set insn_table"
  by (rule table_rows_in(1), unfold match_mask_1_def,
    (rule list.set_intros(1) | rule list.set_intros(2))+)+

lemma table_rows_2:
  "(''EBREAK'', 0x100073, 0xffffffff) \<in> set insn_table"
  "(''WFI'', 0x10500073, 0xffffffff) \<in> set insn_table"
  "(''CSRRW'', 0x1073, 0x707f) \<in> set insn_table" "(''CSRRS'', 0x2073, 0x707f) \<in> set insn_table"
  by (rule table_rows_in(2), unfold match_mask_2_def,
    (rule list.set_intros(1) | rule list.set_intros(2))+)+

lemma table_rows_3:
  "(''FLW'', 0x2007, 0x707f) \<in> set insn_table" "(''FLD'', 0x3007, 0x707f) \<in> set insn_table"
  "(''FSW'', 0x2027, 0x707f) \<in> set insn_table" "(''FSD'', 0x3027, 0x707f) \<in> set insn_table"
  by (rule table_rows_in(3), unfold match_mask_3_def,
    (rule list.set_intros(1) | rule list.set_intros(2))+)+

lemmas table_rows = table_rows_1 table_rows_2 table_rows_3

section \<open>Every generator emits the instruction it is named after\<close>

definition load_names :: "(3 word \<times> string) list" where
  "load_names = [(0, ''LB''), (1, ''LH''), (2, ''LW''), (3, ''LD''), (4, ''LBU''), (5, ''LHU''),
     (6, ''LWU'')]"

definition store_names :: "(3 word \<times> string) list" where
  "store_names = [(0, ''SB''), (1, ''SH''), (2, ''SW''), (3, ''SD'')]"

definition branch_names :: "(3 word \<times> string) list" where
  "branch_names = [(0, ''BEQ''), (1, ''BNE''), (4, ''BLT''), (5, ''BGE''), (6, ''BLTU''),
     (7, ''BGEU'')]"

lemma decode_loads: "list_all (\<lambda>(sz, n). decode (load sz rd rs1 imm) = [n]) load_names"
  by (simp add: load_names_def)
    (intro conjI decode_by_funct3; simp add: generator_fields wide_opcodes cat_simps table_rows)

lemma decode_stores: "list_all (\<lambda>(sz, n). decode (store sz rs2 rs1 imm) = [n]) store_names"
  by (simp add: store_names_def)
    (intro conjI decode_by_funct3; simp add: generator_fields wide_opcodes cat_simps table_rows)

lemma decode_branches: "list_all (\<lambda>(f, n). decode (branch rs2 rs1 f off) = [n]) branch_names"
  by (simp add: branch_names_def)
    (intro conjI decode_by_funct3; simp add: generator_fields wide_opcodes cat_simps table_rows)

lemma decode_floats:
  "decode (float_load 2 rd rs1 imm) = [''FLW'']" "decode (float_load 3 rd rs1 imm) = [''FLD'']"
  "decode (float_store 2 rs2 rs1 imm) = [''FSW'']" "decode (float_store 3 rs2 rs1 imm) = [''FSD'']"
  by (rule decode_by_funct3; simp add: generator_fields wide_opcodes cat_simps table_rows)+

lemma decode_immediates:
  "decode (jalr rd rs1 imm) = [''JALR'']" "decode (andi rd rs1 imm) = [''ANDI'']"
  "decode (csrw c rs1) = [''CSRRW'']" "decode (csrr c rd) = [''CSRRS'']"
  by (rule decode_by_funct3; simp add: generator_fields wide_opcodes row_values table_rows)+

lemma decode_uppers:
  "decode (jal rd j) = [''JAL'']" "decode (auipc rd j) = [''AUIPC'']"
  by (rule decode_by_opcode; simp add: generator_fields wide_opcodes table_rows)+

lemma decode_shifts:
  "decode (slli rd rs1 sh) = [''SLLI'']" "decode (srli rd rs1 sh) = [''SRLI'']"
  by (rule decode_by_shift;
      simp add: generator_fields wide_opcodes shift_zero row_values table_rows)+

lemma decode_constants:
  "decode ebreak = [''EBREAK'']" "decode wfi = [''WFI'']" "decode nop = [''ADDI'']"
  by (rule decode_wide, rule table_rows; 
      simp add: ebreak_def wfi_def nop_def wide_opcode_def f_op_def fld_def)+

text \<open>C33: the generators of the debug module and the encoding tables of the debug ROM agree. Each
  generator of \<open>dm_pkg\<close>, applied to any registers and immediates, yields a word that the tables of
  \<open>encoding.h\<close> decode to exactly the instruction the generator is named after; the loads, stores
  and branches are the ones their size or function argument selects.\<close>

theorem generators_match_encoding:
  "decode (jal rd j) = [''JAL''] \<and> decode (jalr rd rs1 imm) = [''JALR''] \<and>
   decode (andi rd rs1 imm) = [''ANDI''] \<and> decode (slli rd rs1 sh) = [''SLLI''] \<and>
   decode (srli rd rs1 sh) = [''SRLI''] \<and> decode (auipc rd j) = [''AUIPC''] \<and>
   decode (csrw c rs1) = [''CSRRW''] \<and> decode (csrr c rd) = [''CSRRS''] \<and>
   decode ebreak = [''EBREAK''] \<and> decode wfi = [''WFI''] \<and> decode nop = [''ADDI''] \<and>
   list_all (\<lambda>(sz, n). decode (load sz rd rs1 imm) = [n]) load_names \<and>
   list_all (\<lambda>(sz, n). decode (store sz rs2 rs1 imm) = [n]) store_names \<and>
   list_all (\<lambda>(sz, n). decode (float_load sz rd rs1 imm) = [n]) [(2, ''FLW''), (3, ''FLD'')] \<and>
   list_all (\<lambda>(sz, n). decode (float_store sz rs2 rs1 imm) = [n]) [(2, ''FSW''), (3, ''FSD'')] \<and>
   list_all (\<lambda>(f, n). decode (branch rs2 rs1 f off) = [n]) branch_names"
  using decode_loads decode_stores decode_branches
  by (simp add: decode_floats decode_immediates decode_uppers decode_shifts decode_constants)

section \<open>CSR numbers\<close>

definition pkg_only_csrs :: "string list" where
  "pkg_only_csrs = [''FTRAN'', ''DCACHE'', ''ICACHE'', ''TINFO'']"

lemma csr_rows_in:
  "r \<in> set csr_numbers_1 \<Longrightarrow> r \<in> set csr_table"
  "r \<in> set csr_numbers_2 \<Longrightarrow> r \<in> set csr_table"
  by (simp_all add: csr_table_def)

text \<open>The CSR enumeration of \<open>dm_pkg\<close> and the CSR numbers of \<open>encoding.h\<close> agree. Every
  enumerated register except the four implementation-specific ones has a row of the same name and
  number in the header.\<close>

theorem csr_enum_in_header:
  "list_all (\<lambda>r. fst r \<in> set pkg_only_csrs \<or> r \<in> set csr_table) csr_reg_t"
  unfolding csr_reg_t_def list.pred_inject(2)
  by (intro conjI list.pred_inject(1);
      ((rule disjI1, simp add: pkg_only_csrs_def; fail) |
      (rule disjI2, rule csr_rows_in(1), unfold csr_numbers_1_def,
        (rule list.set_intros(1) | rule list.set_intros(2))+; fail) |
      (rule disjI2, rule csr_rows_in(2), unfold csr_numbers_2_def,
        (rule list.set_intros(1) | rule list.set_intros(2))+; fail)))

end
