(* ===== verification/Debug_Rom.thy ===== *)
theory Debug_Rom
  imports Riscv
begin

text \<open>
  The debug ROM: the assembly source \<open>debug_rom/debug_rom.S\<close> in both of its preprocessor variants,
  the packing of \<open>debug_rom/gen_rom.py\<close>, the generated C images \<open>debug_rom.h\<close> and
  \<open>debug_rom_one_scratch.h\<close>, and the generated hardware modules of the same names. The theorems
  tie the four descriptions of the same program together.
\<close>

section \<open>The generated C images\<close>

definition reset_vec :: "u32 list" where
  "reset_vec = [
    0x0180006f, 0x00000013, 0x0840006f, 0x00000013, 0x0500006f, 0x00000013, 0x0ff0000f,
    0x7b241073, 0x7b351073, 0x00000517, 0x00c55513, 0x00c51513, 0xf1402473, 0x10852023,
    0x00a40433, 0x40044403, 0x00147413, 0x02041c63, 0xf1402473, 0x00a40433, 0x40044403,
    0x00247413, 0xfa0418e3, 0xfd5ff06f, 0x00000517, 0x00c55513, 0x00c51513, 0x10052c23,
    0x7b302573, 0x7b202473, 0x00100073, 0x10052423, 0x7b302573, 0x7b202473, 0xa79ff06f,
    0xf1402473, 0x10852823, 0x7b302573, 0x7b202473, 0x7b200073]"

definition reset_vec_size :: nat where "reset_vec_size = 40"

definition one_scratch_vec :: "u32 list" where
  "one_scratch_vec = [
    0x0180006f, 0x00000013, 0x0580006f, 0x00000013, 0x0380006f, 0x00000013, 0x0ff0000f,
    0x7b241073, 0xf1402473, 0x10802023, 0x40044403, 0x00147413, 0x02041263, 0xf1402473,
    0x40044403, 0x00247413, 0xfc0414e3, 0xfddff06f, 0x10002c23, 0x7b202473, 0x00100073,
    0x10002423, 0x7b202473, 0xaa5ff06f, 0xf1402473, 0x10802823, 0x7b202473, 0x7b200073]"

definition one_scratch_vec_size :: nat where "one_scratch_vec_size = 28"

section \<open>The hardware modules\<close>

text \<open>The SystemVerilog concatenation lists the highest index first, hence the \<open>rev\<close>.\<close>

definition debug_rom_mem :: "u64 list" where
  "debug_rom_mem = rev [
    0x7b2000737b202473, 0x7b30257310852823, 0xf1402473a79ff06f, 0x7b2024737b302573,
    0x1005242300100073, 0x7b2024737b302573, 0x10052c2300c51513, 0x00c5551300000517,
    0xfd5ff06ffa0418e3, 0x0024741340044403, 0x00a40433f1402473, 0x02041c6300147413,
    0x4004440300a40433, 0x10852023f1402473, 0x00c5151300c55513, 0x000005177b351073,
    0x7b2410730ff0000f, 0x000000130500006f, 0x000000130840006f, 0x000000130180006f]"

text \<open>The address register and the output multiplexer, which reads zero past the last word.\<close>

definition debug_rom_clk :: "bool \<Rightarrow> u64 \<Rightarrow> 5 word \<Rightarrow> 5 word" where
  "debug_rom_clk req addr addr_q = (if req then fld 7 3 addr else addr_q)"

definition debug_rom_rdata :: "5 word \<Rightarrow> u64" where
  "debug_rom_rdata addr_q = (if addr_q < 20 then debug_rom_mem ! unat addr_q else 0)"

definition one_scratch_mem :: "u64 list" where
  "one_scratch_mem = rev [
    0x7b2000737b202473, 0x10802823f1402473, 0xaa5ff06f7b202473, 0x1000242300100073,
    0x7b20247310002c23, 0xfddff06ffc0414e3, 0x0024741340044403, 0xf140247302041263,
    0x0014741340044403, 0x10802023f1402473, 0x7b2410730ff0000f, 0x000000130380006f,
    0x000000130580006f, 0x000000130180006f]"

definition one_scratch_clk :: "bool \<Rightarrow> u64 \<Rightarrow> 4 word \<Rightarrow> 4 word" where
  "one_scratch_clk req addr addr_q = (if req then fld 6 3 addr else addr_q)"

definition one_scratch_rdata :: "4 word \<Rightarrow> u64" where
  "one_scratch_rdata addr_q = (if addr_q < 14 then one_scratch_mem ! unat addr_q else 0)"

section \<open>The image generator\<close>

text \<open>\<open>read_bin\<close> pads the image to whole 64-bit words; the header gets its 32-bit little-endian
  words, the module its 64-bit words, printed from the last to the first.\<close>

definition read_bin :: "u8 list \<Rightarrow> u8 list" where
  "read_bin img = (let align = (length img + 7) div 8 * 8
     in img @ replicate (align - length img) 0)"

definition header_words :: "u8 list \<Rightarrow> u32 list" where
  "header_words rom = map (\<lambda>i. word_le (take 4 (drop (i * 4) rom))) [0..<length rom div 4]"

definition module_words :: "u8 list \<Rightarrow> u64 list" where
  "module_words rom = map (\<lambda>i. push_bit 32 (word_le (take 4 (drop (i * 8 + 4) rom)))
     OR word_le (take 4 (drop (i * 8) rom))) (rev [0..<length rom div 8])"

section \<open>The assembly source\<close>

text \<open>
  One constructor per instruction form that \<open>debug_rom.S\<close> uses; the jumps and branches name their
  label. \<open>two\<close> is the preprocessor symbol \<open>SND_SCRATCH\<close>. \<open>la\<close> is the place of a label of the
  text section, which the linker script puts at \<open>0x800\<close>; \<open>whereto\<close> is at \<open>0x300\<close>.
\<close>

datatype asm =
    Label string
  | J string
  | Bnez "5 word" string
  | Op u32

definition zero :: "5 word" where "zero = 0"
definition s0 :: "5 word" where "s0 = 8"
definition a0 :: "5 word" where "a0 = 10"

lemmas reg_names = zero_def s0_def a0_def

definition HALTED :: "12 word" where "HALTED = 0x100"
definition GOING :: "12 word" where "GOING = 0x108"
definition RESUMING :: "12 word" where "RESUMING = 0x110"
definition EXCEPTION :: "12 word" where "EXCEPTION = 0x118"
definition FLAGS :: "12 word" where "FLAGS = 0x400"
definition FLAG_GO :: nat where "FLAG_GO = 0"
definition FLAG_RESUME :: nat where "FLAG_RESUME = 1"

lemmas rom_addresses = HALTED_def GOING_def RESUMING_def EXCEPTION_def FLAGS_def FLAG_GO_def
  FLAG_RESUME_def

text \<open>Instructions of the source without a generator in \<open>dm_pkg\<close>.\<close>

definition fence :: u32 where "fence = 0x0ff0000f"
definition dret :: u32 where "dret = 0x7b200073"

definition add_op :: "5 word \<Rightarrow> 5 word \<Rightarrow> 5 word \<Rightarrow> u32" where
  "add_op rd rs1 rs2 = cat [(7, 0), (5, ucast rs2), (5, ucast rs1), (3, 0), (5, ucast rd), (7, 0x33)]"

abbreviation sw :: "5 word \<Rightarrow> 12 word \<Rightarrow> 5 word \<Rightarrow> asm" where
  "sw src off base \<equiv> Op (store 2 src base off)"

abbreviation lbu :: "5 word \<Rightarrow> 12 word \<Rightarrow> 5 word \<Rightarrow> asm" where
  "lbu rd off base \<equiv> Op (load 4 rd base off)"

definition get_base :: "asm list" where
  "get_base = [Op (auipc a0 0), Op (srli a0 a0 12), Op (slli a0 a0 12)]"

definition vectors :: "asm list" where
  "vectors = [Label ''entry'', J ''_entry'', Op nop, Label ''resume'', J ''_resume'', Op nop,
     Label ''exception'', J ''_exception'', Op nop]"

definition entry_code :: "bool \<Rightarrow> asm list" where
  "entry_code two =
     [Label ''_entry'', Op fence, Op (csrw CSR_DSCRATCH0 s0)] @
     (if two then Op (csrw CSR_DSCRATCH1 a0) # get_base else []) @
     [Label ''entry_loop'', Op (csrr CSR_MHARTID s0)] @
     (if two then [sw s0 HALTED a0, Op (add_op s0 s0 a0)] else [sw s0 HALTED zero]) @
     [lbu s0 FLAGS s0, Op (andi s0 s0 (push_bit FLAG_GO 1)), Bnez s0 ''going'',
      Op (csrr CSR_MHARTID s0)] @
     (if two then [Op (add_op s0 s0 a0)] else []) @
     [lbu s0 FLAGS s0, Op (andi s0 s0 (push_bit FLAG_RESUME 1)), Bnez s0 ''resume'',
      J ''entry_loop'']"

definition exception_code :: "bool \<Rightarrow> asm list" where
  "exception_code two =
     Label ''_exception'' #
     (if two then get_base @ [sw zero EXCEPTION a0, Op (csrr CSR_DSCRATCH1 a0)]
      else [sw zero EXCEPTION zero]) @
     [Op (csrr CSR_DSCRATCH0 s0), Op ebreak]"

definition going_code :: "bool \<Rightarrow> asm list" where
  "going_code two =
     Label ''going'' #
     (if two then [sw zero GOING a0, Op (csrr CSR_DSCRATCH1 a0)] else [sw zero GOING zero]) @
     [Op (csrr CSR_DSCRATCH0 s0), J ''whereto'']"

definition resume_code :: "bool \<Rightarrow> asm list" where
  "resume_code two =
     [Label ''_resume'', Op (csrr CSR_MHARTID s0)] @
     (if two then [sw s0 RESUMING a0, Op (csrr CSR_DSCRATCH1 a0)] else [sw s0 RESUMING zero]) @
     [Op (csrr CSR_DSCRATCH0 s0), Op dret]"

definition debug_rom_S :: "bool \<Rightarrow> asm list" where
  "debug_rom_S two =
     vectors @ entry_code two @ exception_code two @ going_code two @ resume_code two"

fun label_at :: "nat \<Rightarrow> asm list \<Rightarrow> string \<Rightarrow> nat option" where
  "label_at a [] l = (if l = ''whereto'' then Some 0x300 else None)"
| "label_at a (Label k # p) l = (if k = l then Some a else label_at a p l)"
| "label_at a (J _ # p) l = label_at (a + 4) p l"
| "label_at a (Bnez _ _ # p) l = label_at (a + 4) p l"
| "label_at a (Op _ # p) l = label_at (a + 4) p l"

fun assemble :: "(string \<Rightarrow> nat option) \<Rightarrow> nat \<Rightarrow> asm list \<Rightarrow> u32 list option" where
  "assemble la a [] = Some []"
| "assemble la a (Label _ # p) = assemble la a p"
| "assemble la a (J l # p) = (case la l of None \<Rightarrow> None
     | Some t \<Rightarrow> map_option ((#) (jal zero (word_of_int (int t - int a)))) (assemble la (a + 4) p))"
| "assemble la a (Bnez r l # p) = (case la l of None \<Rightarrow> None
     | Some t \<Rightarrow> map_option
         ((#) (branch 0 r 1 (word_of_int ((int t - int a) div 2)))) (assemble la (a + 4) p))"
| "assemble la a (Op w # p) = map_option ((#) w) (assemble la (a + 4) p)"

definition rom_program :: "bool \<Rightarrow> u32 list option" where
  "rom_program two = assemble (label_at 0x800 (debug_rom_S two)) 0x800 (debug_rom_S two)"

lemmas source_defs = rom_program_def debug_rom_S_def vectors_def entry_code_def exception_code_def
  going_code_def resume_code_def get_base_def

lemma rom_program_True: "rom_program True = Some reset_vec"
  by (simp add: source_defs reset_vec_def)
    (simp add: generator_defs nop_def ebreak_def fence_def dret_def add_op_def cat_simps fld_def
      reg_names rom_addresses CSR_DSCRATCH0_def CSR_DSCRATCH1_def CSR_MHARTID_def)

lemma rom_program_False: "rom_program False = Some one_scratch_vec"
  by (simp add: source_defs one_scratch_vec_def)
    (simp add: generator_defs nop_def ebreak_def fence_def dret_def add_op_def cat_simps fld_def
      reg_names rom_addresses CSR_DSCRATCH0_def CSR_DSCRATCH1_def CSR_MHARTID_def)

section \<open>The packing\<close>

text \<open>The 64-bit word with the given upper and lower half.\<close>

definition pair64 :: "u32 \<Rightarrow> u32 \<Rightarrow> u64" where
  "pair64 hi lo = push_bit 32 (ucast hi) OR ucast lo"

definition pair_words :: "u32 list \<Rightarrow> u64 list" where
  "pair_words ws = map (\<lambda>i. pair64 (ws ! (2 * i + 1)) (ws ! (2 * i))) [0..<length ws div 2]"

definition word_bytes :: "u32 \<Rightarrow> u8 list" where
  "word_bytes w = map (\<lambda>i. fld (8 * i + 7) (8 * i) w) [0..<4]"

lemma length_read_bin: "length (read_bin img) = (length img + 7) div 8 * 8"
  by (simp add: read_bin_def Let_def)

lemma read_bin_dvd: "8 dvd length (read_bin img)"
  by (simp add: length_read_bin)

lemma length_header_words: "length (header_words rom) = length rom div 4"
  by (simp add: header_words_def)

lemma word_le_ucast:
  assumes "length bs \<le> 4"
  shows "(word_le bs :: u64) = ucast (word_le bs :: u32)"
  by (rule bit_word_eqI) (use assms in \<open>auto simp: bit_word_le bit_simps\<close>)

lemma header_words_nth:
  "i < length rom div 4 \<Longrightarrow> header_words rom ! i = word_le (take 4 (drop (i * 4) rom))"
  by (simp add: header_words_def)

lemma module_words_pair:
  assumes "8 dvd length rom"
  shows "module_words rom = rev (pair_words (header_words rom))"
proof -
  obtain k where k: "length rom = 8 * k" using assms by (rule dvdE)
  have d: "length rom div 4 = 2 * k" "length rom div 8 = k" using k by simp_all
  have "push_bit 32 (word_le (take 4 (drop (i * 8 + 4) rom)))
      OR word_le (take 4 (drop (i * 8) rom))
      = pair64 (header_words rom ! (2 * i + 1)) (header_words rom ! (2 * i))" if "i < k" for i
    using that by (simp add: pair64_def header_words_nth d word_le_ucast algebra_simps)
  then show ?thesis
    by (simp add: module_words_def pair_words_def rev_map length_header_words d cong: map_cong)
qed

lemma word_bytes_word_le:
  assumes "length bs = 4"
  shows "word_bytes (word_le bs) = bs"
proof (rule nth_equalityI)
  show "length (word_bytes (word_le bs)) = length bs" using assms by (simp add: word_bytes_def)
  fix i
  assume "i < length (word_bytes (word_le bs))"
  then have i: "i < 4" by (simp add: word_bytes_def)
  show "word_bytes (word_le bs) ! i = bs ! i"
  proof (rule bit_word_eqI)
    fix n
    assume n: "n < LENGTH(8)"
    then have "(8 * i + n) div 8 = i" "(8 * i + n) mod 8 = n" by simp_all
    with i n assms show "bit (word_bytes (word_le bs) ! i) n = bit (bs ! i) n"
      by (simp add: word_bytes_def bit_fld bit_word_le)
  qed
qed

lemma concat_chunks:
  "concat (map (\<lambda>i. take 4 (drop (i * 4) xs)) [0..<n]) = take (4 * n) xs"
proof (induction n)
  case (Suc n)
  have "take (4 * n + 4) xs = take (4 * n) xs @ take 4 (drop (4 * n) xs)" by (rule take_add)
  with Suc show ?case by (simp add: algebra_simps)
qed simp

lemma header_words_bytes:
  assumes "4 dvd length rom"
  shows "concat (map word_bytes (header_words rom)) = rom"
proof -
  obtain k where k: "length rom = 4 * k" using assms by (rule dvdE)
  have "map word_bytes (header_words rom) = map (\<lambda>i. take 4 (drop (i * 4) rom)) [0..<k]"
    using k by (auto simp: header_words_def word_bytes_word_le)
  then show ?thesis using k by (simp add: concat_chunks)
qed

section \<open>Serving the ROM over the bus\<close>

lemma page_split: "(n :: nat) mod 0x1000 = r \<Longrightarrow> \<exists>q. n = 0x1000 * q + r"
  by (rule exI [of _ "n div 0x1000"]) (rule trans [OF mult_div_mod_eq [symmetric, of _ "0x1000"]], simp)

text \<open>
  What the debug module relies on: after a request for an address whose page offset is
  \<open>0x800 + 8 * i + j\<close>, the module puts out the \<open>i\<close>-th pair of words of its image; without a
  request the output does not change.
\<close>

locale rom_module =
  fixes clk :: "bool \<Rightarrow> u64 \<Rightarrow> 'q \<Rightarrow> 'q" and rdata :: "'q \<Rightarrow> u64" and vec :: "u32 list"
  assumes read: "\<lbrakk>unat a mod 0x1000 = 0x800 + 8 * i + j; j < 8; 2 * i + 1 < length vec\<rbrakk> \<Longrightarrow>
      rdata (clk True a q) = pair64 (vec ! (2 * i + 1)) (vec ! (2 * i))"
    and hold: "clk False a q = q"
    and even_length: "even (length vec)"
begin

text \<open>The 32-bit half that address bit 2 selects is the addressed instruction.\<close>

lemma fetch:
  assumes "unat a mod 0x1000 = 0x800 + 4 * k" and "k < length vec"
  shows "(if bit a 2 then fld 63 32 (rdata (clk True a q)) else fld 31 0 (rdata (clk True a q)))
    = vec ! k"
proof -
  have halves: "(fld 63 32 (pair64 hi lo) :: u32) = hi" "(fld 31 0 (pair64 hi lo) :: u32) = lo" for hi lo
    by (rule bit_word_eqI; auto simp: bit_fld pair64_def bit_simps dest: bit_imp_le_length)+
  have "bit a 2 = odd (unat a div 4)"
    using bit_iff_odd [of "unat a" 2] by (simp add: bit_unsigned_iff)
  also have "\<dots> = odd k"
  proof -
    obtain q where "unat a = 0x1000 * q + (0x800 + 4 * k)" using page_split [OF assms(1)] ..
    then have "unat a div 4 = 0x400 * q + (0x200 + k)" by simp
    then show ?thesis by simp
  qed
  finally have b2: "bit a 2 = odd k" .
  have k: "unat a mod 0x1000 = 0x800 + 8 * (k div 2) + 4 * (k mod 2)"
  proof -
    have "4 * k = 8 * (k div 2) + 4 * (k mod 2)" by presburger
    then show ?thesis using assms(1) by simp
  qed
  have "2 * (k div 2) + 1 < length vec" using assms(2) even_length by presburger
  from read [OF k _ this] have
    "rdata (clk True a q) = pair64 (vec ! (2 * (k div 2) + 1)) (vec ! (2 * (k div 2)))" by simp
  then show ?thesis by (simp add: b2 halves)
qed

end

text \<open>Both modules serve the image of their C header.\<close>

lemma unat_addr:
  "unat (fld 7 3 (a :: u64) :: 5 word) = unat a div 8 mod 32"
  "unat (fld 6 3 (a :: u64) :: 4 word) = unat a div 8 mod 16"
  by (simp_all add: fld_def unsigned_ucast_eq unsigned_take_bit_eq unsigned_drop_bit_eq
      take_bit_eq_mod drop_bit_eq_div unat_mod unat_div)

lemma debug_rom_mem_pairs: "debug_rom_mem = pair_words reset_vec"
  by (simp add: debug_rom_mem_def pair_words_def reset_vec_def pair64_def upt_rec)

lemma one_scratch_mem_pairs: "one_scratch_mem = pair_words one_scratch_vec"
  by (simp add: one_scratch_mem_def pair_words_def one_scratch_vec_def pair64_def upt_rec)

lemma vec_lengths: "length reset_vec = 40" "length one_scratch_vec = 28"
  by (simp_all add: reset_vec_def one_scratch_vec_def)

lemma pair_words_nth:
  assumes "2 * i + 1 < length ws"
  shows "pair_words ws ! i = pair64 (ws ! (2 * i + 1)) (ws ! (2 * i))"
proof -
  have "i < length ws div 2" using assms by linarith
  then show ?thesis by (simp add: pair_words_def)
qed

lemma page_index:
  assumes "(n :: nat) mod 0x1000 = 0x800 + 8 * i + j" and "j < 8"
  shows "n div 8 mod 0x200 = 0x100 + i"
proof -
  obtain q where "n = 0x1000 * q + (0x800 + 8 * i + j)" using page_split [OF assms(1)] ..
  then have "n div 8 = 0x200 * q + (0x100 + i)" using assms(2) by simp
  moreover have "0x800 + 8 * i + j < 0x1000"
    unfolding assms(1) [symmetric] by simp
  ultimately show ?thesis by simp
qed

interpretation two_scratch: rom_module debug_rom_clk debug_rom_rdata reset_vec
proof
  fix a :: u64 and i j :: nat and q
  assume a: "unat a mod 0x1000 = 0x800 + 8 * i + j" "j < 8" "2 * i + 1 < length reset_vec"
  then have i: "i < 20" by (simp add: vec_lengths)
  have "unat a div 8 mod 32 = unat a div 8 mod 0x200 mod 32" by (simp add: mod_mod_cancel)
  also have "\<dots> = (0x100 + i) mod 32" by (simp only: page_index [OF a(1,2)])
  also have "\<dots> = i" using i mod_mult_self1 [of i 8 32] by (simp add: add.commute)
  finally have "unat a div 8 mod 32 = i" .
  then have u: "unat (debug_rom_clk True a q) = i" by (simp add: debug_rom_clk_def unat_addr)
  then show "debug_rom_rdata (debug_rom_clk True a q)
      = pair64 (reset_vec ! (2 * i + 1)) (reset_vec ! (2 * i))"
    using i a(3) by (simp add: debug_rom_rdata_def word_less_nat_alt debug_rom_mem_pairs pair_words_nth)
qed (simp_all add: debug_rom_clk_def vec_lengths)

interpretation one_scratch: rom_module one_scratch_clk one_scratch_rdata one_scratch_vec
proof
  fix a :: u64 and i j :: nat and q
  assume a: "unat a mod 0x1000 = 0x800 + 8 * i + j" "j < 8" "2 * i + 1 < length one_scratch_vec"
  then have i: "i < 14" by (simp add: vec_lengths)
  have "unat a div 8 mod 16 = unat a div 8 mod 0x200 mod 16" by (simp add: mod_mod_cancel)
  also have "\<dots> = (0x100 + i) mod 16" by (simp only: page_index [OF a(1,2)])
  also have "\<dots> = i" using i mod_mult_self1 [of i 16 16] by (simp add: add.commute)
  finally have "unat a div 8 mod 16 = i" .
  then have u: "unat (one_scratch_clk True a q) = i" by (simp add: one_scratch_clk_def unat_addr)
  then show "one_scratch_rdata (one_scratch_clk True a q)
      = pair64 (one_scratch_vec ! (2 * i + 1)) (one_scratch_vec ! (2 * i))"
    using i a(3)
    by (simp add: one_scratch_rdata_def word_less_nat_alt one_scratch_mem_pairs pair_words_nth)
qed (simp_all add: one_scratch_clk_def vec_lengths)

section \<open>Properties of the ROM\<close>

text \<open>C29: the four descriptions of the debug ROM are the same program. Assembling \<open>debug_rom.S\<close>
  with and without the second scratch register gives the two C images, which have the announced
  sizes, and the memories of the two hardware modules hold their words in pairs.\<close>

theorem rom_images_agree:
  "rom_program True = Some reset_vec \<and> length reset_vec = reset_vec_size \<and>
   rom_program False = Some one_scratch_vec \<and> length one_scratch_vec = one_scratch_vec_size \<and>
   debug_rom_mem = pair_words reset_vec \<and> one_scratch_mem = pair_words one_scratch_vec"
  by (simp add: rom_program_True rom_program_False vec_lengths reset_vec_size_def
      one_scratch_vec_size_def debug_rom_mem_pairs one_scratch_mem_pairs)

text \<open>C32: \<open>gen_rom.py\<close> loses nothing and writes the same program to both of its outputs. The bytes
  of the words of the C header are the padded image, less than eight zero bytes are appended, and
  the words of the hardware module are the pairs of the words of the header, last pair first.\<close>

theorem gen_rom_roundtrip:
  "concat (map word_bytes (header_words (read_bin img))) = read_bin img \<and>
   (\<exists>k < 8. read_bin img = img @ replicate k 0) \<and>
   module_words (read_bin img) = rev (pair_words (header_words (read_bin img)))"
proof (intro conjI)
  show "concat (map word_bytes (header_words (read_bin img))) = read_bin img"
    by (rule header_words_bytes, rule dvd_trans [OF _ read_bin_dvd]) simp
  have "(length img + 7) div 8 * 8 - length img < 8" by presburger
  then show "\<exists>k < 8. read_bin img = img @ replicate k 0"
    unfolding read_bin_def Let_def by blast
qed (simp add: module_words_pair read_bin_dvd)

text \<open>Fetching an instruction from the ROM through the data word the hardware module returns
  gives the instruction of the C image: after a request for page offset \<open>0x800 + 4 * k\<close>, the half
  of the output that address bit 2 selects is word \<open>k\<close> of \<open>reset_vec\<close>, in whatever page the debug
  module lives.\<close>

theorem rom_fetch_instruction:
  assumes "unat a mod 0x1000 = 0x800 + 4 * k" and "k < length reset_vec"
  shows "(if bit a 2 then fld 63 32 (debug_rom_rdata (debug_rom_clk True a q))
      else fld 31 0 (debug_rom_rdata (debug_rom_clk True a q))) = reset_vec ! k"
  by (rule two_scratch.fetch [OF assms])

theorem rom_fetch_instruction_witness:
  "(if bit (0x1A110874 :: u64) 2 then fld 63 32 (debug_rom_rdata (debug_rom_clk True 0x1A110874 0))
      else fld 31 0 (debug_rom_rdata (debug_rom_clk True 0x1A110874 0))) = (0x7b202473 :: u32)"
  using rom_fetch_instruction [of "0x1A110874" 29 0] by (simp add: reset_vec_def)

end
