(* ===== verification/Park_Loop.thy ===== *)
theory Park_Loop
  imports Debug_Rom
begin

text \<open>
  What a hart does in the debug ROM. The hart of \<open>Riscv\<close> runs the words of the ROM from the page
  of the debug module; the flag bytes it polls are its \<open>ram\<close>, the accesses the debug module reacts
  to are its \<open>stores\<close>.
\<close>

section \<open>Disassembly\<close>

definition rom_instrs :: "instr list" where
  "rom_instrs = [
    JAL 0 0x18, ADDI 0 0 0, JAL 0 0x84, ADDI 0 0 0, JAL 0 0x50, ADDI 0 0 0,
    FENCE, CSRRW 0 CSR_DSCRATCH0 8, CSRRW 0 CSR_DSCRATCH1 10,
    AUIPC 10 0, SRLI 10 10 12, SLLI 10 10 12,
    CSRRS 8 CSR_MHARTID 0, STORE 2 8 10 HALTED, ADD 8 8 10, LOAD 4 8 8 FLAGS,
    ANDI 8 8 1, BRANCH 1 0 8 0x38, CSRRS 8 CSR_MHARTID 0, ADD 8 8 10, LOAD 4 8 8 FLAGS,
    ANDI 8 8 2, BRANCH 1 0 8 (- 80), JAL 0 (- 44),
    AUIPC 10 0, SRLI 10 10 12, SLLI 10 10 12, STORE 2 0 10 EXCEPTION,
    CSRRS 10 CSR_DSCRATCH1 0, CSRRS 8 CSR_DSCRATCH0 0, EBREAK,
    STORE 2 0 10 GOING, CSRRS 10 CSR_DSCRATCH1 0, CSRRS 8 CSR_DSCRATCH0 0, JAL 0 (- 1416),
    CSRRS 8 CSR_MHARTID 0, STORE 2 8 10 RESUMING, CSRRS 10 CSR_DSCRATCH1 0,
    CSRRS 8 CSR_DSCRATCH0 0, DRET]"

definition one_scratch_instrs :: "instr list" where
  "one_scratch_instrs = [
    JAL 0 0x18, ADDI 0 0 0, JAL 0 0x58, ADDI 0 0 0, JAL 0 0x38, ADDI 0 0 0,
    FENCE, CSRRW 0 CSR_DSCRATCH0 8,
    CSRRS 8 CSR_MHARTID 0, STORE 2 8 0 HALTED, LOAD 4 8 8 FLAGS,
    ANDI 8 8 1, BRANCH 1 0 8 0x24, CSRRS 8 CSR_MHARTID 0, LOAD 4 8 8 FLAGS,
    ANDI 8 8 2, BRANCH 1 0 8 (- 56), JAL 0 (- 36),
    STORE 2 0 0 EXCEPTION, CSRRS 8 CSR_DSCRATCH0 0, EBREAK,
    STORE 2 0 0 GOING, CSRRS 8 CSR_DSCRATCH0 0, JAL 0 (- 1372),
    CSRRS 8 CSR_MHARTID 0, STORE 2 8 0 RESUMING, CSRRS 8 CSR_DSCRATCH0 0, DRET]"

lemmas csr_names = CSR_DSCRATCH0_def CSR_DSCRATCH1_def CSR_MHARTID_def

lemma disasm_rom: "map disasm reset_vec = map Some rom_instrs"
  by (simp add: reset_vec_def rom_instrs_def disasm_def format_defs fld_def cat_simps csr_names
      rom_addresses)

lemma disasm_one_scratch: "map disasm one_scratch_vec = map Some one_scratch_instrs"
  by (simp add: one_scratch_vec_def one_scratch_instrs_def disasm_def format_defs fld_def cat_simps
      csr_names rom_addresses)

section \<open>Running from the ROM\<close>

definition rom_at :: "u32 list \<Rightarrow> u64 \<Rightarrow> hart \<Rightarrow> bool" where
  "rom_at vec base h \<longleftrightarrow> take_bit 12 base = 0 \<and>
     list_all (\<lambda>k. code h (base + 0x800 + 4 * of_nat k) = vec ! k) [0..<length vec]"

lemma rom_at_cong: "code h' = code h \<Longrightarrow> rom_at vec base h' = rom_at vec base h"
  by (simp add: rom_at_def)

lemma step_rom_gen:
  assumes "map disasm vec = map Some is" and "rom_at vec base h" and "code h' = code h"
    and "unat (pc h' - base) = 0x800 + 4 * k" and "k < length vec"
  shows "step h' = exec (is ! k) h'"
proof -
  have "pc h' - base = of_nat (0x800 + 4 * k)" using arg_cong [OF assms(4), of "of_nat :: nat \<Rightarrow> u64"] by simp
  then have "pc h' = base + (0x800 + 4 * of_nat k)" by (simp add: algebra_simps)
  with assms(2,3,5) have "code h' (pc h') = vec ! k"
    by (simp add: rom_at_def list_all_iff add.assoc)
  moreover have "disasm (vec ! k) = Some (is ! k)"
    using assms(1,5) by (metis length_map nth_map)
  ultimately show ?thesis by (simp add: step_def)
qed

text \<open>The step rules in the form the simplifier uses: the offset of the program counter in the
  page is computed, then the instruction is looked up.\<close>

lemma step_rom:
  assumes "rom_at reset_vec base h" and "code h' = code h"
    and "pc h' - base = off" and "0x800 \<le> unat off" and "unat off mod 4 = 0" and "unat off < 0x8A0"
  shows "step h' = exec (rom_instrs ! ((unat off - 0x800) div 4)) h'"
  by (rule step_rom_gen [OF disasm_rom assms(1,2)]) (use assms(3-6) in \<open>simp_all add: vec_lengths\<close>, presburger?)

lemma step_one_scratch:
  assumes "rom_at one_scratch_vec base h" and "code h' = code h"
    and "pc h' - base = off" and "0x800 \<le> unat off" and "unat off mod 4 = 0" and "unat off < 0x870"
  shows "step h' = exec (one_scratch_instrs ! ((unat off - 0x800) div 4)) h'"
  by (rule step_rom_gen [OF disasm_one_scratch assms(1,2)]) (use assms(3-6) in \<open>simp_all add: vec_lengths\<close>, presburger?)

lemma run_numeral:
  "run (numeral n) h = (case step h of Running h' \<Rightarrow> run (pred_numeral n) h' | r \<Rightarrow> r)"
  by (simp add: numeral_eq_Suc)

lemma page_clear:
  assumes "take_bit 12 (base :: u64) = 0" and "unat c < 0x1000"
  shows "push_bit 12 (drop_bit 12 (base + c)) = base"
proof -
  have c: "take_bit 12 c = c"
    by (rule unsigned_word_eqI [where ?'a = nat]) (use assms(2) in \<open>simp add: unsigned_take_bit_eq take_bit_nat_eq_self\<close>)
  have "base AND c = 0"
  proof (rule bit_word_eqI)
    fix n
    show "bit (base AND c) n = bit (0 :: u64) n"
      using arg_cong [OF assms(1), of "\<lambda>w. bit w n"] arg_cong [OF c, of "\<lambda>w. bit w n"]
      by (auto simp: bit_simps)
  qed
  then have s: "base + c = base OR c" by (simp add: disjunctive_add_eq_or)
  show ?thesis
  proof (rule bit_word_eqI)
    fix n
    assume n: "n < LENGTH(64)"
    show "bit (push_bit 12 (drop_bit 12 (base + c))) n = bit base n"
      using n arg_cong [OF assms(1), of "\<lambda>w. bit w n"] arg_cong [OF c, of "\<lambda>w. bit w n"]
      by (auto simp: s bit_simps)
  qed
qed

lemma flag_tests:
  "ucast (b :: u8) AND 1 = (0 :: u64) \<longleftrightarrow> \<not> bit b 0"
  "ucast (b :: u8) AND 2 = (0 :: u64) \<longleftrightarrow> \<not> bit b 1"
  using bit_iff_and_push_bit_not_eq_0 [of "ucast b :: u64" 0]
    bit_iff_and_push_bit_not_eq_0 [of "ucast b :: u64" 1]
  by (simp_all add: bit_ucast_word)

lemma flag_clear: "\<not> bit (b :: u8) (Suc 0) \<Longrightarrow> ucast b AND 2 = (0 :: u64)"
  by (simp add: flag_tests)

lemma load_byte: "load_value h 4 a = Some (ucast (ram h a))"
  by (simp add: load_value_def load_bytes_def)


section \<open>The four ways through the two-scratch ROM\<close>

text \<open>The flag byte the hart polls, and what it tells the debug module.\<close>

definition flags :: "hart \<Rightarrow> u64 \<Rightarrow> u8" where
  "flags h base = ram h (csr h CSR_MHARTID + base + ucast FLAGS)"

definition signal :: "u64 \<Rightarrow> 12 word \<Rightarrow> u64 \<Rightarrow> u64 \<times> nat \<times> u64" where
  "signal base a v = (base + ucast a, 4, take_bit 32 v)"

text \<open>The state of a hart whose working registers are saved.\<close>

definition saved :: "hart \<Rightarrow> hart" where
  "saved h = h\<lparr>csr := (csr h)(CSR_DSCRATCH0 := gpr h 8, CSR_DSCRATCH1 := gpr h 10)\<rparr>"

lemmas park_simps = run_numeral rom_instrs_def one_scratch_instrs_def next_pc_def
  wr_reg_def rd_reg_def add.assoc load_byte flag_tests branch_taken_def store_size_def log_store_def
  flags_def signal_def rom_addresses csr_names

lemma enter:
  assumes "rom_at reset_vec base h" and "pc h = base + 0x800"
  shows "run 7 h = Running ((saved h)\<lparr>pc := base + 0x830, gpr := (gpr h)(10 := base)\<rparr>)"
proof -
  have b: "take_bit 12 base = 0" using assms(1) by (simp add: rom_at_def)
  show ?thesis
    using assms(2) by (simp add: step_rom [OF assms(1)] page_clear [OF b] saved_def park_simps)
qed

lemma poll_idle:
  assumes "rom_at reset_vec base h" and "pc h = base + 0x830" and "gpr h 10 = base"
    and "\<not> bit (flags h base) 0" and "\<not> bit (flags h base) 1"
  shows "run 12 h = Running (h\<lparr>gpr := (gpr h)(8 := 0),
    stores := stores h @ [signal base HALTED (csr h CSR_MHARTID)]\<rparr>)"
  using assms(2-5) by (simp add: step_rom [OF assms(1)] park_simps flag_clear)

lemma poll_go:
  assumes "rom_at reset_vec base h" and "pc h = base + 0x830" and "gpr h 10 = base"
    and "bit (flags h base) 0"
  shows "run 10 h = Running (h\<lparr>pc := base + 0x300,
    gpr := (gpr h)(10 := csr h CSR_DSCRATCH1, 8 := csr h CSR_DSCRATCH0),
    stores := stores h @ [signal base HALTED (csr h CSR_MHARTID), signal base GOING 0]\<rparr>)"
  using assms(2-4) by (simp add: step_rom [OF assms(1)] park_simps)

lemma poll_resume:
  assumes "rom_at reset_vec base h" and "pc h = base + 0x830" and "gpr h 10 = base"
    and "\<not> bit (flags h base) 0" and "bit (flags h base) 1"
  shows "run 17 h = Returned (h\<lparr>pc := base + 0x89c,
    gpr := (gpr h)(10 := csr h CSR_DSCRATCH1, 8 := csr h CSR_DSCRATCH0),
    stores := stores h @ [signal base HALTED (csr h CSR_MHARTID),
      signal base RESUMING (csr h CSR_MHARTID)]\<rparr>)"
  using assms(2-5) by (simp add: step_rom [OF assms(1)] park_simps)

lemma handle_exception:
  assumes "rom_at reset_vec base h" and "pc h = base + 0x810"
  shows "run 8 h = At_Ebreak (h\<lparr>pc := base + 0x878,
    gpr := (gpr h)(10 := csr h CSR_DSCRATCH1, 8 := csr h CSR_DSCRATCH0),
    stores := stores h @ [signal base EXCEPTION 0]\<rparr>)"
proof -
  have b: "take_bit 12 base = 0" using assms(1) by (simp add: rom_at_def)
  show ?thesis using assms(2) by (simp add: step_rom [OF assms(1)] page_clear [OF b] park_simps)
qed


section \<open>The one-scratch ROM\<close>

text \<open>It lives in the page at address zero, needs no base register and leaves \<open>a0\<close> alone.\<close>

definition saved1 :: "hart \<Rightarrow> hart" where
  "saved1 h = h\<lparr>csr := (csr h)(CSR_DSCRATCH0 := gpr h 8)\<rparr>"

lemma one_enter:
  assumes "rom_at one_scratch_vec 0 h" and "pc h = 0x800"
  shows "run 3 h = Running ((saved1 h)\<lparr>pc := 0x820\<rparr>)"
  using assms(2) by (simp add: step_one_scratch [OF assms(1)] saved1_def park_simps)

lemma one_poll_idle:
  assumes "rom_at one_scratch_vec 0 h" and "pc h = 0x820"
    and "\<not> bit (flags h 0) 0" and "\<not> bit (flags h 0) 1"
  shows "run 10 h = Running (h\<lparr>gpr := (gpr h)(8 := 0),
    stores := stores h @ [signal 0 HALTED (csr h CSR_MHARTID)]\<rparr>)"
  using assms(2-4) by (simp add: step_one_scratch [OF assms(1)] park_simps flag_clear)

lemma one_poll_go:
  assumes "rom_at one_scratch_vec 0 h" and "pc h = 0x820" and "bit (flags h 0) 0"
  shows "run 8 h = Running (h\<lparr>pc := 0x300, gpr := (gpr h)(8 := csr h CSR_DSCRATCH0),
    stores := stores h @ [signal 0 HALTED (csr h CSR_MHARTID), signal 0 GOING 0]\<rparr>)"
  using assms(2-3) by (simp add: step_one_scratch [OF assms(1)] park_simps)

lemma one_poll_resume:
  assumes "rom_at one_scratch_vec 0 h" and "pc h = 0x820"
    and "\<not> bit (flags h 0) 0" and "bit (flags h 0) 1"
  shows "run 14 h = Returned (h\<lparr>pc := 0x86c, gpr := (gpr h)(8 := csr h CSR_DSCRATCH0),
    stores := stores h @ [signal 0 HALTED (csr h CSR_MHARTID),
      signal 0 RESUMING (csr h CSR_MHARTID)]\<rparr>)"
  using assms(2-4) by (simp add: step_one_scratch [OF assms(1)] park_simps)

lemma one_exception:
  assumes "rom_at one_scratch_vec 0 h" and "pc h = 0x810"
  shows "run 4 h = At_Ebreak (h\<lparr>pc := 0x850, gpr := (gpr h)(8 := csr h CSR_DSCRATCH0),
    stores := stores h @ [signal 0 EXCEPTION 0]\<rparr>)"
  using assms(2) by (simp add: step_one_scratch [OF assms(1)] park_simps)

section \<open>The contract of a park loop\<close>

text \<open>
  Both ROMs keep the same promise to the debug module and to the halted program. \<open>waits h0 h\<close> says
  that \<open>h\<close> is at the head of the polling loop on behalf of the program state \<open>h0\<close>. Between two
  polls the debug module may change the flag bytes, that is, the \<open>ram\<close> of the hart.
\<close>

definition reach :: "hart \<Rightarrow> hart \<Rightarrow> bool" where
  "reach h h' \<longleftrightarrow> (\<exists>n. run n h = Running h')"

lemma reach_trans: "reach h1 h2 \<Longrightarrow> reach h2 h3 \<Longrightarrow> reach h1 h3"
  unfolding reach_def
proof (elim exE)
  fix m n
  assume "run m h1 = Running h2" and "run n h2 = Running h3"
  then show "\<exists>k. run k h1 = Running h3"
    by (intro exI [of _ "m + n"]) (simp add: run_add)
qed

inductive polls :: "hart \<Rightarrow> (u64 \<Rightarrow> u8) list \<Rightarrow> hart \<Rightarrow> bool" where
  Done: "polls h [] h"
| Poll: "reach (h\<lparr>ram := r\<rparr>) h1 \<Longrightarrow> polls h1 rs h' \<Longrightarrow> polls h (r # rs) h'"

definition flag_of :: "u64 \<Rightarrow> hart \<Rightarrow> (u64 \<Rightarrow> u8) \<Rightarrow> u8" where
  "flag_of base h r = r (csr h CSR_MHARTID + base + ucast FLAGS)"

lemma flags_flag_of: "flags h base = flag_of base h (ram h)"
  by (simp add: flags_def flag_of_def)

definition idle_flag :: "u64 \<Rightarrow> hart \<Rightarrow> (u64 \<Rightarrow> u8) \<Rightarrow> bool" where
  "idle_flag base h r \<longleftrightarrow> \<not> bit (flag_of base h r) 0 \<and> \<not> bit (flag_of base h r) 1"

abbreviation halted_signal :: "u64 \<Rightarrow> hart \<Rightarrow> u64 \<times> nat \<times> u64" where
  "halted_signal base h \<equiv> signal base HALTED (csr h CSR_MHARTID)"

text \<open>The registers of the program, but for the scratch CSRs of the debugger.\<close>

definition kept :: "12 word set \<Rightarrow> hart \<Rightarrow> hart \<Rightarrow> bool" where
  "kept scratch h h' \<longleftrightarrow> gpr h' = gpr h \<and> fpr h' = fpr h \<and> (\<forall>c. c \<in> scratch \<or> csr h' c = csr h c)"

locale park_loop =
  fixes base :: u64 and scratch :: "12 word set" and here :: "hart \<Rightarrow> bool" and waits :: "hart \<Rightarrow> hart \<Rightarrow> bool"
  assumes enter_law: "\<lbrakk>here h; pc h = base + 0x800\<rbrakk> \<Longrightarrow>
      \<exists>h'. reach h h' \<and> waits h h' \<and> stores h' = stores h"
    and idle_law: "\<lbrakk>waits h0 h; idle_flag base h (ram h)\<rbrakk> \<Longrightarrow>
      \<exists>h'. reach h h' \<and> waits h0 h' \<and> stores h' = stores h @ [halted_signal base h0]"
    and go_law: "\<lbrakk>waits h0 h; bit (flag_of base h (ram h)) 0\<rbrakk> \<Longrightarrow>
      \<exists>h'. reach h h' \<and> pc h' = base + 0x300 \<and> kept scratch h0 h' \<and> ram h' = ram h \<and>
        stores h' = stores h @ [halted_signal base h0, signal base GOING 0]"
    and resume_law: "\<lbrakk>waits h0 h; \<not> bit (flag_of base h (ram h)) 0; bit (flag_of base h (ram h)) 1\<rbrakk> \<Longrightarrow>
      \<exists>n h'. run n h = Returned h' \<and> gpr h' = gpr h0 \<and>
        stores h' = stores h @ [halted_signal base h0, signal base RESUMING (csr h0 CSR_MHARTID)]"
    and frame_law: "waits h0 h \<Longrightarrow> waits h0 (h\<lparr>ram := r\<rparr>)"
    and hartid_law: "waits h0 h \<Longrightarrow> csr h CSR_MHARTID = csr h0 CSR_MHARTID"
begin

lemma flag_of_waits: "waits h0 h \<Longrightarrow> flag_of base h r = flag_of base h0 r"
  by (simp add: flag_of_def hartid_law)

lemma idle_polls:
  assumes "waits h0 h" and "list_all (idle_flag base h0) rs"
  shows "\<exists>h'. polls h rs h' \<and> waits h0 h' \<and>
    stores h' = stores h @ replicate (length rs) (halted_signal base h0)"
  using assms
proof (induction rs arbitrary: h)
  case Nil
  then show ?case by (auto intro: polls.Done)
next
  case (Cons r rs)
  have w: "waits h0 (h\<lparr>ram := r\<rparr>)" using Cons.prems(1) by (rule frame_law)
  have "idle_flag base (h\<lparr>ram := r\<rparr>) (ram (h\<lparr>ram := r\<rparr>))"
    using Cons.prems(2) flag_of_waits [OF w] by (simp add: idle_flag_def)
  from idle_law [OF w this] obtain h1 where h1: "reach (h\<lparr>ram := r\<rparr>) h1" "waits h0 h1"
    "stores h1 = stores h @ [halted_signal base h0]" by auto
  from Cons.IH [OF h1(2)] Cons.prems(2) obtain h' where "polls h1 rs h'" "waits h0 h'"
    "stores h' = stores h1 @ replicate (length rs) (halted_signal base h0)" by auto
  with h1 show ?case by (auto intro: polls.Poll)
qed

text \<open>However often the hart polls before the debug module sets its flag, the program's registers
  are back when it leaves the loop.\<close>

lemma wait_then_go:
  assumes "here h" and "pc h = base + 0x800" and "list_all (idle_flag base h) rs"
    and "bit (flag_of base h r) 0"
  shows "\<exists>h1 h2 h3. reach h h1 \<and> polls h1 rs h2 \<and> reach (h2\<lparr>ram := r\<rparr>) h3 \<and>
    pc h3 = base + 0x300 \<and> kept scratch h h3 \<and> ram h3 = r \<and>
    stores h3 = stores h @ replicate (Suc (length rs)) (halted_signal base h) @ [signal base GOING 0]"
proof -
  obtain h1 where h1: "reach h h1" "waits h h1" "stores h1 = stores h"
    using enter_law [OF assms(1,2)] by blast
  obtain h2 where h2: "polls h1 rs h2" "waits h h2"
    "stores h2 = stores h1 @ replicate (length rs) (halted_signal base h)"
    using idle_polls [OF h1(2) assms(3)] by blast
  have w: "waits h (h2\<lparr>ram := r\<rparr>)" using h2(2) by (rule frame_law)
  obtain h3 where "reach (h2\<lparr>ram := r\<rparr>) h3" "pc h3 = base + 0x300" "kept scratch h h3" "ram h3 = r"
    "stores h3 = stores h2 @ [halted_signal base h, signal base GOING 0]"
    using go_law [OF w] assms(4) flag_of_waits [OF w] by auto
  with h1 h2 show ?thesis
    by (intro exI [of _ h1] exI [of _ h2] exI [of _ h3]) (simp add: replicate_append_same [symmetric])
qed

lemma wait_then_resume:
  assumes "here h" and "pc h = base + 0x800" and "list_all (idle_flag base h) rs"
    and "\<not> bit (flag_of base h r) 0" and "bit (flag_of base h r) 1"
  shows "\<exists>h1 h2 n h3. reach h h1 \<and> polls h1 rs h2 \<and> run n (h2\<lparr>ram := r\<rparr>) = Returned h3 \<and>
    gpr h3 = gpr h \<and>
    stores h3 = stores h @ replicate (Suc (length rs)) (halted_signal base h)
      @ [signal base RESUMING (csr h CSR_MHARTID)]"
proof -
  obtain h1 where h1: "reach h h1" "waits h h1" "stores h1 = stores h"
    using enter_law [OF assms(1,2)] by blast
  obtain h2 where h2: "polls h1 rs h2" "waits h h2"
    "stores h2 = stores h1 @ replicate (length rs) (halted_signal base h)"
    using idle_polls [OF h1(2) assms(3)] by blast
  have w: "waits h (h2\<lparr>ram := r\<rparr>)" using h2(2) by (rule frame_law)
  obtain n h3 where "run n (h2\<lparr>ram := r\<rparr>) = Returned h3" "gpr h3 = gpr h"
    "stores h3 = stores h2 @ [halted_signal base h, signal base RESUMING (csr h CSR_MHARTID)]"
    using resume_law [OF w] assms(4,5) flag_of_waits [OF w] by auto
  with h1 h2 show ?thesis
    by (intro exI [of _ h1] exI [of _ h2] exI [of _ n] exI [of _ h3])
      (simp add: replicate_append_same [symmetric])
qed

end

section \<open>Both ROMs keep the contract\<close>

definition waits_two :: "u64 \<Rightarrow> hart \<Rightarrow> hart \<Rightarrow> bool" where
  "waits_two base h0 h \<longleftrightarrow> rom_at reset_vec base h \<and> pc h = base + 0x830 \<and>
     gpr h = (gpr h0)(8 := gpr h 8, 10 := base) \<and> fpr h = fpr h0 \<and> csr h = csr (saved h0)"

definition waits_one :: "hart \<Rightarrow> hart \<Rightarrow> bool" where
  "waits_one h0 h \<longleftrightarrow> rom_at one_scratch_vec 0 h \<and> pc h = 0x820 \<and>
     gpr h = (gpr h0)(8 := gpr h 8) \<and> fpr h = fpr h0 \<and> csr h = csr (saved1 h0)"

lemma saved_csrs:
  "csr (saved h) CSR_MHARTID = csr h CSR_MHARTID" "csr (saved h) CSR_DSCRATCH0 = gpr h 8"
  "csr (saved h) CSR_DSCRATCH1 = gpr h 10"
  "csr (saved1 h) CSR_MHARTID = csr h CSR_MHARTID" "csr (saved1 h) CSR_DSCRATCH0 = gpr h 8"
  "c \<in> {CSR_DSCRATCH0, CSR_DSCRATCH1} \<or> csr (saved h) c = csr h c"
  "c \<in> {CSR_DSCRATCH0} \<or> csr (saved1 h) c = csr h c"
  by (auto simp: saved_def saved1_def csr_names)

lemma saved_frame: "fpr (saved h) = fpr h" "fpr (saved1 h) = fpr h" "code (saved h) = code h" "gpr (saved h) = gpr h" "stores (saved h) = stores h"
  "code (saved1 h) = code h" "gpr (saved1 h) = gpr h" "stores (saved1 h) = stores h"
  by (simp_all add: saved_def saved1_def)

lemma reachI: "run n h = Running h' \<Longrightarrow> reach h h'"
  by (auto simp: reach_def)

lemmas wait_simps = waits_two_def waits_one_def saved_csrs(1-5) saved_frame flags_flag_of idle_flag_def

lemma upd_self:
  "g = (f :: 5 word \<Rightarrow> u64)(8 := g 8, 10 := b) \<Longrightarrow> g(8 := v) = f(8 := v, 10 := b)"
  "g = (f :: 5 word \<Rightarrow> u64)(8 := g 8) \<Longrightarrow> g(8 := v) = f(8 := v)"
  by (erule ssubst, rule ext, simp)+

lemma waits_twoD:
  assumes "waits_two base h0 h"
  shows "rom_at reset_vec base h" "pc h = base + 0x830" "gpr h 10 = base"
    "(gpr h)(10 := gpr h0 10, 8 := gpr h0 8) = gpr h0" "csr h = csr (saved h0)"
    "fpr h = fpr h0"
proof -
  from assms have g: "gpr h = (gpr h0)(8 := gpr h 8, 10 := base)"
    and *: "rom_at reset_vec base h" "pc h = base + 0x830" "csr h = csr (saved h0)" "fpr h = fpr h0"
    by (simp_all add: waits_two_def)
  from * show "rom_at reset_vec base h" "pc h = base + 0x830" "csr h = csr (saved h0)" "fpr h = fpr h0"
    by simp_all
  show "gpr h 10 = base" by (subst g) simp
  show "(gpr h)(10 := gpr h0 10, 8 := gpr h0 8) = gpr h0"
    by (subst g) (auto simp: fun_eq_iff)
qed

interpretation two: park_loop base "{CSR_DSCRATCH0, CSR_DSCRATCH1}" "rom_at reset_vec base" "waits_two base" for base
proof
  fix h assume h: "rom_at reset_vec base h" "pc h = base + 0x800"
  show "\<exists>h'. reach h h' \<and> waits_two base h h' \<and> stores h' = stores h"
    by (intro exI conjI, rule reachI [OF enter [OF h]])
      (use h in \<open>auto simp: wait_simps rom_at_def fun_eq_iff\<close>)
next
  fix h0 h assume w: "waits_two base h0 h" and "idle_flag base h (ram h)"
  then have f: "\<not> bit (flags h base) 0" "\<not> bit (flags h base) 1"
    by (simp_all add: idle_flag_def flags_flag_of)
  show "\<exists>h'. reach h h' \<and> waits_two base h0 h' \<and> stores h' = stores h @ [halted_signal base h0]"
    by (intro exI conjI, rule reachI [OF poll_idle [OF waits_twoD(1-3) [OF w] f]])
      (use w in \<open>auto simp: wait_simps rom_at_def intro: upd_self\<close>)
next
  fix h0 h assume w: "waits_two base h0 h" and "bit (flag_of base h (ram h)) 0"
  then have f: "bit (flags h base) 0" by (simp add: flags_flag_of)
  show "\<exists>h'. reach h h' \<and> pc h' = base + 0x300 \<and> kept {CSR_DSCRATCH0, CSR_DSCRATCH1} h0 h' \<and> ram h' = ram h \<and>
      stores h' = stores h @ [halted_signal base h0, signal base GOING 0]"
    by (intro exI conjI, rule reachI [OF poll_go [OF waits_twoD(1-3) [OF w] f]])
      (use saved_csrs(6) in \<open>auto simp: kept_def waits_twoD(4-6) [OF w] saved_csrs(1-3)\<close>)
next
  fix h0 h assume w: "waits_two base h0 h" and "\<not> bit (flag_of base h (ram h)) 0"
    and "bit (flag_of base h (ram h)) 1"
  then have f: "\<not> bit (flags h base) 0" "bit (flags h base) 1" by (simp_all add: flags_flag_of)
  show "\<exists>n h'. run n h = Returned h' \<and> gpr h' = gpr h0 \<and>
      stores h' = stores h @ [halted_signal base h0, signal base RESUMING (csr h0 CSR_MHARTID)]"
    by (intro exI conjI, rule poll_resume [OF waits_twoD(1-3) [OF w] f])
      (simp_all add: waits_twoD(4,5) [OF w] saved_csrs(1-5))
next
  fix h0 h r assume w: "waits_two base h0 h"
  show "waits_two base h0 (h\<lparr>ram := r\<rparr>)" using w by (simp add: wait_simps rom_at_def)
  show "csr h CSR_MHARTID = csr h0 CSR_MHARTID" using waits_twoD(5) [OF w] by (simp add: saved_csrs(1))
qed

lemma waits_oneD:
  assumes "waits_one h0 h"
  shows "rom_at one_scratch_vec 0 h" "pc h = 0x820" "(gpr h)(8 := gpr h0 8) = gpr h0"
    "csr h = csr (saved1 h0)" "fpr h = fpr h0"
proof -
  from assms have g: "gpr h = (gpr h0)(8 := gpr h 8)"
    and *: "rom_at one_scratch_vec 0 h" "pc h = 0x820" "csr h = csr (saved1 h0)" "fpr h = fpr h0"
    by (simp_all add: waits_one_def)
  from * show "rom_at one_scratch_vec 0 h" "pc h = 0x820" "csr h = csr (saved1 h0)" "fpr h = fpr h0"
    by simp_all
  show "(gpr h)(8 := gpr h0 8) = gpr h0" by (subst g) (auto simp: fun_eq_iff)
qed

interpretation one: park_loop 0 "{CSR_DSCRATCH0}" "rom_at one_scratch_vec 0" waits_one
proof
  fix h assume h: "rom_at one_scratch_vec 0 h" "pc h = 0 + 0x800"
  have p: "pc h = 0x800" using h(2) by simp
  show "\<exists>h'. reach h h' \<and> waits_one h h' \<and> stores h' = stores h"
    by (intro exI conjI, rule reachI [OF one_enter [OF h(1) p]])
      (use h in \<open>auto simp: wait_simps rom_at_def fun_eq_iff\<close>)
next
  fix h0 h assume w: "waits_one h0 h" and "idle_flag 0 h (ram h)"
  then have f: "\<not> bit (flags h 0) 0" "\<not> bit (flags h 0) 1"
    by (simp_all add: idle_flag_def flags_flag_of)
  show "\<exists>h'. reach h h' \<and> waits_one h0 h' \<and> stores h' = stores h @ [halted_signal 0 h0]"
    by (intro exI conjI, rule reachI [OF one_poll_idle [OF waits_oneD(1,2) [OF w] f]])
      (use w in \<open>auto simp: wait_simps rom_at_def intro: upd_self\<close>)
next
  fix h0 h assume w: "waits_one h0 h" and "bit (flag_of 0 h (ram h)) 0"
  then have f: "bit (flags h 0) 0" by (simp add: flags_flag_of)
  show "\<exists>h'. reach h h' \<and> pc h' = 0 + 0x300 \<and> kept {CSR_DSCRATCH0} h0 h' \<and> ram h' = ram h \<and>
      stores h' = stores h @ [halted_signal 0 h0, signal 0 GOING 0]"
    by (intro exI conjI, rule reachI [OF one_poll_go [OF waits_oneD(1,2) [OF w] f]])
      (use saved_csrs(7) in \<open>auto simp: kept_def waits_oneD(3-5) [OF w] saved_csrs(4,5)\<close>)
next
  fix h0 h assume w: "waits_one h0 h" and "\<not> bit (flag_of 0 h (ram h)) 0"
    and "bit (flag_of 0 h (ram h)) 1"
  then have f: "\<not> bit (flags h 0) 0" "bit (flags h 0) 1" by (simp_all add: flags_flag_of)
  show "\<exists>n h'. run n h = Returned h' \<and> gpr h' = gpr h0 \<and>
      stores h' = stores h @ [halted_signal 0 h0, signal 0 RESUMING (csr h0 CSR_MHARTID)]"
    by (intro exI conjI, rule one_poll_resume [OF waits_oneD(1,2) [OF w] f])
      (simp_all add: waits_oneD(3,4) [OF w] saved_csrs(1-5))
next
  fix h0 h r assume w: "waits_one h0 h"
  show "waits_one h0 (h\<lparr>ram := r\<rparr>)" using w by (simp add: wait_simps rom_at_def)
  show "csr h CSR_MHARTID = csr h0 CSR_MHARTID" using waits_oneD(4) [OF w] by (simp add: saved_csrs(4))
qed

section \<open>Properties of the park loop\<close>

definition example_hart :: "u32 list \<Rightarrow> u64 \<Rightarrow> u64 \<Rightarrow> hart" where
  "example_hart vec base a = \<lparr>pc = base + a, gpr = (\<lambda>r. 7), fpr = (\<lambda>r. 0),
     csr = (\<lambda>c. if c = CSR_MHARTID then 3 else 5),
     code = (\<lambda>x. vec ! (unat (x - base - 0x800) div 4)), ram = (\<lambda>x. 0), stores = []\<rparr>"

lemma unat_index: "k < 100 \<Longrightarrow> unat (word_of_nat k * 4 :: u64) div 4 = k"
  by (subst unat_mult_lem [THEN iffD1]) (simp_all add: unsigned_of_nat take_bit_nat_eq_self)

lemma example_rom:
  "rom_at reset_vec 0x1A110000 (example_hart reset_vec 0x1A110000 a)"
  "rom_at one_scratch_vec 0 (example_hart one_scratch_vec 0 a)"
  by (auto simp: rom_at_def example_hart_def vec_lengths list_all_iff unat_index algebra_simps)

text \<open>A halted hart waits without losing a register. From the halt entry of the two-scratch
  ROM, through any sequence of polls at which its flags are clear, until the debug module sets its
  GO flag, the hart reports HALTED with its number once per poll, then GOING, and arrives at the
  variable jump at \<open>0x300\<close> with every general purpose register as it was before it was halted.\<close>

theorem parked_hart_goes:
  assumes "rom_at reset_vec base h" and "pc h = base + 0x800"
    and "list_all (idle_flag base h) rs" and "bit (flag_of base h r) FLAG_GO"
  shows "\<exists>h1 h2 h3. reach h h1 \<and> polls h1 rs h2 \<and> reach (h2\<lparr>ram := r\<rparr>) h3 \<and>
    pc h3 = base + 0x300 \<and> gpr h3 = gpr h \<and>
    stores h3 = stores h @ replicate (Suc (length rs)) (signal base HALTED (csr h CSR_MHARTID))
      @ [signal base GOING 0]"
proof -
  have "bit (flag_of base h r) 0" using assms(4) by (simp add: FLAG_GO_def)
  from two.wait_then_go [OF assms(1-3) this] show ?thesis unfolding kept_def by blast
qed

theorem parked_hart_goes_witness:
  "\<exists>h3 :: hart. pc h3 = 0x1A110300 \<and>
     gpr h3 = gpr (example_hart reset_vec 0x1A110000 0x800) \<and>
     stores h3 = [signal 0x1A110000 HALTED 3, signal 0x1A110000 HALTED 3,
       signal 0x1A110000 HALTED 3, signal 0x1A110000 GOING 0]"
  using parked_hart_goes [OF example_rom(1), of "0x800" "[\<lambda>x. 0, \<lambda>x. 0]" "\<lambda>x. 1"]
  by (simp add: example_hart_def idle_flag_def flag_of_def FLAG_GO_def) blast

text \<open>A resumed hart leaves debug mode with its registers restored. From the halt entry, through
  any sequence of polls with clear flags, until only the RESUME flag is set, the hart reports HALTED
  once per poll, then RESUMING with its number, and executes \<open>dret\<close> with every general purpose
  register as it was before it was halted.\<close>

theorem parked_hart_resumes:
  assumes "rom_at reset_vec base h" and "pc h = base + 0x800"
    and "list_all (idle_flag base h) rs"
    and "\<not> bit (flag_of base h r) FLAG_GO" and "bit (flag_of base h r) FLAG_RESUME"
  shows "\<exists>h1 h2 n h3. reach h h1 \<and> polls h1 rs h2 \<and> run n (h2\<lparr>ram := r\<rparr>) = Returned h3 \<and>
    gpr h3 = gpr h \<and>
    stores h3 = stores h @ replicate (Suc (length rs)) (signal base HALTED (csr h CSR_MHARTID))
      @ [signal base RESUMING (csr h CSR_MHARTID)]"
  by (rule two.wait_then_resume [OF assms(1-3)])
    (use assms(4,5) in \<open>simp_all add: FLAG_GO_def FLAG_RESUME_def\<close>)

theorem parked_hart_resumes_witness:
  "\<exists>n h2 h3. run n h2 = Returned h3 \<and>
     gpr h3 = gpr (example_hart reset_vec 0x1A110000 0x800) \<and>
     stores h3 = [signal 0x1A110000 HALTED 3, signal 0x1A110000 RESUMING 3]"
  using parked_hart_resumes [OF example_rom(1), of "0x800" "[]" "\<lambda>x. 2"]
  by (auto simp: example_hart_def flag_of_def FLAG_GO_def FLAG_RESUME_def)

text \<open>C30: the ROM for the zero page keeps the same contract with one scratch register: after any
  sequence of polls with clear flags it goes on GO and resumes on RESUME, with the same signals and
  with every general purpose register restored.\<close>

theorem one_scratch_contract:
  assumes "rom_at one_scratch_vec 0 h" and "pc h = 0x800" and "list_all (idle_flag 0 h) rs"
    and "bit (flag_of 0 h r) FLAG_GO \<or> bit (flag_of 0 h r) FLAG_RESUME"
  shows "\<exists>h1 h2 n h3. reach h h1 \<and> polls h1 rs h2 \<and> gpr h3 = gpr h \<and>
    stores h3 = stores h @ replicate (Suc (length rs)) (signal 0 HALTED (csr h CSR_MHARTID))
      @ [if bit (flag_of 0 h r) FLAG_GO then signal 0 GOING 0
         else signal 0 RESUMING (csr h CSR_MHARTID)] \<and>
    run n (h2\<lparr>ram := r\<rparr>) =
      (if bit (flag_of 0 h r) FLAG_GO then Running (h3\<lparr>pc := 0x300\<rparr>) else Returned h3)"
proof (cases "bit (flag_of 0 h r) FLAG_GO")
  case True
  have p: "pc h = 0 + 0x800" using assms(2) by simp
  obtain h1 h2 h3 where *: "reach h h1" "polls h1 rs h2" "reach (h2\<lparr>ram := r\<rparr>) h3" "pc h3 = 0 + 0x300"
    "gpr h3 = gpr h" "stores h3 = stores h
      @ replicate (Suc (length rs)) (signal 0 HALTED (csr h CSR_MHARTID)) @ [signal 0 GOING 0]"
    using one.wait_then_go [OF assms(1) p assms(3), of r] True unfolding FLAG_GO_def kept_def by blast
  moreover have "h3\<lparr>pc := 0x300\<rparr> = h3" using *(4) by (cases h3) simp
  moreover obtain n where "run n (h2\<lparr>ram := r\<rparr>) = Running h3"
    using *(3) by (auto simp: reach_def)
  ultimately show ?thesis
    using True by (intro exI [of _ h1] exI [of _ h2] exI [of _ n] exI [of _ h3]) simp
next
  case False
  have p: "pc h = 0 + 0x800" using assms(2) by simp
  from False assms(4) have "bit (flag_of 0 h r) 1" "\<not> bit (flag_of 0 h r) 0"
    by (simp_all add: FLAG_GO_def FLAG_RESUME_def)
  from one.wait_then_resume [OF assms(1) p assms(3) this(2,1)] False show ?thesis
    by (elim exE) (intro exI, auto)
qed

theorem one_scratch_contract_witness:
  "\<exists>n h2 h3. run n h2 = Running (h3\<lparr>pc := 0x300\<rparr>) \<and>
     gpr h3 = gpr (example_hart one_scratch_vec 0 0x800) \<and>
     stores h3 = [signal 0 HALTED 3, signal 0 GOING 0]"
  using one_scratch_contract [OF example_rom(2), of "0x800" "[]" "\<lambda>x. 3"]
  by (auto simp: example_hart_def flag_of_def FLAG_GO_def FLAG_RESUME_def)

end
