(* ===== verification/Syscalls.thy ===== *)
theory Syscalls
  imports Prelude
begin

text \<open>
  The newlib system calls of the test program, \<open>tb/prog/syscalls.c\<close>, for the 32-bit target the
  Makefile builds it for: pointers and \<open>int\<close> are \<open>u32\<close>. The values of the newlib constants and
  the linker symbols \<open>__heap_start\<close> and \<open>__heap_end\<close> are not in the repository and are
  parameters. Each call maps its arguments and the machine to its result and the next machine.
\<close>

section \<open>State\<close>

datatype errno = ENOSYS | ENOMEM | EAGAIN | EINVAL | EMLINK | ENOENT | ECHILD

text \<open>What the calls take from the newlib headers.\<close>

record newlib =
  num :: "errno \<Rightarrow> u32"
  s_ifchr :: u32

text \<open>\<open>mmio\<close> lists the volatile writes in order, \<open>st_mode\<close> is the field of the \<open>stat\<close> structure at
  an address, \<open>asleep\<close> is set by \<open>wfi\<close>.\<close>

record machine =
  err :: u32
  mem :: "u32 \<Rightarrow> u8"
  st_mode :: "u32 \<Rightarrow> u32"
  mmio :: "(u32 \<times> u32) list"
  brk :: u32
  asleep :: bool

definition STDOUT_REG :: u32 where "STDOUT_REG = 0x10000000"
definition EXIT_REG :: u32 where "EXIT_REG = 0x20000004"
definition STDOUT_FILENO :: u32 where "STDOUT_FILENO = 1"

definition put_reg :: "u32 \<Rightarrow> u32 \<Rightarrow> machine \<Rightarrow> machine" where
  "put_reg a v m = m\<lparr>mmio := mmio m @ [(a, v)]\<rparr>"

definition fails :: "u32 \<Rightarrow> u32 \<Rightarrow> machine \<Rightarrow> u32 \<times> machine" where
  "fails e r m = (r, m\<lparr>err := e\<rparr>)"

section \<open>Output and exit\<close>

definition unimplemented_text :: string where
  "unimplemented_text = ''Unimplemented system call called!'' @ [CHR 0x0A]"

definition unimplemented_syscall :: "machine \<Rightarrow> machine" where
  "unimplemented_syscall m = foldl (\<lambda>m c. put_reg STDOUT_REG (of_char c) m) m unimplemented_text"

definition lib_exit :: "u32 \<Rightarrow> machine \<Rightarrow> machine" where
  "lib_exit exit_status m = (put_reg EXIT_REG exit_status m)\<lparr>asleep := True\<rparr>"

lemma distance_decreases: "ptr \<noteq> eptr \<Longrightarrow> unat (eptr - (ptr + 1)) < unat (eptr - ptr)" for eptr :: u32
proof -
  assume "ptr \<noteq> eptr"
  then have "unat (eptr - ptr) \<noteq> 0" by (simp add: unat_eq_0)
  then have "eptr - ptr \<noteq> 0" by auto
  then have "unat (eptr - ptr - 1) < unat (eptr - ptr)"
    by (metis measure_unat)
  then show ?thesis by (simp add: algebra_simps)
qed

function write_loop :: "u32 \<Rightarrow> u32 \<Rightarrow> machine \<Rightarrow> machine" where
  "write_loop ptr eptr m =
     (if ptr \<noteq> eptr then write_loop (ptr + 1) eptr (put_reg STDOUT_REG (ucast (mem m ptr)) m)
      else m)"
  by auto

termination
  by (relation "measure (\<lambda>(ptr, eptr, m). unat (eptr - ptr))") (auto intro: distance_decreases)

declare write_loop.simps [simp del]

definition lib_write :: "newlib \<Rightarrow> u32 \<Rightarrow> u32 \<Rightarrow> u32 \<Rightarrow> machine \<Rightarrow> u32 \<times> machine" where
  "lib_write nl file ptr len m =
     (if file \<noteq> STDOUT_FILENO then fails (num nl ENOSYS) (- 1) m
      else (len, write_loop ptr (ptr + len) m))"

definition lib_isatty :: "u32 \<Rightarrow> machine \<Rightarrow> u32 \<times> machine" where
  "lib_isatty file m = (if file = STDOUT_FILENO then 1 else 0, m)"

section \<open>The heap\<close>

definition lib_brk :: "u32 \<Rightarrow> machine \<Rightarrow> u32 \<times> machine" where
  "lib_brk addr m = (0, m\<lparr>brk := addr\<rparr>)"

text \<open>The condition of the source moves the break, and its first branch moves it again.\<close>

definition lib_sbrk :: "u32 \<Rightarrow> u32 \<Rightarrow> u32 \<Rightarrow> machine \<Rightarrow> u32 \<times> machine" where
  "lib_sbrk heap_start heap_end incr m =
     (let old_brk = brk m in
      if heap_start = heap_end then (0, m)
      else let moved = brk m + incr in
        if moved < heap_end then (old_brk, m\<lparr>brk := moved + incr\<rparr>)
        else (old_brk, m\<lparr>brk := heap_end\<rparr>))"

section \<open>Calls that do nothing\<close>

definition lib_nanosleep :: "newlib \<Rightarrow> u32 \<Rightarrow> u32 \<Rightarrow> machine \<Rightarrow> u32 \<times> machine" where
  "lib_nanosleep nl rqtp rmtp m = fails (num nl ENOSYS) (- 1) m"

definition lib_access :: "newlib \<Rightarrow> u32 \<Rightarrow> u32 \<Rightarrow> machine \<Rightarrow> u32 \<times> machine" where
  "lib_access nl file mode m = fails (num nl ENOSYS) (- 1) m"

definition lib_chdir :: "newlib \<Rightarrow> u32 \<Rightarrow> machine \<Rightarrow> u32 \<times> machine" where
  "lib_chdir nl path m = fails (num nl ENOSYS) (- 1) m"

definition lib_chmod :: "newlib \<Rightarrow> u32 \<Rightarrow> u32 \<Rightarrow> machine \<Rightarrow> u32 \<times> machine" where
  "lib_chmod nl path mode m = fails (num nl ENOSYS) (- 1) m"

definition lib_chown :: "newlib \<Rightarrow> u32 \<Rightarrow> u32 \<Rightarrow> u32 \<Rightarrow> machine \<Rightarrow> u32 \<times> machine" where
  "lib_chown nl path owner gid m = fails (num nl ENOSYS) (- 1) m"

definition lib_execve :: "newlib \<Rightarrow> u32 \<Rightarrow> u32 \<Rightarrow> u32 \<Rightarrow> machine \<Rightarrow> u32 \<times> machine" where
  "lib_execve nl name argv env m = fails (num nl ENOMEM) (- 1) m"

definition lib_faccessat :: "newlib \<Rightarrow> u32 \<Rightarrow> u32 \<Rightarrow> u32 \<Rightarrow> u32 \<Rightarrow> machine \<Rightarrow> u32 \<times> machine" where
  "lib_faccessat nl dirfd file mode flags m = fails (num nl ENOSYS) (- 1) m"

definition lib_fork :: "newlib \<Rightarrow> machine \<Rightarrow> u32 \<times> machine" where
  "lib_fork nl m = fails (num nl EAGAIN) (- 1) m"

definition lib_fstatat :: "newlib \<Rightarrow> u32 \<Rightarrow> u32 \<Rightarrow> u32 \<Rightarrow> u32 \<Rightarrow> machine \<Rightarrow> u32 \<times> machine" where
  "lib_fstatat nl dirfd file st flags m = fails (num nl ENOSYS) (- 1) m"

definition lib_ftime :: "newlib \<Rightarrow> u32 \<Rightarrow> machine \<Rightarrow> u32 \<times> machine" where
  "lib_ftime nl tp m = fails (num nl ENOSYS) (- 1) m"

definition lib_kill :: "newlib \<Rightarrow> u32 \<Rightarrow> u32 \<Rightarrow> machine \<Rightarrow> u32 \<times> machine" where
  "lib_kill nl pid sig m = fails (num nl EINVAL) (- 1) m"

definition lib_link :: "newlib \<Rightarrow> u32 \<Rightarrow> u32 \<Rightarrow> machine \<Rightarrow> u32 \<times> machine" where
  "lib_link nl old_name new_name m = fails (num nl EMLINK) (- 1) m"

definition lib_lstat :: "newlib \<Rightarrow> u32 \<Rightarrow> u32 \<Rightarrow> machine \<Rightarrow> u32 \<times> machine" where
  "lib_lstat nl file st m = fails (num nl ENOSYS) (- 1) m"

definition lib_openat :: "newlib \<Rightarrow> u32 \<Rightarrow> u32 \<Rightarrow> u32 \<Rightarrow> u32 \<Rightarrow> machine \<Rightarrow> u32 \<times> machine" where
  "lib_openat nl dirfd name flags mode m = fails (num nl ENOSYS) (- 1) m"

definition lib_unlink :: "newlib \<Rightarrow> u32 \<Rightarrow> machine \<Rightarrow> u32 \<times> machine" where
  "lib_unlink nl name m = fails (num nl ENOENT) (- 1) m"

definition lib_utime :: "newlib \<Rightarrow> u32 \<Rightarrow> u32 \<Rightarrow> machine \<Rightarrow> u32 \<times> machine" where
  "lib_utime nl path tms m = fails (num nl ENOSYS) (- 1) m"

definition lib_wait :: "newlib \<Rightarrow> u32 \<Rightarrow> machine \<Rightarrow> u32 \<times> machine" where
  "lib_wait nl status m = fails (num nl ECHILD) (- 1) m"

definition lib_getcwd :: "newlib \<Rightarrow> u32 \<Rightarrow> u32 \<Rightarrow> machine \<Rightarrow> u32 \<times> machine" where
  "lib_getcwd nl buf sz m = fails (- num nl ENOSYS) (0) m"

definition lib_gettimeofday :: "newlib \<Rightarrow> u32 \<Rightarrow> u32 \<Rightarrow> machine \<Rightarrow> u32 \<times> machine" where
  "lib_gettimeofday nl tp tzp m = fails (- num nl ENOSYS) (- 1) m"

definition lib_close :: "u32 \<Rightarrow> machine \<Rightarrow> u32 \<times> machine" where
  "lib_close file m = (- 1, m)"

definition lib_getpid :: "machine \<Rightarrow> u32 \<times> machine" where
  "lib_getpid m = (1, m)"

definition lib_lseek :: "u32 \<Rightarrow> u32 \<Rightarrow> u32 \<Rightarrow> machine \<Rightarrow> u32 \<times> machine" where
  "lib_lseek file ptr dir m = (0, m)"

definition lib_open :: "u32 \<Rightarrow> u32 \<Rightarrow> u32 \<Rightarrow> machine \<Rightarrow> u32 \<times> machine" where
  "lib_open name flags mode m = (- 1, m)"

definition lib_read :: "u32 \<Rightarrow> u32 \<Rightarrow> u32 \<Rightarrow> machine \<Rightarrow> u32 \<times> machine" where
  "lib_read file ptr len m = (0, m)"

definition lib_sysconf :: "u32 \<Rightarrow> machine \<Rightarrow> u32 \<times> machine" where
  "lib_sysconf name m = (- 1, m)"

definition lib_times :: "u32 \<Rightarrow> machine \<Rightarrow> u32 \<times> machine" where
  "lib_times buf m = (- 1, m)"

definition lib_fstat :: "newlib \<Rightarrow> u32 \<Rightarrow> u32 \<Rightarrow> machine \<Rightarrow> u32 \<times> machine" where
  "lib_fstat nl file st m = (0, m\<lparr>st_mode := (st_mode m)(st := s_ifchr nl)\<rparr>)"

definition lib_stat :: "newlib \<Rightarrow> u32 \<Rightarrow> u32 \<Rightarrow> machine \<Rightarrow> u32 \<times> machine" where
  "lib_stat nl file st m = (0, m\<lparr>st_mode := (st_mode m)(st := s_ifchr nl)\<rparr>)"

section \<open>All calls as one interface\<close>

datatype syscall =
    Nanosleep_c u32 u32
  | Access_c u32 u32
  | Chdir_c u32
  | Chmod_c u32 u32
  | Chown_c u32 u32 u32
  | Execve_c u32 u32 u32
  | Faccessat_c u32 u32 u32 u32
  | Fork_c
  | Fstatat_c u32 u32 u32 u32
  | Ftime_c u32
  | Kill_c u32 u32
  | Link_c u32 u32
  | Lstat_c u32 u32
  | Openat_c u32 u32 u32 u32
  | Unlink_c u32
  | Utime_c u32 u32
  | Wait_c u32
  | Getcwd_c u32 u32
  | Gettimeofday_c u32 u32
  | Close_c u32
  | Getpid_c
  | Lseek_c u32 u32 u32
  | Open_c u32 u32 u32
  | Read_c u32 u32 u32
  | Sysconf_c u32
  | Times_c u32
  | Fstat_c u32 u32
  | Stat_c u32 u32
  | Isatty_c u32
  | Write_c u32 u32 u32
  | Brk_c u32
  | Sbrk_c u32

fun call :: "newlib \<Rightarrow> u32 \<Rightarrow> u32 \<Rightarrow> syscall \<Rightarrow> machine \<Rightarrow> u32 \<times> machine" where
  "call nl hs he (Nanosleep_c rqtp rmtp) = lib_nanosleep nl rqtp rmtp"
| "call nl hs he (Access_c file mode) = lib_access nl file mode"
| "call nl hs he (Chdir_c path) = lib_chdir nl path"
| "call nl hs he (Chmod_c path mode) = lib_chmod nl path mode"
| "call nl hs he (Chown_c path owner gid) = lib_chown nl path owner gid"
| "call nl hs he (Execve_c name argv env) = lib_execve nl name argv env"
| "call nl hs he (Faccessat_c dirfd file mode flags) = lib_faccessat nl dirfd file mode flags"
| "call nl hs he (Fork_c) = lib_fork nl"
| "call nl hs he (Fstatat_c dirfd file st flags) = lib_fstatat nl dirfd file st flags"
| "call nl hs he (Ftime_c tp) = lib_ftime nl tp"
| "call nl hs he (Kill_c pid sig) = lib_kill nl pid sig"
| "call nl hs he (Link_c old_name new_name) = lib_link nl old_name new_name"
| "call nl hs he (Lstat_c file st) = lib_lstat nl file st"
| "call nl hs he (Openat_c dirfd name flags mode) = lib_openat nl dirfd name flags mode"
| "call nl hs he (Unlink_c name) = lib_unlink nl name"
| "call nl hs he (Utime_c path tms) = lib_utime nl path tms"
| "call nl hs he (Wait_c status) = lib_wait nl status"
| "call nl hs he (Getcwd_c buf sz) = lib_getcwd nl buf sz"
| "call nl hs he (Gettimeofday_c tp tzp) = lib_gettimeofday nl tp tzp"
| "call nl hs he (Close_c file) = lib_close file"
| "call nl hs he (Getpid_c) = lib_getpid"
| "call nl hs he (Lseek_c file ptr dir) = lib_lseek file ptr dir"
| "call nl hs he (Open_c name flags mode) = lib_open name flags mode"
| "call nl hs he (Read_c file ptr len) = lib_read file ptr len"
| "call nl hs he (Sysconf_c name) = lib_sysconf name"
| "call nl hs he (Times_c buf) = lib_times buf"
| "call nl hs he (Fstat_c file st) = lib_fstat nl file st"
| "call nl hs he (Stat_c file st) = lib_stat nl file st"
| "call nl hs he (Isatty_c file) = lib_isatty file"
| "call nl hs he (Write_c file ptr len) = lib_write nl file ptr len"
| "call nl hs he (Brk_c addr) = lib_brk addr"
| "call nl hs he (Sbrk_c incr) = lib_sbrk hs he incr"

lemmas call_defs = lib_exit_def lib_write_def lib_isatty_def lib_brk_def lib_sbrk_def
  lib_nanosleep_def lib_access_def lib_chdir_def lib_chmod_def lib_chown_def lib_execve_def
  lib_faccessat_def lib_fork_def lib_fstatat_def lib_ftime_def lib_kill_def lib_link_def
  lib_lstat_def lib_openat_def lib_unlink_def lib_utime_def lib_wait_def lib_getcwd_def
  lib_gettimeofday_def lib_close_def lib_getpid_def lib_lseek_def lib_open_def lib_read_def
  lib_sysconf_def lib_times_def lib_fstat_def lib_stat_def

section \<open>Properties of the calls\<close>

definition bytes_at :: "machine \<Rightarrow> u32 \<Rightarrow> nat \<Rightarrow> u8 list" where
  "bytes_at m ptr n = map (\<lambda>i. mem m (ptr + of_nat i)) [0..<n]"

lemma bytes_at_Suc: "bytes_at m ptr (Suc n) = mem m ptr # bytes_at m (ptr + 1) n"
  by (simp add: bytes_at_def upt_conv_Cons map_Suc_upt [symmetric] algebra_simps del: upt_Suc)

definition printed :: "u8 list \<Rightarrow> machine \<Rightarrow> machine" where
  "printed bs m = m\<lparr>mmio := mmio m @ map (\<lambda>b. (STDOUT_REG, ucast b)) bs\<rparr>"

lemma write_loop_printed:
  "unat (eptr - ptr) = n \<Longrightarrow> write_loop ptr eptr m = printed (bytes_at m ptr n) m"
proof (induction n arbitrary: ptr m)
  case 0
  then have "ptr = eptr" by (simp add: unat_eq_0)
  then show ?case by (subst write_loop.simps) (simp add: printed_def bytes_at_def)
next
  case (Suc n)
  have ne: "ptr \<noteq> eptr" using Suc.prems by auto
  have step: "unat (eptr - (ptr + 1)) = n"
  proof -
    have "eptr - ptr \<noteq> 0" using ne by simp
    then have "unat (eptr - ptr - 1) = unat (eptr - ptr) - 1" by (simp add: unat_minus_one)
    then show ?thesis using Suc.prems by (simp add: algebra_simps)
  qed
  have "bytes_at (put_reg a v m) q k = bytes_at m q k" for a v q k
    by (simp add: bytes_at_def put_reg_def)
  with Suc.IH [OF step, of "put_reg STDOUT_REG (ucast (mem m ptr)) m"] ne show ?case
    by (subst write_loop.simps) (simp add: printed_def bytes_at_Suc put_reg_def)
qed

text \<open>C37: writing to standard output emits exactly the requested bytes. \<open>_write\<close> returns for every
  pointer and length; on file 1 it prints the \<open>len\<close> bytes at \<open>ptr\<close>, in order and wrapping with the
  address space, reports \<open>len\<close> and changes nothing else; on any other file it prints nothing,
  reports -1 and sets \<open>errno\<close>.\<close>

theorem write_prints_exactly:
  "lib_write nl file ptr len m =
     (if file = STDOUT_FILENO then (len, printed (bytes_at m ptr (unat len)) m)
      else (- 1, m\<lparr>err := num nl ENOSYS\<rparr>))"
  using write_loop_printed [of "ptr + len" ptr "unat len" m] by (simp add: lib_write_def fails_def)

text \<open>What the heap break really does. Without a heap \<open>_sbrk\<close> returns NULL. Otherwise it always
  returns the old break, never a failure; the break moves by twice the increment when one increment
  stays below the end of the heap, even if that puts it beyond the end, and it is clamped to the end
  of the heap when it does not.\<close>

theorem sbrk_moves_twice:
  "lib_sbrk hs he incr m =
     (if hs = he then (0, m)
      else (brk m, m\<lparr>brk := if brk m + incr < he then brk m + 2 * incr else he\<rparr>)) \<and>
   (\<exists>m' n. brk m' < 0x1C001000 \<and> 0x1C001000 < brk (snd (lib_sbrk 0x1C000000 0x1C001000 n m')))"
proof
  show "lib_sbrk hs he incr m =
     (if hs = he then (0, m)
      else (brk m, m\<lparr>brk := if brk m + incr < he then brk m + 2 * incr else he\<rparr>))"
    unfolding lib_sbrk_def Let_def mult_2 add.assoc by simp
  have "brk (m\<lparr>brk := 0x1C000000\<rparr>) < 0x1C001000 \<and>
    0x1C001000 < brk (snd (lib_sbrk 0x1C000000 0x1C001000 0xC00 (m\<lparr>brk := 0x1C000000\<rparr>)))"
    by (simp add: lib_sbrk_def Let_def)
  then show "\<exists>m' n. brk m' < 0x1C001000 \<and>
    0x1C001000 < brk (snd (lib_sbrk 0x1C000000 0x1C001000 n m'))" by blast
qed

definition silent_failure :: "syscall \<Rightarrow> bool" where
  "silent_failure c \<longleftrightarrow> (\<exists>a b d. c \<in> {Close_c a, Open_c a b d, Sysconf_c a, Times_c a})"

definition negated_errno :: "syscall \<Rightarrow> bool" where
  "negated_errno c \<longleftrightarrow> (\<exists>a b. c = Gettimeofday_c a b)"

text \<open>The calls whose result is a status: \<open>_sbrk\<close> returns an address, \<open>_write\<close> on the standard
  output a length.\<close>

definition returns_status :: "syscall \<Rightarrow> bool" where
  "returns_status c \<longleftrightarrow> (case c of Sbrk_c _ \<Rightarrow> False | Write_c f _ _ \<Rightarrow> f \<noteq> STDOUT_FILENO | _ \<Rightarrow> True)"

text \<open>The error convention of the calls. A call that reports -1 as its status changes nothing
  but \<open>errno\<close>, and sets it to a newlib constant, with the exceptions the theorem names: \<open>_close\<close>,
  \<open>_open\<close>, \<open>_sysconf\<close> and \<open>_times\<close> do not set it, and \<open>_gettimeofday\<close> stores the negated
  constant (so does \<open>_getcwd\<close>, which reports failure as NULL).\<close>

theorem errno_convention:
  assumes "call nl hs he c m = (- 1, m')" and "returns_status c"
  shows "if silent_failure c then m' = m
    else \<exists>e. m' = m\<lparr>err := if negated_errno c then - num nl e else num nl e\<rparr>"
  using assms
  by (cases c) (auto simp: call_defs fails_def silent_failure_def negated_errno_def returns_status_def
      split: if_splits)

definition zero_machine :: machine where
  "zero_machine = \<lparr>err = 0, mem = (\<lambda>a. 0), st_mode = (\<lambda>a. 0), mmio = [], brk = 0, asleep = False\<rparr>"

theorem errno_convention_witness:
  "\<exists>e. snd (call \<lparr>num = (\<lambda>e. 88), s_ifchr = 0x2000\<rparr> 0 0 (Gettimeofday_c 0 0) zero_machine) =
     zero_machine\<lparr>err := - (\<lambda>e :: errno. 88) e\<rparr>"
  using errno_convention [of "\<lparr>num = (\<lambda>e. 88), s_ifchr = 0x2000\<rparr>" 0 0 "Gettimeofday_c 0 0"
      zero_machine "zero_machine\<lparr>err := - 88\<rparr>"]
  by (simp add: call_defs fails_def silent_failure_def negated_errno_def returns_status_def)

end
