(* ===== verification/Dmi_Jtag_Tap.thy ===== *)
theory Dmi_Jtag_Tap
  imports Dm_Pkg
begin

text \<open>
  The JTAG test access port of \<open>src/dmi_jtag_tap.sv\<close>: the sixteen-state controller, the instruction
  register, the IDCODE and BYPASS registers and the output stage. \<open>tap_posedge\<close> is everything clocked
  by the rising edge of TCK, \<open>tap_negedge\<close> the output registers clocked by the falling edge (the
  functional mode, \<open>testmode_i = 0\<close>). The instruction register has five bits, as in the only
  instantiation. The lemmas follow the controller through resets and scans.
\<close>

section \<open>State\<close>

datatype tap_state_e =
    TestLogicReset | RunTestIdle | SelectDrScan
  | CaptureDr | ShiftDr | Exit1Dr | PauseDr | Exit2Dr
  | UpdateDr | SelectIrScan | CaptureIr | ShiftIr
  | Exit1Ir | PauseIr | Exit2Ir | UpdateIr

definition BYPASS0 :: "5 word" where "BYPASS0 = 0x0"
definition IDCODE :: "5 word" where "IDCODE = 0x1"
definition DTMCSR :: "5 word" where "DTMCSR = 0x10"
definition DMIACCESS :: "5 word" where "DMIACCESS = 0x11"
definition BYPASS1 :: "5 word" where "BYPASS1 = 0x1f"

lemmas ir_reg_e [run_simps] = BYPASS0_def IDCODE_def DTMCSR_def DMIACCESS_def BYPASS1_def

record tap =
  tap_state_q :: tap_state_e
  jtag_ir_shift_q :: "5 word"
  jtag_ir_q :: "5 word"
  idcode_q :: u32
  bypass_q :: bool
  td_o :: bool
  tdo_oe_o :: bool

text \<open>The asynchronous reset by \<open>trst_ni\<close>.\<close>

definition tap_reset :: "u32 \<Rightarrow> tap" where
  "tap_reset IdcodeValue = \<lparr>tap_state_q = TestLogicReset, jtag_ir_shift_q = 0, jtag_ir_q = IDCODE,
     idcode_q = IdcodeValue, bypass_q = False, td_o = False, tdo_oe_o = False\<rparr>"

section \<open>The controller\<close>

fun tap_state_d :: "bool \<Rightarrow> tap_state_e \<Rightarrow> tap_state_e" where
  "tap_state_d tms TestLogicReset = (if tms then TestLogicReset else RunTestIdle)"
| "tap_state_d tms RunTestIdle = (if tms then SelectDrScan else RunTestIdle)"
| "tap_state_d tms SelectDrScan = (if tms then SelectIrScan else CaptureDr)"
| "tap_state_d tms CaptureDr = (if tms then Exit1Dr else ShiftDr)"
| "tap_state_d tms ShiftDr = (if tms then Exit1Dr else ShiftDr)"
| "tap_state_d tms Exit1Dr = (if tms then UpdateDr else PauseDr)"
| "tap_state_d tms PauseDr = (if tms then Exit2Dr else PauseDr)"
| "tap_state_d tms Exit2Dr = (if tms then UpdateDr else ShiftDr)"
| "tap_state_d tms UpdateDr = (if tms then SelectDrScan else RunTestIdle)"
| "tap_state_d tms SelectIrScan = (if tms then TestLogicReset else CaptureIr)"
| "tap_state_d tms CaptureIr = (if tms then Exit1Ir else ShiftIr)"
| "tap_state_d tms ShiftIr = (if tms then Exit1Ir else ShiftIr)"
| "tap_state_d tms Exit1Ir = (if tms then UpdateIr else PauseIr)"
| "tap_state_d tms PauseIr = (if tms then Exit2Ir else PauseIr)"
| "tap_state_d tms Exit2Ir = (if tms then UpdateIr else ShiftIr)"
| "tap_state_d tms UpdateIr = (if tms then SelectDrScan else RunTestIdle)"

text \<open>The strobes the controller raises in its states.\<close>

definition test_logic_reset :: "tap \<Rightarrow> bool" where
  "test_logic_reset t \<longleftrightarrow> tap_state_q t = TestLogicReset"
definition capture_dr :: "tap \<Rightarrow> bool" where "capture_dr t \<longleftrightarrow> tap_state_q t = CaptureDr"
definition shift_dr :: "tap \<Rightarrow> bool" where "shift_dr t \<longleftrightarrow> tap_state_q t = ShiftDr"
definition update_dr :: "tap \<Rightarrow> bool" where "update_dr t \<longleftrightarrow> tap_state_q t = UpdateDr"
definition capture_ir :: "tap \<Rightarrow> bool" where "capture_ir t \<longleftrightarrow> tap_state_q t = CaptureIr"
definition shift_ir :: "tap \<Rightarrow> bool" where "shift_ir t \<longleftrightarrow> tap_state_q t = ShiftIr"
definition update_ir :: "tap \<Rightarrow> bool" where "update_ir t \<longleftrightarrow> tap_state_q t = UpdateIr"

lemmas strobes = test_logic_reset_def capture_dr_def shift_dr_def update_dr_def capture_ir_def
  shift_ir_def update_ir_def

text \<open>The registers the instruction selects.\<close>

definition dmi_select :: "tap \<Rightarrow> bool" where "dmi_select t \<longleftrightarrow> jtag_ir_q t = DMIACCESS"
definition dtmcs_select :: "tap \<Rightarrow> bool" where "dtmcs_select t \<longleftrightarrow> jtag_ir_q t = DTMCSR"
definition idcode_select :: "tap \<Rightarrow> bool" where "idcode_select t \<longleftrightarrow> jtag_ir_q t = IDCODE"
definition bypass_select :: "tap \<Rightarrow> bool" where
  "bypass_select t \<longleftrightarrow> jtag_ir_q t \<notin> {IDCODE, DTMCSR, DMIACCESS}"

lemmas selects = dmi_select_def dtmcs_select_def idcode_select_def bypass_select_def

section \<open>Registers\<close>

text \<open>Shifting a bit in at the top: \<open>{td_i, q[n-1:1]}\<close>.\<close>

definition shift_in :: "bool \<Rightarrow> 'a::len word \<Rightarrow> 'a word" where
  "shift_in td q = cat [(1, b1 td), (LENGTH('a) - 1, fld (LENGTH('a) - 1) 1 q)]"

definition jtag_ir_shift_d :: "bool \<Rightarrow> tap \<Rightarrow> 5 word" where
  "jtag_ir_shift_d td t = (let
     q = jtag_ir_shift_q t;
     q = (if shift_ir t then shift_in td q else q);
     q = (if capture_ir t then 0b0101 else q)
   in if test_logic_reset t then 0 else q)"

definition jtag_ir_d :: "tap \<Rightarrow> 5 word" where
  "jtag_ir_d t = (let
     q = jtag_ir_q t;
     q = (if update_ir t then jtag_ir_shift_q t else q)
   in if test_logic_reset t then IDCODE else q)"

definition idcode_d :: "u32 \<Rightarrow> bool \<Rightarrow> tap \<Rightarrow> u32" where
  "idcode_d IdcodeValue td t = (let
     q = idcode_q t;
     q = (if capture_dr t \<and> idcode_select t then IdcodeValue else q);
     q = (if shift_dr t \<and> idcode_select t then shift_in td (idcode_q t) else q)
   in if test_logic_reset t then IdcodeValue else q)"

definition bypass_d :: "bool \<Rightarrow> tap \<Rightarrow> bool" where
  "bypass_d td t = (let
     q = bypass_q t;
     q = (if capture_dr t \<and> bypass_select t then False else q);
     q = (if shift_dr t \<and> bypass_select t then td else q)
   in if test_logic_reset t then False else q)"

definition tap_posedge :: "u32 \<Rightarrow> bool \<Rightarrow> bool \<Rightarrow> tap \<Rightarrow> tap" where
  "tap_posedge IdcodeValue tms td t = t\<lparr>
     tap_state_q := tap_state_d tms (tap_state_q t),
     jtag_ir_shift_q := jtag_ir_shift_d td t,
     jtag_ir_q := jtag_ir_d t,
     idcode_q := idcode_d IdcodeValue td t,
     bypass_q := bypass_d td t\<rparr>"

definition tdo_mux :: "bool \<Rightarrow> bool \<Rightarrow> tap \<Rightarrow> bool" where
  "tdo_mux dtmcs_tdo dmi_tdo t =
     (if shift_ir t then bit (jtag_ir_shift_q t) 0
      else if jtag_ir_q t = IDCODE then bit (idcode_q t) 0
      else if jtag_ir_q t = DTMCSR then dtmcs_tdo
      else if jtag_ir_q t = DMIACCESS then dmi_tdo
      else bypass_q t)"

definition tap_negedge :: "bool \<Rightarrow> bool \<Rightarrow> tap \<Rightarrow> tap" where
  "tap_negedge dtmcs_tdo dmi_tdo t = t\<lparr>
     td_o := tdo_mux dtmcs_tdo dmi_tdo t, tdo_oe_o := shift_ir t \<or> shift_dr t\<rparr>"

section \<open>Shift registers\<close>

lemma bit_shift_in:
  "bit (shift_in td (q :: 'a::len word)) n \<longleftrightarrow>
     n < LENGTH('a) \<and> (if Suc n = LENGTH('a) then td else bit q (Suc n))"
proof (cases "LENGTH('a)")
  case (Suc m)
  then show ?thesis
    by (auto simp: shift_in_def bit_cat_Cons bit_cat_Nil bit_b1 bit_fld)
qed simp

definition shift_word :: "'a::len word \<Rightarrow> bool list \<Rightarrow> 'a word" where
  "shift_word q bs = foldl (\<lambda>q b. shift_in b q) q bs"

lemma shift_word_simps [simp]:
  "shift_word q [] = q" "shift_word q (b # bs) = shift_word (shift_in b q) bs"
  "shift_word q (bs @ cs) = shift_word (shift_word q bs) cs"
  by (simp_all add: shift_word_def)

definition word_bits :: "'a::len word \<Rightarrow> bool list" where
  "word_bits w = map (bit w) [0..<LENGTH('a)]"

lemma length_word_bits [simp]: "length (word_bits (w :: 'a::len word)) = LENGTH('a)"
  by (simp add: word_bits_def)

lemma word_bits_eq_iff: "word_bits v = word_bits w \<longleftrightarrow> v = w"
  by (auto simp: word_bits_def bit_eq_iff dest: bit_imp_le_length)

lemma word_bits_shift_in:
  "word_bits (shift_in b q) = tl (word_bits q) @ [b]"
proof (rule nth_equalityI)
  show "length (word_bits (shift_in b q)) = length (tl (word_bits q) @ [b])" by simp
  fix i
  assume "i < length (word_bits (shift_in b q))"
  then show "word_bits (shift_in b q) ! i = (tl (word_bits q) @ [b]) ! i"
    by (auto simp: word_bits_def bit_shift_in nth_append nth_tl)
qed

text \<open>A register being shifted puts out its bits, least significant first, then the bits that were
  shifted in.\<close>

lemma word_bits_shift_word:
  "word_bits (shift_word q bs) = drop (length bs) (word_bits q @ bs)"
proof (induction bs arbitrary: q)
  case (Cons b bs)
  have "word_bits q \<noteq> []" by (metis length_word_bits len_gt_0 length_greater_0_conv)
  then obtain c cs where "word_bits q = c # cs" by (cases "word_bits q") auto
  with Cons show ?case by (simp add: word_bits_shift_in del: drop_append)
qed simp

lemma shift_word_whole: "shift_word q (word_bits v) = (v :: 'a::len word)"
  by (simp flip: word_bits_eq_iff add: word_bits_shift_word)

fun shift_out :: "'a::len word \<Rightarrow> bool list \<Rightarrow> bool list" where
  "shift_out q [] = []"
| "shift_out q (b # bs) = bit q 0 # shift_out (shift_in b q) bs"

lemma shift_out_eq: "shift_out q bs = take (length bs) (word_bits q @ bs)"
proof (induction bs arbitrary: q)
  case (Cons b bs)
  have "word_bits q \<noteq> []" by (metis length_word_bits len_gt_0 length_greater_0_conv)
  then obtain c cs where w: "word_bits q = c # cs" by (cases "word_bits q") auto
  then have "c = bit q 0"
    by (metis nth_Cons_0 word_bits_def nth_map nth_upt len_gt_0 length_upt minus_nat.diff_0 add_0)
  with w Cons show ?case by (simp add: word_bits_shift_in del: take_append)
qed simp

lemma length_shift_out: "length (shift_out q bs) = length bs"
  by (induction bs arbitrary: q) simp_all

section \<open>Clocking the port\<close>

definition tap_run :: "u32 \<Rightarrow> (bool \<times> bool) list \<Rightarrow> tap \<Rightarrow> tap" where
  "tap_run idv ios t = foldl (\<lambda>t (tms, td). tap_posedge idv tms td t) t ios"

lemma tap_run_simps [simp]:
  "tap_run idv [] t = t"
  "tap_run idv ((tms, td) # ios) t = tap_run idv ios (tap_posedge idv tms td t)"
  "tap_run idv (ios @ jos) t = tap_run idv jos (tap_run idv ios t)"
  by (simp_all add: tap_run_def)

text \<open>The values of TDO that a host samples before each rising edge, for given values of the two
  external data registers.\<close>

fun tap_outs :: "u32 \<Rightarrow> bool \<Rightarrow> bool \<Rightarrow> (bool \<times> bool) list \<Rightarrow> tap \<Rightarrow> bool list" where
  "tap_outs idv dtmcs_tdo dmi_tdo [] t = []"
| "tap_outs idv dtmcs_tdo dmi_tdo ((tms, td) # ios) t =
     td_o (tap_negedge dtmcs_tdo dmi_tdo t)
       # tap_outs idv dtmcs_tdo dmi_tdo ios (tap_posedge idv tms td t)"

lemma tap_outs_append [simp]: "tap_outs idv a b (ios @ jos) t =
    tap_outs idv a b ios t @ tap_outs idv a b jos (tap_run idv ios t)"
  by (induction idv a b ios t rule: tap_outs.induct) simp_all

text \<open>Scans: from Run-Test/Idle into the shift state, one cycle per bit with TMS raised in the last,
  then through the update state and back.\<close>

definition shift_cycles :: "bool list \<Rightarrow> (bool \<times> bool) list" where
  "shift_cycles bs = map (Pair False) (butlast bs) @ (if bs = [] then [] else [(True, last bs)])"

definition ir_scan :: "bool list \<Rightarrow> (bool \<times> bool) list" where
  "ir_scan bs = [(True, False), (True, False), (False, False), (False, False)] @ shift_cycles bs
     @ [(True, False), (False, False)]"

definition dr_scan :: "bool list \<Rightarrow> (bool \<times> bool) list" where
  "dr_scan bs = [(True, False), (False, False), (False, False)] @ shift_cycles bs
     @ [(True, False), (False, False)]"

lemmas tap_next = tap_posedge_def strobes jtag_ir_shift_d_def jtag_ir_d_def idcode_d_def
  bypass_d_def Let_def

lemma ir_shifting:
  "tap_state_q t = ShiftIr \<Longrightarrow>
   tap_run idv (map (Pair False) bs) t = t\<lparr>jtag_ir_shift_q := shift_word (jtag_ir_shift_q t) bs\<rparr>"
  by (induction bs arbitrary: t) (simp_all add: tap_next)

lemma idcode_shifting:
  "tap_state_q t = ShiftDr \<Longrightarrow> jtag_ir_q t = IDCODE \<Longrightarrow>
   tap_run idv (map (Pair False) bs) t = t\<lparr>idcode_q := shift_word (idcode_q t) bs\<rparr> \<and>
   tap_outs idv a b (map (Pair False) bs) t = shift_out (idcode_q t) bs"
  by (induction bs arbitrary: t)
    (simp_all add: tap_next selects tap_negedge_def tdo_mux_def)


text \<open>A whole scan: all bits but the last are shifted with TMS low, the last one on the way out.\<close>

lemma shift_word_last:
  "bs \<noteq> [] \<Longrightarrow> shift_word q bs = shift_in (last bs) (shift_word q (butlast bs))"
  by (induction bs arbitrary: q) simp_all

lemma ir_shift_cycles:
  assumes "tap_state_q t = ShiftIr" and "bs \<noteq> []"
  shows "tap_run idv (shift_cycles bs) t =
    t\<lparr>tap_state_q := Exit1Ir, jtag_ir_shift_q := shift_word (jtag_ir_shift_q t) bs\<rparr>"
  using assms by (simp add: shift_cycles_def ir_shifting tap_next shift_word_last)

lemma shift_out_snoc: "shift_out q (bs @ [b]) = shift_out q bs @ [bit (shift_word q bs) 0]"
  by (induction bs arbitrary: q) simp_all

lemma idcode_shift_cycles:
  assumes "tap_state_q t = ShiftDr" and "jtag_ir_q t = IDCODE" and "bs \<noteq> []"
  shows "tap_run idv (shift_cycles bs) t =
      t\<lparr>tap_state_q := Exit1Dr, idcode_q := shift_word (idcode_q t) bs\<rparr> \<and>
    tap_outs idv a b (shift_cycles bs) t = shift_out (idcode_q t) bs"
proof -
  have e: "bs = butlast bs @ [last bs]" using assms(3) by simp
  have "shift_out (idcode_q t) bs = shift_out (idcode_q t) (butlast bs)
       @ [bit (shift_word (idcode_q t) (butlast bs)) 0]"
    by (subst e) (rule shift_out_snoc)
  with assms show ?thesis
    by (simp add: shift_cycles_def idcode_shifting shift_word_last tap_next selects tap_negedge_def
        tdo_mux_def)
qed

lemma word_bits_not_Nil [simp]: "word_bits (w :: 'a::len word) \<noteq> []"
  by (metis length_word_bits len_gt_0 length_greater_0_conv)

section \<open>Properties of the test access port\<close>

lemma reset_cleans:
  assumes "tap_state_q t = TestLogicReset"
  shows "tap_run idv (map (Pair True) (td # tds)) t =
    (tap_reset idv)\<lparr>td_o := td_o t, tdo_oe_o := tdo_oe_o t\<rparr>"
proof -
  have "tap_run idv (map (Pair True) tds) ((tap_reset idv)\<lparr>td_o := a, tdo_oe_o := b\<rparr>)
      = (tap_reset idv)\<lparr>td_o := a, tdo_oe_o := b\<rparr>" for a b
    by (induction tds) (simp_all add: tap_next tap_reset_def)
  moreover have "tap_posedge idv True td t = (tap_reset idv)\<lparr>td_o := td_o t, tdo_oe_o := tdo_oe_o t\<rparr>"
    using assms by (simp add: tap_next tap_reset_def)
  ultimately show ?thesis by simp
qed

lemma five_ones:
  "tap_state_q (tap_run idv [(True, a), (True, b), (True, c), (True, d), (True, e)] t) = TestLogicReset"
  by (cases "tap_state_q t") (simp_all add: tap_next)

text \<open>C36: holding TMS high resets the port from any state. Whatever is on TDI, five clocks bring the
  controller to Test-Logic-Reset, and with the sixth every register has the value of the
  asynchronous reset; the output stage, clocked by the other edge, is not touched. Four clocks are
  not enough.\<close>

theorem tms_high_resets:
  assumes "length tds = 5"
  shows "tap_state_q (tap_run idv (map (Pair True) tds) t) = TestLogicReset \<and>
    tap_run idv (map (Pair True) (tds @ td # tds2)) t =
      (tap_reset idv)\<lparr>td_o := td_o t, tdo_oe_o := tdo_oe_o t\<rparr> \<and>
    (\<exists>t4. tap_state_q (tap_run idv (map (Pair True) (take 4 tds)) t4) \<noteq> TestLogicReset)"
proof -
  obtain a b c d e where tds: "tds = [a, b, c, d, e]"
    using assms by (auto simp: length_Suc_conv eval_nat_numeral)
  let ?t = "tap_run idv (map (Pair True) tds) t"
  have r: "tap_state_q ?t = TestLogicReset" using five_ones by (simp add: tds)
  have o: "td_o (tap_run idv (map (Pair True) bs) u) = td_o u"
    "tdo_oe_o (tap_run idv (map (Pair True) bs) u) = tdo_oe_o u" for bs u
    by (induction bs arbitrary: u) (simp_all add: tap_posedge_def)
  have "tap_run idv (map (Pair True) (tds @ td # tds2)) t =
      (tap_reset idv)\<lparr>td_o := td_o t, tdo_oe_o := tdo_oe_o t\<rparr>"
    using reset_cleans [OF r, of idv td tds2] by (simp add: o del: tap_run_simps(2))
  moreover have "tap_state_q (tap_run idv (map (Pair True) (take 4 tds))
      ((tap_reset idv)\<lparr>tap_state_q := ShiftDr\<rparr>)) \<noteq> TestLogicReset"
    by (simp add: tds tap_next)
  ultimately show ?thesis using r by blast
qed

theorem tms_high_resets_witness:
  "tap_run 0xDB3 (replicate 6 (True, False)) ((tap_reset 0xDB3)\<lparr>tap_state_q := PauseIr, jtag_ir_q := 0x1f\<rparr>)
     = tap_reset 0xDB3"
  using tms_high_resets [of "replicate 5 False" "0xDB3"
      "(tap_reset 0xDB3)\<lparr>tap_state_q := PauseIr, jtag_ir_q := 0x1f\<rparr>" False "[]"]
  by (simp add: numeral_eq_Suc tap_reset_def)

text \<open>An instruction scan loads the instruction. From Run-Test/Idle, clocking the scan of the
  five bits of an instruction returns the controller to Run-Test/Idle with that instruction selected
  and changes nothing else.\<close>

theorem ir_scan_loads:
  assumes "tap_state_q t = RunTestIdle"
  shows "tap_run idv (ir_scan (word_bits ir)) t = t\<lparr>jtag_ir_shift_q := ir, jtag_ir_q := ir\<rparr>"
  using assms by (simp add: ir_scan_def tap_next ir_shift_cycles shift_word_whole)

theorem ir_scan_loads_witness:
  "jtag_ir_q (tap_run 0xDB3 (ir_scan (word_bits DMIACCESS)) ((tap_reset 0xDB3)\<lparr>tap_state_q := RunTestIdle\<rparr>))
     = 0x11"
  using ir_scan_loads [of "(tap_reset 0xDB3)\<lparr>tap_state_q := RunTestIdle\<rparr>" "0xDB3" DMIACCESS]
  by (simp add: DMIACCESS_def)

text \<open>Reading the IDCODE. With IDCODE selected, as after a reset, a data scan of any length puts
  out, in its shift cycles, the bits of the IDCODE value, least significant first, followed by the
  bits shifted in; a scan of 32 bits reads exactly the value. The controller ends in
  Run-Test/Idle.\<close>

theorem idcode_scan:
  assumes "tap_state_q t = RunTestIdle" and "jtag_ir_q t = IDCODE" and "bs \<noteq> []"
  shows "take (length bs) (drop 3 (tap_outs idv a b (dr_scan bs) t)) = take (length bs) (word_bits idv @ bs) \<and>
    tap_state_q (tap_run idv (dr_scan bs) t) = RunTestIdle \<and>
    jtag_ir_q (tap_run idv (dr_scan bs) t) = IDCODE"
proof -
  let ?s = "t\<lparr>tap_state_q := ShiftDr, idcode_q := idv\<rparr>"
  have s: "tap_run idv [(True, False), (False, False), (False, False)] t = ?s"
    using assms by (simp add: tap_next selects)
  have *: "tap_run idv (shift_cycles bs) ?s = ?s\<lparr>tap_state_q := Exit1Dr, idcode_q := shift_word idv bs\<rparr>"
    "tap_outs idv a b (shift_cycles bs) ?s = shift_out idv bs"
    using idcode_shift_cycles [of ?s bs idv a b] assms by simp_all
  have "take (length bs) (shift_out idv bs @ xs) = take (length bs) (word_bits idv @ bs)" for xs
    unfolding shift_out_eq [symmetric] by (simp add: length_shift_out)
  moreover have "drop 3 (tap_outs idv a b (dr_scan bs) t) = shift_out idv bs @
      tap_outs idv a b [(True, False), (False, False)]
        (?s\<lparr>tap_state_q := Exit1Dr, idcode_q := shift_word idv bs\<rparr>)"
    unfolding dr_scan_def tap_outs_append s * by simp
  moreover have "tap_run idv (dr_scan bs) t
      = ?s\<lparr>tap_state_q := RunTestIdle, idcode_q := shift_word idv bs\<rparr>"
    unfolding dr_scan_def tap_run_simps(3) s * by (simp add: tap_next selects)
  ultimately show ?thesis using assms(2) by (simp del: take_append)
qed

theorem idcode_scan_witness:
  "take 32 (drop 3 (tap_outs 0xDB3 False False (dr_scan (replicate 32 False))
      ((tap_reset 0xDB3)\<lparr>tap_state_q := RunTestIdle\<rparr>))) = word_bits (0xDB3 :: u32)"
  using idcode_scan [of "(tap_reset 0xDB3)\<lparr>tap_state_q := RunTestIdle\<rparr>" "replicate 32 False" "0xDB3"
      False False]
  by (simp add: tap_reset_def)

end
