(* ===== verification/Dmi_Jtag.thy ===== *)
theory Dmi_Jtag
  imports Dmi_Jtag_Tap
begin

text \<open>
  The debug transport module of \<open>src/dmi_jtag.sv\<close>: the DTMCS and DMI data registers behind the test
  access port and the state machine that turns an updated DMI register into a request on the debug
  module interface. The clock domain crossing \<open>dmi_cdc\<close> wraps cells that are not in the repository;
  its TCK side is the input \<open>cdc\<close> of every clock edge.
\<close>

section \<open>State\<close>

definition DMINoError :: "2 word" where "DMINoError = 0"
definition DMIOPFailed :: "2 word" where "DMIOPFailed = 2"
definition DMIBusy :: "2 word" where "DMIBusy = 3"

lemmas dmi_error_e [run_simps] = DMINoError_def DMIOPFailed_def DMIBusy_def

datatype dmi_state_e = DmiIdle | DmiRead | DmiWaitReadValid | DmiWrite | DmiWaitWriteValid

record cdc =
  dmi_req_ready :: bool
  dmi_resp_valid :: bool
  dmi_resp :: dmi_resp_t

record dmi_jtag =
  tap_i :: tap
  dtmcs_q :: u32
  dr_q :: "41 word"
  state_q :: dmi_state_e
  address_q :: "7 word"
  data_q :: u32
  error_q :: "2 word"

definition dmi_jtag_reset :: "u32 \<Rightarrow> dmi_jtag" where
  "dmi_jtag_reset IdcodeValue = \<lparr>tap_i = tap_reset IdcodeValue, dtmcs_q = 0, dr_q = 0,
     state_q = DmiIdle, address_q = 0, data_q = 0, error_q = DMINoError\<rparr>"

text \<open>The strobes of the port as this module names them.\<close>

definition update :: "dmi_jtag \<Rightarrow> bool" where "update d \<longleftrightarrow> update_dr (tap_i d)"
definition capture :: "dmi_jtag \<Rightarrow> bool" where "capture d \<longleftrightarrow> capture_dr (tap_i d)"
definition shift :: "dmi_jtag \<Rightarrow> bool" where "shift d \<longleftrightarrow> shift_dr (tap_i d)"

definition dmi_clear :: "dmi_jtag \<Rightarrow> bool" where
  "dmi_clear d \<longleftrightarrow> test_logic_reset (tap_i d) \<or>
     (dtmcs_select (tap_i d) \<and> update d \<and> dmihardreset (unpack_dtmcs (dtmcs_q d)))"

section \<open>Debug module control and status\<close>

definition dtmcs_d :: "bool \<Rightarrow> dmi_jtag \<Rightarrow> u32" where
  "dtmcs_d tdi d = (let
     w = dtmcs_q d;
     w = (if capture d \<and> dtmcs_select (tap_i d)
          then pack_dtmcs \<lparr>dtmcs_zero1 = 0, dmihardreset = False, dmireset = False,
            dtmcs_zero0 = False, dtmcs_idle = 1, dmistat = error_q d, abits = 7, dtmcs_version = 1\<rparr>
          else w)
   in if shift d \<and> dtmcs_select (tap_i d) then shift_in tdi (dtmcs_q d) else w)"

section \<open>The DMI state machine\<close>

text \<open>The fields of the packed \<open>dmi_t\<close>.\<close>

definition dmi_word :: "7 word \<Rightarrow> u32 \<Rightarrow> 2 word \<Rightarrow> 41 word" where
  "dmi_word a v p = cat [(7, ucast a), (32, ucast v), (2, ucast p)]"

definition dmi_t_address :: "41 word \<Rightarrow> 7 word" where "dmi_t_address w = fld 40 34 w"
definition dmi_t_data :: "41 word \<Rightarrow> u32" where "dmi_t_data w = fld 33 2 w"
definition dmi_t_op :: "41 word \<Rightarrow> 2 word" where "dmi_t_op w = fld 1 0 w"

lemma dmi_t_simps [simp]:
  "dmi_t_address (dmi_word a v p) = a" "dmi_t_data (dmi_word a v p) = v"
  "dmi_t_op (dmi_word a v p) = p"
  by (simp_all add: dmi_word_def dmi_t_address_def dmi_t_data_def dmi_t_op_def unpack_simps)

definition dmi_req :: "dmi_jtag \<Rightarrow> dmi_req_t" where
  "dmi_req d = \<lparr>dmi_addr = address_q d,
     dmi_op = (if state_q d = DmiWrite then DTM_WRITE else DTM_READ), dmi_data = data_q d\<rparr>"

definition dmi_req_valid :: "dmi_jtag \<Rightarrow> bool" where
  "dmi_req_valid d \<longleftrightarrow> \<not> dmi_clear d \<and> state_q d \<in> {DmiRead, DmiWrite}"

text \<open>What the case over the state assigns: the next state, address and data, and the two errors.\<close>

record fsm_out =
  state_d :: dmi_state_e
  address_d :: "7 word"
  data_d :: u32
  error_dmi_busy :: bool
  error_dmi_op_failed :: bool

definition fsm_default :: "dmi_jtag \<Rightarrow> fsm_out" where
  "fsm_default d = \<lparr>state_d = state_q d, address_d = address_q d, data_d = data_q d,
     error_dmi_busy = False, error_dmi_op_failed = False\<rparr>"

definition read_response :: "dmi_resp_t \<Rightarrow> fsm_out \<Rightarrow> fsm_out" where
  "read_response r f =
     (if resp_resp r = DTM_SUCCESS then f\<lparr>data_d := resp_data r\<rparr>
      else if resp_resp r = DTM_ERR then f\<lparr>data_d := 0xDEADBEEF, error_dmi_op_failed := True\<rparr>
      else if resp_resp r = DTM_BUSY then f\<lparr>data_d := 0xB051B051, error_dmi_busy := True\<rparr>
      else f\<lparr>data_d := 0xBAADC0DE\<rparr>)"

definition write_response :: "dmi_resp_t \<Rightarrow> fsm_out \<Rightarrow> fsm_out" where
  "write_response r f =
     (if resp_resp r = DTM_ERR then f\<lparr>error_dmi_op_failed := True\<rparr>
      else if resp_resp r = DTM_BUSY then f\<lparr>error_dmi_busy := True\<rparr>
      else f)"

definition fsm_case :: "cdc \<Rightarrow> dmi_jtag \<Rightarrow> fsm_out" where
  "fsm_case c d = (let f = fsm_default d in
     case state_q d of
       DmiIdle \<Rightarrow>
         if dmi_select (tap_i d) \<and> update d \<and> error_q d = DMINoError then
           f\<lparr>address_d := dmi_t_address (dr_q d), data_d := dmi_t_data (dr_q d),
             state_d := (if dmi_t_op (dr_q d) = DTM_READ then DmiRead
                         else if dmi_t_op (dr_q d) = DTM_WRITE then DmiWrite else DmiIdle)\<rparr>
         else f
     | DmiRead \<Rightarrow> if dmi_req_ready c then f\<lparr>state_d := DmiWaitReadValid\<rparr> else f
     | DmiWaitReadValid \<Rightarrow>
         if dmi_resp_valid c then (read_response (dmi_resp c) f)\<lparr>state_d := DmiIdle\<rparr> else f
     | DmiWrite \<Rightarrow> if dmi_req_ready c then f\<lparr>state_d := DmiWaitWriteValid\<rparr> else f
     | DmiWaitWriteValid \<Rightarrow>
         if dmi_resp_valid c then (write_response (dmi_resp c) f)\<lparr>state_d := DmiIdle\<rparr> else f)"

text \<open>The conditions after the case: a request or a capture while one is in progress.\<close>

definition busy_now :: "cdc \<Rightarrow> dmi_jtag \<Rightarrow> bool" where
  "busy_now c d \<longleftrightarrow> error_dmi_busy (fsm_case c d) \<or> (update d \<and> state_q d \<noteq> DmiIdle) \<or>
     (capture d \<and> state_q d \<in> {DmiRead, DmiWaitReadValid})"

definition error_d :: "cdc \<Rightarrow> dmi_jtag \<Rightarrow> 2 word" where
  "error_d c d = (let
     e = error_q d;
     e = (if busy_now c d \<and> error_q d = DMINoError then DMIBusy else e);
     e = (if error_dmi_op_failed (fsm_case c d) \<and> error_q d = DMINoError then DMIOPFailed else e)
   in if update d \<and> dmireset (unpack_dtmcs (dtmcs_q d)) \<and> dtmcs_select (tap_i d)
      then DMINoError else e)"

definition dr_d :: "bool \<Rightarrow> cdc \<Rightarrow> dmi_jtag \<Rightarrow> 41 word" where
  "dr_d tdi c d = (let
     w = dr_q d;
     w = (if capture d \<and> dmi_select (tap_i d) then
            (if error_q d = DMINoError \<and> \<not> busy_now c d
             then dmi_word (address_q d) (data_q d) DMINoError
             else if error_q d = DMIBusy \<or> busy_now c d
             then dmi_word (address_q d) (data_q d) DMIBusy
             else w)
          else w)
   in if shift d \<and> dmi_select (tap_i d) then shift_in tdi (dr_q d) else w)"

section \<open>Clock edges\<close>

definition dmi_jtag_posedge :: "u32 \<Rightarrow> bool \<Rightarrow> bool \<Rightarrow> cdc \<Rightarrow> dmi_jtag \<Rightarrow> dmi_jtag" where
  "dmi_jtag_posedge IdcodeValue tms td c d =
     (if dmi_clear d then
        d\<lparr>tap_i := tap_posedge IdcodeValue tms td (tap_i d), dtmcs_q := dtmcs_d td d, dr_q := 0,
          state_q := DmiIdle, address_q := 0, data_q := 0, error_q := DMINoError\<rparr>
      else
        d\<lparr>tap_i := tap_posedge IdcodeValue tms td (tap_i d), dtmcs_q := dtmcs_d td d,
          dr_q := dr_d td c d, state_q := state_d (fsm_case c d),
          address_q := address_d (fsm_case c d), data_q := data_d (fsm_case c d),
          error_q := error_d c d\<rparr>)"

definition dmi_jtag_negedge :: "dmi_jtag \<Rightarrow> dmi_jtag" where
  "dmi_jtag_negedge d =
     d\<lparr>tap_i := tap_negedge (bit (dtmcs_q d) 0) (bit (dr_q d) 0) (tap_i d)\<rparr>"

section \<open>Clocking the module\<close>

text \<open>One rising edge per pin pair and crossing input; the second function collects the values of
  TDO before each edge.\<close>

fun jtag_run :: "u32 \<Rightarrow> (bool \<times> bool) list \<Rightarrow> cdc list \<Rightarrow> dmi_jtag \<Rightarrow> dmi_jtag" where
  "jtag_run idv ((tms, td) # ios) (c # cs) d = jtag_run idv ios cs (dmi_jtag_posedge idv tms td c d)"
| "jtag_run idv _ _ d = d"

fun jtag_outs :: "u32 \<Rightarrow> (bool \<times> bool) list \<Rightarrow> cdc list \<Rightarrow> dmi_jtag \<Rightarrow> bool list" where
  "jtag_outs idv ((tms, td) # ios) (c # cs) d =
     td_o (tap_i (dmi_jtag_negedge d)) # jtag_outs idv ios cs (dmi_jtag_posedge idv tms td c d)"
| "jtag_outs idv _ _ d = []"

lemma jtag_run_append: "length ios = length cs \<Longrightarrow>
    jtag_run idv (ios @ jos) (cs @ ds) d = jtag_run idv jos ds (jtag_run idv ios cs d)"
  by (induction ios cs arbitrary: d rule: list_induct2) auto

lemma jtag_outs_append: "length ios = length cs \<Longrightarrow>
    jtag_outs idv (ios @ jos) (cs @ ds) d =
      jtag_outs idv ios cs d @ jtag_outs idv jos ds (jtag_run idv ios cs d)"
  by (induction ios cs arbitrary: d rule: list_induct2) auto

lemmas dtm_next = dmi_jtag_posedge_def dmi_clear_def update_def capture_def shift_def dtmcs_d_def
  fsm_case_def fsm_default_def busy_now_def error_d_def dr_d_def tap_next selects ir_reg_e

text \<open>Shifting the two registers of the module while no request is in progress.\<close>

lemma dmi_shift_step:
  assumes "tap_state_q (tap_i d) = ShiftDr" and "jtag_ir_q (tap_i d) = DMIACCESS"
    and "state_q d = DmiIdle"
  shows "dmi_jtag_posedge idv tms b c d = d\<lparr>tap_i := (tap_i d)\<lparr>tap_state_q :=
      (if tms then Exit1Dr else ShiftDr)\<rparr>, dr_q := shift_in b (dr_q d)\<rparr>"
    and "td_o (tap_i (dmi_jtag_negedge d)) = bit (dr_q d) 0"
  using assms by (simp_all add: dtm_next dmi_jtag_negedge_def tap_negedge_def tdo_mux_def)

lemma dtmcs_shift_step:
  assumes "tap_state_q (tap_i d) = ShiftDr" and "jtag_ir_q (tap_i d) = DTMCSR"
    and "state_q d = DmiIdle"
  shows "dmi_jtag_posedge idv tms b c d = d\<lparr>tap_i := (tap_i d)\<lparr>tap_state_q :=
      (if tms then Exit1Dr else ShiftDr)\<rparr>, dtmcs_q := shift_in b (dtmcs_q d)\<rparr>"
    and "td_o (tap_i (dmi_jtag_negedge d)) = bit (dtmcs_q d) 0"
  using assms by (simp_all add: dtm_next dmi_jtag_negedge_def tap_negedge_def tdo_mux_def)

lemma dmi_shifting:
  assumes "tap_state_q (tap_i d) = ShiftDr" and "jtag_ir_q (tap_i d) = DMIACCESS"
    and "state_q d = DmiIdle" and "length cs = length bs"
  shows "jtag_run idv (map (Pair False) bs) cs d = d\<lparr>dr_q := shift_word (dr_q d) bs\<rparr> \<and>
    jtag_outs idv (map (Pair False) bs) cs d = shift_out (dr_q d) bs"
  using assms(4,1-3)
proof (induction cs bs arbitrary: d rule: list_induct2)
  case (Cons c cs b bs)
  then show ?case using Cons.IH [of "d\<lparr>dr_q := shift_in b (dr_q d)\<rparr>"]
    by (simp add: dmi_shift_step)
qed simp

lemma dtmcs_shifting:
  assumes "tap_state_q (tap_i d) = ShiftDr" and "jtag_ir_q (tap_i d) = DTMCSR"
    and "state_q d = DmiIdle" and "length cs = length bs"
  shows "jtag_run idv (map (Pair False) bs) cs d = d\<lparr>dtmcs_q := shift_word (dtmcs_q d) bs\<rparr> \<and>
    jtag_outs idv (map (Pair False) bs) cs d = shift_out (dtmcs_q d) bs"
  using assms(4,1-3)
proof (induction cs bs arbitrary: d rule: list_induct2)
  case (Cons c cs b bs)
  then show ?case using Cons.IH [of "d\<lparr>dtmcs_q := shift_in b (dtmcs_q d)\<rparr>"]
    by (simp add: dtmcs_shift_step)
qed simp

text \<open>The shift cycles of a scan.\<close>

lemma shift_cycles_snoc: "shift_cycles (bs @ [b]) = map (Pair False) bs @ [(True, b)]"
  by (simp add: shift_cycles_def)

lemma shift_word_snoc: "shift_word q (bs @ [b]) = shift_in b (shift_word q bs)"
  by simp

lemma dmi_shift_cycles:
  assumes "tap_state_q (tap_i d) = ShiftDr" and "jtag_ir_q (tap_i d) = DMIACCESS"
    and "state_q d = DmiIdle" and "length cs = length bs" and "bs \<noteq> []"
  shows "jtag_run idv (shift_cycles bs) cs d =
      d\<lparr>tap_i := (tap_i d)\<lparr>tap_state_q := Exit1Dr\<rparr>, dr_q := shift_word (dr_q d) bs\<rparr> \<and>
    jtag_outs idv (shift_cycles bs) cs d = shift_out (dr_q d) bs"
proof -
  obtain bs' b where b: "bs = bs' @ [b]" using assms(5) by (metis rev_exhaust)
  obtain cs' c where c: "cs = cs' @ [c]" using assms(4,5) by (metis length_0_conv rev_exhaust)
  have l: "length cs' = length bs'" using assms(4) b c by simp
  note s = dmi_shifting [OF assms(1-3) l, of idv]
  show ?thesis
    unfolding b c shift_cycles_snoc using assms(1-3) s l
    by (simp add: jtag_run_append jtag_outs_append dmi_shift_step shift_out_snoc)
qed

lemma dtmcs_shift_cycles:
  assumes "tap_state_q (tap_i d) = ShiftDr" and "jtag_ir_q (tap_i d) = DTMCSR"
    and "state_q d = DmiIdle" and "length cs = length bs" and "bs \<noteq> []"
  shows "jtag_run idv (shift_cycles bs) cs d =
      d\<lparr>tap_i := (tap_i d)\<lparr>tap_state_q := Exit1Dr\<rparr>, dtmcs_q := shift_word (dtmcs_q d) bs\<rparr> \<and>
    jtag_outs idv (shift_cycles bs) cs d = shift_out (dtmcs_q d) bs"
proof -
  obtain bs' b where b: "bs = bs' @ [b]" using assms(5) by (metis rev_exhaust)
  obtain cs' c where c: "cs = cs' @ [c]" using assms(4,5) by (metis length_0_conv rev_exhaust)
  have l: "length cs' = length bs'" using assms(4) b c by simp
  note s = dtmcs_shifting [OF assms(1-3) l, of idv]
  show ?thesis
    unfolding b c shift_cycles_snoc using assms(1-3) s l
    by (simp add: jtag_run_append jtag_outs_append dtmcs_shift_step shift_out_snoc)
qed

lemma scan_inputs:
  assumes "length (cs :: 'a list) = n + 5"
  obtains a b c ms e f where "cs = [a, b, c] @ ms @ [e, f]" and "length ms = n"
proof -
  obtain a b c r where cs: "cs = a # b # c # r" and r: "length r = n + 2"
    using assms by (auto simp: length_Suc_conv eval_nat_numeral)
  have two: "length xs = 2 \<Longrightarrow> \<exists>e f. xs = [e, f]" for xs :: "'a list"
    by (auto simp: length_Suc_conv eval_nat_numeral)
  have "length (drop n r) = 2" using r by simp
  from two [OF this] obtain e f where "drop n r = [e, f]" by blast
  then have "cs = [a, b, c] @ take n r @ [e, f]" using cs append_take_drop_id [of n r] by simp
  then show thesis using r by (intro that [of a b c "take n r" e f]) simp_all
qed

lemma length_shift_cycles: "length (shift_cycles bs) = length bs"
  by (cases bs rule: rev_cases) (simp_all add: shift_cycles_def)

text \<open>The data register that a DMI scan captures.\<close>

definition dmi_captured :: "dmi_jtag \<Rightarrow> 41 word" where
  "dmi_captured d =
     (if error_q d = DMINoError then dmi_word (address_q d) (data_q d) DMINoError
      else if error_q d = DMIBusy then dmi_word (address_q d) (data_q d) DMIBusy
      else dr_q d)"

definition dtmcs_captured :: "dmi_jtag \<Rightarrow> u32" where
  "dtmcs_captured d = pack_dtmcs \<lparr>dtmcs_zero1 = 0, dmihardreset = False, dmireset = False,
     dtmcs_zero0 = False, dtmcs_idle = 1, dmistat = error_q d, abits = 7, dtmcs_version = 1\<rparr>"

definition dmi_issue :: "41 word \<Rightarrow> dmi_jtag \<Rightarrow> dmi_jtag" where
  "dmi_issue v d = d\<lparr>address_q := dmi_t_address v, data_q := dmi_t_data v,
     state_q := (if dmi_t_op v = DTM_READ then DmiRead
                 else if dmi_t_op v = DTM_WRITE then DmiWrite else DmiIdle)\<rparr>"

lemma dmi_scan_gen:
  assumes "tap_state_q (tap_i d) = RunTestIdle" and "jtag_ir_q (tap_i d) = DMIACCESS"
    and "state_q d = DmiIdle" and "length cs = 46"
  shows "jtag_run idv (dr_scan (word_bits v)) cs d =
      (if error_q d = DMINoError then dmi_issue v (d\<lparr>dr_q := v\<rparr>) else d\<lparr>dr_q := v\<rparr>) \<and>
    take 41 (drop 3 (jtag_outs idv (dr_scan (word_bits v)) cs d)) = word_bits (dmi_captured d)"
proof -
  have "length cs = 41 + 5" using assms(4) by simp
  then obtain a b c ms e f where cs: "cs = [a, b, c] @ ms @ [e, f]" and ms: "length ms = 41"
    by (rule scan_inputs)
  let ?s = "d\<lparr>tap_i := (tap_i d)\<lparr>tap_state_q := ShiftDr\<rparr>, dr_q := dmi_captured d\<rparr>"
  have s: "jtag_run idv [(True, False), (False, False), (False, False)] [a, b, c] d = ?s"
    using assms by (simp add: dtm_next dmi_captured_def)
  let ?e = "?s\<lparr>tap_i := (tap_i d)\<lparr>tap_state_q := Exit1Dr\<rparr>, dr_q := v\<rparr>"
  have c1: "jtag_run idv (shift_cycles (word_bits v)) ms ?s = ?e"
    and c2: "jtag_outs idv (shift_cycles (word_bits v)) ms ?s = shift_out (dmi_captured d) (word_bits v)"
    using dmi_shift_cycles [of ?s ms "word_bits v" idv] assms ms by (simp_all add: shift_word_whole)
  have u: "jtag_run idv [(True, False), (False, False)] [e, f] ?e =
      (if error_q d = DMINoError then dmi_issue v (d\<lparr>dr_q := v\<rparr>) else d\<lparr>dr_q := v\<rparr>)"
    using assms by (simp add: dtm_next dmi_issue_def)
  have l3: "length [(True, False), (False, False), (False, False)] = length [a, b, c]" by simp
  have lm: "length (shift_cycles (word_bits v)) = length ms" using ms by (simp add: length_shift_cycles)
  have r: "jtag_run idv (dr_scan (word_bits v)) cs d =
      (if error_q d = DMINoError then dmi_issue v (d\<lparr>dr_q := v\<rparr>) else d\<lparr>dr_q := v\<rparr>)"
    unfolding dr_scan_def cs jtag_run_append [OF l3] s jtag_run_append [OF lm] c1 by (rule u)
  have "length (jtag_outs idv [(True, False), (False, False), (False, False)] [a, b, c] d) = 3" by simp
  then have o: "drop 3 (jtag_outs idv (dr_scan (word_bits v)) cs d) =
      shift_out (dmi_captured d) (word_bits v) @ jtag_outs idv [(True, False), (False, False)] [e, f] ?e"
    unfolding dr_scan_def cs jtag_outs_append [OF l3] jtag_outs_append [OF lm] s c1 c2 by simp
  have "length (shift_out (dmi_captured d) (word_bits v)) = 41" by (simp add: length_shift_out)
  then have "take 41 (drop 3 (jtag_outs idv (dr_scan (word_bits v)) cs d))
      = shift_out (dmi_captured d) (word_bits v)"
    unfolding o by simp
  also have "\<dots> = word_bits (dmi_captured d)" by (simp add: shift_out_eq)
  finally show ?thesis using r by blast
qed

lemma dtmcs_scan_gen:
  assumes "tap_state_q (tap_i d) = RunTestIdle" and "jtag_ir_q (tap_i d) = DTMCSR"
    and "state_q d = DmiIdle" and "length cs = 37"
  shows "jtag_run idv (dr_scan (word_bits v)) cs d =
      (if dmihardreset (unpack_dtmcs v)
       then d\<lparr>dtmcs_q := v, dr_q := 0, address_q := 0, data_q := 0, error_q := DMINoError\<rparr>
       else if dmireset (unpack_dtmcs v) then d\<lparr>dtmcs_q := v, error_q := DMINoError\<rparr>
       else d\<lparr>dtmcs_q := v\<rparr>) \<and>
    take 32 (drop 3 (jtag_outs idv (dr_scan (word_bits v)) cs d)) = word_bits (dtmcs_captured d)"
proof -
  have "length cs = 32 + 5" using assms(4) by simp
  then obtain a b c ms e f where cs: "cs = [a, b, c] @ ms @ [e, f]" and ms: "length ms = 32"
    by (rule scan_inputs)
  let ?s = "d\<lparr>tap_i := (tap_i d)\<lparr>tap_state_q := ShiftDr\<rparr>, dtmcs_q := dtmcs_captured d\<rparr>"
  have s: "jtag_run idv [(True, False), (False, False), (False, False)] [a, b, c] d = ?s"
    using assms by (simp add: dtm_next dtmcs_captured_def)
  let ?e = "?s\<lparr>tap_i := (tap_i d)\<lparr>tap_state_q := Exit1Dr\<rparr>, dtmcs_q := v\<rparr>"
  have c1: "jtag_run idv (shift_cycles (word_bits v)) ms ?s = ?e"
    and c2: "jtag_outs idv (shift_cycles (word_bits v)) ms ?s = shift_out (dtmcs_captured d) (word_bits v)"
    using dtmcs_shift_cycles [of ?s ms "word_bits v" idv] assms ms by (simp_all add: shift_word_whole)
  have u: "jtag_run idv [(True, False), (False, False)] [e, f] ?e =
      (if dmihardreset (unpack_dtmcs v)
       then d\<lparr>dtmcs_q := v, dr_q := 0, address_q := 0, data_q := 0, error_q := DMINoError\<rparr>
       else if dmireset (unpack_dtmcs v) then d\<lparr>dtmcs_q := v, error_q := DMINoError\<rparr>
       else d\<lparr>dtmcs_q := v\<rparr>)"
    using assms by (simp add: dtm_next)
  have l3: "length [(True, False), (False, False), (False, False)] = length [a, b, c]" by simp
  have lm: "length (shift_cycles (word_bits v)) = length ms" using ms by (simp add: length_shift_cycles)
  have r: "jtag_run idv (dr_scan (word_bits v)) cs d = jtag_run idv [(True, False), (False, False)] [e, f] ?e"
    unfolding dr_scan_def cs jtag_run_append [OF l3] s jtag_run_append [OF lm] c1 by (rule refl)
  have "length (jtag_outs idv [(True, False), (False, False), (False, False)] [a, b, c] d) = 3" by simp
  then have o: "drop 3 (jtag_outs idv (dr_scan (word_bits v)) cs d) =
      shift_out (dtmcs_captured d) (word_bits v) @ jtag_outs idv [(True, False), (False, False)] [e, f] ?e"
    unfolding dr_scan_def cs jtag_outs_append [OF l3] jtag_outs_append [OF lm] s c1 c2 by simp
  have "length (shift_out (dtmcs_captured d) (word_bits v)) = 32" by (simp add: length_shift_out)
  then have "take 32 (drop 3 (jtag_outs idv (dr_scan (word_bits v)) cs d))
      = shift_out (dtmcs_captured d) (word_bits v)"
    unfolding o by simp
  also have "\<dots> = word_bits (dtmcs_captured d)" by (simp add: shift_out_eq)
  finally show ?thesis using r u by simp
qed

section \<open>A request in Run-Test/Idle\<close>

definition after_response :: "dmi_resp_t \<Rightarrow> dmi_jtag \<Rightarrow> dmi_jtag" where
  "after_response r d = d\<lparr>state_q := DmiIdle,
     data_q := (if state_q d = DmiRead then
         (if resp_resp r = DTM_SUCCESS then resp_data r
          else if resp_resp r = DTM_ERR then 0xDEADBEEF
          else if resp_resp r = DTM_BUSY then 0xB051B051 else 0xBAADC0DE)
       else data_q d),
     error_q := (if error_q d \<noteq> DMINoError then error_q d
       else if resp_resp r = DTM_ERR then DMIOPFailed
       else if resp_resp r = DTM_BUSY then DMIBusy else DMINoError)\<rparr>"

lemmas resting = dtm_next dtm_constants

lemma waiting_for_ready:
  assumes "tap_state_q (tap_i d) = RunTestIdle" and "state_q d = DmiRead \<or> state_q d = DmiWrite"
    and "list_all (\<lambda>c. \<not> dmi_req_ready c) cs" and "length tds = length cs"
  shows "jtag_run idv (map (Pair False) tds) cs d = d"
  using assms(4,3)
proof (induction tds cs rule: list_induct2)
  case (Cons td tds c cs)
  have "dmi_jtag_posedge idv False td c d = d"
    using assms(1,2) Cons.prems by (cases "state_q d") (simp_all add: resting)
  with Cons show ?case by simp
qed simp

lemma waiting_for_response:
  assumes "tap_state_q (tap_i d) = RunTestIdle"
    and "state_q d = DmiWaitReadValid \<or> state_q d = DmiWaitWriteValid"
    and "list_all (\<lambda>c. \<not> dmi_resp_valid c) cs" and "length tds = length cs"
  shows "jtag_run idv (map (Pair False) tds) cs d = d"
  using assms(4,3)
proof (induction tds cs rule: list_induct2)
  case (Cons td tds c cs)
  have "dmi_jtag_posedge idv False td c d = d"
    using assms(1,2) Cons.prems by (cases "state_q d") (simp_all add: resting)
  with Cons show ?case by simp
qed simp

lemma rest_step:
  assumes "tap_state_q (tap_i d) = RunTestIdle"
  shows "dmi_jtag_posedge idv False td c d = d\<lparr>state_q := state_d (fsm_case c d),
    address_q := address_d (fsm_case c d), data_q := data_d (fsm_case c d), error_q := error_d c d\<rparr>"
  using assms by (simp add: dmi_jtag_posedge_def dmi_clear_def update_def capture_def shift_def
      dtmcs_d_def dr_d_def tap_next)

lemma read_response_step:
  assumes "tap_state_q (tap_i d) = RunTestIdle" and "state_q d = DmiWaitReadValid"
    and "dmi_resp_valid c" and "dmi_resp c = r"
  shows "dmi_jtag_posedge idv False td c d = after_response r (d\<lparr>state_q := DmiRead\<rparr>)"
proof -
  have f: "fsm_case c d = (read_response r (fsm_default d))\<lparr>state_d := DmiIdle\<rparr>"
    using assms by (simp add: fsm_case_def Let_def)
  have e: "error_d c d = error_q (after_response r (d\<lparr>state_q := DmiRead\<rparr>))"
    using assms(1,2) by (simp add: error_d_def busy_now_def f read_response_def fsm_default_def
        update_def capture_def strobes Let_def after_response_def dtm_constants dmi_error_e)
  show ?thesis unfolding rest_step [OF assms(1)] f e
    by (simp add: read_response_def fsm_default_def after_response_def)
qed

lemma write_response_step:
  assumes "tap_state_q (tap_i d) = RunTestIdle" and "state_q d = DmiWaitWriteValid"
    and "dmi_resp_valid c" and "dmi_resp c = r"
  shows "dmi_jtag_posedge idv False td c d = after_response r (d\<lparr>state_q := DmiWrite\<rparr>)"
proof -
  have f: "fsm_case c d = (write_response r (fsm_default d))\<lparr>state_d := DmiIdle\<rparr>"
    using assms by (simp add: fsm_case_def Let_def)
  have e: "error_d c d = error_q (after_response r (d\<lparr>state_q := DmiWrite\<rparr>))"
    using assms(1,2) by (simp add: error_d_def busy_now_def f write_response_def fsm_default_def
        update_def capture_def strobes Let_def after_response_def dtm_constants dmi_error_e)
  show ?thesis unfolding rest_step [OF assms(1)] f e
    by (simp add: write_response_def fsm_default_def after_response_def)
qed

definition handshake :: "cdc list \<Rightarrow> dmi_resp_t \<Rightarrow> bool" where
  "handshake cs r \<longleftrightarrow> (\<exists>us c vs c'. cs = us @ c # vs @ [c'] \<and>
     list_all (\<lambda>c. \<not> dmi_req_ready c) us \<and> dmi_req_ready c \<and>
     list_all (\<lambda>c. \<not> dmi_resp_valid c) vs \<and> dmi_resp_valid c' \<and> dmi_resp c' = r)"

lemma request_served:
  assumes "tap_state_q (tap_i d) = RunTestIdle" and "state_q d = DmiRead \<or> state_q d = DmiWrite"
    and "handshake cs r" and "length tds = length cs"
  shows "jtag_run idv (map (Pair False) tds) cs d = after_response r d"
proof -
  obtain us c vs c' where cs: "cs = us @ c # vs @ [c']"
    and us: "list_all (\<lambda>c. \<not> dmi_req_ready c) us" and c: "dmi_req_ready c"
    and vs: "list_all (\<lambda>c. \<not> dmi_resp_valid c) vs" and c': "dmi_resp_valid c'" "dmi_resp c' = r"
    using assms(3) unfolding handshake_def by blast
  let ?n = "length us" and ?m = "length vs"
  obtain ts t ts' t' where tds: "tds = ts @ t # ts' @ [t']" "length ts = ?n" "length ts' = ?m"
  proof -
    let ?r = "drop ?n tds"
    have "length ?r = ?m + 2" using assms(4) cs by simp
    then obtain t q where q: "?r = t # q" "length q = ?m + 1" by (cases ?r) auto
    then obtain ts' t' where "q = ts' @ [t']" "length ts' = ?m" by (cases q rule: rev_cases) auto
    with q have "tds = take ?n tds @ t # ts' @ [t']" by (metis append_take_drop_id)
    then show thesis using \<open>length ts' = ?m\<close> assms(4) cs by (intro that [of "take ?n tds" t ts' t']) simp_all
  qed
  let ?w = "d\<lparr>state_q := if state_q d = DmiRead then DmiWaitReadValid else DmiWaitWriteValid\<rparr>"
  have 1: "dmi_jtag_posedge idv False t c d = ?w" using assms(1) c assms(2)
    by (elim disjE; simp add: resting)
  have 2: "dmi_jtag_posedge idv False t' c' ?w = after_response r d"
    using assms(2)
  proof
    assume s: "state_q d = DmiRead"
    have "dmi_jtag_posedge idv False t' c' (d\<lparr>state_q := DmiWaitReadValid\<rparr>) =
        after_response r (d\<lparr>state_q := DmiRead\<rparr>)"
      using read_response_step [of "d\<lparr>state_q := DmiWaitReadValid\<rparr>" c' r idv t'] assms(1) c' by simp
    then show ?thesis using s by (simp add: after_response_def)
  next
    assume s: "state_q d = DmiWrite"
    have "dmi_jtag_posedge idv False t' c' (d\<lparr>state_q := DmiWaitWriteValid\<rparr>) =
        after_response r (d\<lparr>state_q := DmiWrite\<rparr>)"
      using write_response_step [of "d\<lparr>state_q := DmiWaitWriteValid\<rparr>" c' r idv t'] assms(1) c' by simp
    then show ?thesis using s by (simp add: after_response_def)
  qed
  have "jtag_run idv (map (Pair False) ts) us d = d"
    by (rule waiting_for_ready [OF assms(1,2) us tds(2)])
  moreover have "jtag_run idv (map (Pair False) ts') vs ?w = ?w"
    by (rule waiting_for_response) (use assms(1,2) vs tds(3) in auto)
  ultimately show ?thesis using 1 2 tds(2,3) unfolding tds(1) cs
    by (simp add: jtag_run_append)
qed

section \<open>Properties of the transport module\<close>

text \<open>C23: what a scan of the DMI register does. With DMIACCESS selected and no request in progress, a
  41-bit scan reads the address and data of the last request with the error code, least significant
  bit first; if no error is pending it then issues the scanned request, and if an error is pending
  it issues nothing and leaves every register but the shift register alone. (After a failed
  operation the captured value is what the previous scan shifted in.)\<close>

theorem dmi_scan:
  assumes "tap_state_q (tap_i d) = RunTestIdle" and "jtag_ir_q (tap_i d) = DMIACCESS"
    and "state_q d = DmiIdle" and "length cs = 46"
  shows "jtag_run idv (dr_scan (word_bits v)) cs d =
      (if error_q d = DMINoError then dmi_issue v (d\<lparr>dr_q := v\<rparr>) else d\<lparr>dr_q := v\<rparr>) \<and>
    take 41 (drop 3 (jtag_outs idv (dr_scan (word_bits v)) cs d)) =
      word_bits (if error_q d = DMINoError then dmi_word (address_q d) (data_q d) DMINoError
        else if error_q d = DMIBusy then dmi_word (address_q d) (data_q d) DMIBusy
        else dr_q d)"
  using dmi_scan_gen [OF assms] unfolding dmi_captured_def .

definition quiet :: cdc where
  "quiet = \<lparr>dmi_req_ready = False, dmi_resp_valid = False, dmi_resp = \<lparr>resp_data = 0, resp_resp = 0\<rparr>\<rparr>"

definition ready_dtm :: dmi_jtag where
  "ready_dtm = (dmi_jtag_reset 0xDB3)\<lparr>tap_i := (tap_reset 0xDB3)\<lparr>tap_state_q := RunTestIdle,
     jtag_ir_q := DMIACCESS\<rparr>\<rparr>"

lemma ready_dtm_simps [simp]:
  "tap_state_q (tap_i ready_dtm) = RunTestIdle" "jtag_ir_q (tap_i ready_dtm) = DMIACCESS"
  "state_q ready_dtm = DmiIdle" "error_q ready_dtm = DMINoError" "address_q ready_dtm = 0"
  "data_q ready_dtm = 0"
  by (simp_all add: ready_dtm_def dmi_jtag_reset_def)

theorem dmi_scan_witness:
  "state_q (jtag_run 0xDB3 (dr_scan (word_bits (dmi_word 0x10 1 DTM_WRITE))) (replicate 46 quiet) ready_dtm)
     = DmiWrite"
  using dmi_scan [of ready_dtm "replicate 46 quiet" "0xDB3" "dmi_word 0x10 1 DTM_WRITE"]
  by (simp add: dmi_issue_def dtm_constants)

text \<open>A read request returns the data of the debug module to the host. From Run-Test/Idle with no
  error pending: scan a read of address \<open>a\<close>, stay in Run-Test/Idle while the crossing takes the
  request and answers successfully with \<open>x\<close>, however long either takes, and scan again; the second
  scan reads \<open>{a, x, no error}\<close>.\<close>

theorem dmi_read_returns:
  assumes "tap_state_q (tap_i d) = RunTestIdle" and "jtag_ir_q (tap_i d) = DMIACCESS"
    and "state_q d = DmiIdle" and "error_q d = DMINoError"
    and "length cs = 46" and "handshake hs \<lparr>resp_data = x, resp_resp = DTM_SUCCESS\<rparr>"
    and "length tds = length hs" and "length cs' = 46"
  shows "take 41 (drop 3 (jtag_outs idv (dr_scan (word_bits (w :: 41 word))) cs'
      (jtag_run idv (map (Pair False) tds) hs
        (jtag_run idv (dr_scan (word_bits (dmi_word a v DTM_READ))) cs d))))
    = word_bits (dmi_word a x DMINoError)"
proof -
  let ?v = "dmi_word a v DTM_READ"
  let ?i = "dmi_issue ?v (d\<lparr>dr_q := ?v\<rparr>)"
  have 1: "jtag_run idv (dr_scan (word_bits ?v)) cs d = ?i"
    using dmi_scan_gen [OF assms(1-3,5)] assms(4) by simp
  have 2: "jtag_run idv (map (Pair False) tds) hs ?i
      = after_response \<lparr>resp_data = x, resp_resp = DTM_SUCCESS\<rparr> ?i"
    by (rule request_served [OF _ _ assms(6,7)]) (use assms(1) in \<open>simp_all add: dmi_issue_def\<close>)
  let ?d = "after_response \<lparr>resp_data = x, resp_resp = DTM_SUCCESS\<rparr> ?i"
  have 3: "address_q ?d = a" "data_q ?d = x" "error_q ?d = DMINoError" "state_q ?d = DmiIdle"
    "tap_i ?d = tap_i d"
    using assms(4) by (simp_all add: after_response_def dmi_issue_def dtm_constants)
  have "take 41 (drop 3 (jtag_outs idv (dr_scan (word_bits w)) cs' ?d)) = word_bits (dmi_captured ?d)"
    using dmi_scan_gen [of ?d cs' idv w] assms(1,2,8) 3 by simp
  then show ?thesis unfolding 1 2 dmi_captured_def by (simp add: 3)
qed

theorem dmi_read_returns_witness:
  "take 41 (drop 3 (jtag_outs 0xDB3 (dr_scan (word_bits (0 :: 41 word))) (replicate 46 quiet)
      (jtag_run 0xDB3 (map (Pair False) [False, False, False])
        [quiet, quiet\<lparr>dmi_req_ready := True\<rparr>,
         quiet\<lparr>dmi_resp_valid := True, dmi_resp := \<lparr>resp_data = 0xCAFE, resp_resp = 0\<rparr>\<rparr>]
        (jtag_run 0xDB3 (dr_scan (word_bits (dmi_word 0x11 0 DTM_READ))) (replicate 46 quiet) ready_dtm))))
    = word_bits (dmi_word 0x11 0xCAFE 0)"
proof -
  have "handshake [quiet, quiet\<lparr>dmi_req_ready := True\<rparr>,
      quiet\<lparr>dmi_resp_valid := True, dmi_resp := \<lparr>resp_data = 0xCAFE, resp_resp = 0\<rparr>\<rparr>]
      \<lparr>resp_data = 0xCAFE, resp_resp = DTM_SUCCESS\<rparr>"
    unfolding handshake_def
    by (rule exI [of _ "[quiet]"], rule exI [of _ "quiet\<lparr>dmi_req_ready := True\<rparr>"], rule exI [of _ "[]"])
      (simp add: quiet_def dtm_constants)
  from dmi_read_returns [of ready_dtm "replicate 46 quiet", OF _ _ _ _ _ this,
      of "[False, False, False]" "replicate 46 quiet" "0xDB3" 0 "0x11" 0]
  show ?thesis by (simp add: dmi_error_e)
qed

text \<open>C25: errors are sticky. A pending error is kept, and no request leaves the idle state, in every
  cycle except one that resets the module (Test-Logic-Reset or a hard reset through DTMCS) or
  updates DTMCS with \<open>dmireset\<close> set.\<close>

theorem dmi_error_sticky:
  assumes "error_q d \<noteq> DMINoError" and "\<not> dmi_clear d"
    and "\<not> (update d \<and> dtmcs_select (tap_i d) \<and> dmireset (unpack_dtmcs (dtmcs_q d)))"
  shows "error_q (dmi_jtag_posedge idv tms td c d) = error_q d \<and>
    (state_q (dmi_jtag_posedge idv tms td c d) \<in> {DmiRead, DmiWrite} \<longrightarrow> state_q d \<in> {DmiRead, DmiWrite})"
  using assms
  by (auto simp: dmi_jtag_posedge_def error_d_def Let_def fsm_case_def fsm_default_def
      split: dmi_state_e.splits if_splits)

theorem dmi_error_sticky_witness:
  "error_q (dmi_jtag_posedge 0xDB3 True False quiet
     (ready_dtm\<lparr>tap_i := (tap_i ready_dtm)\<lparr>tap_state_q := UpdateDr\<rparr>, error_q := DMIBusy,
       dr_q := dmi_word 0x10 1 DTM_WRITE\<rparr>)) = 3"
  using dmi_error_sticky [of "ready_dtm\<lparr>tap_i := (tap_i ready_dtm)\<lparr>tap_state_q := UpdateDr\<rparr>,
      error_q := DMIBusy, dr_q := dmi_word 0x10 1 DTM_WRITE\<rparr>" "0xDB3" True False quiet]
  by (simp add: dmi_error_e dmi_clear_def update_def strobes selects ir_reg_e ready_dtm_def
      dmi_jtag_reset_def)

text \<open>A request is held until it is taken. While a request is valid and not accepted, the next
  cycle offers the same request, unless the module is being reset.\<close>

theorem dmi_request_stable:
  assumes "dmi_req_valid d" and "\<not> dmi_req_ready c"
    and "\<not> dmi_clear (dmi_jtag_posedge idv tms td c d)"
  shows "dmi_req_valid (dmi_jtag_posedge idv tms td c d) \<and>
    dmi_req (dmi_jtag_posedge idv tms td c d) = dmi_req d"
  using assms
  by (auto simp: dmi_req_valid_def dmi_req_def dmi_jtag_posedge_def fsm_case_def fsm_default_def)

theorem dmi_request_stable_witness:
  "dmi_req (dmi_jtag_posedge 0xDB3 True True quiet (ready_dtm\<lparr>state_q := DmiWrite, data_q := 7\<rparr>)) =
     \<lparr>dmi_addr = 0, dmi_op = 2, dmi_data = 7\<rparr>"
  using dmi_request_stable [of "ready_dtm\<lparr>state_q := DmiWrite, data_q := 7\<rparr>" quiet "0xDB3" True True]
  by (simp add: quiet_def dmi_req_valid_def dmi_req_def dmi_clear_def update_def strobes selects
      dmi_jtag_posedge_def tap_posedge_def dtm_constants)

text \<open>The resets through DTMCS. With DTMCSR selected and no request in progress, a 32-bit scan
  reads the status word with the pending error in \<open>dmistat\<close>; writing \<open>dmihardreset\<close> clears the error,
  the registers and the shift register of the DMI, writing only \<open>dmireset\<close> clears just the error, and
  any other value changes nothing but DTMCS itself.\<close>

theorem dtmcs_scan:
  assumes "tap_state_q (tap_i d) = RunTestIdle" and "jtag_ir_q (tap_i d) = DTMCSR"
    and "state_q d = DmiIdle" and "length cs = 37"
  shows "jtag_run idv (dr_scan (word_bits v)) cs d =
      (if bit v 17
       then d\<lparr>dtmcs_q := v, dr_q := 0, address_q := 0, data_q := 0, error_q := DMINoError\<rparr>
       else if bit v 16 then d\<lparr>dtmcs_q := v, error_q := DMINoError\<rparr>
       else d\<lparr>dtmcs_q := v\<rparr>) \<and>
    take 32 (drop 3 (jtag_outs idv (dr_scan (word_bits v)) cs d)) =
      word_bits (0x1071 OR push_bit 10 (ucast (error_q d)) :: u32)"
proof -
  have "pack_dtmcs \<lparr>dtmcs_zero1 = 0, dmihardreset = False, dmireset = False, dtmcs_zero0 = False,
      dtmcs_idle = 1, dmistat = e, abits = 7, dtmcs_version = 1\<rparr> = 0x1071 OR push_bit 10 (ucast e)" for e
    by (simp add: pack_dtmcs_def cat_simps take_bit_ucast_self or.left_commute or.assoc or.commute)
  then show ?thesis
    using dtmcs_scan_gen [OF assms, of idv v] by (simp add: dtmcs_captured_def unpack_dtmcs_def)
qed

theorem dtmcs_scan_witness:
  "error_q (jtag_run 0xDB3 (dr_scan (word_bits (0x10000 :: u32))) (replicate 37 quiet)
     (ready_dtm\<lparr>tap_i := (tap_i ready_dtm)\<lparr>jtag_ir_q := DTMCSR\<rparr>, error_q := DMIBusy\<rparr>)) = DMINoError"
  using dtmcs_scan [of "ready_dtm\<lparr>tap_i := (tap_i ready_dtm)\<lparr>jtag_ir_q := DTMCSR\<rparr>, error_q := DMIBusy\<rparr>"
      "replicate 37 quiet" "0xDB3" "0x10000"]
  by simp

end
