(* ===== verification/Held.thy ===== *)
theory Held
  imports Prelude
begin

text \<open>
  The contract of a signal that a component holds while another one relies on it: as long as an
  environment condition lasts, an invariant is kept and a view of the state does not change. The
  modules of the debug system promise this to the harts (the program of a command), to the bus (a
  request) and to the host (a request on the debug module interface).
\<close>

primrec runs_ok :: "('i \<Rightarrow> 's \<Rightarrow> 's) \<Rightarrow> ('i \<Rightarrow> 's \<Rightarrow> bool) \<Rightarrow> 'i list \<Rightarrow> 's \<Rightarrow> bool" where
  "runs_ok stp ok [] s = True"
| "runs_ok stp ok (i # is) s = (ok i s \<and> runs_ok stp ok is (stp i s))"

definition runs :: "('i \<Rightarrow> 's \<Rightarrow> 's) \<Rightarrow> 'i list \<Rightarrow> 's \<Rightarrow> 's" where
  "runs stp is s = foldl (\<lambda>s i. stp i s) s is"

lemma runs_simps [simp]:
  "runs stp [] s = s" "runs stp (i # is) s = runs stp is (stp i s)"
  "runs stp (is @ js) s = runs stp js (runs stp is s)"
  by (simp_all add: runs_def)

locale held =
  fixes stp :: "'i \<Rightarrow> 's \<Rightarrow> 's" and ok :: "'i \<Rightarrow> 's \<Rightarrow> bool"
    and inv :: "'s \<Rightarrow> bool" and view :: "'s \<Rightarrow> 'v"
  assumes keeps_inv: "inv s \<Longrightarrow> ok i s \<Longrightarrow> inv (stp i s)"
    and keeps_view: "inv s \<Longrightarrow> ok i s \<Longrightarrow> view (stp i s) = view s"
begin

lemma held_run: "inv s \<Longrightarrow> runs_ok stp ok is s \<Longrightarrow> inv (runs stp is s) \<and> view (runs stp is s) = view s"
  by (induction "is" arbitrary: s) (auto simp: keeps_inv keeps_view)

end

end
