(* ===== verification/Dmi_Cdc.thy ===== *)
theory Dmi_Cdc
  imports Held
begin

text \<open>
  The logic of its own that \<open>src/dmi_cdc.sv\<close> adds to the two clock domain crossings it wraps: it turns the
  pending-clear signal of the request crossing, as seen by the core clock, into the active-low reset of
  one cycle that flushes the response queue of the debug module. The crossings are cells of another
  repository; their pending-clear output is the input of every clock edge.
\<close>

record cdc_regs =
  core_dmi_rst_nq :: bool
  core_clear_pending_q :: bool

definition cdc_reset :: cdc_regs where
  "cdc_reset = \<lparr>core_dmi_rst_nq = True, core_clear_pending_q = False\<rparr>"

definition clear_pending_rise_edge_detect :: "bool \<Rightarrow> cdc_regs \<Rightarrow> bool" where
  "clear_pending_rise_edge_detect core_clear_pending r \<longleftrightarrow> \<not> core_clear_pending_q r \<and> core_clear_pending"

definition cdc_clk :: "bool \<Rightarrow> cdc_regs \<Rightarrow> cdc_regs" where
  "cdc_clk core_clear_pending r = \<lparr>core_dmi_rst_nq = (\<not> clear_pending_rise_edge_detect core_clear_pending r),
     core_clear_pending_q = core_clear_pending\<rparr>"

definition core_dmi_rst_no :: "cdc_regs \<Rightarrow> bool" where
  "core_dmi_rst_no r \<longleftrightarrow> core_dmi_rst_nq r"

text \<open>The level before each edge: low before the first one.\<close>

definition level_before :: "bool list \<Rightarrow> bool" where
  "level_before ps \<longleftrightarrow> ps \<noteq> [] \<and> last ps"

lemma pending_run: "core_clear_pending_q (runs cdc_clk ps cdc_reset) = level_before ps"
  by (induction ps rule: rev_induct) (simp_all add: cdc_clk_def cdc_reset_def level_before_def)

text \<open>The rising edges of a level, and the cycles in which the reset is low.\<close>

primrec rises :: "bool \<Rightarrow> bool list \<Rightarrow> nat" where
  "rises b [] = 0"
| "rises b (p # ps) = (if \<not> b \<and> p then 1 else 0) + rises p ps"

primrec flushes :: "bool list \<Rightarrow> cdc_regs \<Rightarrow> nat" where
  "flushes [] r = 0"
| "flushes (p # ps) r = (if core_dmi_rst_no (cdc_clk p r) then 0 else 1) + flushes ps (cdc_clk p r)"

lemma flushes_rises: "flushes ps r = rises (core_clear_pending_q r) ps"
  by (induction ps arbitrary: r)
    (simp_all add: core_dmi_rst_no_def cdc_clk_def clear_pending_rise_edge_detect_def)

text \<open>C35: the debug module flushes its response queue once per clear. From reset, the flush is active after a
  core clock edge exactly if the pending clear has just risen; so it lasts one cycle, however long the
  clear is pending, and the number of flushes is the number of clears.\<close>

theorem flush_once_per_clear:
  "core_dmi_rst_no (runs cdc_clk (ps @ [p]) cdc_reset) = (\<not> (p \<and> \<not> level_before ps)) \<and>
   (core_dmi_rst_no (runs cdc_clk (ps @ [p]) cdc_reset) \<or> core_dmi_rst_no (runs cdc_clk (ps @ [p, q]) cdc_reset)) \<and>
   flushes ps cdc_reset = rises False ps"
  using pending_run [of ps] pending_run [of "ps @ [p]"]
  by (auto simp: core_dmi_rst_no_def cdc_clk_def clear_pending_rise_edge_detect_def flushes_rises level_before_def)
    (simp add: cdc_reset_def)+

end
