(* ===== verification/Dm_Regs.thy ===== *)
theory Dm_Regs
  imports Dm_Pkg
begin

text \<open>
  The debug module registers of \<open>src/dm_pkg.sv\<close>: their addresses and their packed layouts. As in
  \<open>Dm_Pkg\<close>, a packed structure is a record with a packing function in each direction; fields whose
  name occurs in several structures carry the initials of theirs.
\<close>

section \<open>Addresses\<close>

definition dm_csr_e :: "(string \<times> 8 word) list" where
  "dm_csr_e = [
    (''Data0'', 0x04), (''Data1'', 0x05), (''Data2'', 0x06), (''Data3'', 0x07),
    (''Data4'', 0x08), (''Data5'', 0x09), (''Data6'', 0x0A), (''Data7'', 0x0B),
    (''Data8'', 0x0C), (''Data9'', 0x0D), (''Data10'', 0x0E), (''Data11'', 0x0F),
    (''DMControl'', 0x10), (''DMStatus'', 0x11), (''Hartinfo'', 0x12), (''HaltSum1'', 0x13),
    (''HAWindowSel'', 0x14), (''HAWindow'', 0x15), (''AbstractCS'', 0x16), (''Command'', 0x17),
    (''AbstractAuto'', 0x18), (''DevTreeAddr0'', 0x19), (''DevTreeAddr1'', 0x1A),
    (''DevTreeAddr2'', 0x1B), (''DevTreeAddr3'', 0x1C), (''NextDM'', 0x1D),
    (''ProgBuf0'', 0x20), (''ProgBuf1'', 0x21), (''ProgBuf2'', 0x22), (''ProgBuf3'', 0x23),
    (''ProgBuf4'', 0x24), (''ProgBuf5'', 0x25), (''ProgBuf6'', 0x26), (''ProgBuf7'', 0x27),
    (''ProgBuf8'', 0x28), (''ProgBuf9'', 0x29), (''ProgBuf10'', 0x2A), (''ProgBuf11'', 0x2B),
    (''ProgBuf12'', 0x2C), (''ProgBuf13'', 0x2D), (''ProgBuf14'', 0x2E), (''ProgBuf15'', 0x2F),
    (''AuthData'', 0x30), (''HaltSum2'', 0x34), (''HaltSum3'', 0x35), (''SBAddress3'', 0x37),
    (''SBCS'', 0x38), (''SBAddress0'', 0x39), (''SBAddress1'', 0x3A), (''SBAddress2'', 0x3B),
    (''SBData0'', 0x3C), (''SBData1'', 0x3D), (''SBData2'', 0x3E), (''SBData3'', 0x3F),
    (''HaltSum0'', 0x40)]"

text \<open>The registers the module serves.\<close>

definition DMControl :: "8 word" where "DMControl = 0x10"
definition DMStatus :: "8 word" where "DMStatus = 0x11"
definition Hartinfo :: "8 word" where "Hartinfo = 0x12"
definition HaltSum1 :: "8 word" where "HaltSum1 = 0x13"
definition AbstractCS :: "8 word" where "AbstractCS = 0x16"
definition Command :: "8 word" where "Command = 0x17"
definition AbstractAuto :: "8 word" where "AbstractAuto = 0x18"
definition NextDM :: "8 word" where "NextDM = 0x1D"
definition ProgBuf0 :: "8 word" where "ProgBuf0 = 0x20"
definition HaltSum2 :: "8 word" where "HaltSum2 = 0x34"
definition HaltSum3 :: "8 word" where "HaltSum3 = 0x35"
definition SBCS :: "8 word" where "SBCS = 0x38"
definition SBAddress0 :: "8 word" where "SBAddress0 = 0x39"
definition SBAddress1 :: "8 word" where "SBAddress1 = 0x3A"
definition SBData0 :: "8 word" where "SBData0 = 0x3C"
definition SBData1 :: "8 word" where "SBData1 = 0x3D"
definition HaltSum0 :: "8 word" where "HaltSum0 = 0x40"
definition Data0 :: "8 word" where "Data0 = 0x04"

lemmas dm_addresses [run_simps] = DMControl_def DMStatus_def Hartinfo_def HaltSum1_def AbstractCS_def Command_def
  AbstractAuto_def NextDM_def ProgBuf0_def HaltSum2_def HaltSum3_def SBCS_def SBAddress0_def
  SBAddress1_def SBData0_def SBData1_def HaltSum0_def Data0_def

text \<open>The last data and program buffer registers.\<close>

definition DataEnd :: "8 word" where "DataEnd = Data0 + of_nat DataCount - 1"
definition ProgBufEnd :: "8 word" where "ProgBufEnd = ProgBuf0 + of_nat ProgBufSize - 1"

section \<open>Enumerations\<close>

definition CmdErrNone :: "3 word" where "CmdErrNone = 0"
definition CmdErrBusy :: "3 word" where "CmdErrBusy = 1"
definition CmdErrNotSupported :: "3 word" where "CmdErrNotSupported = 2"
definition CmdErrorException :: "3 word" where "CmdErrorException = 3"
definition CmdErrorHaltResume :: "3 word" where "CmdErrorHaltResume = 4"
definition CmdErrorBus :: "3 word" where "CmdErrorBus = 5"
definition CmdErrorOther :: "3 word" where "CmdErrorOther = 7"

lemmas cmderr_e [run_simps] = CmdErrNone_def CmdErrBusy_def CmdErrNotSupported_def
  CmdErrorException_def CmdErrorHaltResume_def CmdErrorBus_def CmdErrorOther_def

definition AccessRegister :: "8 word" where "AccessRegister = 0"
definition QuickAccess :: "8 word" where "QuickAccess = 1"
definition AccessMemory :: "8 word" where "AccessMemory = 2"

lemmas cmd_e [run_simps] = AccessRegister_def QuickAccess_def AccessMemory_def

section \<open>Layouts\<close>

record dmstatus_t =
  ds_zero1 :: "9 word"
  impebreak :: bool
  ds_zero0 :: "2 word"
  allhavereset :: bool
  anyhavereset :: bool
  allresumeack :: bool
  anyresumeack :: bool
  allnonexistent :: bool
  anynonexistent :: bool
  allunavail :: bool
  anyunavail :: bool
  allrunning :: bool
  anyrunning :: bool
  allhalted :: bool
  anyhalted :: bool
  authenticated :: bool
  authbusy :: bool
  hasresethaltreq :: bool
  devtreevalid :: bool
  ds_version :: "4 word"

definition pack_dmstatus :: "dmstatus_t \<Rightarrow> u32" where
  "pack_dmstatus x = cat [(9, ucast (ds_zero1 x)), (1, b1 (impebreak x)), (2, ucast (ds_zero0 x)),
     (1, b1 (allhavereset x)), (1, b1 (anyhavereset x)), (1, b1 (allresumeack x)),
     (1, b1 (anyresumeack x)), (1, b1 (allnonexistent x)), (1, b1 (anynonexistent x)),
     (1, b1 (allunavail x)), (1, b1 (anyunavail x)), (1, b1 (allrunning x)),
     (1, b1 (anyrunning x)), (1, b1 (allhalted x)), (1, b1 (anyhalted x)),
     (1, b1 (authenticated x)), (1, b1 (authbusy x)), (1, b1 (hasresethaltreq x)),
     (1, b1 (devtreevalid x)), (4, ucast (ds_version x))]"

definition unpack_dmstatus :: "u32 \<Rightarrow> dmstatus_t" where
  "unpack_dmstatus w = \<lparr>ds_zero1 = fld 31 23 w, impebreak = bit w 22, ds_zero0 = fld 21 20 w,
     allhavereset = bit w 19, anyhavereset = bit w 18, allresumeack = bit w 17,
     anyresumeack = bit w 16, allnonexistent = bit w 15, anynonexistent = bit w 14,
     allunavail = bit w 13, anyunavail = bit w 12, allrunning = bit w 11,
     anyrunning = bit w 10, allhalted = bit w 9, anyhalted = bit w 8, authenticated = bit w 7,
     authbusy = bit w 6, hasresethaltreq = bit w 5, devtreevalid = bit w 4,
     ds_version = fld 3 0 w\<rparr>"

record dmcontrol_t =
  haltreq :: bool
  resumereq :: bool
  hartreset :: bool
  ackhavereset :: bool
  dc_zero1 :: bool
  hasel :: bool
  hartsello :: "10 word"
  hartselhi :: "10 word"
  dc_zero0 :: "2 word"
  setresethaltreq :: bool
  clrresethaltreq :: bool
  ndmreset :: bool
  dmactive :: bool

definition pack_dmcontrol :: "dmcontrol_t \<Rightarrow> u32" where
  "pack_dmcontrol x = cat [(1, b1 (haltreq x)), (1, b1 (resumereq x)), (1, b1 (hartreset x)),
     (1, b1 (ackhavereset x)), (1, b1 (dc_zero1 x)), (1, b1 (hasel x)),
     (10, ucast (hartsello x)), (10, ucast (hartselhi x)), (2, ucast (dc_zero0 x)),
     (1, b1 (setresethaltreq x)), (1, b1 (clrresethaltreq x)), (1, b1 (ndmreset x)),
     (1, b1 (dmactive x))]"

definition unpack_dmcontrol :: "u32 \<Rightarrow> dmcontrol_t" where
  "unpack_dmcontrol w = \<lparr>haltreq = bit w 31, resumereq = bit w 30, hartreset = bit w 29, ackhavereset = bit w 28,
     dc_zero1 = bit w 27, hasel = bit w 26, hartsello = fld 25 16 w, hartselhi = fld 15 6 w,
     dc_zero0 = fld 5 4 w, setresethaltreq = bit w 3, clrresethaltreq = bit w 2,
     ndmreset = bit w 1, dmactive = bit w 0\<rparr>"

record abstractcs_t =
  ac_zero3 :: "3 word"
  ac_progbufsize :: "5 word"
  ac_zero2 :: "11 word"
  ac_busy :: bool
  ac_zero1 :: bool
  ac_cmderr :: "3 word"
  ac_zero0 :: "4 word"
  ac_datacount :: "4 word"

definition pack_abstractcs :: "abstractcs_t \<Rightarrow> u32" where
  "pack_abstractcs x = cat [(3, ucast (ac_zero3 x)), (5, ucast (ac_progbufsize x)), (11, ucast (ac_zero2 x)),
     (1, b1 (ac_busy x)), (1, b1 (ac_zero1 x)), (3, ucast (ac_cmderr x)),
     (4, ucast (ac_zero0 x)), (4, ucast (ac_datacount x))]"

definition unpack_abstractcs :: "u32 \<Rightarrow> abstractcs_t" where
  "unpack_abstractcs w = \<lparr>ac_zero3 = fld 31 29 w, ac_progbufsize = fld 28 24 w, ac_zero2 = fld 23 13 w,
     ac_busy = bit w 12, ac_zero1 = bit w 11, ac_cmderr = fld 10 8 w, ac_zero0 = fld 7 4 w,
     ac_datacount = fld 3 0 w\<rparr>"

record command_t =
  cmdtype :: "8 word"
  control :: "24 word"

definition pack_command :: "command_t \<Rightarrow> u32" where
  "pack_command x = cat [(8, ucast (cmdtype x)), (24, ucast (control x))]"

definition unpack_command :: "u32 \<Rightarrow> command_t" where
  "unpack_command w = \<lparr>cmdtype = fld 31 24 w, control = fld 23 0 w\<rparr>"

record abstractauto_t =
  autoexecprogbuf :: "16 word"
  aa_zero0 :: "4 word"
  autoexecdata :: "12 word"

definition pack_abstractauto :: "abstractauto_t \<Rightarrow> u32" where
  "pack_abstractauto x = cat [(16, ucast (autoexecprogbuf x)), (4, ucast (aa_zero0 x)), (12, ucast (autoexecdata x))]"

definition unpack_abstractauto :: "u32 \<Rightarrow> abstractauto_t" where
  "unpack_abstractauto w = \<lparr>autoexecprogbuf = fld 31 16 w, aa_zero0 = fld 15 12 w, autoexecdata = fld 11 0 w\<rparr>"

record ac_ar_cmd_t =
  ar_zero1 :: bool
  aarsize :: "3 word"
  aarpostincrement :: bool
  postexec :: bool
  transfer :: bool
  ar_write :: bool
  regno :: "16 word"

definition pack_ac_ar_cmd :: "ac_ar_cmd_t \<Rightarrow> 24 word" where
  "pack_ac_ar_cmd x = cat [(1, b1 (ar_zero1 x)), (3, ucast (aarsize x)), (1, b1 (aarpostincrement x)),
     (1, b1 (postexec x)), (1, b1 (transfer x)), (1, b1 (ar_write x)), (16, ucast (regno x))]"

definition unpack_ac_ar_cmd :: "24 word \<Rightarrow> ac_ar_cmd_t" where
  "unpack_ac_ar_cmd w = \<lparr>ar_zero1 = bit w 23, aarsize = fld 22 20 w, aarpostincrement = bit w 19,
     postexec = bit w 18, transfer = bit w 17, ar_write = bit w 16, regno = fld 15 0 w\<rparr>"

record sbcs_t =
  sbversion :: "3 word"
  sb_zero0 :: "6 word"
  sbbusyerror :: bool
  sbbusy :: bool
  sbreadonaddr :: bool
  sbaccess :: "3 word"
  sbautoincrement :: bool
  sbreadondata :: bool
  sberror :: "3 word"
  sbasize :: "7 word"
  sbaccess128 :: bool
  sbaccess64 :: bool
  sbaccess32 :: bool
  sbaccess16 :: bool
  sbaccess8 :: bool

definition pack_sbcs :: "sbcs_t \<Rightarrow> u32" where
  "pack_sbcs x = cat [(3, ucast (sbversion x)), (6, ucast (sb_zero0 x)), (1, b1 (sbbusyerror x)),
     (1, b1 (sbbusy x)), (1, b1 (sbreadonaddr x)), (3, ucast (sbaccess x)),
     (1, b1 (sbautoincrement x)), (1, b1 (sbreadondata x)), (3, ucast (sberror x)),
     (7, ucast (sbasize x)), (1, b1 (sbaccess128 x)), (1, b1 (sbaccess64 x)),
     (1, b1 (sbaccess32 x)), (1, b1 (sbaccess16 x)), (1, b1 (sbaccess8 x))]"

definition unpack_sbcs :: "u32 \<Rightarrow> sbcs_t" where
  "unpack_sbcs w = \<lparr>sbversion = fld 31 29 w, sb_zero0 = fld 28 23 w, sbbusyerror = bit w 22,
     sbbusy = bit w 21, sbreadonaddr = bit w 20, sbaccess = fld 19 17 w,
     sbautoincrement = bit w 16, sbreadondata = bit w 15, sberror = fld 14 12 w,
     sbasize = fld 11 5 w, sbaccess128 = bit w 4, sbaccess64 = bit w 3, sbaccess32 = bit w 2,
     sbaccess16 = bit w 1, sbaccess8 = bit w 0\<rparr>"

text \<open>Packing and unpacking are inverse: no field overlaps another and none is lost.\<close>

lemma unpack_pack:
  "unpack_dmstatus (pack_dmstatus a) = a"
  "unpack_dmcontrol (pack_dmcontrol b) = b"
  "unpack_abstractcs (pack_abstractcs c) = c"
  "unpack_command (pack_command d) = d"
  "unpack_abstractauto (pack_abstractauto e) = e"
  "unpack_ac_ar_cmd (pack_ac_ar_cmd f) = f"
  "unpack_sbcs (pack_sbcs g) = g"
  by (simp_all add: pack_dmstatus_def pack_dmcontrol_def pack_abstractcs_def pack_command_def
      pack_abstractauto_def pack_ac_ar_cmd_def pack_sbcs_def unpack_dmstatus_def
      unpack_dmcontrol_def unpack_abstractcs_def unpack_command_def unpack_abstractauto_def
      unpack_ac_ar_cmd_def unpack_sbcs_def unpack_simps)

lemma pack_unpack_dmstatus: "pack_dmstatus (unpack_dmstatus w) = w"
  unfolding pack_dmstatus_def unpack_dmstatus_def
  by (rule cat_whole, simp add: ucast_fld del: One_nat_def) (intro repack; simp)

lemma pack_unpack_dmcontrol: "pack_dmcontrol (unpack_dmcontrol w) = w"
  unfolding pack_dmcontrol_def unpack_dmcontrol_def
  by (rule cat_whole, simp add: ucast_fld del: One_nat_def) (intro repack; simp)

lemma pack_unpack_abstractcs: "pack_abstractcs (unpack_abstractcs w) = w"
  unfolding pack_abstractcs_def unpack_abstractcs_def
  by (rule cat_whole, simp add: ucast_fld del: One_nat_def) (intro repack; simp)

lemma pack_unpack_command: "pack_command (unpack_command w) = w"
  unfolding pack_command_def unpack_command_def
  by (rule cat_whole, simp add: ucast_fld del: One_nat_def) (intro repack; simp)

lemma pack_unpack_abstractauto: "pack_abstractauto (unpack_abstractauto w) = w"
  unfolding pack_abstractauto_def unpack_abstractauto_def
  by (rule cat_whole, simp add: ucast_fld del: One_nat_def) (intro repack; simp)

lemma pack_unpack_ac_ar_cmd: "pack_ac_ar_cmd (unpack_ac_ar_cmd w) = w"
  unfolding pack_ac_ar_cmd_def unpack_ac_ar_cmd_def
  by (rule cat_whole, simp add: ucast_fld del: One_nat_def) (intro repack; simp)

lemma pack_unpack_sbcs: "pack_sbcs (unpack_sbcs w) = w"
  unfolding pack_sbcs_def unpack_sbcs_def
  by (rule cat_whole, simp add: ucast_fld del: One_nat_def) (intro repack; simp)

end
