(* ===== verification/Dm_Csrs.thy ===== *)
theory Dm_Csrs
  imports Dm_Regs
begin

text \<open>
  The debug CSRs, \<open>src/dm_csrs.sv\<close>: the registers behind the debug module interface. \<open>csr_comb\<close> is the
  combinational block \<open>csr_read_write\<close>, in its order: defaults, reads, writes, the updates that take
  precedence, and the fixed fields; \<open>csrs_clk\<close> is the clock edge. Vectors with one bit per hart are
  predicates on hart numbers, register files are functions on indices. The response FIFO is a
  library cell that is not in the repository: its full flag is an input and what is pushed into it is
  an output.
\<close>

section \<open>Configuration and ports\<close>

text \<open>The parameters of \<open>dm_top\<close> that it hands to its modules; the CSR module takes the first three.
  \<open>halted_beyond\<close> is not one of them: it is what a read past the last row of \<open>halted_reshaped2\<close> returns,
  which the language leaves unknown, as any function of the halted harts.\<close>

record dm_cfg =
  NrHarts :: nat
  BusWidth :: nat
  SelectableHarts :: "nat \<Rightarrow> bool"
  DmBaseAddress :: nat
  MaxRegisterAccessWidth :: nat
  ReadByteEnable :: bool
  halted_beyond :: "(nat \<Rightarrow> bool) \<Rightarrow> u32"

definition clog2 :: "nat \<Rightarrow> nat" where
  "clog2 n = length (takeWhile (\<lambda>k. 2 ^ k < n) [0..<n])"

definition HartSelLen :: "dm_cfg \<Rightarrow> nat" where
  "HartSelLen g = (if NrHarts g = 1 then 1 else clog2 (NrHarts g))"

record csr_in =
  next_dm_addr_i :: u32
  dmi_req_valid_i :: bool
  resp_queue_full :: bool
  dmi_req_i :: dmi_req_t
  ndmreset_ack_i :: bool
  hartinfo_i :: "nat \<Rightarrow> u32"
  halted_i :: "nat \<Rightarrow> bool"
  unavailable_i :: "nat \<Rightarrow> bool"
  resumeack_i :: "nat \<Rightarrow> bool"
  cmderror_valid_i :: bool
  cmderror_i :: "3 word"
  cmdbusy_i :: bool
  data_i :: "nat \<Rightarrow> u32"
  data_valid_i :: bool
  sba_address_i :: u64
  sba_data_i :: u64
  sba_data_valid_i :: bool
  sbbusy_i :: bool
  sberror_valid_i :: bool
  sberror_i :: "3 word"

record csrs =
  dmcontrol_q :: dmcontrol_t
  cmderr_q :: "3 word"
  command_q :: command_t
  cmd_valid_q :: bool
  abstractauto_q :: abstractauto_t
  progbuf_q :: "nat \<Rightarrow> u32"
  data_q :: "nat \<Rightarrow> u32"
  sbcs_q :: sbcs_t
  sbaddr_q :: u64
  sbdata_q :: u64
  havereset_q :: "nat \<Rightarrow> bool"

text \<open>The signals the combinational block computes: the next value of every register, the response and
  the strobes.\<close>

record comb =
  nxt :: csrs
  resp_queue_inp :: dmi_resp_t
  sbaddress_write_valid_o :: bool
  sbdata_read_valid_o :: bool
  sbdata_write_valid_o :: bool
  clear_resumeack_o :: bool

definition sbcs_reset :: sbcs_t where
  "sbcs_reset = (unpack_sbcs 0)\<lparr>sbaccess := 2\<rparr>"

definition csrs_reset :: csrs where
  "csrs_reset = \<lparr>dmcontrol_q = unpack_dmcontrol 0, cmderr_q = CmdErrNone,
     command_q = unpack_command 0, cmd_valid_q = False, abstractauto_q = unpack_abstractauto 0,
     progbuf_q = (\<lambda>_. 0), data_q = (\<lambda>_. 0), sbcs_q = sbcs_reset, sbaddr_q = 0, sbdata_q = 0,
     havereset_q = (\<lambda>_. True)\<rparr>"

section \<open>Hart selection and status\<close>

definition hartsel_of :: "dmcontrol_t \<Rightarrow> 20 word" where
  "hartsel_of d = cat [(10, ucast (hartselhi d)), (10, ucast (hartsello d))]"

definition hartsel_o :: "csrs \<Rightarrow> 20 word" where
  "hartsel_o s = hartsel_of (dmcontrol_q s)"

definition selected_hart :: "dm_cfg \<Rightarrow> csrs \<Rightarrow> nat" where
  "selected_hart g s = unat (take_bit (HartSelLen g) (hartsel_o s))"

definition selected_hart_valid :: "dm_cfg \<Rightarrow> csrs \<Rightarrow> bool" where
  "selected_hart_valid g s \<longleftrightarrow> selected_hart g s \<le> NrHarts g - 1"

text \<open>Reading a per-hart vector that was extended with zeros.\<close>

definition aligned :: "dm_cfg \<Rightarrow> (nat \<Rightarrow> bool) \<Rightarrow> nat \<Rightarrow> bool" where
  "aligned g v h \<longleftrightarrow> h < NrHarts g \<and> v h"

definition dmstatus :: "dm_cfg \<Rightarrow> csr_in \<Rightarrow> csrs \<Rightarrow> dmstatus_t" where
  "dmstatus g i s = (let h = selected_hart g s;
     reset = aligned g (havereset_q s) h;
     ack = aligned g (resumeack_i i) h;
     un = aligned g (unavailable_i i) h;
     none = NrHarts g - 1 < unat (hartsel_o s);
     halt = aligned g (halted_i i) h \<and> \<not> un;
     running = \<not> aligned g (halted_i i) h \<and> \<not> un in
   (unpack_dmstatus 0)\<lparr>ds_version := DbgVersion013, authenticated := True,
     hasresethaltreq := False, allhavereset := reset, anyhavereset := reset,
     allresumeack := ack, anyresumeack := ack, allunavail := un, anyunavail := un,
     allnonexistent := none, anynonexistent := none, allhalted := halt, anyhalted := halt,
     allrunning := running, anyrunning := running\<rparr>)"

definition abstractcs :: "csr_in \<Rightarrow> csrs \<Rightarrow> abstractcs_t" where
  "abstractcs i s = (unpack_abstractcs 0)\<lparr>ac_datacount := of_nat DataCount,
     ac_progbufsize := of_nat ProgBufSize, ac_busy := cmdbusy_i i, ac_cmderr := cmderr_q s\<rparr>"

text \<open>The halt summaries: groups of 32 harts, then of 32 groups, and so on. The bounds are compared at
  the width of the index, hence the \<open>mod\<close>. The loop of \<open>p_reduction3\<close> takes \<open>NrHarts div 2 ^ 15 + 1\<close> rows
  of \<open>halted_reshaped2\<close>, which has \<open>(NrHarts - 1) div 2 ^ 15 + 1\<close>: one less when the number of harts is a
  multiple of 32768, and then the last row is \<open>halted_beyond\<close>.\<close>

definition vec32 :: "(nat \<Rightarrow> bool) \<Rightarrow> u32" where
  "vec32 f = cat (map (\<lambda>k. (1, b1 (f k))) (rev [0..<32]))"

definition halted_flat0 :: "dm_cfg \<Rightarrow> csr_in \<Rightarrow> nat \<Rightarrow> bool" where
  "halted_flat0 g i k \<longleftrightarrow> k < NrHarts g \<and> halted_i i k"

definition halted_flat1 :: "dm_cfg \<Rightarrow> csr_in \<Rightarrow> nat \<Rightarrow> bool" where
  "halted_flat1 g i k \<longleftrightarrow> k < (NrHarts g - 1) div 2 ^ 5 + 1 \<and>
     list_ex (\<lambda>j. halted_flat0 g i (32 * k + j)) [0..<32]"

definition halted_flat2 :: "dm_cfg \<Rightarrow> csr_in \<Rightarrow> nat \<Rightarrow> bool" where
  "halted_flat2 g i k \<longleftrightarrow> k < (NrHarts g - 1) div 2 ^ 10 + 1 \<and>
     list_ex (\<lambda>j. halted_flat1 g i (32 * k + j)) [0..<32]"

definition haltsum0 :: "dm_cfg \<Rightarrow> csr_in \<Rightarrow> csrs \<Rightarrow> u32" where
  "haltsum0 g i s = (let k = unat (fld 19 5 (hartsel_o s) :: 15 word) in
     if k < ((NrHarts g - 1) div 2 ^ 5 + 1) mod 2 ^ 15 then vec32 (\<lambda>j. halted_flat0 g i (32 * k + j)) else 0)"

definition haltsum1 :: "dm_cfg \<Rightarrow> csr_in \<Rightarrow> csrs \<Rightarrow> u32" where
  "haltsum1 g i s = (let k = unat (fld 19 10 (hartsel_o s) :: 10 word) in
     if k < ((NrHarts g - 1) div 2 ^ 10 + 1) mod 2 ^ 10 then vec32 (\<lambda>j. halted_flat1 g i (32 * k + j)) else 0)"

definition haltsum2 :: "dm_cfg \<Rightarrow> csr_in \<Rightarrow> csrs \<Rightarrow> u32" where
  "haltsum2 g i s = (let k = unat (fld 19 15 (hartsel_o s) :: 5 word) in
     if k < ((NrHarts g - 1) div 2 ^ 15 + 1) mod 2 ^ 5 then vec32 (\<lambda>j. halted_flat2 g i (32 * k + j)) else 0)"

definition halted_row2 :: "dm_cfg \<Rightarrow> csr_in \<Rightarrow> nat \<Rightarrow> u32" where
  "halted_row2 g i k = (if k < (NrHarts g - 1) div 2 ^ 15 + 1 then vec32 (\<lambda>j. halted_flat2 g i (32 * k + j))
     else halted_beyond g (halted_i i))"

definition haltsum3 :: "dm_cfg \<Rightarrow> csr_in \<Rightarrow> u32" where
  "haltsum3 g i = vec32 (\<lambda>k. k < NrHarts g div 2 ^ 15 + 1 \<and> halted_row2 g i k \<noteq> 0)"

section \<open>The combinational block\<close>

text \<open>Address decoding.\<close>

definition dm_csr_addr :: "csr_in \<Rightarrow> 8 word" where
  "dm_csr_addr i = ucast (dmi_addr (dmi_req_i i))"

definition autoexecdata_idx :: "csr_in \<Rightarrow> 4 word" where
  "autoexecdata_idx i = ucast (dm_csr_addr i - Data0)"

definition data_idx :: "csr_in \<Rightarrow> nat" where
  "data_idx i = unat (ucast (autoexecdata_idx i) :: 1 word)"

definition progbuf_idx :: "csr_in \<Rightarrow> nat" where
  "progbuf_idx i = unat (fld 2 0 (dmi_addr (dmi_req_i i)) :: 3 word)"

definition is_data :: "csr_in \<Rightarrow> bool" where
  "is_data i \<longleftrightarrow> Data0 \<le> dm_csr_addr i \<and> dm_csr_addr i \<le> DataEnd"

definition is_progbuf :: "csr_in \<Rightarrow> bool" where
  "is_progbuf i \<longleftrightarrow> ProgBuf0 \<le> dm_csr_addr i \<and> dm_csr_addr i \<le> ProgBufEnd"

definition autoexec_data :: "csr_in \<Rightarrow> csrs \<Rightarrow> bool" where
  "autoexec_data i s = bit (autoexecdata (abstractauto_q s)) (unat (autoexecdata_idx i))"

text \<open>The index \<open>{1'b1, addr[3:0]}\<close> into the field \<open>[31:16]\<close>.\<close>

definition autoexec_progbuf :: "csr_in \<Rightarrow> csrs \<Rightarrow> bool" where
  "autoexec_progbuf i s =
     bit (autoexecprogbuf (abstractauto_q s)) (unat (fld 3 0 (dmi_addr (dmi_req_i i)) :: 4 word))"

definition request :: "csr_in \<Rightarrow> 2 word \<Rightarrow> bool" where
  "request i p \<longleftrightarrow> \<not> resp_queue_full i \<and> dmi_req_valid_i i \<and> dmi_op (dmi_req_i i) = p"

definition wdata :: "csr_in \<Rightarrow> u32" where
  "wdata i = dmi_data (dmi_req_i i)"

text \<open>Setting parts of the result.\<close>

definition respond :: "u32 \<Rightarrow> comb \<Rightarrow> comb" where
  "respond v c = c\<lparr>resp_queue_inp := (resp_queue_inp c)\<lparr>resp_data := v\<rparr>\<rparr>"

definition busy_resp :: "comb \<Rightarrow> comb" where
  "busy_resp c = c\<lparr>resp_queue_inp := (resp_queue_inp c)\<lparr>resp_resp := DTM_BUSY\<rparr>\<rparr>"

definition set_nxt :: "(csrs \<Rightarrow> csrs) \<Rightarrow> comb \<Rightarrow> comb" where
  "set_nxt f c = c\<lparr>nxt := f (nxt c)\<rparr>"

text \<open>An access while an abstract command runs, and while a bus access runs.\<close>

definition cmd_busy_error :: "csrs \<Rightarrow> comb \<Rightarrow> comb" where
  "cmd_busy_error s c = set_nxt (\<lambda>d. if cmderr_q s = CmdErrNone then d\<lparr>cmderr_q := CmdErrBusy\<rparr> else d)
     (busy_resp c)"

definition sb_busy_error :: "comb \<Rightarrow> comb" where
  "sb_busy_error c = set_nxt (\<lambda>d. d\<lparr>sbcs_q := (sbcs_q d)\<lparr>sbbusyerror := True\<rparr>\<rparr>) (busy_resp c)"

definition sb_blocked :: "csr_in \<Rightarrow> csrs \<Rightarrow> bool" where
  "sb_blocked i s \<longleftrightarrow> sbbusy_i i \<or> sbbusyerror (sbcs_q s)"

definition csr_default :: "csr_in \<Rightarrow> csrs \<Rightarrow> comb" where
  "csr_default i s = \<lparr>
     nxt = s\<lparr>abstractauto_q := (abstractauto_q s)\<lparr>aa_zero0 := 0\<rparr>, cmd_valid_q := False,
       sbaddr_q := sba_address_i i\<rparr>,
     resp_queue_inp = \<lparr>resp_data = 0, resp_resp = DTM_SUCCESS\<rparr>,
     sbaddress_write_valid_o = False, sbdata_read_valid_o = False, sbdata_write_valid_o = False,
     clear_resumeack_o = False\<rparr>"

definition csr_read :: "dm_cfg \<Rightarrow> csr_in \<Rightarrow> csrs \<Rightarrow> comb \<Rightarrow> comb" where
  "csr_read g i s c = (let a = dm_csr_addr i in
     if is_data i then
       (let c = respond (data_q s (data_idx i)) c in
        if \<not> cmdbusy_i i then set_nxt (\<lambda>d. d\<lparr>cmd_valid_q := autoexec_data i s\<rparr>) c
        else cmd_busy_error s c)
     else if a = DMControl then respond (pack_dmcontrol (dmcontrol_q s)) c
     else if a = DMStatus then respond (pack_dmstatus (dmstatus g i s)) c
     else if a = Hartinfo then
       respond (if selected_hart g s < NrHarts g then hartinfo_i i (selected_hart g s) else 0) c
     else if a = AbstractCS then respond (pack_abstractcs (abstractcs i s)) c
     else if a = AbstractAuto then respond (pack_abstractauto (abstractauto_q s)) c
     else if a = Command then respond 0 c
     else if a = NextDM then respond (next_dm_addr_i i) c
     else if is_progbuf i then
       (let c = respond (progbuf_q s (progbuf_idx i)) c in
        if \<not> cmdbusy_i i then set_nxt (\<lambda>d. d\<lparr>cmd_valid_q := autoexec_progbuf i s\<rparr>) c
        else cmd_busy_error s c)
     else if a = HaltSum0 then respond (haltsum0 g i s) c
     else if a = HaltSum1 then respond (haltsum1 g i s) c
     else if a = HaltSum2 then respond (haltsum2 g i s) c
     else if a = HaltSum3 then respond (haltsum3 g i) c
     else if a = SBCS then respond (pack_sbcs (sbcs_q s)) c
     else if a = SBAddress0 then respond (ucast (sbaddr_q s)) c
     else if a = SBAddress1 then respond (fld 63 32 (sbaddr_q s)) c
     else if a = SBData0 then
       (if sb_blocked i s then sb_busy_error c
        else (respond (ucast (sbdata_q s)) c)\<lparr>sbdata_read_valid_o := sberror (sbcs_q s) = 0\<rparr>)
     else if a = SBData1 then
       (if sb_blocked i s then sb_busy_error c else respond (fld 63 32 (sbdata_q s)) c)
     else c)"

text \<open>Replacing the lower or upper half of a 64-bit register.\<close>

definition low_half :: "u32 \<Rightarrow> u64 \<Rightarrow> u64" where
  "low_half v w = cat [(32, fld 63 32 w), (32, ucast v)]"

definition high_half :: "u32 \<Rightarrow> u64 \<Rightarrow> u64" where
  "high_half v w = cat [(32, ucast v), (32, fld 31 0 w)]"

definition write_dmcontrol :: "dm_cfg \<Rightarrow> csr_in \<Rightarrow> csrs \<Rightarrow> comb \<Rightarrow> comb" where
  "write_dmcontrol g i s c = set_nxt (\<lambda>d. let v = unpack_dmcontrol (wdata i) in
     d\<lparr>dmcontrol_q := v, havereset_q :=
       (if ackhavereset v \<and> selected_hart_valid g s
        then (havereset_q d)(selected_hart g s := False) else havereset_q d)\<rparr>) c"

definition write_sbcs :: "csr_in \<Rightarrow> csrs \<Rightarrow> comb \<Rightarrow> comb" where
  "write_sbcs i s c = (if sbbusy_i i then sb_busy_error c
     else set_nxt (\<lambda>d. let v = unpack_sbcs (wdata i) in d\<lparr>sbcs_q := v\<lparr>
       sbbusyerror := sbbusyerror (sbcs_q s) \<and> \<not> sbbusyerror v,
       sberror := (if sberror v \<noteq> 0 then 0 else sberror (sbcs_q s))\<rparr>\<rparr>) c)"

definition csr_write :: "dm_cfg \<Rightarrow> csr_in \<Rightarrow> csrs \<Rightarrow> comb \<Rightarrow> comb" where
  "csr_write g i s c = (let a = dm_csr_addr i; v = wdata i in
     if is_data i then
       (if \<not> cmdbusy_i i then set_nxt (\<lambda>d. d\<lparr>
          data_q := (data_q d)(unat (ucast (dmi_addr (dmi_req_i i)) :: 1 word) := v),
          cmd_valid_q := autoexec_data i s\<rparr>) c
        else cmd_busy_error s c)
     else if a = DMControl then write_dmcontrol g i s c
     else if a = AbstractCS then
       (if \<not> cmdbusy_i i then set_nxt (\<lambda>d. d\<lparr>cmderr_q := NOT (fld 10 8 v) AND cmderr_q s\<rparr>) c
        else cmd_busy_error s c)
     else if a = Command then
       (if \<not> cmdbusy_i i then set_nxt (\<lambda>d. d\<lparr>cmd_valid_q := True, command_q := unpack_command v\<rparr>) c
        else cmd_busy_error s c)
     else if a = AbstractAuto then
       (if \<not> cmdbusy_i i then set_nxt (\<lambda>d. d\<lparr>abstractauto_q := \<lparr>
          autoexecprogbuf = fld 23 16 v, aa_zero0 = 0, autoexecdata = fld 1 0 v\<rparr>\<rparr>) c
        else cmd_busy_error s c)
     else if is_progbuf i then
       (if \<not> cmdbusy_i i then set_nxt (\<lambda>d. d\<lparr>progbuf_q := (progbuf_q d)(progbuf_idx i := v),
          cmd_valid_q := autoexec_progbuf i s\<rparr>) c
        else cmd_busy_error s c)
     else if a = SBCS then write_sbcs i s c
     else if a = SBAddress0 then
       (if sb_blocked i s then sb_busy_error c
        else (set_nxt (\<lambda>d. d\<lparr>sbaddr_q := low_half v (sbaddr_q d)\<rparr>) c)
          \<lparr>sbaddress_write_valid_o := sberror (sbcs_q s) = 0\<rparr>)
     else if a = SBAddress1 then
       (if sb_blocked i s then sb_busy_error c
        else set_nxt (\<lambda>d. d\<lparr>sbaddr_q := high_half v (sbaddr_q d)\<rparr>) c)
     else if a = SBData0 then
       (if sb_blocked i s then sb_busy_error c
        else (set_nxt (\<lambda>d. d\<lparr>sbdata_q := low_half v (sbdata_q d)\<rparr>) c)
          \<lparr>sbdata_write_valid_o := sberror (sbcs_q s) = 0\<rparr>)
     else if a = SBData1 then
       (if sb_blocked i s then sb_busy_error c
        else set_nxt (\<lambda>d. d\<lparr>sbdata_q := high_half v (sbdata_q d)\<rparr>) c)
     else c)"

section \<open>Precedence and fixed fields\<close>

definition any_resumeack :: "dm_cfg \<Rightarrow> csr_in \<Rightarrow> bool" where
  "any_resumeack g i \<longleftrightarrow> list_ex (resumeack_i i) [0..<NrHarts g]"

text \<open>The WARL mask of the hart selection: \<open>hartsel AND (2 ^ clog2 NrHarts - 1)\<close>, split into the two
  fields again.\<close>

definition warl_hartsel :: "dm_cfg \<Rightarrow> dmcontrol_t \<Rightarrow> dmcontrol_t" where
  "warl_hartsel g d = (let h = take_bit (clog2 (NrHarts g)) (hartsel_of d) in
     d\<lparr>hartselhi := fld 19 10 h, hartsello := fld 9 0 h\<rparr>)"

definition fix_dmcontrol :: "dm_cfg \<Rightarrow> csr_in \<Rightarrow> csrs \<Rightarrow> dmcontrol_t \<Rightarrow> dmcontrol_t" where
  "fix_dmcontrol g i s d = warl_hartsel g (d\<lparr>hasel := False, hartreset := False,
     setresethaltreq := False, clrresethaltreq := False, dc_zero1 := False, dc_zero0 := 0,
     ackhavereset := False,
     resumereq := resumereq d \<and> \<not> (resumereq (dmcontrol_q s) \<and> any_resumeack g i)\<rparr>)"

definition fix_sbcs :: "dm_cfg \<Rightarrow> csr_in \<Rightarrow> sbcs_t \<Rightarrow> sbcs_t" where
  "fix_sbcs g i b = b\<lparr>sberror := (if sberror_valid_i i then sberror_i i else sberror b),
     sbversion := 1, sbbusy := sbbusy_i i, sbasize := of_nat (BusWidth g),
     sbaccess128 := BusWidth g \<ge> 128, sbaccess64 := BusWidth g \<ge> 64,
     sbaccess32 := BusWidth g \<ge> 32, sbaccess16 := BusWidth g \<ge> 16, sbaccess8 := BusWidth g \<ge> 8\<rparr>"

definition csr_update :: "dm_cfg \<Rightarrow> csr_in \<Rightarrow> csrs \<Rightarrow> comb \<Rightarrow> comb" where
  "csr_update g i s c = (let d = nxt c in c\<lparr>
     nxt := d\<lparr>cmderr_q := (if cmderror_valid_i i then cmderror_i i else cmderr_q d),
       havereset_q := (if ndmreset_ack_i i then (\<lambda>_. True) else havereset_q d),
       sbcs_q := fix_sbcs g i (sbcs_q d),
       sbdata_q := (if sba_data_valid_i i then sba_data_i i else sbdata_q d),
       dmcontrol_q := fix_dmcontrol g i s (dmcontrol_q d)\<rparr>,
     clear_resumeack_o := \<not> resumereq (dmcontrol_q s) \<and> resumereq (dmcontrol_q d)\<rparr>)"

definition csr_comb :: "dm_cfg \<Rightarrow> csr_in \<Rightarrow> csrs \<Rightarrow> comb" where
  "csr_comb g i s = (let
     c = csr_default i s;
     c = (if request i DTM_READ then csr_read g i s c else c);
     c = (if request i DTM_WRITE then csr_write g i s c else c)
   in csr_update g i s c)"

section \<open>Outputs and clock\<close>

definition resp_queue_push :: "csr_in \<Rightarrow> bool" where
  "resp_queue_push i \<longleftrightarrow> dmi_req_valid_i i \<and> \<not> resp_queue_full i"

definition haltreq_o :: "dm_cfg \<Rightarrow> csrs \<Rightarrow> nat \<Rightarrow> bool" where
  "haltreq_o g s h \<longleftrightarrow> selected_hart_valid g s \<and> h = selected_hart g s \<and> haltreq (dmcontrol_q s)"

definition resumereq_o :: "dm_cfg \<Rightarrow> csrs \<Rightarrow> nat \<Rightarrow> bool" where
  "resumereq_o g s h \<longleftrightarrow>
     selected_hart_valid g s \<and> h = selected_hart g s \<and> resumereq (dmcontrol_q s)"

definition csrs_clk :: "dm_cfg \<Rightarrow> csr_in \<Rightarrow> csrs \<Rightarrow> csrs" where
  "csrs_clk g i s = (let d = nxt (csr_comb g i s);
     d = d\<lparr>data_q := (if data_valid_i i then data_i i else data_q d),
       havereset_q := (\<lambda>h. SelectableHarts g h \<and> havereset_q d h)\<rparr> in
   if dmactive (dmcontrol_q s) then d
   else csrs_reset\<lparr>havereset_q := havereset_q d, dmcontrol_q :=
     (unpack_dmcontrol 0)\<lparr>dmactive := dmactive (dmcontrol_q d)\<rparr>\<rparr>)"

section \<open>What an access does to the rest\<close>

lemma clog2_bound: "n \<le> 2 ^ clog2 n"
proof -
  have "\<not> 2 ^ length (takeWhile (\<lambda>k. 2 ^ k < n) [0..<n]) < n"
  proof
    let ?l = "length (takeWhile (\<lambda>k. 2 ^ k < n) [0..<n])"
    assume a: "2 ^ ?l < n"
    have "?l < n" using less_exp a by (rule less_trans)
    then have l: "?l < length [0..<n]" by simp
    then have "\<not> 2 ^ ([0..<n] ! ?l) < n" by (rule nth_length_takeWhile)
    then show False using a l by simp
  qed
  then show ?thesis by (simp add: clog2_def)
qed

lemma addresses_distinct: "distinct [DMControl, DMStatus, Hartinfo, HaltSum1, AbstractCS, Command,
    AbstractAuto, NextDM, HaltSum2, HaltSum3, SBCS, SBAddress0, SBAddress1, SBData0, SBData1, HaltSum0]"
  by (simp add: dm_addresses)

lemma bit_cat_flags:
  "bit (cat (map (\<lambda>k. (Suc 0, b1 (f k))) (rev [0..<m])) :: 'a::len word) n \<longleftrightarrow> n < m \<and> n < LENGTH('a) \<and> f n"
proof (induction m)
  case (Suc m)
  have w: "cat_width (map (\<lambda>k. (Suc 0, b1 (f k) :: 'a word)) (rev [0..<m])) = m" for f
    by (induction m) simp_all
  show ?case using Suc.IH
    by (auto simp: bit_cat_Cons w bit_b1 less_Suc_eq)
qed (simp add: bit_cat_Nil)

lemma bit_vec32: "bit (vec32 f) n \<longleftrightarrow> n < 32 \<and> f n"
  by (simp add: vec32_def bit_cat_flags)

lemmas comb_defs = csrs_clk_def csr_comb_def csr_update_def csr_default_def set_nxt_def respond_def
  busy_resp_def cmd_busy_error_def sb_busy_error_def Let_def request_def

text \<open>The access handlers, field by field.\<close>

lemmas handler_defs = csr_read_def csr_write_def write_dmcontrol_def write_sbcs_def set_nxt_def
  respond_def busy_resp_def cmd_busy_error_def sb_busy_error_def Let_def

lemma csr_read_frame:
  "command_q (nxt (csr_read g i s c)) = command_q (nxt c)"
  "abstractauto_q (nxt (csr_read g i s c)) = abstractauto_q (nxt c)"
  "progbuf_q (nxt (csr_read g i s c)) = progbuf_q (nxt c)"
  "data_q (nxt (csr_read g i s c)) = data_q (nxt c)"
  "dmcontrol_q (nxt (csr_read g i s c)) = dmcontrol_q (nxt c)"
  "havereset_q (nxt (csr_read g i s c)) = havereset_q (nxt c)"
  "sbaddr_q (nxt (csr_read g i s c)) = sbaddr_q (nxt c)"
  "sbdata_q (nxt (csr_read g i s c)) = sbdata_q (nxt c)"
  by (simp_all add: handler_defs)

lemma csr_read_cmderr:
  "cmderr_q s \<noteq> CmdErrNone \<Longrightarrow> cmderr_q (nxt (csr_read g i s c)) = cmderr_q (nxt c)"
  by (simp add: handler_defs)

lemma csr_write_cmderr:
  "cmderr_q s \<noteq> CmdErrNone \<Longrightarrow> cmderr_q (nxt (csr_write g i s c)) =
     (if \<not> is_data i \<and> dm_csr_addr i = AbstractCS \<and> \<not> cmdbusy_i i
      then NOT (fld 10 8 (wdata i)) AND cmderr_q s else cmderr_q (nxt c))"
  by (simp add: handler_defs dm_addresses)

text \<open>The accesses that are refused while an abstract command runs.\<close>

definition refused_when_busy :: "csr_in \<Rightarrow> bool" where
  "refused_when_busy i \<longleftrightarrow>
     (request i DTM_READ \<and> (is_data i \<or> is_progbuf i)) \<or>
     (request i DTM_WRITE \<and> (is_data i \<or> is_progbuf i \<or>
        dm_csr_addr i \<in> {AbstractCS, Command, AbstractAuto}))"

lemma progbuf_not_data: "is_progbuf i \<Longrightarrow> \<not> is_data i"
proof
  assume "is_progbuf i" and "is_data i"
  then have "ProgBuf0 \<le> DataEnd" unfolding is_progbuf_def is_data_def by (blast intro: order_trans)
  then show False by (simp add: DataEnd_def dm_addresses dm_constants)
qed

lemma named_not_ranges:
  "dm_csr_addr i \<in> {DMControl, DMStatus, Hartinfo, HaltSum0, HaltSum1, HaltSum2, HaltSum3, AbstractCS,
     Command, AbstractAuto, NextDM, SBCS, SBAddress0, SBAddress1, SBData0, SBData1} \<Longrightarrow>
   \<not> is_data i \<and> \<not> is_progbuf i"
  by (auto simp: is_progbuf_def is_data_def ProgBufEnd_def DataEnd_def dm_addresses dm_constants)

lemma progbuf_not_named:
  assumes "is_progbuf i"
  shows "dm_csr_addr i \<notin> {DMControl, DMStatus, Hartinfo, HaltSum0, HaltSum1, HaltSum2, HaltSum3,
    AbstractCS, Command, AbstractAuto, NextDM, SBCS, SBAddress0, SBAddress1, SBData0, SBData1}"
  using assms named_not_ranges by blast

lemma read_not_write: "request i DTM_READ \<Longrightarrow> \<not> request i DTM_WRITE"
  by (simp add: request_def dtm_constants)

lemma refused_comb:
  assumes "refused_when_busy i" and "cmdbusy_i i"
  shows "csr_comb g i s = csr_update g i s (cmd_busy_error s
    (if request i DTM_READ then respond (if is_data i then data_q s (data_idx i)
       else progbuf_q s (progbuf_idx i)) (csr_default i s) else csr_default i s))"
  using assms(1) unfolding refused_when_busy_def
proof (elim disjE conjE)
  assume r: "request i DTM_READ" "is_data i"
  then show ?thesis using assms(2) by (simp add: csr_comb_def read_not_write csr_read_def Let_def)
next
  assume r: "request i DTM_READ" "is_progbuf i"
  then show ?thesis using assms(2) progbuf_not_data [OF r(2)] progbuf_not_named [OF r(2)]
    by (simp add: csr_comb_def read_not_write csr_read_def Let_def)
next
  assume w: "request i DTM_WRITE" "is_data i"
  then have "\<not> request i DTM_READ" using read_not_write by blast
  with w show ?thesis using assms(2) by (simp add: csr_comb_def csr_write_def Let_def)
next
  assume w: "request i DTM_WRITE" "is_progbuf i"
  then have "\<not> request i DTM_READ" using read_not_write by blast
  with w show ?thesis using assms(2) progbuf_not_data [OF w(2)] progbuf_not_named [OF w(2)]
    by (simp add: csr_comb_def csr_write_def Let_def)
next
  assume w: "request i DTM_WRITE" "dm_csr_addr i \<in> {AbstractCS, Command, AbstractAuto}"
  then have "\<not> request i DTM_READ" using read_not_write by blast
  moreover have "\<not> is_data i" "dm_csr_addr i \<noteq> DMControl" "dm_csr_addr i = AbstractCS \<or>
      dm_csr_addr i = Command \<or> dm_csr_addr i = AbstractAuto"
    using w(2) named_not_ranges [of i] addresses_distinct by auto
  ultimately show ?thesis using w(1) assms(2) unfolding csr_comb_def Let_def
    by (elim disjE) (simp_all add: csr_write_def Let_def dm_addresses)
qed

text \<open>A cycle without an access.\<close>

lemma idle_access: "\<not> dmi_req_valid_i i \<Longrightarrow> csr_comb g i s = csr_update g i s (csr_default i s)"
  by (simp add: csr_comb_def request_def Let_def)

section \<open>Properties of the registers\<close>

text \<open>C19: an access that an executing abstract command forbids has no effect but the error. While a
  command is busy, a read or write of a data or program buffer register and a write of \<open>command\<close>,
  \<open>abstractauto\<close> or \<open>abstractcs\<close> is answered with BUSY, gives no strobe to the bus master or the harts and
  starts no command. The registers after it are those after a cycle with no access at all, every one of
  them, but for \<open>cmderr\<close>, which records the busy error exactly if no error was recorded and the hart reports
  none. In particular the command, the program buffer and \<open>abstractauto\<close> stay, and the data registers
  change by the hart's own write only.\<close>

theorem busy_access_refused:
  assumes "refused_when_busy i" and "cmdbusy_i i" and "dmactive (dmcontrol_q s)"
  shows "let c = csr_comb g i s; s' = csrs_clk g i s;
      e = (if cmderror_valid_i i then cmderror_i i
        else if cmderr_q s = CmdErrNone then CmdErrBusy else cmderr_q s) in
    resp_resp (resp_queue_inp c) = DTM_BUSY \<and>
    \<not> sbaddress_write_valid_o c \<and> \<not> sbdata_read_valid_o c \<and> \<not> sbdata_write_valid_o c \<and>
    \<not> clear_resumeack_o c \<and>
    s' = (csrs_clk g (i\<lparr>dmi_req_valid_i := False\<rparr>) s)\<lparr>cmderr_q := e\<rparr> \<and>
    \<not> cmd_valid_q s' \<and> command_q s' = command_q s \<and> progbuf_q s' = progbuf_q s \<and>
    autoexecdata (abstractauto_q s') = autoexecdata (abstractauto_q s) \<and>
    autoexecprogbuf (abstractauto_q s') = autoexecprogbuf (abstractauto_q s) \<and>
    data_q s' = (if data_valid_i i then data_i i else data_q s) \<and> cmderr_q s' = e"
  using assms(3) idle_access [of "i\<lparr>dmi_req_valid_i := False\<rparr>" g s]
  by (simp add: csrs_clk_def refused_comb [OF assms(1,2)] Let_def)
    (simp add: csr_update_def csr_default_def set_nxt_def respond_def busy_resp_def
      cmd_busy_error_def any_resumeack_def fix_dmcontrol_def fix_sbcs_def Let_def)

definition idle_in :: csr_in where
  "idle_in = \<lparr>next_dm_addr_i = 0, dmi_req_valid_i = False, resp_queue_full = False,
     dmi_req_i = \<lparr>dmi_addr = 0, dmi_op = 0, dmi_data = 0\<rparr>, ndmreset_ack_i = False,
     hartinfo_i = (\<lambda>_. 0), halted_i = (\<lambda>_. False), unavailable_i = (\<lambda>_. False),
     resumeack_i = (\<lambda>_. False), cmderror_valid_i = False, cmderror_i = 0, cmdbusy_i = False,
     data_i = (\<lambda>_. 0), data_valid_i = False, sba_address_i = 0, sba_data_i = 0,
     sba_data_valid_i = False, sbbusy_i = False, sberror_valid_i = False, sberror_i = 0\<rparr>"

definition dmi_in :: "2 word \<Rightarrow> 8 word \<Rightarrow> u32 \<Rightarrow> csr_in" where
  "dmi_in p a v = idle_in\<lparr>dmi_req_valid_i := True,
     dmi_req_i := \<lparr>dmi_addr = ucast a, dmi_op = p, dmi_data = v\<rparr>\<rparr>"

definition active_csrs :: csrs where
  "active_csrs = csrs_reset\<lparr>dmcontrol_q := (unpack_dmcontrol 0)\<lparr>dmactive := True\<rparr>\<rparr>"

lemma active_csrs_simps [simp]:
  "dmactive (dmcontrol_q active_csrs)" "cmderr_q active_csrs = 0"
  by (simp_all add: active_csrs_def csrs_reset_def cmderr_e)

lemmas csr_example = dmi_in_def idle_in_def request_def dm_csr_addr_def wdata_def dm_addresses
  dtm_constants is_data_def is_progbuf_def DataEnd_def ProgBufEnd_def dm_constants

definition one_hart :: dm_cfg where
  "one_hart = \<lparr>NrHarts = 1, BusWidth = 32, SelectableHarts = (\<lambda>_. True), DmBaseAddress = 0x1000,
     MaxRegisterAccessWidth = 32, ReadByteEnable = True,
     halted_beyond = (\<lambda>_. 0)\<rparr>"

theorem busy_access_refused_witness:
  "cmderr_q (csrs_clk one_hart ((dmi_in DTM_WRITE Command 0x00220301)\<lparr>cmdbusy_i := True\<rparr>) active_csrs) = 1"
  using busy_access_refused [of "(dmi_in DTM_WRITE Command 0x00220301)\<lparr>cmdbusy_i := True\<rparr>" active_csrs one_hart]
  by (simp add: refused_when_busy_def csr_example cmderr_e Let_def)

text \<open>\<open>cmderr\<close> is sticky and cleared by writing ones. In an active module, unless the hart reports
  an error in the same cycle, which then replaces the recorded one, a recorded error stays until
  \<open>abstractcs\<close> is written while no command is busy, and such a write clears exactly the bits
  written as one.\<close>

theorem cmderr_sticky:
  assumes "dmactive (dmcontrol_q s)" and "cmderr_q s \<noteq> CmdErrNone"
  shows "cmderr_q (csrs_clk g i s) = (if cmderror_valid_i i then cmderror_i i
    else if request i DTM_WRITE \<and> dm_csr_addr i = AbstractCS \<and> \<not> cmdbusy_i i
      then NOT (fld 10 8 (wdata i)) AND cmderr_q s else cmderr_q s)"
  using assms named_not_ranges [of i]
  by (simp add: csrs_clk_def csr_comb_def csr_update_def Let_def csr_read_cmderr csr_write_cmderr
      read_not_write) (simp add: csr_default_def)

theorem cmderr_sticky_witness:
  "cmderr_q (csrs_clk one_hart (dmi_in DTM_WRITE AbstractCS 0x100) (active_csrs\<lparr>cmderr_q := 3\<rparr>)) = 2"
  using cmderr_sticky [of "active_csrs\<lparr>cmderr_q := 3\<rparr>" one_hart "dmi_in DTM_WRITE AbstractCS 0x100"]
  by (simp add: csr_example cmderr_e fld_def)

lemma csr_write_frame:
  "dmcontrol_q (nxt (csr_write g i s c)) = (if \<not> is_data i \<and> dm_csr_addr i = DMControl
     then unpack_dmcontrol (wdata i) else dmcontrol_q (nxt c))"
  "progbuf_q (nxt (csr_write g i s c)) = (if is_progbuf i \<and> \<not> cmdbusy_i i
     then (progbuf_q (nxt c))(progbuf_idx i := wdata i) else progbuf_q (nxt c))"
  "data_q (nxt (csr_write g i s c)) = (if is_data i \<and> \<not> cmdbusy_i i
     then (data_q (nxt c))(unat (ucast (dmi_addr (dmi_req_i i)) :: 1 word) := wdata i)
     else data_q (nxt c))"
  using progbuf_not_data [of i] progbuf_not_named [of i]
  by (cases "is_data i"; cases "is_progbuf i"; cases "cmdbusy_i i"; simp add: handler_defs)+

lemma dmi_addr_inj: "dm_csr_addr i' = dm_csr_addr i \<Longrightarrow> dmi_addr (dmi_req_i i') = dmi_addr (dmi_req_i i)"
proof -
  assume a: "dm_csr_addr i' = dm_csr_addr i"
  have "dmi_addr (dmi_req_i j) = ucast (dm_csr_addr j)" for j
    by (simp add: dm_csr_addr_def ucast_ucast_self)
  then show ?thesis using a by simp
qed

lemma data_addr_cases:
  assumes "is_data i"
  shows "dm_csr_addr i = 4 \<or> dm_csr_addr i = 5"
proof -
  have "4 \<le> dm_csr_addr i" "dm_csr_addr i \<le> 5"
    using assms by (simp_all add: is_data_def DataEnd_def dm_addresses dm_constants)
  then have "4 \<le> unat (dm_csr_addr i)" "unat (dm_csr_addr i) \<le> 5"
    by (simp_all add: word_le_nat_alt)
  then have "unat (dm_csr_addr i) = unat (4 :: 8 word) \<or> unat (dm_csr_addr i) = unat (5 :: 8 word)"
    by auto
  then show ?thesis by (simp only: word_unat_eq_iff)
qed

text \<open>The read path subtracts the address of \<open>data0\<close>, the write path takes the low address bit; both
  name the same register.\<close>

lemma data_idx_write: "is_data i \<Longrightarrow> unat (ucast (dmi_addr (dmi_req_i i)) :: 1 word) = data_idx i"
proof -
  assume "is_data i"
  have a: "dmi_addr (dmi_req_i i) = ucast (dm_csr_addr i)"
    by (simp add: dm_csr_addr_def ucast_ucast_self)
  show ?thesis using data_addr_cases [OF \<open>is_data i\<close>]
    unfolding data_idx_def autoexecdata_idx_def a by (auto simp: dm_addresses)
qed

lemma csr_write_storage:
  "\<not> cmdbusy_i i \<Longrightarrow> is_data i \<Longrightarrow> csr_write g i s c = set_nxt (\<lambda>d. d\<lparr>
     data_q := (data_q d)(data_idx i := wdata i), cmd_valid_q := autoexec_data i s\<rparr>) c"
  "\<not> cmdbusy_i i \<Longrightarrow> is_progbuf i \<Longrightarrow> csr_write g i s c = set_nxt (\<lambda>d. d\<lparr>
     progbuf_q := (progbuf_q d)(progbuf_idx i := wdata i), cmd_valid_q := autoexec_progbuf i s\<rparr>) c"
  using progbuf_not_data [of i] progbuf_not_named [of i]
  by (simp_all add: csr_write_def Let_def data_idx_write)

lemma csr_read_storage:
  "is_data i \<Longrightarrow> resp_data (resp_queue_inp (csr_read g i s c)) = data_q s (data_idx i)"
  "is_progbuf i \<Longrightarrow> resp_data (resp_queue_inp (csr_read g i s c)) = progbuf_q s (progbuf_idx i)"
  using progbuf_not_data [of i] progbuf_not_named [of i] by (simp_all add: handler_defs)

lemma write_comb: "request i DTM_WRITE \<Longrightarrow> csr_comb g i s = csr_update g i s (csr_write g i s (csr_default i s))"
  using read_not_write [of i] unfolding csr_comb_def Let_def by auto

lemma read_comb: "request i DTM_READ \<Longrightarrow> csr_comb g i s = csr_update g i s (csr_read g i s (csr_default i s))"
  using read_not_write [of i] by (simp add: csr_comb_def)

lemma csr_update_frame:
  "resp_queue_inp (csr_update g i s c) = resp_queue_inp c"
  "command_q (nxt (csr_update g i s c)) = command_q (nxt c)"
  "cmd_valid_q (nxt (csr_update g i s c)) = cmd_valid_q (nxt c)"
  "abstractauto_q (nxt (csr_update g i s c)) = abstractauto_q (nxt c)"
  "progbuf_q (nxt (csr_update g i s c)) = progbuf_q (nxt c)"
  "data_q (nxt (csr_update g i s c)) = data_q (nxt c)"
  "sbaddr_q (nxt (csr_update g i s c)) = sbaddr_q (nxt c)"
  by (simp_all add: csr_update_def Let_def)

text \<open>What is written is read back. A data or program buffer register that is written while no
  command is busy, and that the hart does not write in the same cycle, returns the written word to
  the next read, and the write starts a command exactly if its \<open>abstractauto\<close> bit is set.\<close>

theorem register_roundtrip:
  assumes "dmactive (dmcontrol_q s)" and "request i DTM_WRITE" and "\<not> cmdbusy_i i"
    and "(is_data i \<and> \<not> data_valid_i i) \<or> is_progbuf i"
    and "request i' DTM_READ" and "dm_csr_addr i' = dm_csr_addr i"
  shows "resp_data (resp_queue_inp (csr_comb g i' (csrs_clk g i s))) = wdata i \<and>
    cmd_valid_q (csrs_clk g i s) = (if is_data i then autoexec_data i s else autoexec_progbuf i s)"
proof -
  have same: "is_data i' = is_data i" "is_progbuf i' = is_progbuf i" "data_idx i' = data_idx i"
      "progbuf_idx i' = progbuf_idx i"
    using assms(6) dmi_addr_inj [OF assms(6)]
    by (simp_all add: is_data_def is_progbuf_def data_idx_def autoexecdata_idx_def progbuf_idx_def)
  show ?thesis
    using assms(4) progbuf_not_data [of i] assms(1)
    by (elim disjE conjE; simp add: read_comb [OF assms(5)] csrs_clk_def Let_def
        write_comb [OF assms(2)] csr_update_frame csr_read_storage same csr_write_storage assms(3) set_nxt_def)
qed

theorem register_roundtrip_witness:
  "resp_data (resp_queue_inp (csr_comb one_hart (dmi_in DTM_READ 5 0)
     (csrs_clk one_hart (dmi_in DTM_WRITE 5 0xCAFE) active_csrs))) = 0xCAFE"
  using register_roundtrip [of active_csrs "dmi_in DTM_WRITE 5 0xCAFE" "dmi_in DTM_READ 5 0" one_hart]
  by (simp add: csr_example)

text \<open>The hart selection is WARL. After every clock the selection fits the number of harts: it is
  below the next power of two, so that with one hart it is always zero; a write of \<open>dmcontrol\<close> in an
  active module selects the written value modulo that power.\<close>

lemma hartsel_of_warl: "hartsel_of (warl_hartsel g d) = take_bit (clog2 (NrHarts g)) (hartsel_of d)"
proof -
  have "cat [(10, ucast (fld 19 10 h :: 10 word)), (10, ucast (fld 9 0 h :: 10 word))] = h" for h :: "20 word"
    by (rule cat_whole, simp add: ucast_fld) (intro repack; simp)
  then show ?thesis by (simp add: warl_hartsel_def hartsel_of_def Let_def)
qed

lemma unat_take_bit_less: "unat (take_bit n (w :: 'a::len word)) < 2 ^ n"
  by (simp add: unsigned_take_bit_eq)

theorem hartsel_warl:
  "hartsel_o (csrs_clk g i s) = (if \<not> dmactive (dmcontrol_q s) then 0
     else take_bit (clog2 (NrHarts g))
       (if request i DTM_WRITE \<and> dm_csr_addr i = DMControl
        then hartsel_of (unpack_dmcontrol (wdata i)) else hartsel_o s)) \<and>
   unat (hartsel_o (csrs_clk g i s)) < 2 ^ clog2 (NrHarts g) \<and> NrHarts g \<le> 2 ^ clog2 (NrHarts g)"
proof -
  have f: "hartsel_of (fix_dmcontrol g i s d) = take_bit (clog2 (NrHarts g)) (hartsel_of d)" for d
    by (simp add: fix_dmcontrol_def hartsel_of_warl) (simp add: hartsel_of_def)
  have z: "hartsel_of ((unpack_dmcontrol 0)\<lparr>dmactive := b\<rparr>) = 0" for b
    by (simp add: unpack_dmcontrol_def hartsel_of_def fld_def cat_simps)
  have e: "hartsel_o (csrs_clk g i s) = (if \<not> dmactive (dmcontrol_q s) then 0
     else take_bit (clog2 (NrHarts g))
       (if request i DTM_WRITE \<and> dm_csr_addr i = DMControl
        then hartsel_of (unpack_dmcontrol (wdata i)) else hartsel_o s))"
    using named_not_ranges [of i] read_not_write [of i]
    by (simp add: hartsel_o_def csrs_clk_def Let_def csr_comb_def csr_update_def f z
        csr_write_frame csr_read_frame) (simp add: csr_default_def)
  show ?thesis by (simp add: e unat_take_bit_less clog2_bound)
qed

text \<open>The status of the selected hart is unambiguous. Exactly one of halted, running and unavailable
  is reported, the \<open>any\<close> and \<open>all\<close> flags agree, and the read-only identification fields have their
  fixed values.\<close>

theorem dmstatus_exclusive:
  "let d = dmstatus g i s in
   length (filter id [allhalted d, allrunning d, allunavail d]) = 1 \<and>
   anyhalted d = allhalted d \<and> anyrunning d = allrunning d \<and> anyunavail d = allunavail d \<and>
   anynonexistent d = allnonexistent d \<and> anyresumeack d = allresumeack d \<and>
   anyhavereset d = allhavereset d \<and> authenticated d \<and> \<not> authbusy d \<and> \<not> hasresethaltreq d \<and>
   ds_version d = DbgVersion013"
  by (simp add: dmstatus_def Let_def unpack_dmstatus_def)

definition refused_by_sba :: "csr_in \<Rightarrow> bool" where
  "refused_by_sba i \<longleftrightarrow> (request i DTM_READ \<and> dm_csr_addr i \<in> {SBData0, SBData1}) \<or>
     (request i DTM_WRITE \<and> dm_csr_addr i \<in> {SBAddress0, SBAddress1, SBData0, SBData1})"

lemma csr_read_sb:
  "dm_csr_addr i \<in> {SBData0, SBData1} \<Longrightarrow> sb_blocked i s \<Longrightarrow> csr_read g i s c = sb_busy_error c"
  using named_not_ranges [of i] by (elim insertE emptyE; simp add: csr_read_def Let_def dm_addresses)

lemma csr_write_sb:
  "dm_csr_addr i \<in> {SBAddress0, SBAddress1, SBData0, SBData1} \<Longrightarrow> sb_blocked i s \<Longrightarrow>
   csr_write g i s c = sb_busy_error c"
  using named_not_ranges [of i] by (elim insertE emptyE; simp add: csr_write_def Let_def dm_addresses)

lemma sb_refused_comb:
  assumes "refused_by_sba i" and "sb_blocked i s"
  shows "csr_comb g i s = csr_update g i s (sb_busy_error (csr_default i s))"
  using assms(1) unfolding refused_by_sba_def
  by (elim disjE conjE) (simp_all only: read_comb write_comb csr_read_sb csr_write_sb assms(2))

text \<open>The bus registers are protected while the bus is used. While a bus access runs, or after an
  access was refused and before the flag is cleared, reading the data and writing the address or
  data is answered with BUSY, changes neither register (they follow the bus module), starts no bus
  access and sets \<open>sbbusyerror\<close>.\<close>

theorem sb_access_refused:
  assumes "refused_by_sba i" and "sb_blocked i s" and "dmactive (dmcontrol_q s)"
  shows "resp_resp (resp_queue_inp (csr_comb g i s)) = DTM_BUSY \<and>
    \<not> sbaddress_write_valid_o (csr_comb g i s) \<and> \<not> sbdata_write_valid_o (csr_comb g i s) \<and>
    \<not> sbdata_read_valid_o (csr_comb g i s) \<and>
    sbaddr_q (csrs_clk g i s) = sba_address_i i \<and>
    sbdata_q (csrs_clk g i s) = (if sba_data_valid_i i then sba_data_i i else sbdata_q s) \<and>
    sbbusyerror (sbcs_q (csrs_clk g i s))"
  using assms(3) by (simp add: csrs_clk_def sb_refused_comb [OF assms(1,2)])
    (simp add: csr_update_def csr_default_def sb_busy_error_def set_nxt_def busy_resp_def Let_def
      fix_sbcs_def)

theorem sb_access_refused_witness:
  "sbaddr_q (csrs_clk one_hart ((dmi_in DTM_WRITE SBAddress0 0x1000)\<lparr>sbbusy_i := True, sba_address_i := 0x2000\<rparr>)
     active_csrs) = 0x2000"
  using sb_access_refused [of "(dmi_in DTM_WRITE SBAddress0 0x1000)\<lparr>sbbusy_i := True, sba_address_i := 0x2000\<rparr>"
      active_csrs one_hart]
  by (simp add: refused_by_sba_def sb_blocked_def csr_example)

lemma dmactive_comb:
  "dmactive (dmcontrol_q (nxt (csr_comb g i s))) =
     (if request i DTM_WRITE \<and> dm_csr_addr i = DMControl then bit (wdata i) 0 else dmactive (dmcontrol_q s))"
proof -
  have f: "dmactive (fix_dmcontrol g i s d) = dmactive d" for d
    by (simp add: fix_dmcontrol_def warl_hartsel_def Let_def)
  show ?thesis using named_not_ranges [of i] read_not_write [of i]
    by (simp add: csr_comb_def Let_def csr_update_def f csr_write_frame csr_read_frame)
      (simp add: csr_default_def unpack_dmcontrol_def)
qed

lemma csrs_keep_command: "command_q (r\<lparr>dmcontrol_q := a, havereset_q := b\<rparr>) = command_q r"
  by simp

text \<open>An inactive module ignores everything but its own activation. While \<open>dmactive\<close> is 0, each clock
  puts every register in its reset state, whatever is accessed; only \<open>dmactive\<close> itself can be
  written, and \<open>havereset\<close> follows the resets of the harts.\<close>

theorem inactive_is_reset:
  assumes "\<not> dmactive (dmcontrol_q s)"
  shows "csrs_clk g i s = csrs_reset\<lparr>
    dmcontrol_q := (unpack_dmcontrol 0)\<lparr>dmactive :=
      request i DTM_WRITE \<and> dm_csr_addr i = DMControl \<and> bit (wdata i) 0\<rparr>,
    havereset_q := havereset_q (csrs_clk g i s)\<rparr>"
proof -
  have "request i DTM_WRITE \<and> dm_csr_addr i = DMControl \<and> bit (wdata i) 0 \<longleftrightarrow>
      dmactive (dmcontrol_q (nxt (csr_comb g i s)))"
    using assms dmactive_comb [of g i s] by auto
  then show ?thesis
    unfolding \<open>_ = dmactive _\<close> using assms
    by (simp add: csrs_clk_def Let_def)
qed

theorem inactive_is_reset_witness:
  "command_q (csrs_clk one_hart (dmi_in DTM_WRITE Command 0x00220301) csrs_reset) = unpack_command 0"
proof -
  have "\<not> dmactive (dmcontrol_q csrs_reset)" by (simp add: csrs_reset_def unpack_dmcontrol_def)
  from arg_cong [OF inactive_is_reset [OF this, of one_hart "dmi_in DTM_WRITE Command 0x00220301"], of command_q]
  have "command_q (csrs_clk one_hart (dmi_in DTM_WRITE Command 0x00220301) csrs_reset) = command_q csrs_reset"
    by (rule trans) (rule csrs_keep_command)
  then show ?thesis by (simp add: csrs_reset_def)
qed

text \<open>A recorded error does not hold back commands. Although the comment on \<open>abstractcs\<close> says that no
  command is started until \<open>cmderr\<close> is reset, a write of \<open>command\<close> to an active module that is not
  busy stores the command and starts it for every value of \<open>cmderr\<close>.\<close>

theorem command_starts_despite_cmderr:
  assumes "dmactive (dmcontrol_q s)" and "request i DTM_WRITE" and "dm_csr_addr i = Command"
    and "\<not> cmdbusy_i i"
  shows "cmd_valid_q (csrs_clk g i (s\<lparr>cmderr_q := e\<rparr>)) \<and>
    command_q (csrs_clk g i (s\<lparr>cmderr_q := e\<rparr>)) = unpack_command (wdata i) \<and>
    resp_resp (resp_queue_inp (csr_comb g i (s\<lparr>cmderr_q := e\<rparr>))) = DTM_SUCCESS"
  using assms named_not_ranges [of i] read_not_write [of i]
  by (auto simp: csrs_clk_def Let_def csr_comb_def csr_update_def csr_write_def set_nxt_def
      csr_default_def dm_addresses)

theorem command_starts_despite_cmderr_witness:
  "cmd_valid_q (csrs_clk one_hart (dmi_in DTM_WRITE Command 0x00220301) (active_csrs\<lparr>cmderr_q := 2\<rparr>))"
  using command_starts_despite_cmderr [of active_csrs "dmi_in DTM_WRITE Command 0x00220301" one_hart 2]
  by (simp add: csr_example)

section \<open>Halt summaries\<close>

lemma group_ex: "(\<exists>a < m. \<exists>b < n. P (n * a + b)) \<longleftrightarrow> (\<exists>j < m * n. P j)" for m n :: nat
proof
  assume "\<exists>a < m. \<exists>b < n. P (n * a + b)"
  then obtain a b where ab: "a < m" "b < n" "P (n * a + b)" by blast
  have "n * a + b < n * Suc a" using ab by simp
  also have "\<dots> \<le> n * m" using ab by (intro mult_le_mono2) simp
  finally show "\<exists>j < m * n. P j" using ab by (auto simp: mult.commute)
next
  assume "\<exists>j < m * n. P j"
  then obtain j where j: "j < m * n" "P j" by blast
  then have "j div n < m" "j mod n < n" "P (n * (j div n) + j mod n)"
    by (auto simp: less_mult_imp_div_less mult.commute) (cases n; simp)
  then show "\<exists>a < m. \<exists>b < n. P (n * a + b)" by blast
qed

definition halted_in :: "dm_cfg \<Rightarrow> csr_in \<Rightarrow> nat \<Rightarrow> nat \<Rightarrow> bool" where
  "halted_in g i first n \<longleftrightarrow> list_ex (\<lambda>j. first + j < NrHarts g \<and> halted_i i (first + j)) [0..<n]"

lemma halted_in_ex: "halted_in g i a n \<longleftrightarrow> (\<exists>j < n. a + j < NrHarts g \<and> halted_i i (a + j))"
  by (auto simp: halted_in_def list_ex_iff)

lemma halted_in_groups:
  "(\<exists>b < m. halted_in g i (n * (m * k + b)) n) \<longleftrightarrow> halted_in g i (m * n * k) (m * n)"
  using group_ex [of m n "\<lambda>j. m * n * k + j < NrHarts g \<and> halted_i i (m * n * k + j)"]
  by (simp add: halted_in_ex algebra_simps)

lemma halted_in_bound: "halted_in g i (n * k) n \<Longrightarrow> 0 < n \<Longrightarrow> k < (NrHarts g - 1) div n + 1"
proof -
  assume "halted_in g i (n * k) n" and n: "0 < n"
  then have "n * k \<le> NrHarts g - 1" by (auto simp: halted_in_ex)
  then have "k \<le> (NrHarts g - 1) div n" using n by (simp add: less_eq_div_iff_mult_less_eq mult.commute)
  then show ?thesis by simp
qed

lemma halted_flat_in:
  "halted_flat0 g i k = halted_in g i k 1"
  "halted_flat1 g i k = halted_in g i (32 * k) 32"
  "halted_flat2 g i k = halted_in g i (1024 * k) 1024"
proof -
  show f0: "halted_flat0 g i k = halted_in g i k 1" for k by (simp add: halted_flat0_def halted_in_def)
  show f1: "halted_flat1 g i k = halted_in g i (32 * k) 32" for k
    using halted_in_groups [of 32 g i 1 k] halted_in_bound [of g i 32 k]
    by (auto simp: halted_flat1_def list_ex_iff f0)
  show "halted_flat2 g i k = halted_in g i (1024 * k) 1024"
    using halted_in_groups [of 32 g i 32 k] halted_in_bound [of g i 1024 k]
    by (auto simp: halted_flat2_def list_ex_iff f1)
qed

lemma hartsel_index:
  "unat (fld 19 5 (w :: 20 word) :: 15 word) = unat w div 2 ^ 5"
  "unat (fld 19 10 (w :: 20 word) :: 10 word) = unat w div 2 ^ 10"
  "unat (fld 19 15 (w :: 20 word) :: 5 word) = unat w div 2 ^ 15"
proof -
  have "unat w < 2 ^ 20" using unsigned_less [of w, where ?'a = nat] by simp
  then have "unat w div 2 ^ 5 < 2 ^ 15" "unat w div 2 ^ 10 < 2 ^ 10" "unat w div 2 ^ 15 < 2 ^ 5"
    by (simp_all add: less_mult_imp_div_less)
  then show "unat (fld 19 5 w :: 15 word) = unat w div 2 ^ 5"
    "unat (fld 19 10 w :: 10 word) = unat w div 2 ^ 10"
    "unat (fld 19 15 w :: 5 word) = unat w div 2 ^ 15"
    by (simp_all add: fld_def unsigned_ucast_eq unsigned_take_bit_eq unat_div_distrib
        drop_bit_eq_div take_bit_nat_eq_self)
qed

text \<open>One row of the summary tree; the bound is the number of rows at the width of the index.\<close>

lemma summary_row:
  assumes "0 < n" and "\<And>j. j < 32 \<Longrightarrow> f (32 * k + j) = halted_in g i (n * (32 * k + j)) n"
    and "NrHarts g \<le> n * 32 * (m - 1)"
  shows "bit (if k < ((NrHarts g - 1) div (n * 32) + 1) mod m then vec32 (\<lambda>j. f (32 * k + j)) else 0) b \<longleftrightarrow>
    b < 32 \<and> halted_in g i (n * (32 * k + b)) n"
proof -
  have "\<not> halted_in g i (n * (32 * k + j)) n" if "\<not> k < (NrHarts g - 1) div (n * 32) + 1" "j < 32" for j
  proof
    assume "halted_in g i (n * (32 * k + j)) n"
    then have "\<exists>b < 32. halted_in g i (n * (32 * k + b)) n" using that by blast
    then have "halted_in g i (n * 32 * k) (n * 32)"
      using halted_in_groups [of 32 g i n k] by (simp add: mult.commute)
    then show False using halted_in_bound assms(1) that(1) by (metis nat_0_less_mult_iff zero_less_numeral)
  qed
  moreover have "((NrHarts g - 1) div (n * 32) + 1) mod m = (NrHarts g - 1) div (n * 32) + 1 \<or> NrHarts g = 0"
  proof (cases "NrHarts g = 0")
    case False
    then have "NrHarts g - 1 < (m - 1) * (n * 32)" using assms(3) by (simp add: algebra_simps)
    then have "(NrHarts g - 1) div (n * 32) < m - 1" by (rule less_mult_imp_div_less)
    then show ?thesis by simp
  qed simp
  ultimately show ?thesis using assms(2) by (auto simp: bit_vec32 halted_in_ex)
qed

text \<open>A row of the last reduction, where it exists: the loop reads beyond the rows exactly when the number
  of harts is a multiple of 32768, and then only the last of its reads.\<close>

lemma halted_row2_in:
  assumes "k < (NrHarts g - 1) div 2 ^ 15 + 1"
  shows "halted_row2 g i k \<noteq> 0 \<longleftrightarrow> halted_in g i (32768 * k) 32768"
proof -
  have "halted_row2 g i k \<noteq> 0 \<longleftrightarrow> (\<exists>j. bit (vec32 (\<lambda>j. halted_flat2 g i (32 * k + j))) j)"
    using assms by (auto simp: halted_row2_def bit_eq_iff bit_vec32)
  then show ?thesis using halted_in_groups [of 32 g i 1024 k]
    by (auto simp: bit_vec32 halted_flat_in)
qed

lemma haltsum3_rows:
  assumes "0 < (n :: nat)"
  shows "k < n div 32768 + 1 \<and> \<not> k < (n - 1) div 32768 + 1 \<longleftrightarrow> n = 32768 * k"
proof
  assume a: "k < n div 32768 + 1 \<and> \<not> k < (n - 1) div 32768 + 1"
  then have "k \<le> n div 32768" "(n - 1) div 32768 < k" by simp_all
  then have "32768 * k \<le> n" "n - 1 < 32768 * k"
    by (simp_all add: less_eq_div_iff_mult_less_eq div_less_iff_less_mult mult.commute)
  then show "n = 32768 * k" by simp
next
  assume "n = 32768 * k"
  moreover from this assms obtain m where "k = Suc m" by (cases k) auto
  ultimately show "k < n div 32768 + 1 \<and> \<not> k < (n - 1) div 32768 + 1" by simp
qed

lemma haltsum3_in:
  assumes "0 < NrHarts g"
  shows "bit (haltsum3 g i) k = (k < 32 \<and> (if NrHarts g = 32768 * k then halted_beyond g (halted_i i) \<noteq> 0
    else halted_in g i (32768 * k) 32768))"
proof -
  consider "NrHarts g = 32768 * k" | "NrHarts g \<noteq> 32768 * k" "k < (NrHarts g - 1) div 32768 + 1"
    | "NrHarts g \<noteq> 32768 * k" "\<not> k < (NrHarts g - 1) div 32768 + 1" by blast
  then show ?thesis
  proof cases
    case 1
    with haltsum3_rows [OF assms, of k] have "k < NrHarts g div 32768 + 1" "\<not> k < (NrHarts g - 1) div 32768 + 1"
      by blast+
    with 1 show ?thesis by (simp add: haltsum3_def bit_vec32 halted_row2_def)
  next
    case 2
    then have "k < NrHarts g div 32768 + 1" using div_le_mono [of "NrHarts g - 1" "NrHarts g" 32768] by simp
    with 2 halted_row2_in [of k g i] show ?thesis by (simp add: haltsum3_def bit_vec32)
  next
    case 3
    then have "\<not> k < NrHarts g div 32768 + 1" using haltsum3_rows [OF assms, of k] by blast
    with 3 halted_in_bound [of g i 32768 k] show ?thesis by (auto simp: haltsum3_def bit_vec32)
  qed
qed

text \<open>C22: the halt summaries say which harts are halted. For one to 31 * 32768 harts, bit \<open>k\<close> of
  \<open>haltsum0\<close> is hart \<open>k\<close> of the 32 around the selected one; bit \<open>k\<close> of \<open>haltsum1\<close> and of \<open>haltsum2\<close> is set
  exactly if some hart of the \<open>k\<close>-th group of 32 (of 1024) harts around the selected one is halted; and
  bit \<open>k\<close> of \<open>haltsum3\<close> is set exactly if some hart of the \<open>k\<close>-th group of 32768 harts is halted, but for
  one bit: when the number of harts is a multiple \<open>32768 * k\<close>, bit \<open>k\<close>, behind the last group, is whatever
  the read past the end of \<open>halted_reshaped2\<close> returns. Beyond 31 * 32768 harts the bound of a group index
  wraps around.\<close>

theorem halt_summaries:
  assumes "0 < NrHarts g" and "NrHarts g \<le> 31 * 2 ^ 15"
  shows "bit (haltsum0 g i s) k = (k < 32 \<and> halted_in g i (32 * (unat (hartsel_o s) div 32) + k) 1) \<and>
    bit (haltsum1 g i s) k = (k < 32 \<and> halted_in g i (32 * (32 * (unat (hartsel_o s) div 1024) + k)) 32) \<and>
    bit (haltsum2 g i s) k = (k < 32 \<and> halted_in g i (1024 * (32 * (unat (hartsel_o s) div 32768) + k)) 1024) \<and>
    bit (haltsum3 g i) k = (k < 32 \<and> (if NrHarts g = 32768 * k then halted_beyond g (halted_i i) \<noteq> 0
      else halted_in g i (32768 * k) 32768))"
proof (intro conjI)
  show "bit (haltsum0 g i s) k = (k < 32 \<and> halted_in g i (32 * (unat (hartsel_o s) div 32) + k) 1)"
    using summary_row [of 1 "halted_flat0 g i" "unat (hartsel_o s) div 32" g i "2 ^ 15" k] assms
    by (simp add: haltsum0_def Let_def hartsel_index halted_flat_in)
  show "bit (haltsum1 g i s) k = (k < 32 \<and> halted_in g i (32 * (32 * (unat (hartsel_o s) div 1024) + k)) 32)"
    using summary_row [of 32 "halted_flat1 g i" "unat (hartsel_o s) div 1024" g i "2 ^ 10" k] assms
    by (simp add: haltsum1_def Let_def hartsel_index halted_flat_in)
  show "bit (haltsum2 g i s) k = (k < 32 \<and> halted_in g i (1024 * (32 * (unat (hartsel_o s) div 32768) + k)) 1024)"
    using summary_row [of 1024 "halted_flat2 g i" "unat (hartsel_o s) div 32768" g i "2 ^ 5" k] assms
    by (simp add: haltsum2_def Let_def hartsel_index halted_flat_in)
  show "bit (haltsum3 g i) k = (k < 32 \<and> (if NrHarts g = 32768 * k then halted_beyond g (halted_i i) \<noteq> 0
      else halted_in g i (32768 * k) 32768))"
    by (rule haltsum3_in [OF assms(1)])
qed

text \<open>At 64 harts with hart 40 halted, bit 1 of \<open>haltsum1\<close> and bit 0 of \<open>haltsum3\<close> are set; at 32768 harts
  with none halted, bit 1 of \<open>haltsum3\<close> is what the array returns beyond its end.\<close>

theorem halt_summaries_witness:
  "bit (haltsum1 (one_hart\<lparr>NrHarts := 64\<rparr>) (idle_in\<lparr>halted_i := (\<lambda>h. h = 40)\<rparr>) csrs_reset) 1 \<and>
   bit (haltsum3 (one_hart\<lparr>NrHarts := 64\<rparr>) (idle_in\<lparr>halted_i := (\<lambda>h. h = 40)\<rparr>)) 0 \<and>
   bit (haltsum3 (one_hart\<lparr>NrHarts := 32768, halted_beyond := (\<lambda>_. 8)\<rparr>) idle_in) 1"
proof -
  have "hartsel_o csrs_reset = 0"
    by (simp add: hartsel_o_def csrs_reset_def hartsel_of_def unpack_dmcontrol_def fld_def cat_simps)
  moreover have "halted_in (one_hart\<lparr>NrHarts := 64\<rparr>) (idle_in\<lparr>halted_i := (\<lambda>h. h = 40)\<rparr>) 32 32"
    unfolding halted_in_ex by (rule exI [of _ 8]) (simp add: idle_in_def)
  moreover have "halted_in (one_hart\<lparr>NrHarts := 64\<rparr>) (idle_in\<lparr>halted_i := (\<lambda>h. h = 40)\<rparr>) 0 32768"
    unfolding halted_in_ex by (rule exI [of _ 40]) (simp add: idle_in_def)
  ultimately show ?thesis
    using halt_summaries [of "one_hart\<lparr>NrHarts := 64\<rparr>" "idle_in\<lparr>halted_i := (\<lambda>h. h = 40)\<rparr>" csrs_reset 1]
      halt_summaries [of "one_hart\<lparr>NrHarts := 64\<rparr>" "idle_in\<lparr>halted_i := (\<lambda>h. h = 40)\<rparr>" csrs_reset 0]
      halt_summaries [of "one_hart\<lparr>NrHarts := 32768, halted_beyond := (\<lambda>_. 8)\<rparr>" idle_in csrs_reset 1]
    by simp
qed

section \<open>Halt and resume requests\<close>

text \<open>C21: the life of a halt or resume request. In an active module the request bits follow the last
  write of \<open>dmcontrol\<close> and reach the selected existing hart only. Setting the resume request pulses
  \<open>clear_resumeack\<close>, and the request is withdrawn, for every value written in that cycle, by the
  acknowledge of any hart, selected or not.\<close>

theorem resume_request:
  assumes "dmactive (dmcontrol_q s)"
  shows "let wr = request i DTM_WRITE \<and> dm_csr_addr i = DMControl;
      rr = (if wr then bit (wdata i) 30 else resumereq (dmcontrol_q s)) in
    resumereq (dmcontrol_q (csrs_clk g i s)) =
      (rr \<and> \<not> (resumereq (dmcontrol_q s) \<and> (\<exists>h < NrHarts g. resumeack_i i h))) \<and>
    haltreq (dmcontrol_q (csrs_clk g i s)) = (if wr then bit (wdata i) 31 else haltreq (dmcontrol_q s)) \<and>
    clear_resumeack_o (csr_comb g i s) = (rr \<and> \<not> resumereq (dmcontrol_q s)) \<and>
    resumereq_o g s h = (resumereq (dmcontrol_q s) \<and> selected_hart_valid g s \<and> h = selected_hart g s)"
proof -
  have f: "resumereq (fix_dmcontrol g i s d) = (resumereq d \<and> \<not> (resumereq (dmcontrol_q s) \<and> any_resumeack g i))"
    "haltreq (fix_dmcontrol g i s d) = haltreq d" for d
    by (simp_all add: fix_dmcontrol_def warl_hartsel_def Let_def)
  have a: "any_resumeack g i = (\<exists>h < NrHarts g. resumeack_i i h)"
    by (auto simp: any_resumeack_def list_ex_iff)
  show ?thesis using assms named_not_ranges [of i] read_not_write [of i]
    unfolding a [symmetric]
    by (simp add: csrs_clk_def csr_comb_def Let_def csr_update_def f csr_write_frame csr_read_frame resumereq_o_def)
      (auto simp: csr_default_def unpack_dmcontrol_def)
qed

theorem resume_request_witness:
  "resumereq (dmcontrol_q (csrs_clk one_hart (dmi_in DTM_WRITE DMControl 0x40000001) active_csrs))"
proof -
  have "\<not> resumereq (dmcontrol_q active_csrs)" by (simp add: active_csrs_def unpack_dmcontrol_def)
  then show ?thesis
    using resume_request [of active_csrs "dmi_in DTM_WRITE DMControl 0x40000001" one_hart 0]
    by (simp add: csr_example)
qed

end
