(* ===== verification/Dm_Mem.thy ===== *)
theory Dm_Mem
  imports Dm_Csrs Debug_Rom
begin

text \<open>
  The debug memory, \<open>src/dm_mem.sv\<close>: the part of the debug module that the harts see as memory. It
  holds the flags they poll, the data registers, the program buffer and the instructions of the current
  abstract command, tracks which harts are halted, and runs the state machine of the hart control. Each
  combinational block is a function of the inputs and the registers; \<open>mem_clk\<close> is the clock edge. Bus
  words are kept in 64 bits.
\<close>

section \<open>Address map\<close>

definition ProgBufBaseAddr :: "12 word" where "ProgBufBaseAddr = DataAddr - 4 * of_nat ProgBufSize"
definition ProgBufEndAddr :: "12 word" where "ProgBufEndAddr = DataAddr - 1"
definition DataEndAddr :: "12 word" where "DataEndAddr = DataAddr + 4 * of_nat DataCount - 1"
definition AbstractCmdBaseAddr :: "12 word" where "AbstractCmdBaseAddr = ProgBufBaseAddr - 4 * 10"
definition AbstractCmdEndAddr :: "12 word" where "AbstractCmdEndAddr = ProgBufBaseAddr - 1"
definition WhereToAddr :: "12 word" where "WhereToAddr = 0x300"
definition FlagsBaseAddr :: "12 word" where "FlagsBaseAddr = 0x400"
definition FlagsEndAddr :: "12 word" where "FlagsEndAddr = 0x7FF"
definition HaltedAddr :: "12 word" where "HaltedAddr = 0x100"
definition GoingAddr :: "12 word" where "GoingAddr = 0x108"
definition ResumingAddr :: "12 word" where "ResumingAddr = 0x110"
definition ExceptionAddr :: "12 word" where "ExceptionAddr = 0x118"

lemma map_addresses [run_simps]:
  "ProgBufBaseAddr = 0x360" "ProgBufEndAddr = 0x37F" "DataEndAddr = 0x387"
  "AbstractCmdBaseAddr = 0x338" "AbstractCmdEndAddr = 0x35F"
  "WhereToAddr = 0x300" "FlagsBaseAddr = 0x400" "FlagsEndAddr = 0x7FF" "HaltedAddr = 0x100"
  "GoingAddr = 0x108" "ResumingAddr = 0x110" "ExceptionAddr = 0x118" "DataAddr = 0x380"
  by (simp_all add: ProgBufBaseAddr_def ProgBufEndAddr_def DataEndAddr_def AbstractCmdBaseAddr_def
      AbstractCmdEndAddr_def WhereToAddr_def FlagsBaseAddr_def FlagsEndAddr_def HaltedAddr_def
      GoingAddr_def ResumingAddr_def ExceptionAddr_def dm_constants)

section \<open>Ports and registers\<close>

record mem_in =
  ndmreset_i :: bool
  hartsel_i :: "20 word"
  haltreq_i :: "nat \<Rightarrow> bool"
  resumereq_i :: "nat \<Rightarrow> bool"
  clear_resumeack_i :: bool
  progbuf_i :: "nat \<Rightarrow> u32"
  mem_data_i :: "nat \<Rightarrow> u32"
  cmd_valid_i :: bool
  cmd_i :: command_t
  req_i :: bool
  we_i :: bool
  addr_i :: u64
  wdata_i :: u64
  be_i :: u8

datatype mem_state_e = Mem_Idle | Mem_Go | Mem_Resume | Mem_CmdExecuting

text \<open>Only the ROM that the base address selects is instantiated; the address register of the other one
  keeps its value.\<close>

record dm_mem =
  mem_state_q :: mem_state_e
  halted_q :: "nat \<Rightarrow> bool"
  resuming_q :: "nat \<Rightarrow> bool"
  fwd_rom_q :: bool
  rdata_q :: u64
  word_enable32_q :: bool
  rom_q :: "5 word"
  one_scratch_q :: "4 word"

definition mem_reset :: dm_mem where
  "mem_reset = \<lparr>mem_state_q = Mem_Idle, halted_q = (\<lambda>_. False), resuming_q = (\<lambda>_. False),
     fwd_rom_q = False, rdata_q = 0, word_enable32_q = False, rom_q = 0, one_scratch_q = 0\<rparr>"

definition MaxAar :: "dm_cfg \<Rightarrow> nat" where
  "MaxAar g = (if MaxRegisterAccessWidth g = 64 then 4 else 3)"

definition HasSndScratch :: "dm_cfg \<Rightarrow> bool" where
  "HasSndScratch g \<longleftrightarrow> DmBaseAddress g \<noteq> 0"

definition LoadBaseAddr :: "dm_cfg \<Rightarrow> 5 word" where
  "LoadBaseAddr g = (if DmBaseAddress g = 0 then 0 else 10)"

definition mem_hartsel :: "dm_cfg \<Rightarrow> mem_in \<Rightarrow> nat" where
  "mem_hartsel g i = unat (take_bit (HartSelLen g) (hartsel_i i))"

definition wdata_hartsel :: "dm_cfg \<Rightarrow> mem_in \<Rightarrow> nat" where
  "wdata_hartsel g i = unat (take_bit (HartSelLen g) (wdata_i i))"

definition hart_valid :: "dm_cfg \<Rightarrow> nat \<Rightarrow> bool" where
  "hart_valid g h \<longleftrightarrow> h \<le> NrHarts g - 1"

definition daddr :: "mem_in \<Rightarrow> 12 word" where
  "daddr i = ucast (addr_i i)"

section \<open>The abstract command\<close>

text \<open>The ten instruction slots; \<open>abstract_cmd[k]\<close> of the source holds the slots \<open>2 * k\<close> (lower half)
  and \<open>2 * k + 1\<close>.\<close>

definition cmd_template :: "dm_cfg \<Rightarrow> u32 list" where
  "cmd_template g =
    [illegal,
     if HasSndScratch g then auipc 10 0 else nop,
     if HasSndScratch g then srli 10 10 12 else nop,
     if HasSndScratch g then slli 10 10 12 else nop,
     nop, nop, nop, nop,
     if HasSndScratch g then csrr CSR_DSCRATCH1 10 else nop,
     ebreak]"

definition reserved_regno :: "ac_ar_cmd_t \<Rightarrow> bool" where
  "reserved_regno ac \<longleftrightarrow> (fld 15 14 (regno ac) :: 2 word) \<noteq> 0"

definition regno_index :: "ac_ar_cmd_t \<Rightarrow> 5 word" where
  "regno_index ac = fld 4 0 (regno ac)"

definition is_a0 :: "dm_cfg \<Rightarrow> ac_ar_cmd_t \<Rightarrow> bool" where
  "is_a0 g ac \<longleftrightarrow> HasSndScratch g \<and> bit (regno ac) 12 \<and> \<not> bit (regno ac) 5 \<and> regno_index ac = 10"

definition write_reg_cmd :: "dm_cfg \<Rightarrow> ac_ar_cmd_t \<Rightarrow> u32 list \<Rightarrow> u32 list \<times> bool" where
  "write_reg_cmd g ac p = (let
     p = p[0 := if HasSndScratch g then csrw CSR_DSCRATCH1 10 else nop];
     base = LoadBaseAddr g; sz = aarsize ac in
   if reserved_regno ac then (p[0 := ebreak], True)
   else if is_a0 g ac then
     (p[4 := csrw CSR_DSCRATCH0 8, 5 := load sz 8 base DataAddr,
        6 := csrw CSR_DSCRATCH1 8, 7 := csrr CSR_DSCRATCH0 8], False)
   else if bit (regno ac) 12 then
     (p[4 := if bit (regno ac) 5 then float_load sz (regno_index ac) base DataAddr
             else load sz (regno_index ac) base DataAddr], False)
   else
     (p[4 := csrw CSR_DSCRATCH0 8, 5 := load sz 8 base DataAddr,
        6 := csrw (fld 11 0 (regno ac)) 8, 7 := csrr CSR_DSCRATCH0 8], False))"

definition read_reg_cmd :: "dm_cfg \<Rightarrow> ac_ar_cmd_t \<Rightarrow> u32 list \<Rightarrow> u32 list \<times> bool" where
  "read_reg_cmd g ac p = (let
     base = LoadBaseAddr g; sz = aarsize ac;
     p = p[0 := if HasSndScratch g then csrw CSR_DSCRATCH1 base else nop] in
   if reserved_regno ac then (p[0 := ebreak], True)
   else if is_a0 g ac then
     (p[4 := csrw CSR_DSCRATCH0 8, 5 := csrr CSR_DSCRATCH1 8,
        6 := store sz 8 base DataAddr, 7 := csrr CSR_DSCRATCH0 8], False)
   else if bit (regno ac) 12 then
     (p[4 := if bit (regno ac) 5 then float_store sz (regno_index ac) base DataAddr
             else store sz (regno_index ac) base DataAddr], False)
   else
     (p[4 := csrw CSR_DSCRATCH0 8, 5 := csrr (fld 11 0 (regno ac)) 8,
        6 := store sz 8 base DataAddr, 7 := csrr CSR_DSCRATCH0 8], False))"

definition abstract_prog :: "dm_cfg \<Rightarrow> command_t \<Rightarrow> u32 list \<times> bool" where
  "abstract_prog g cmd = (let ac = unpack_ac_ar_cmd (control cmd); p = cmd_template g in
   if cmdtype cmd = AccessRegister then
     (let (p, bad) =
        (if unat (aarsize ac) < MaxAar g \<and> transfer ac \<and> ar_write ac then write_reg_cmd g ac p
         else if unat (aarsize ac) < MaxAar g \<and> transfer ac \<and> \<not> ar_write ac then read_reg_cmd g ac p
         else if MaxAar g \<le> unat (aarsize ac) \<or> aarpostincrement ac then (p[0 := ebreak], True)
         else (p, False))
      in (if postexec ac \<and> \<not> bad then p[9 := nop] else p, bad))
   else (p[0 := ebreak], True))"

definition unsupported_command :: "dm_cfg \<Rightarrow> mem_in \<Rightarrow> bool" where
  "unsupported_command g i = snd (abstract_prog g (cmd_i i))"

text \<open>The eight double words; the last three are zero.\<close>

definition abstract_cmd :: "dm_cfg \<Rightarrow> mem_in \<Rightarrow> nat \<Rightarrow> u64" where
  "abstract_cmd g i k = (let p = fst (abstract_prog g (cmd_i i)) in
     if k < 5 then cat [(32, ucast (p ! (2 * k + 1))), (32, ucast (p ! (2 * k)))] else 0)"

section \<open>Accesses of the harts\<close>

definition mem_write :: "mem_in \<Rightarrow> 12 word \<Rightarrow> bool" where
  "mem_write i a \<longleftrightarrow> req_i i \<and> we_i i \<and> daddr i = a"

definition going :: "mem_in \<Rightarrow> bool" where
  "going i \<longleftrightarrow> mem_write i GoingAddr"

definition mem_exception :: "mem_in \<Rightarrow> bool" where
  "mem_exception i \<longleftrightarrow> mem_write i ExceptionAddr"

definition halted_aligned :: "dm_cfg \<Rightarrow> mem_in \<Rightarrow> nat \<Rightarrow> bool" where
  "halted_aligned g i h \<longleftrightarrow> mem_write i HaltedAddr \<and> h = wdata_hartsel g i"

definition halted_d :: "dm_cfg \<Rightarrow> mem_in \<Rightarrow> dm_mem \<Rightarrow> nat \<Rightarrow> bool" where
  "halted_d g i s = (let
     v = halted_q s; w = wdata_hartsel g i;
     v = (if mem_write i HaltedAddr \<and> hart_valid g w then v(w := True)
          else if mem_write i ResumingAddr \<and> hart_valid g w then v(w := False) else v)
   in if ndmreset_i i then (\<lambda>_. False) else v)"

definition resuming_d :: "dm_cfg \<Rightarrow> mem_in \<Rightarrow> dm_mem \<Rightarrow> nat \<Rightarrow> bool" where
  "resuming_d g i s = (let
     v = resuming_q s; h = mem_hartsel g i; w = wdata_hartsel g i;
     v = (if clear_resumeack_i i \<and> hart_valid g h then v(h := False) else v);
     v = (if mem_write i ResumingAddr \<and> hart_valid g w then v(w := True) else v)
   in if ndmreset_i i then (\<lambda>_. False) else v)"

text \<open>Writes of a hart to the data registers, byte by byte.\<close>

definition set_byte :: "nat \<Rightarrow> u8 \<Rightarrow> u32 \<Rightarrow> u32" where
  "set_byte k v w = (w AND NOT (push_bit (8 * k) 0xFF)) OR push_bit (8 * k) (ucast v)"

definition data_reg_idx :: "mem_in \<Rightarrow> nat" where
  "data_reg_idx i = unat (ucast ((fld 11 2 (addr_i i) :: 10 word) - fld 11 2 DataAddr) :: 1 word)"

definition data_valid_o :: "mem_in \<Rightarrow> bool" where
  "data_valid_o i \<longleftrightarrow> req_i i \<and> we_i i \<and> DataAddr \<le> daddr i \<and> daddr i \<le> DataEndAddr"

definition data_bits :: "dm_cfg \<Rightarrow> mem_in \<Rightarrow> nat \<Rightarrow> u32" where
  "data_bits g i = (if data_valid_o i then
     foldl (\<lambda>d b. let k = data_reg_idx i + b div 4 in
       if bit (be_i i) b \<and> k < DataCount
       then d(k := set_byte (b mod 4) (fld (8 * b + 7) (8 * b) (wdata_i i)) (d k)) else d)
       (mem_data_i i) [0..<BusWidth g div 8]
   else mem_data_i i)"

section \<open>Hart control\<close>

record mem_ctrl =
  mem_state_d :: mem_state_e
  go :: bool
  resume :: bool
  cmdbusy_o :: bool
  cmderror_valid_o :: bool
  cmderror_o :: "3 word"

definition ctrl_default :: "dm_mem \<Rightarrow> mem_ctrl" where
  "ctrl_default s = \<lparr>mem_state_d = mem_state_q s, go = False, resume = False, cmdbusy_o = True,
     cmderror_valid_o = False, cmderror_o = CmdErrNone\<rparr>"

definition raise_error :: "3 word \<Rightarrow> mem_ctrl \<Rightarrow> mem_ctrl" where
  "raise_error e c = c\<lparr>cmderror_valid_o := True, cmderror_o := e\<rparr>"

definition idle_case :: "dm_cfg \<Rightarrow> mem_in \<Rightarrow> dm_mem \<Rightarrow> mem_ctrl \<Rightarrow> mem_ctrl" where
  "idle_case g i s c = (let
     h = mem_hartsel g i; halted = aligned g (halted_q s) h;
     c = c\<lparr>cmdbusy_o := False\<rparr>;
     c = (if cmd_valid_i i \<and> halted \<and> \<not> unsupported_command g i then c\<lparr>mem_state_d := Mem_Go\<rparr>
          else if cmd_valid_i i then raise_error CmdErrorHaltResume c else c)
   in if aligned g (resumereq_i i) h \<and> \<not> aligned g (resuming_q s) h \<and>
         \<not> aligned g (haltreq_i i) h \<and> halted
      then c\<lparr>mem_state_d := Mem_Resume\<rparr> else c)"

definition ctrl_case :: "dm_cfg \<Rightarrow> mem_in \<Rightarrow> dm_mem \<Rightarrow> mem_ctrl" where
  "ctrl_case g i s = (let c = ctrl_default s; h = mem_hartsel g i in
     case mem_state_q s of
       Mem_Idle \<Rightarrow> idle_case g i s c
     | Mem_Go \<Rightarrow> c\<lparr>go := True, mem_state_d := (if going i then Mem_CmdExecuting else Mem_Go)\<rparr>
     | Mem_Resume \<Rightarrow> c\<lparr>resume := True,
         mem_state_d := (if aligned g (resuming_q s) h then Mem_Idle else Mem_Resume)\<rparr>
     | Mem_CmdExecuting \<Rightarrow>
         c\<lparr>mem_state_d := (if halted_aligned g i h then Mem_Idle else Mem_CmdExecuting)\<rparr>)"

definition hart_ctrl :: "dm_cfg \<Rightarrow> mem_in \<Rightarrow> dm_mem \<Rightarrow> mem_ctrl" where
  "hart_ctrl g i s = (let
     c = ctrl_case g i s;
     c = (if unsupported_command g i \<and> cmd_valid_i i then raise_error CmdErrNotSupported c else c);
     c = (if mem_exception i then raise_error CmdErrorException c else c)
   in if ndmreset_i i then c\<lparr>mem_state_d := Mem_Idle, go := False, resume := False\<rparr> else c)"

section \<open>Reads of the harts\<close>

text \<open>The jump at \<open>whereto\<close>: offsets in 21 bits.\<close>

definition jump_to :: "12 word \<Rightarrow> u64" where
  "jump_to a = ucast (jal 0 (ucast a - ucast WhereToAddr))"

definition where_to :: "dm_cfg \<Rightarrow> mem_in \<Rightarrow> dm_mem \<Rightarrow> u64" where
  "where_to g i s = (let
     ac = unpack_ac_ar_cmd (control (cmd_i i));
     r = (if aligned g (resumereq_i i) (wdata_hartsel g i) then jump_to (ucast ResumeAddress)
          else rdata_q s)
   in if cmdbusy_o (hart_ctrl g i s) then
        (if cmdtype (cmd_i i) = AccessRegister \<and> \<not> transfer ac \<and> postexec ac
         then jump_to ProgBufBaseAddr else jump_to AbstractCmdBaseAddr)
      else r)"

definition dword_idx :: "mem_in \<Rightarrow> 12 word \<Rightarrow> 9 word" where
  "dword_idx i first = fld 11 3 (addr_i i) - fld 11 3 first"

definition data_word :: "mem_in \<Rightarrow> 9 word \<Rightarrow> u32" where
  "data_word i k = mem_data_i i (unat (ucast (push_bit 1 (dword_idx i DataAddr) + k) :: 1 word))"

definition progbuf_word :: "mem_in \<Rightarrow> u64" where
  "progbuf_word i = (let k = unat (ucast (dword_idx i ProgBufBaseAddr) :: 3 word) in
     cat [(32, ucast (progbuf_i i (2 * k + 1))), (32, ucast (progbuf_i i (2 * k)))])"

text \<open>The flag byte of the selected hart in the double word that is read.\<close>

definition flags_word :: "dm_cfg \<Rightarrow> mem_in \<Rightarrow> mem_ctrl \<Rightarrow> u64" where
  "flags_word g i c = (let h = of_nat (mem_hartsel g i) :: 12 word in
     if push_bit 3 (drop_bit 3 (daddr i)) - FlagsBaseAddr = h AND NOT 7
     then push_bit (8 * unat (h AND 7)) (cat [(6, 0), (1, b1 (resume c)), (1, b1 (go c))]) else 0)"

definition rdata_d :: "dm_cfg \<Rightarrow> mem_in \<Rightarrow> dm_mem \<Rightarrow> u64" where
  "rdata_d g i s = (let a = daddr i in
     if \<not> req_i i \<or> we_i i then rdata_q s
     else if a = WhereToAddr then where_to g i s
     else if DataAddr \<le> a \<and> a \<le> DataEndAddr then
       cat [(32, ucast (data_word i 1)), (32, ucast (data_word i 0))]
     else if ProgBufBaseAddr \<le> a \<and> a \<le> ProgBufEndAddr then progbuf_word i
     else if AbstractCmdBaseAddr \<le> a \<and> a \<le> AbstractCmdEndAddr then
       abstract_cmd g i (unat (ucast (dword_idx i AbstractCmdBaseAddr) :: 3 word))
     else if FlagsBaseAddr \<le> a \<and> a \<le> FlagsEndAddr then flags_word g i (hart_ctrl g i s)
     else rdata_q s)"

definition rom_rdata :: "dm_cfg \<Rightarrow> dm_mem \<Rightarrow> u64" where
  "rom_rdata g s = (if HasSndScratch g then debug_rom_rdata (rom_q s)
     else one_scratch_rdata (one_scratch_q s))"

definition mem_rdata_o :: "dm_cfg \<Rightarrow> dm_mem \<Rightarrow> u64" where
  "mem_rdata_o g s = (let w = (if fwd_rom_q s then rom_rdata g s else rdata_q s) in
     if BusWidth g = 64 then w else if word_enable32_q s then fld 63 32 w else fld 31 0 w)"

definition mem_clk :: "dm_cfg \<Rightarrow> mem_in \<Rightarrow> dm_mem \<Rightarrow> dm_mem" where
  "mem_clk g i s = \<lparr>mem_state_q = mem_state_d (hart_ctrl g i s),
     halted_q = (\<lambda>h. SelectableHarts g h \<and> halted_d g i s h),
     resuming_q = (\<lambda>h. SelectableHarts g h \<and> resuming_d g i s h),
     fwd_rom_q = (ucast HaltAddress \<le> daddr i),
     rdata_q = rdata_d g i s,
     word_enable32_q = bit (addr_i i) 2,
     rom_q = (if HasSndScratch g then debug_rom_clk (req_i i) (addr_i i) (rom_q s) else rom_q s),
     one_scratch_q = (if HasSndScratch g then one_scratch_q s
       else one_scratch_clk (req_i i) (addr_i i) (one_scratch_q s))\<rparr>"

section \<open>Fetching and loading from the debug module\<close>

definition mem_bus_ok :: "dm_cfg \<Rightarrow> bool" where
  "mem_bus_ok g \<longleftrightarrow> BusWidth g = 32 \<or> BusWidth g = 64"

text \<open>The word on the lanes of a 32-bit access: in the cycle after the request.\<close>

definition read32 :: "dm_cfg \<Rightarrow> mem_in \<Rightarrow> dm_mem \<Rightarrow> u32" where
  "read32 g i s = (let w = mem_rdata_o g (mem_clk g i s) in
     if BusWidth g = 64 \<and> bit (addr_i i) 2 then fld 63 32 w else fld 31 0 w)"

definition mem_read :: "mem_in \<Rightarrow> 12 word \<Rightarrow> bool" where
  "mem_read i a \<longleftrightarrow> req_i i \<and> \<not> we_i i \<and> daddr i = a"

lemma addr_fields:
  "(fld 11 3 (addr_i i) :: 9 word) = fld 11 3 (daddr i)"
  "(fld 11 2 (addr_i i) :: 10 word) = fld 11 2 (daddr i)"
  "bit (addr_i i) 2 = bit (daddr i) 2"
  unfolding daddr_def by (auto intro!: bit_word_eqI simp: bit_fld bit_ucast_word)

text \<open>On a bus of either width the access returns the half of the double word that bit 2 of the address
  selects.\<close>

lemma read32_below_rom:
  assumes "mem_read i a" and "a < 0x800"
  shows "read32 g i s = (if bit a 2 then fld 63 32 (rdata_d g i s) else fld 31 0 (rdata_d g i s))"
proof -
  have "fld 31 0 (fld 63 32 w :: u64) = (fld 63 32 w :: u32)" "fld 31 0 (fld 31 0 w :: u64) = (fld 31 0 w :: u32)"
    for w :: u64 by (auto intro!: bit_word_eqI simp: bit_fld)
  moreover have "\<not> fwd_rom_q (mem_clk g i s)"
    using assms by (simp add: mem_clk_def mem_read_def HaltAddress_def not_le)
  ultimately show ?thesis using assms(1)
    by (simp add: read32_def mem_rdata_o_def Let_def mem_read_def addr_fields)
      (simp add: mem_clk_def addr_fields)
qed

lemma length_abstract_prog: "length (fst (abstract_prog g cmd)) = 10"
  by (simp add: abstract_prog_def write_reg_cmd_def read_reg_cmd_def cmd_template_def Let_def)

lemma pair_halves:
  "fld 63 32 (cat [(32, ucast (a :: u32)), (32, ucast (b :: u32))] :: u64) = a"
  "fld 31 0 (cat [(32, ucast (a :: u32)), (32, ucast (b :: u32))] :: u64) = b"
  by (simp_all add: cat_fields ucast_ucast_self)

lemma unat_12: "n < 4096 \<Longrightarrow> unat (of_nat n :: 12 word) = n"
  by (simp add: unsigned_of_nat take_bit_nat_eq_self)

lemma dword_number: "(fld 11 3 (w :: 12 word) :: 9 word) = of_nat (unat w div 8)"
proof (rule bit_word_eqI)
  fix n
  assume "n < LENGTH(9)"
  then show "bit (fld 11 3 w :: 9 word) n = bit (of_nat (unat w div 8) :: 9 word) n"
    by (simp add: bit_fld bit_of_nat_iff flip: drop_bit_eq_div [of 3, simplified])
      (simp add: bit_simps add.commute)
qed

text \<open>Word \<open>k\<close> of an area that starts at a double word.\<close>

lemma area_word:
  assumes "mem_read i a" and "unat a = unat first + 4 * k" and "8 dvd unat first"
  shows "dword_idx i first = of_nat (k div 2)" and "bit a 2 = odd k"
proof -
  obtain m where m: "unat first = 8 * m" using assms(3) by (rule dvdE)
  have "unat a div 8 = m + k div 2" using assms(2) m by simp
  then show "dword_idx i first = of_nat (k div 2)"
    using assms(1) m by (simp add: dword_idx_def addr_fields dword_number mem_read_def)
  have "bit (unat a) 2 = bit a 2" by (simp add: bit_simps)
  then have "bit a 2 = odd (unat a div 4)" by (simp add: bit_iff_odd)
  then show "bit a 2 = odd k" using assms(2) m by simp
qed

lemma area_unat:
  assumes "a = first + 4 * of_nat k" and "unat first + 4 * k < 4096"
  shows "unat (a :: 12 word) = unat first + 4 * k"
  using assms by (simp add: unat_word_ariths unsigned_of_nat take_bit_nat_eq_self)

lemma half_index: "(if odd k then f (Suc (2 * (k div 2))) else f (2 * (k div 2))) = f k"
  by simp

lemma fetch_command:
  assumes "mem_read i (AbstractCmdBaseAddr + 4 * of_nat k)" and "k < 10"
  shows "read32 g i s = fst (abstract_prog g (cmd_i i)) ! k"
proof -
  let ?a = "AbstractCmdBaseAddr + 4 * of_nat k"
  have u: "unat ?a = unat AbstractCmdBaseAddr + 4 * k" by (rule area_unat) (use assms(2) in \<open>simp_all add: map_addresses\<close>)
  have "8 dvd unat AbstractCmdBaseAddr" by (simp add: map_addresses)
  note w = area_word [OF assms(1) u this]
  have a: "daddr i = ?a" "req_i i" "\<not> we_i i" using assms(1) by (simp_all add: mem_read_def)
  have "unat ?a \<noteq> unat WhereToAddr" unfolding u by (simp add: map_addresses)
  then have "?a \<noteq> WhereToAddr" by (rule contrapos_nn) (rule arg_cong)
  moreover have "\<not> DataAddr \<le> ?a" "\<not> ProgBufBaseAddr \<le> ?a" "AbstractCmdBaseAddr \<le> ?a"
      "?a \<le> AbstractCmdEndAddr" "?a < 0x800"
    unfolding word_le_nat_alt word_less_nat_alt u using assms(2) by (simp_all add: map_addresses)
  moreover have "unat (ucast (dword_idx i AbstractCmdBaseAddr) :: 3 word) = k div 2"
    using assms(2) w(1) by (simp add: map_addresses unsigned_of_nat take_bit_nat_eq_self unsigned_ucast_eq)
  moreover have "k div 2 < 5" using assms(2) by simp
  ultimately show ?thesis
    using a w(2) by (simp add: read32_below_rom [OF assms(1)] rdata_d_def abstract_cmd_def pair_halves Let_def)
qed


lemma fetch_progbuf:
  assumes "mem_read i (ProgBufBaseAddr + 4 * of_nat k)" and "k < 8"
  shows "read32 g i s = progbuf_i i k"
proof -
  let ?a = "ProgBufBaseAddr + 4 * of_nat k"
  have u: "unat ?a = unat ProgBufBaseAddr + 4 * k" by (rule area_unat) (use assms(2) in \<open>simp_all add: map_addresses\<close>)
  have "8 dvd unat ProgBufBaseAddr" by (simp add: map_addresses)
  note w = area_word [OF assms(1) u this]
  have a: "daddr i = ?a" "req_i i" "\<not> we_i i" using assms(1) by (simp_all add: mem_read_def)
  have "unat ?a \<noteq> unat WhereToAddr" unfolding u by (simp add: map_addresses)
  then have "?a \<noteq> WhereToAddr" by (rule contrapos_nn) (rule arg_cong)
  moreover have "\<not> DataAddr \<le> ?a" "ProgBufBaseAddr \<le> ?a" "?a \<le> ProgBufEndAddr" "?a < 0x800"
    unfolding word_le_nat_alt word_less_nat_alt u using assms(2) by (simp_all add: map_addresses)
  moreover have "unat (ucast (dword_idx i ProgBufBaseAddr) :: 3 word) = k div 2"
    using assms(2) w(1) by (simp add: map_addresses unsigned_of_nat take_bit_nat_eq_self unsigned_ucast_eq)
  ultimately show ?thesis
    using a w(2) by (simp add: read32_below_rom [OF assms(1)] rdata_d_def progbuf_word_def pair_halves Let_def map_addresses)
qed

lemma load_data:
  assumes "mem_read i (DataAddr + 4 * of_nat k)" and "k < 2"
  shows "read32 g i s = mem_data_i i k"
proof -
  have k: "k = 0 \<or> k = 1" using assms(2) by auto
  then show ?thesis
    using assms(1)
    by (elim disjE) (simp_all add: read32_below_rom [OF assms(1)] rdata_d_def mem_read_def map_addresses Let_def
        data_word_def dword_idx_def addr_fields pair_halves dword_number bit_numeral_rec)
qed

lemma busy_iff: "cmdbusy_o (hart_ctrl g i s) \<longleftrightarrow> mem_state_q s \<noteq> Mem_Idle"
  by (cases "mem_state_q s")
    (simp_all add: hart_ctrl_def ctrl_case_def idle_case_def ctrl_default_def raise_error_def Let_def)

lemma jump_words: "fld 31 0 (jump_to AbstractCmdBaseAddr) = jal 0 0x38" "fld 31 0 (jump_to ProgBufBaseAddr) = jal 0 0x60"
  by (simp_all add: jump_to_def map_addresses fld_def jal_def cat_simps)

text \<open>Nothing but an empty transfer with program buffer execution takes the shortcut.\<close>

definition shortcut :: "command_t \<Rightarrow> bool" where
  "shortcut cmd \<longleftrightarrow> cmdtype cmd = AccessRegister \<and> \<not> transfer (unpack_ac_ar_cmd (control cmd)) \<and>
     postexec (unpack_ac_ar_cmd (control cmd))"

lemma fetch_where_to:
  assumes "mem_read i WhereToAddr" and "mem_state_q s \<noteq> Mem_Idle"
  shows "read32 g i s = jal 0 (if shortcut (cmd_i i) then 0x60 else 0x38)"
proof -
  have "read32 g i s = fld 31 0 (rdata_d g i s)"
    using read32_below_rom [OF assms(1)] by (simp add: map_addresses)
  then show ?thesis using assms
    by (simp add: rdata_d_def mem_read_def where_to_def busy_iff shortcut_def jump_words Let_def)
qed

section \<open>Hart control\<close>

text \<open>A command in three phases: \<open>Go\<close> until the hart signals that it goes, executing until it is back
  in the park loop. The flags are those the hart polls.\<close>

definition mem_run :: "dm_cfg \<Rightarrow> mem_in list \<Rightarrow> dm_mem \<Rightarrow> dm_mem" where
  "mem_run g is s = foldl (\<lambda>s i. mem_clk g i s) s is"

lemma mem_run_simps [simp]:
  "mem_run g [] s = s" "mem_run g (i # is) s = mem_run g is (mem_clk g i s)"
  "mem_run g (is @ js) s = mem_run g js (mem_run g is s)"
  by (simp_all add: mem_run_def)

lemma state_stays:
  assumes "mem_state_q s = st" and "list_all (\<lambda>i. \<not> ndmreset_i i \<and> stay i) is"
    and "\<And>i s. mem_state_q s = st \<Longrightarrow> \<not> ndmreset_i i \<Longrightarrow> stay i \<Longrightarrow> mem_state_q (mem_clk g i s) = st"
  shows "mem_state_q (mem_run g is s) = st"
  using assms(1,2)
proof (induction "is" arbitrary: s)
  case (Cons i "is")
  from Cons.prems have "mem_state_q (mem_clk g i s) = st" by (intro assms(3)) simp_all
  with Cons show ?case by simp
qed simp

lemma state_step:
  "mem_state_q s = Mem_Go \<Longrightarrow> \<not> ndmreset_i i \<Longrightarrow>
     mem_state_q (mem_clk g i s) = (if going i then Mem_CmdExecuting else Mem_Go)"
  "mem_state_q s = Mem_CmdExecuting \<Longrightarrow> \<not> ndmreset_i i \<Longrightarrow> mem_state_q (mem_clk g i s) =
     (if mem_write i HaltedAddr \<and> mem_hartsel g i = wdata_hartsel g i then Mem_Idle else Mem_CmdExecuting)"
  "mem_state_q s = Mem_Resume \<Longrightarrow> \<not> ndmreset_i i \<Longrightarrow> mem_state_q (mem_clk g i s) =
     (if aligned g (resuming_q s) (mem_hartsel g i) then Mem_Idle else Mem_Resume)"
  by (simp_all add: mem_clk_def hart_ctrl_def ctrl_case_def ctrl_default_def raise_error_def
      halted_aligned_def Let_def)

lemma state_idle:
  "mem_state_q s = Mem_Idle \<Longrightarrow> \<not> ndmreset_i i \<Longrightarrow> mem_state_q (mem_clk g i s) =
     (let h = mem_hartsel g i; halted = aligned g (halted_q s) h in
      if aligned g (resumereq_i i) h \<and> \<not> aligned g (resuming_q s) h \<and> \<not> aligned g (haltreq_i i) h \<and> halted
      then Mem_Resume
      else if cmd_valid_i i \<and> halted \<and> \<not> unsupported_command g i then Mem_Go else Mem_Idle)"
  by (simp add: mem_clk_def hart_ctrl_def ctrl_case_def idle_case_def ctrl_default_def raise_error_def Let_def)

lemma go_resume_flags:
  "\<not> ndmreset_i i \<Longrightarrow> go (hart_ctrl g i s) \<longleftrightarrow> mem_state_q s = Mem_Go"
  "\<not> ndmreset_i i \<Longrightarrow> resume (hart_ctrl g i s) \<longleftrightarrow> mem_state_q s = Mem_Resume"
  by (cases "mem_state_q s";
      simp add: hart_ctrl_def ctrl_case_def idle_case_def ctrl_default_def raise_error_def Let_def)+

text \<open>C17: the life of a command. A supported command for a halted hart that is not asked to resume
  raises the go flag, which stays up for as long as the hart has not signalled GOING; then the command
  executes until the hart named by the selection signals HALTED, and only then the module is idle
  again. It is busy from the first of these cycles to the last, whatever the harts do in between.\<close>

theorem command_lifecycle:
  assumes "mem_state_q s = Mem_Idle" and "cmd_valid_i i0" and "\<not> unsupported_command g i0"
    and "aligned g (halted_q s) (mem_hartsel g i0)" and "\<not> aligned g (resumereq_i i0) (mem_hartsel g i0)"
    and "list_all (\<lambda>i. \<not> ndmreset_i i) (i0 # w1 @ ig # w2 @ [ih])"
    and "list_all (\<lambda>i. \<not> going i) w1" and "going ig"
    and "list_all (\<lambda>i. \<not> (mem_write i HaltedAddr \<and> mem_hartsel g i = wdata_hartsel g i)) w2"
    and "mem_write ih HaltedAddr" and "mem_hartsel g ih = wdata_hartsel g ih"
  shows "mem_state_q (mem_run g (i0 # w1) s) = Mem_Go \<and>
    mem_state_q (mem_run g (i0 # w1 @ ig # w2) s) = Mem_CmdExecuting \<and>
    mem_state_q (mem_run g (i0 # w1 @ ig # w2 @ [ih]) s) = Mem_Idle \<and>
    (\<forall>i. go (hart_ctrl g (i\<lparr>ndmreset_i := False\<rparr>) (mem_run g (i0 # w1) s)) \<and>
       cmdbusy_o (hart_ctrl g i (mem_run g (i0 # w1) s)) \<and>
       \<not> go (hart_ctrl g i (mem_run g (i0 # w1 @ ig # w2) s)) \<and>
       cmdbusy_o (hart_ctrl g i (mem_run g (i0 # w1 @ ig # w2) s)))"
proof -
  have r: "list_all (\<lambda>i. \<not> ndmreset_i i \<and> \<not> going i) w1"
    "list_all (\<lambda>i. \<not> ndmreset_i i \<and> \<not> (mem_write i HaltedAddr \<and> mem_hartsel g i = wdata_hartsel g i)) w2"
    using assms(6,7,9) by (auto simp: list_all_iff)
  have "mem_state_q (mem_clk g i0 s) = Mem_Go"
    using assms(1-6) by (simp add: state_idle Let_def)
  then have s1: "mem_state_q (mem_run g (i0 # w1) s) = Mem_Go"
    using state_stays [OF _ r(1), of _ Mem_Go g] state_step(1) by simp
  then have "mem_state_q (mem_clk g ig (mem_run g (i0 # w1) s)) = Mem_CmdExecuting"
    using assms(6,8) by (simp add: state_step)
  then have s2: "mem_state_q (mem_run g (i0 # w1 @ ig # w2) s) = Mem_CmdExecuting"
    using state_stays [OF _ r(2), of _ Mem_CmdExecuting g] state_step(2) by simp
  then have "mem_state_q (mem_clk g ih (mem_run g (i0 # w1 @ ig # w2) s)) = Mem_Idle"
    using assms(6,10,11) by (simp add: state_step)
  moreover have "\<not> go (hart_ctrl g i (mem_run g (i0 # w1 @ ig # w2) s))" for i
    using s2 go_resume_flags(1) [of i g] by (cases "ndmreset_i i") (auto simp: hart_ctrl_def Let_def)
  ultimately show ?thesis using s1 s2 by (simp add: go_resume_flags busy_iff)
qed


section \<open>The flags a hart polls\<close>

text \<open>The byte a hart loads: the byte lane its address selects.\<close>

definition mem_byte :: "dm_cfg \<Rightarrow> mem_in \<Rightarrow> dm_mem \<Rightarrow> u8" where
  "mem_byte g i s = (let l = unat (daddr i) mod (BusWidth g div 8) in
     fld (8 * l + 7) (8 * l) (mem_rdata_o g (mem_clk g i s)))"

lemma bit_halves: "bit (fld 63 32 (w :: u64) :: u64) n \<longleftrightarrow> n < 32 \<and> bit w (32 + n)"
  "bit (fld 31 0 (w :: u64) :: u64) n \<longleftrightarrow> n < 32 \<and> bit w n"
  by (auto simp: bit_fld)

lemma bit_mem_byte:
  assumes "mem_bus_ok g" and "mem_read i a" and "a < 0x800"
  shows "bit (mem_byte g i s) b \<longleftrightarrow> b < 8 \<and> bit (rdata_d g i s) (8 * (unat a mod 8) + b)"
proof -
  have "\<not> fwd_rom_q (mem_clk g i s)" "daddr i = a" "rdata_q (mem_clk g i s) = rdata_d g i s"
    "word_enable32_q (mem_clk g i s) = bit a 2"
    using assms(2,3) by (simp_all add: mem_clk_def mem_read_def HaltAddress_def not_le addr_fields)
  moreover have "bit (unat a) 2 = bit a 2" by (simp add: bit_simps)
  then have "bit a 2 = odd (unat a div 4)" by (simp add: bit_iff_odd)
  moreover have "unat a mod 8 = (if odd (unat a div 4) then 4 + unat a mod 4 else unat a mod 4)"
    using mod_mult2_eq [of "unat a" 4 2] by (simp add: odd_iff_mod_2_eq_one even_iff_mod_2_eq_zero)
  moreover have "8 * (unat a mod 4) + 7 < 32" by presburger
  ultimately show ?thesis using assms(1)
    by (auto simp: mem_byte_def mem_rdata_o_def mem_bus_ok_def Let_def bit_fld bit_halves algebra_simps)
qed


lemma bit_flag_pair:
  "bit (cat [(6, 0), (Suc 0, b1 q), (Suc 0, b1 p)] :: u64) n \<longleftrightarrow> (n = 0 \<and> p) \<or> (n = 1 \<and> q)"
  by (auto simp: bit_cat_Cons bit_cat_Nil bit_b1)

lemma bit_flags_word:
  "bit (flags_word g i c) n \<longleftrightarrow>
     push_bit 3 (drop_bit 3 (daddr i)) - FlagsBaseAddr = of_nat (mem_hartsel g i) AND NOT 7 \<and> n < 64 \<and>
     (let l = 8 * unat (of_nat (mem_hartsel g i) AND 7 :: 12 word) in n = l \<and> go c \<or> n = l + 1 \<and> resume c)"
  by (auto simp: flags_word_def Let_def bit_push_bit_iff bit_flag_pair)

lemma lane_flag:
  fixes m n b :: nat
  shows "b < 8 \<and> n div 8 = m div 8 \<and> (8 * (n mod 8) + b = 8 * (m mod 8) \<and> p \<or>
      8 * (n mod 8) + b = 8 * (m mod 8) + 1 \<and> q) \<longleftrightarrow> n = m \<and> (b = 0 \<and> p \<or> b = 1 \<and> q)"
proof (cases "n = m")
  case False
  then have "n div 8 \<noteq> m div 8 \<or> n mod 8 \<noteq> m mod 8" by (metis div_mult_mod_eq)
  moreover have "8 * x + b = 8 * y + c \<Longrightarrow> b < 8 \<Longrightarrow> c < 8 \<Longrightarrow> x = y" for x y c :: nat by presburger
  from this [of "n mod 8" "m mod 8" 0] this [of "n mod 8" "m mod 8" 1]
  have "b < 8 \<Longrightarrow> n mod 8 \<noteq> m mod 8 \<Longrightarrow> 8 * (n mod 8) + b \<noteq> 8 * (m mod 8) \<and> 8 * (n mod 8) + b \<noteq> 8 * (m mod 8) + 1"
    by auto
  ultimately show ?thesis using False by blast
qed auto

lemma flag_group:
  fixes m n :: nat
  assumes "m < 1024" and "n < 1024"
  shows "push_bit 3 (drop_bit 3 (0x400 + of_nat n :: 12 word)) - 0x400 = of_nat m AND NOT 7 \<longleftrightarrow> n div 8 = m div 8"
proof -
  have a: "push_bit 3 (drop_bit 3 (of_nat k :: 12 word)) = of_nat (8 * (k div 8))" if "k < 4096" for k
  proof -
    have e: "8 * (k div 8) = push_bit 3 (drop_bit 3 k)" by (simp add: push_bit_eq_mult drop_bit_eq_div)
    show ?thesis unfolding e by (rule bit_word_eqI) (auto simp: bit_simps)
  qed
  have h: "of_nat m AND NOT 7 = (of_nat (8 * (m div 8)) :: 12 word)"
  proof -
    have m: "(7 :: 12 word) = mask 3" by (simp add: mask_numeral)
    have "of_nat m AND NOT 7 = push_bit 3 (drop_bit 3 (of_nat m :: 12 word))"
      unfolding m by (rule bit_word_eqI) (auto simp: bit_and_iff bit_not_iff bit_mask_iff bit_push_bit_iff bit_drop_bit_eq)
    then show ?thesis using a [of m] assms(1) by simp
  qed
  have "(0x400 + of_nat n :: 12 word) = of_nat (0x400 + n)" by simp
  then have "push_bit 3 (drop_bit 3 (0x400 + of_nat n :: 12 word)) = of_nat (8 * ((0x400 + n) div 8))"
    using a [of "0x400 + n"] assms(2) by simp
  also have "8 * ((0x400 + n) div 8) = 0x400 + 8 * (n div 8)" by presburger
  finally have "push_bit 3 (drop_bit 3 (0x400 + of_nat n :: 12 word)) - 0x400 = of_nat (8 * (n div 8))" by simp
  moreover have "(of_nat (8 * (n div 8)) :: 12 word) = of_nat (8 * (m div 8)) \<longleftrightarrow> n div 8 = m div 8"
  proof -
    have "8 * (n div 8) < 4096" "8 * (m div 8) < 4096" using assms by presburger+
    from this [THEN unat_12] show ?thesis by (metis mult_left_cancel zero_neq_numeral)
  qed
  ultimately show ?thesis unfolding h by simp
qed


text \<open>The flag a hart polls is its own. In a cycle without a system reset, the byte that hart
  number \<open>n\<close> reads at \<open>FLAGS + n\<close> has the go bit set exactly if \<open>n\<close> is the selected hart and a command
  waits for it, the resume bit exactly if \<open>n\<close> is the selected hart and a resume waits for it, and no other
  bit, for up to 1024 harts and on a bus of either width.\<close>

theorem polled_flags:
  assumes "mem_bus_ok g" and "HartSelLen g \<le> 10" and "n < 1024" and "\<not> ndmreset_i i"
    and "mem_read i (FlagsBaseAddr + of_nat n)"
  shows "bit (mem_byte g i s) b \<longleftrightarrow> n = mem_hartsel g i \<and>
    (b = FLAG_GO \<and> mem_state_q s = Mem_Go \<or> b = FLAG_RESUME \<and> mem_state_q s = Mem_Resume)"
proof -
  let ?h = "mem_hartsel g i" and ?a = "FlagsBaseAddr + of_nat n"
  have ua: "unat ?a = 0x400 + n"
    using assms(3) by (simp add: map_addresses unat_word_ariths unsigned_of_nat take_bit_nat_eq_self)
  have "(2 :: nat) ^ HartSelLen g \<le> 2 ^ 10" using assms(2) by (intro power_increasing) simp_all
  moreover have "?h < 2 ^ HartSelLen g" by (simp add: mem_hartsel_def unsigned_take_bit_eq)
  ultimately have h: "?h < 1024" by simp
  have r: "daddr i = ?a" "req_i i" "\<not> we_i i" using assms(5) by (simp_all add: mem_read_def)
  have n: "unat ?a \<noteq> unat WhereToAddr" unfolding ua by (simp add: map_addresses)
  have "?a \<noteq> WhereToAddr" using n by (rule contrapos_nn) (rule arg_cong)
  moreover have "\<not> ?a \<le> DataEndAddr" "\<not> ?a \<le> ProgBufEndAddr" "\<not> ?a \<le> AbstractCmdEndAddr"
    "FlagsBaseAddr \<le> ?a" "?a \<le> FlagsEndAddr" "?a < 0x800"
    unfolding word_le_nat_alt word_less_nat_alt ua using assms(3) by (simp_all add: map_addresses)
  ultimately have d: "rdata_d g i s = flags_word g i (hart_ctrl g i s)" and lt: "?a < 0x800"
    using r by (simp_all add: rdata_d_def)
  have low: "unat (of_nat ?h AND 7 :: 12 word) = ?h mod 8"
  proof -
    have e: "of_nat ?h AND 7 = take_bit 3 (of_nat ?h :: 12 word)" by (simp add: take_bit_eq_mask mask_numeral)
    show ?thesis unfolding e unsigned_take_bit_eq using h by (simp add: unat_12 take_bit_eq_mod)
  qed
  have "bit (mem_byte g i s) b \<longleftrightarrow> b < 8 \<and> bit (flags_word g i (hart_ctrl g i s)) (8 * (n mod 8) + b)"
  proof -
    have "(0x400 + n) mod 8 = n mod 8" using mod_mult_self4 [of 8 128 n] by simp
    then show ?thesis unfolding bit_mem_byte [OF assms(1,5) lt] ua d by simp
  qed
  also have "\<dots> \<longleftrightarrow> b < 8 \<and> n div 8 = ?h div 8 \<and>
      (8 * (n mod 8) + b = 8 * (?h mod 8) \<and> mem_state_q s = Mem_Go \<or>
       8 * (n mod 8) + b = 8 * (?h mod 8) + 1 \<and> mem_state_q s = Mem_Resume)"
  proof -
    have "8 * (n mod 8) + b < 64" if "b < 8" using that mod_less_divisor [of 8 n] by linarith
    then show ?thesis
      using flag_group [OF h assms(3)]
      unfolding bit_flags_word r(1) low Let_def go_resume_flags [OF assms(4)] map_addresses by blast
  qed
  finally show ?thesis unfolding lane_flag FLAG_GO_def FLAG_RESUME_def .
qed


section \<open>Which harts are halted\<close>

text \<open>A flag that events set and clear has the value of the last event.\<close>

definition last_set :: "('i \<Rightarrow> bool option) \<Rightarrow> 'i list \<Rightarrow> bool" where
  "last_set ev is \<longleftrightarrow> (\<exists>pre i post. is = pre @ i # post \<and> ev i = Some True \<and> list_all (\<lambda>j. ev j = None) post)"

lemma last_set_snoc: "last_set ev (is @ [i]) = (case ev i of None \<Rightarrow> last_set ev is | Some b \<Rightarrow> b)"
proof (cases "ev i")
  case None
  have "last_set ev (is @ [i])" if "last_set ev is"
  proof -
    from that obtain pre j post where "is = pre @ j # post" "ev j = Some True" "list_all (\<lambda>j. ev j = None) post"
      unfolding last_set_def by blast
    then show ?thesis unfolding last_set_def using None
      by (intro exI [of _ pre] exI [of _ j] exI [of _ "post @ [i]"]) simp
  qed
  moreover have "last_set ev is" if "last_set ev (is @ [i])"
  proof -
    from that obtain pre j post where p: "is @ [i] = pre @ j # post" "ev j = Some True" "list_all (\<lambda>j. ev j = None) post"
      unfolding last_set_def by blast
    then have "post \<noteq> []" using None by auto
    then obtain post' k where "post = post' @ [k]" using rev_exhaust by blast
    then show ?thesis unfolding last_set_def using p by (intro exI [of _ pre] exI [of _ j] exI [of _ post']) simp
  qed
  ultimately show ?thesis using None by auto
next
  case (Some b)
  have "last_set ev (is @ [i])" if b
    unfolding last_set_def using Some that by (intro exI [of _ "is"] exI [of _ i] exI [of _ "[]"]) simp
  moreover have b if "last_set ev (is @ [i])"
  proof -
    from that obtain pre j post where p: "is @ [i] = pre @ j # post" "ev j = Some True" "list_all (\<lambda>j. ev j = None) post"
      unfolding last_set_def by blast
    then show ?thesis using Some by (cases post rule: rev_cases) auto
  qed
  ultimately show ?thesis using Some by auto
qed

lemma latch_last:
  assumes "\<And>i s. v (mem_clk g i s) \<longleftrightarrow> sel \<and> (case ev i of None \<Rightarrow> v s | Some b \<Rightarrow> b)" and "\<not> v s"
  shows "v (mem_run g is s) \<longleftrightarrow> sel \<and> last_set ev is"
proof (induction "is" rule: rev_induct)
  case Nil
  then show ?case using assms(2) by (simp add: last_set_def)
next
  case (snoc i "is")
  then show ?case by (auto simp: assms(1) last_set_snoc split: option.splits)
qed

text \<open>What a cycle says about hart \<open>h\<close>: it is halted, it left the park loop, or nothing.\<close>

definition halt_event :: "dm_cfg \<Rightarrow> nat \<Rightarrow> mem_in \<Rightarrow> bool option" where
  "halt_event g h i = (if ndmreset_i i then Some False
     else if h = wdata_hartsel g i \<and> hart_valid g h \<and> mem_write i HaltedAddr then Some True
     else if h = wdata_hartsel g i \<and> hart_valid g h \<and> mem_write i ResumingAddr then Some False
     else None)"

definition ack_event :: "dm_cfg \<Rightarrow> nat \<Rightarrow> mem_in \<Rightarrow> bool option" where
  "ack_event g h i = (if ndmreset_i i then Some False
     else if h = wdata_hartsel g i \<and> hart_valid g h \<and> mem_write i ResumingAddr then Some True
     else if h = mem_hartsel g i \<and> hart_valid g h \<and> clear_resumeack_i i then Some False
     else None)"

lemma halted_step:
  "halted_q (mem_clk g i s) h \<longleftrightarrow> SelectableHarts g h \<and> (case halt_event g h i of None \<Rightarrow> halted_q s h | Some b \<Rightarrow> b)"
  by (simp add: mem_clk_def halted_d_def halt_event_def Let_def)

lemma acked_step:
  "resuming_q (mem_clk g i s) h \<longleftrightarrow> SelectableHarts g h \<and> (case ack_event g h i of None \<Rightarrow> resuming_q s h | Some b \<Rightarrow> b)"
proof -
  have "resuming_d g i s h = (if ndmreset_i i then False
      else if h = wdata_hartsel g i \<and> hart_valid g (wdata_hartsel g i) \<and> mem_write i ResumingAddr then True
      else if h = mem_hartsel g i \<and> hart_valid g (mem_hartsel g i) \<and> clear_resumeack_i i then False
      else resuming_q s h)"
    unfolding resuming_d_def Let_def fun_upd_def by presburger
  then show ?thesis
    by (cases "h = wdata_hartsel g i"; cases "h = mem_hartsel g i") (simp_all add: mem_clk_def ack_event_def)
qed

text \<open>C18: the debug module knows which harts are halted. After any sequence of cycles from reset, a
  hart counts as halted exactly if it is selectable and the last thing heard about it was its HALTED
  signal, not its RESUMING signal or a system reset; and its resume acknowledge is set exactly if the
  last thing was its RESUMING signal, not a new resume request for it or a system reset.\<close>

theorem halted_by_last_event:
  "(halted_q (mem_run g is mem_reset) h \<longleftrightarrow> SelectableHarts g h \<and> last_set (halt_event g h) is) \<and>
   (resuming_q (mem_run g is mem_reset) h \<longleftrightarrow> SelectableHarts g h \<and> last_set (ack_event g h) is)"
  using latch_last [where v = "\<lambda>s. halted_q s h", OF halted_step] latch_last [where v = "\<lambda>s. resuming_q s h", OF acked_step]
  by (simp add: mem_reset_def)

section \<open>Errors of a command\<close>

lemma reported_error:
  "cmderror_valid_o (hart_ctrl g i s) \<longleftrightarrow> mem_exception i \<or> cmd_valid_i i \<and>
     (unsupported_command g i \<or> mem_state_q s = Mem_Idle \<and> \<not> aligned g (halted_q s) (mem_hartsel g i))"
  "cmderror_o (hart_ctrl g i s) = (if mem_exception i then CmdErrorException
     else if cmd_valid_i i \<and> unsupported_command g i then CmdErrNotSupported
     else if cmd_valid_i i \<and> mem_state_q s = Mem_Idle \<and> \<not> aligned g (halted_q s) (mem_hartsel g i)
     then CmdErrorHaltResume else CmdErrNone)"
  by (cases "mem_state_q s"; simp add: hart_ctrl_def ctrl_case_def idle_case_def ctrl_default_def
      raise_error_def Let_def; blast)+

text \<open>C20: which commands are refused, and how. Only a supported command for a halted hart leaves the
  idle state; a command is unsupported exactly if it is no register access, transfers a reserved
  register, or has a width the module cannot serve; the reported error is the exception if there is
  one, else that the command is unsupported, else that the hart is not halted.\<close>

theorem command_errors:
  "let c = hart_ctrl g i s; ac = unpack_ac_ar_cmd (control (cmd_i i));
     halted = aligned g (halted_q s) (mem_hartsel g i);
     unsup = cmd_valid_i i \<and> unsupported_command g i;
     running = cmd_valid_i i \<and> mem_state_q s = Mem_Idle \<and> \<not> halted in
   (unsupported_command g i \<longleftrightarrow> cmdtype (cmd_i i) \<noteq> AccessRegister \<or>
      (if transfer ac \<and> unat (aarsize ac) < MaxAar g then reserved_regno ac
       else MaxAar g \<le> unat (aarsize ac) \<or> aarpostincrement ac)) \<and>
   (cmderror_valid_o c \<longleftrightarrow> mem_exception i \<or> unsup \<or> running) \<and>
   cmderror_o c = (if mem_exception i then CmdErrorException
      else if unsup then CmdErrNotSupported else if running then CmdErrorHaltResume else CmdErrNone) \<and>
   (mem_state_q s = Mem_Idle \<and> mem_state_d c = Mem_Go \<longleftrightarrow>
      mem_state_q s = Mem_Idle \<and> \<not> ndmreset_i i \<and> cmd_valid_i i \<and> halted \<and> \<not> unsupported_command g i \<and>
      \<not> (aligned g (resumereq_i i) (mem_hartsel g i) \<and> \<not> aligned g (resuming_q s) (mem_hartsel g i) \<and>
         \<not> aligned g (haltreq_i i) (mem_hartsel g i)))"
proof -
  have "unsupported_command g i \<longleftrightarrow> (let ac = unpack_ac_ar_cmd (control (cmd_i i)) in
      cmdtype (cmd_i i) \<noteq> AccessRegister \<or>
      (if transfer ac \<and> unat (aarsize ac) < MaxAar g then reserved_regno ac
       else MaxAar g \<le> unat (aarsize ac) \<or> aarpostincrement ac))"
    by (auto simp: unsupported_command_def abstract_prog_def write_reg_cmd_def read_reg_cmd_def Let_def)
  moreover note reported_error [of g i s]
  moreover have "mem_state_q s = Mem_Idle \<Longrightarrow> mem_state_d (hart_ctrl g i s) = Mem_Go \<longleftrightarrow>
      \<not> ndmreset_i i \<and> cmd_valid_i i \<and> aligned g (halted_q s) (mem_hartsel g i) \<and> \<not> unsupported_command g i \<and>
      \<not> (aligned g (resumereq_i i) (mem_hartsel g i) \<and> \<not> aligned g (resuming_q s) (mem_hartsel g i) \<and>
         \<not> aligned g (haltreq_i i) (mem_hartsel g i))"
    by (simp add: hart_ctrl_def ctrl_case_def idle_case_def ctrl_default_def raise_error_def Let_def) blast
  ultimately show ?thesis unfolding Let_def by (intro conjI) blast+
qed


section \<open>Stores to the data registers\<close>

definition data_byte :: "(nat \<Rightarrow> u32) \<Rightarrow> nat \<Rightarrow> u8" where
  "data_byte d m = fld (8 * (m mod 4) + 7) (8 * (m mod 4)) (d (m div 4))"

lemma fld_set_byte:
  assumes "j < 4" and "l < 4"
  shows "(fld (8 * l + 7) (8 * l) (set_byte j v w) :: u8) = (if l = j then v else fld (8 * l + 7) (8 * l) w)"
proof (rule bit_word_eqI)
  fix n :: nat
  assume n: "n < LENGTH(8)"
  have m: "(0xFF :: u32) = mask 8" by (simp add: mask_numeral)
  have "8 * l + n < 32" "8 * l + n < 8 * j \<or> l \<ge> j" "8 * l + n - 8 * j < 8 \<longleftrightarrow> l \<le> j" using assms n by auto
  then show "bit (fld (8 * l + 7) (8 * l) (set_byte j v w) :: u8) n =
      bit (if l = j then v else fld (8 * l + 7) (8 * l) w) n"
    using n assms
    by (auto simp: set_byte_def m bit_fld bit_or_iff bit_and_iff bit_not_iff bit_push_bit_iff bit_mask_iff
        bit_ucast_word dest: bit_imp_le_length)
qed

lemma data_byte_set:
  "j < 4 \<Longrightarrow> data_byte (d(k := set_byte j v (d k))) m = (if m = 4 * k + j then v else data_byte d m)"
proof -
  assume "j < 4"
  then have "m = 4 * k + j \<longleftrightarrow> m div 4 = k \<and> m mod 4 = j" by auto
  then show ?thesis using fld_set_byte [of j "m mod 4" v "d k"] \<open>j < 4\<close> by (auto simp: data_byte_def)
qed

lemma data_fold:
  "data_byte (foldl (\<lambda>d b. let k = x + b div 4 in if bit be b \<and> k < 2
      then d(k := set_byte (b mod 4) (f b) (d k)) else d) d [0..<n]) m =
   (if 4 * x \<le> m \<and> m < 4 * x + n \<and> m < 8 \<and> bit be (m - 4 * x) then f (m - 4 * x) else data_byte d m)"
proof (induction n)
  case (Suc n)
  have e: "4 * (x + n div 4) + n mod 4 = 4 * x + n" "x + n div 4 < 2 \<longleftrightarrow> 4 * x + n < 8" by auto
  show ?case using Suc.IH e by (auto simp: Let_def data_byte_set less_Suc_eq)
qed auto

lemma store_valid:
  assumes "mem_bus_ok g" and "req_i i" and "we_i i" and "daddr i = DataAddr + 4 * of_nat k"
    and "k < 2" and "BusWidth g = 64 \<longrightarrow> k = 0"
  shows "data_valid_o i" and "data_reg_idx i = k"
proof -
  have k: "k = 0 \<or> k = 1" using assms(5) by auto
  then show "data_valid_o i" using assms(2-4) by (auto simp: data_valid_o_def map_addresses)
  show "data_reg_idx i = k"
    using k unfolding data_reg_idx_def addr_fields assms(4) by (auto simp: map_addresses fld_def)
qed

lemma store_bytes:
  assumes "mem_bus_ok g" and "req_i i" and "we_i i" and "daddr i = DataAddr + 4 * of_nat k"
    and "k < 2" and "BusWidth g = 64 \<longrightarrow> k = 0"
    and "m < 8"
  shows "data_byte (data_bits g i) m = (if 4 * k \<le> m \<and> m < 4 * k + BusWidth g div 8 \<and> bit (be_i i) (m - 4 * k)
      then fld (8 * (m - 4 * k) + 7) (8 * (m - 4 * k)) (wdata_i i) else data_byte (mem_data_i i) m)"
proof -
  have two: "DataCount = 2" by (simp add: DataCount_def)
  show ?thesis using assms(7) store_valid [OF assms(1-6)] by (simp add: data_bits_def two data_fold)
qed

text \<open>A hart stores exactly the bytes it writes. A store at a bus word of the data area, that is at
  either data register on a 32-bit bus and at the first one on a 64-bit bus, changes the bytes of the
  data registers that are enabled, to the bytes on their lanes, and no other; and a word it then loads
  from the data area is the one the registers hold.\<close>

theorem hart_stores_data:
  assumes "mem_bus_ok g" and "req_i i" and "we_i i" and "daddr i = DataAddr + 4 * of_nat k"
    and "k < 2" and "BusWidth g = 64 \<longrightarrow> k = 0" and "m < 8"
  shows "data_byte (data_bits g i) m = (if 4 * k \<le> m \<and> m < 4 * k + BusWidth g div 8 \<and> bit (be_i i) (m - 4 * k)
      then fld (8 * (m - 4 * k) + 7) (8 * (m - 4 * k)) (wdata_i i) else data_byte (mem_data_i i) m) \<and>
    data_valid_o i"
  using store_bytes [OF assms] store_valid [OF assms(1-6)] by simp

section \<open>What the harts read\<close>

lemma hart_words:
  assumes "mem_read i a"
  shows "k < 10 \<and> a = AbstractCmdBaseAddr + 4 * of_nat k \<Longrightarrow> read32 g i s = fst (abstract_prog g (cmd_i i)) ! k"
    and "k < 8 \<and> a = ProgBufBaseAddr + 4 * of_nat k \<Longrightarrow> read32 g i s = progbuf_i i k"
    and "k < 2 \<and> a = DataAddr + 4 * of_nat k \<Longrightarrow> read32 g i s = mem_data_i i k"
  using assms by (auto simp: fetch_command fetch_progbuf load_data)

text \<open>A hart fetches the program of the command. On a bus of either width a 32-bit read returns, in
  the next cycle, the addressed slot of the abstract command, the addressed word of the program buffer
  or of the data registers, and at \<open>whereto\<close>, while a command is in progress, the jump to the first
  slot, or straight to the program buffer for a command that only asks for its execution.\<close>

theorem hart_reads:
  assumes "mem_read i a"
  shows "(k < 10 \<and> a = AbstractCmdBaseAddr + 4 * of_nat k \<longrightarrow> read32 g i s = fst (abstract_prog g (cmd_i i)) ! k) \<and>
    (k < 8 \<and> a = ProgBufBaseAddr + 4 * of_nat k \<longrightarrow> read32 g i s = progbuf_i i k) \<and>
    (k < 2 \<and> a = DataAddr + 4 * of_nat k \<longrightarrow> read32 g i s = mem_data_i i k) \<and>
    (a = WhereToAddr \<and> cmdbusy_o (hart_ctrl g i s) \<longrightarrow>
      read32 g i s = jal 0 (if shortcut (cmd_i i) then ucast ProgBufBaseAddr - 0x300 else ucast AbstractCmdBaseAddr - 0x300))"
proof -
  have "ucast ProgBufBaseAddr - 0x300 = (0x60 :: 21 word)" "ucast AbstractCmdBaseAddr - 0x300 = (0x38 :: 21 word)"
    by (simp_all add: map_addresses)
  then show ?thesis
    using assms fetch_command fetch_progbuf load_data fetch_where_to unfolding busy_iff
    by (intro conjI impI; elim conjE; simp)
qed

section \<open>Examples\<close>

definition quiet_mem :: mem_in where
  "quiet_mem = \<lparr>ndmreset_i = False, hartsel_i = 0, haltreq_i = (\<lambda>_. False), resumereq_i = (\<lambda>_. False),
     clear_resumeack_i = False, progbuf_i = (\<lambda>_. 0), mem_data_i = (\<lambda>_. 0), cmd_valid_i = False,
     cmd_i = unpack_command 0x00231009, req_i = False, we_i = False, addr_i = 0, wdata_i = 0, be_i = 0\<rparr>"

definition hart_write :: "u64 \<Rightarrow> u64 \<Rightarrow> mem_in" where
  "hart_write a v = quiet_mem\<lparr>req_i := True, we_i := True, addr_i := a, wdata_i := v, be_i := 15\<rparr>"

definition hart_read :: "u64 \<Rightarrow> mem_in" where
  "hart_read a = quiet_mem\<lparr>req_i := True, addr_i := a\<rparr>"

lemmas mem_example = hart_write_def hart_read_def quiet_mem_def mem_write_def mem_read_def going_def daddr_def
  map_addresses mem_bus_ok_def

lemma one_hart_simps [simp]:
  "NrHarts one_hart = 1" "BusWidth one_hart = 32" "HartSelLen one_hart = 1" "SelectableHarts one_hart = (\<lambda>_. True)"
  "HasSndScratch one_hart" "MaxAar one_hart = 3"
  by (simp_all add: one_hart_def HartSelLen_def HasSndScratch_def MaxAar_def)

lemma quiet_supported: "\<not> unsupported_command one_hart (quiet_mem\<lparr>cmd_valid_i := True\<rparr>)"
  by (simp add: unsupported_command_def quiet_mem_def abstract_prog_def unpack_command_def unpack_ac_ar_cmd_def
      fld_def AccessRegister_def write_reg_cmd_def reserved_regno_def is_a0_def regno_index_def Let_def)

theorem command_errors_witness:
  "cmderror_o (hart_ctrl one_hart (quiet_mem\<lparr>cmd_valid_i := True\<rparr>) mem_reset) = CmdErrorHaltResume"
  using command_errors [of one_hart "quiet_mem\<lparr>cmd_valid_i := True\<rparr>" mem_reset] quiet_supported
  by (simp add: mem_example mem_reset_def aligned_def Let_def mem_exception_def)

theorem command_lifecycle_witness:
  "mem_state_q (mem_run one_hart [quiet_mem\<lparr>cmd_valid_i := True\<rparr>, quiet_mem, hart_write 0x108 0, quiet_mem,
     hart_write 0x100 0] (mem_reset\<lparr>halted_q := (\<lambda>_. True)\<rparr>)) = Mem_Idle"
  using command_lifecycle [of "mem_reset\<lparr>halted_q := (\<lambda>_. True)\<rparr>" "quiet_mem\<lparr>cmd_valid_i := True\<rparr>" one_hart
      "[quiet_mem]" "hart_write 0x108 0" "[quiet_mem]" "hart_write 0x100 0"] quiet_supported
  by (simp add: mem_example mem_reset_def aligned_def mem_hartsel_def wdata_hartsel_def)

theorem polled_flags_witness:
  "bit (mem_byte one_hart (hart_read 0x400) (mem_reset\<lparr>mem_state_q := Mem_Go\<rparr>)) 0"
  using polled_flags [of one_hart 0 "hart_read 0x400" "mem_reset\<lparr>mem_state_q := Mem_Go\<rparr>" 0]
  by (simp add: mem_example mem_hartsel_def FLAG_GO_def)

theorem hart_stores_data_witness:
  "data_byte (data_bits one_hart (hart_write 0x384 0x12345678)) 4 = 0x78 \<and>
   data_byte (data_bits one_hart (hart_write 0x384 0x12345678)) 1 = 0"
  using hart_stores_data [of one_hart "hart_write 0x384 0x12345678" 1 4]
    hart_stores_data [of one_hart "hart_write 0x384 0x12345678" 1 1]
  by (simp add: mem_example bit_numeral_rec fld_def data_byte_def)

theorem hart_reads_witness:
  "read32 one_hart (hart_read 0x338) (mem_reset\<lparr>mem_state_q := Mem_Go\<rparr>) = csrw CSR_DSCRATCH1 10 \<and>
   read32 one_hart (hart_read 0x300) (mem_reset\<lparr>mem_state_q := Mem_Go\<rparr>) = jal 0 0x38"
proof -
  have c: "fst (abstract_prog one_hart (cmd_i (hart_read a))) ! 0 = csrw CSR_DSCRATCH1 10"
    "\<not> shortcut (cmd_i (hart_read a))" for a
    by (simp_all add: mem_example abstract_prog_def unpack_command_def unpack_ac_ar_cmd_def shortcut_def cmd_template_def
        fld_def AccessRegister_def write_reg_cmd_def reserved_regno_def is_a0_def regno_index_def Let_def)
  have r: "mem_read (hart_read 0x338) 0x338" "mem_read (hart_read 0x300) 0x300" by (simp_all add: mem_example)
  show ?thesis
    using hart_reads [OF r(1), of 0 one_hart "mem_reset\<lparr>mem_state_q := Mem_Go\<rparr>"]
      hart_reads [OF r(2), of 0 one_hart "mem_reset\<lparr>mem_state_q := Mem_Go\<rparr>"] c
    by (simp add: busy_iff map_addresses)
qed

end
