(* ===== verification/Abstract_Command.thy ===== *)
theory Abstract_Command
  imports Dm_Mem Park_Loop
begin

text \<open>
  What an abstract command does to a halted hart: the hart of \<open>Riscv\<close> executes the instruction slots
  that \<open>dm_mem\<close> presents for an Access Register command.
\<close>

section \<open>Straight-line programs\<close>

fun straight :: "instr \<Rightarrow> bool" where
  "straight (JAL _ _) = False"
| "straight (JALR _ _ _) = False"
| "straight (BRANCH _ _ _ _) = False"
| "straight _ = True"

primrec exec_seq :: "instr list \<Rightarrow> hart \<Rightarrow> outcome" where
  "exec_seq [] h = Running h"
| "exec_seq (i # is) h = (case exec i h of Running h' \<Rightarrow> exec_seq is h' | r \<Rightarrow> r)"

lemma wr_reg_simps [simp]:
  "pc (wr_reg r v h) = pc h" "code (wr_reg r v h) = code h" "csr (wr_reg r v h) = csr h"
  "fpr (wr_reg r v h) = fpr h" "stores (wr_reg r v h) = stores h" "ram (wr_reg r v h) = ram h"
  by (simp_all add: wr_reg_def)

lemma straight_step: "straight i \<Longrightarrow> exec i h = Running h' \<Longrightarrow> pc h' = pc h + 4 \<and> code h' = code h"
  by (cases i) (auto simp: next_pc_def log_store_def split: option.splits if_splits)

text \<open>The words of a program are in memory from an address on.\<close>

definition loaded :: "u32 list \<Rightarrow> u64 \<Rightarrow> hart \<Rightarrow> bool" where
  "loaded ws a h \<longleftrightarrow> (\<forall>k < length ws. code h (a + 4 * of_nat k) = ws ! k)"

lemma loaded_Cons: "loaded (w # ws) a h \<longleftrightarrow> code h a = w \<and> loaded ws (a + 4) h"
proof -
  have "a + 4 * of_nat (Suc k) = a + 4 + 4 * of_nat k" for k :: nat by (simp add: algebra_simps)
  then show ?thesis unfolding loaded_def by (simp add: All_less_Suc2 add.assoc)
qed

lemma run_straight:
  assumes "map disasm ws = map Some is" and "list_all straight is" and "loaded ws (pc h) h"
  shows "run (length is) h = exec_seq is h"
  using assms
proof (induction "is" arbitrary: ws h)
  case (Cons i "is")
  from Cons.prems(1) obtain w ws' where ws: "ws = w # ws'" "disasm w = Some i" "map disasm ws' = map Some is"
    by (cases ws) auto
  from Cons.prems(3) have l: "code h (pc h) = w" "loaded ws' (pc h + 4) h" by (simp_all add: ws loaded_Cons)
  have s: "step h = exec i h" by (simp add: step_def l ws)
  show ?case
  proof (cases "exec i h")
    case (Running h')
    then have h': "pc h' = pc h + 4" "code h' = code h" using straight_step Cons.prems(2) by auto
    then have "loaded ws' (pc h') h'" using l(2) by (simp add: loaded_def)
    then have "run (length is) h' = exec_seq is h'" using Cons.IH ws(3) Cons.prems(2) by simp
    then show ?thesis by (simp add: s Running)
  qed (simp_all add: s)
qed simp

section \<open>The instructions of a command\<close>

definition cmd_instrs :: "dm_cfg \<Rightarrow> ac_ar_cmd_t \<Rightarrow> instr list" where
  "cmd_instrs g ac = (let two = HasSndScratch g; base = LoadBaseAddr g; sz = aarsize ac; r = regno_index ac;
     NOP = ADDI 0 0 0; data = DataAddr; via = (\<lambda>x y. [CSRRW 0 CSR_DSCRATCH0 8, x, y, CSRRS 8 CSR_DSCRATCH0 0]) in
   (if two then [CSRRW 0 CSR_DSCRATCH1 10, AUIPC 10 0, SRLI 10 10 12, SLLI 10 10 12] else replicate 4 NOP) @
   (if bit (regno ac) 12 \<and> \<not> is_a0 g ac then
      [if bit (regno ac) 5 then (if ar_write ac then FLOAD sz r base data else FSTORE sz r base data)
       else if ar_write ac then LOAD sz r base data else STORE sz r base data, NOP, NOP, NOP]
    else (let c = (if is_a0 g ac then CSR_DSCRATCH1 else fld 11 0 (regno ac)) in
      if ar_write ac then via (LOAD sz 8 base data) (CSRRW 0 c 8)
      else via (CSRRS 8 c 0) (STORE sz 8 base data))) @
   [if two then CSRRS 10 CSR_DSCRATCH1 0 else NOP, if postexec ac then NOP else EBREAK])"

lemma auipc_disasm: "disasm (auipc 10 0) = Some (AUIPC 10 0)"
  by (simp add: disasm_def format_defs auipc_def cat_simps fld_def)

text \<open>A transfer the module supports.\<close>

definition transfer_ok :: "dm_cfg \<Rightarrow> command_t \<Rightarrow> ac_ar_cmd_t \<Rightarrow> bool" where
  "transfer_ok g cmd ac \<longleftrightarrow> ac = unpack_ac_ar_cmd (control cmd) \<and> cmdtype cmd = AccessRegister \<and>
     transfer ac \<and> unat (aarsize ac) < MaxAar g \<and> \<not> reserved_regno ac"

lemma abstract_prog_transfer:
  assumes "transfer_ok g cmd ac"
  shows "abstract_prog g cmd = (let
     p = (if ar_write ac then fst (write_reg_cmd g ac (cmd_template g))
          else fst (read_reg_cmd g ac (cmd_template g)))
   in (if postexec ac then p[9 := nop] else p, False))"
  using assms by (auto simp: transfer_ok_def abstract_prog_def write_reg_cmd_def read_reg_cmd_def Let_def)

lemma disasm_command:
  assumes "transfer_ok g cmd ac"
  shows "map disasm (fst (abstract_prog g cmd)) = map Some (cmd_instrs g ac)"
  using assms by (cases "HasSndScratch g"; cases "ar_write ac"; cases "bit (regno ac) 12"; cases "bit (regno ac) 5"; cases "is_a0 g ac")
    (auto simp: abstract_prog_transfer transfer_ok_def write_reg_cmd_def read_reg_cmd_def cmd_template_def
      cmd_instrs_def Let_def disasm_generators disasm_constants auipc_disasm LoadBaseAddr_def HasSndScratch_def
      is_a0_def eval_nat_numeral)

section \<open>What a command does\<close>

lemma exec_seq_append:
  "exec_seq (p @ q) h = (case exec_seq p h of Running h' \<Rightarrow> exec_seq q h' | r \<Rightarrow> r)"
  by (induction p arbitrary: h) (auto split: outcome.splits)

definition prologue :: "bool \<Rightarrow> instr list" where
  "prologue two = (if two then [CSRRW 0 CSR_DSCRATCH1 10, AUIPC 10 0, SRLI 10 10 12, SLLI 10 10 12]
     else replicate 4 (ADDI 0 0 0))"

text \<open>The hart after the prologue: with a second scratch register, \<open>a0\<close> holds the base of the module.\<close>

definition based :: "bool \<Rightarrow> u64 \<Rightarrow> hart \<Rightarrow> hart" where
  "based two base h = (if two then h\<lparr>pc := pc h + 16, gpr := (gpr h)(10 := base),
     csr := (csr h)(CSR_DSCRATCH1 := gpr h 10)\<rparr> else h\<lparr>pc := pc h + 16\<rparr>)"

lemma exec_prologue:
  assumes "take_bit 12 base = 0" and "pc h = base + 0x338"
  shows "exec_seq (prologue two) h = Running (based two base h)"
proof (cases two)
  case True
  then show ?thesis using assms(2)
    by (simp add: prologue_def based_def next_pc_def wr_reg_def rd_reg_def add.assoc
        page_clear [OF assms(1)])
next
  case False
  then show ?thesis by (simp add: prologue_def based_def next_pc_def wr_reg_def add.assoc eval_nat_numeral)
qed

text \<open>Reading and writing the register a command names.\<close>

definition get_reg :: "ac_ar_cmd_t \<Rightarrow> hart \<Rightarrow> u64" where
  "get_reg ac h = (if bit (regno ac) 12 then
     (if bit (regno ac) 5 then fpr h (regno_index ac) else rd_reg h (regno_index ac))
     else csr h (fld 11 0 (regno ac)))"

definition set_reg :: "ac_ar_cmd_t \<Rightarrow> u64 \<Rightarrow> hart \<Rightarrow> hart" where
  "set_reg ac v h = (if bit (regno ac) 12 then
     (if bit (regno ac) 5 then h\<lparr>fpr := (fpr h)(regno_index ac := v)\<rparr> else wr_reg (regno_index ac) v h)
     else h\<lparr>csr := (csr h)(fld 11 0 (regno ac) := v)\<rparr>)"

text \<open>The value of the data registers as the command loads it: sign-extended, or boxed for a
  single-precision register.\<close>

definition data_value :: "ac_ar_cmd_t \<Rightarrow> hart \<Rightarrow> u64 \<Rightarrow> u64" where
  "data_value ac h a = (if bit (regno ac) 12 \<and> bit (regno ac) 5 then
     (if aarsize ac = 2 then 0xffffffff00000000 OR load_bytes h a 4 else load_bytes h a 8)
     else (case load_value h (aarsize ac) a of Some v \<Rightarrow> v | None \<Rightarrow> 0))"

definition scratches :: "dm_cfg \<Rightarrow> 12 word set" where
  "scratches g = (if HasSndScratch g then {CSR_DSCRATCH0, CSR_DSCRATCH1} else {CSR_DSCRATCH0})"

text \<open>Registers the command can reach: not the scratch registers it uses itself, and floating-point
  registers only in a floating-point width.\<close>

definition accessible :: "dm_cfg \<Rightarrow> ac_ar_cmd_t \<Rightarrow> bool" where
  "accessible g ac \<longleftrightarrow> (if bit (regno ac) 12 then bit (regno ac) 5 \<longrightarrow> 2 \<le> unat (aarsize ac)
     else fld 11 0 (regno ac) \<notin> scratches g)"

definition command_effect :: "ac_ar_cmd_t \<Rightarrow> u64 \<Rightarrow> hart \<Rightarrow> hart" where
  "command_effect ac base h = (if ar_write ac then set_reg ac (data_value ac h (base + 0x380)) h
     else log_store (base + 0x380) (2 ^ unat (aarsize ac)) (get_reg ac h) h)"

lemma size_cases: "unat (sz :: 3 word) < 4 \<Longrightarrow> sz = 0 \<or> sz = 1 \<or> sz = 2 \<or> sz = 3"
proof -
  assume "unat sz < 4"
  then have "unat sz = unat (0 :: 3 word) \<or> unat sz = unat (1 :: 3 word) \<or> unat sz = unat (2 :: 3 word)
      \<or> unat sz = unat (3 :: 3 word)" by auto
  then show ?thesis by (simp only: word_unat_eq_iff)
qed

lemma size_ops:
  assumes "unat sz < 4"
  shows "\<exists>v. load_value h sz a = Some v" and "store_size sz = Some (2 ^ unat sz)"
  using size_cases [OF assms] by (auto simp: load_value_def store_size_def)

lemma float_size: "2 \<le> unat (sz :: 3 word) \<Longrightarrow> unat sz < 4 \<Longrightarrow> sz = 2 \<or> sz = 3"
  using size_cases [of sz] by auto

lemma max_aar: "unat (sz :: 3 word) < MaxAar g \<Longrightarrow> unat sz < 4"
  by (auto simp: MaxAar_def split: if_splits)

lemma loads_frame [simp]:
  "load_bytes (h\<lparr>pc := a\<rparr>) = load_bytes h" "load_bytes (h\<lparr>gpr := b\<rparr>) = load_bytes h"
  "load_bytes (h\<lparr>csr := c\<rparr>) = load_bytes h" "load_value (h\<lparr>pc := a\<rparr>) = load_value h"
  "load_value (h\<lparr>gpr := b\<rparr>) = load_value h" "load_value (h\<lparr>csr := c\<rparr>) = load_value h"
  by (auto simp: fun_eq_iff load_value_def load_bytes_def)

definition epilogue :: "bool \<Rightarrow> bool \<Rightarrow> instr list" where
  "epilogue two post = [if two then CSRRS 10 CSR_DSCRATCH1 0 else ADDI 0 0 0,
     if post then ADDI 0 0 0 else EBREAK]"

text \<open>What the middle of a command leaves behind: everything but the scratch registers and \<open>a0\<close> is
  as after the command, and the second scratch register holds the \<open>a0\<close> of the program.\<close>

definition served :: "dm_cfg \<Rightarrow> hart \<Rightarrow> hart \<Rightarrow> bool" where
  "served g h h' \<longleftrightarrow> fpr h' = fpr h \<and> stores h' = stores h \<and>
     (\<forall>c. c \<in> scratches g \<or> csr h' c = csr h c) \<and>
     (if HasSndScratch g then (\<forall>r. r = 10 \<or> gpr h' r = gpr h r) \<and> csr h' CSR_DSCRATCH1 = gpr h 10
      else gpr h' = gpr h)"

definition command_done :: "dm_cfg \<Rightarrow> hart \<Rightarrow> hart \<Rightarrow> bool" where
  "command_done g h h' \<longleftrightarrow> gpr h' = gpr h \<and> fpr h' = fpr h \<and> stores h' = stores h \<and>
     (\<forall>c. c \<in> scratches g \<or> csr h' c = csr h c)"

lemma exec_epilogue:
  assumes "served g hx h"
  shows "\<exists>h'. exec_seq (epilogue (HasSndScratch g) post) h = (if post then Running h' else At_Ebreak h') \<and>
    pc h' = pc h + (if post then 8 else 4) \<and> command_done g hx h'"
  using assms by (auto simp: epilogue_def served_def command_done_def next_pc_def wr_reg_def fun_eq_iff add.assoc)

text \<open>The effect of a command depends only on the registers of the program, not on the scratch registers
  or the program counter.\<close>

lemma command_done_trans: "command_done g h1 h2 \<Longrightarrow> command_done g h2 h3 \<Longrightarrow> command_done g h1 h3"
  by (auto simp: command_done_def) metis

lemma loads_ram:
  assumes "ram h1 = ram h2"
  shows "load_bytes h1 = load_bytes h2" "load_value h1 = load_value h2"
  using assms by (auto simp: fun_eq_iff load_value_def load_bytes_def)

lemma command_effect_kept:
  assumes "kept (scratches g) h1 h2" and "ram h2 = ram h1" and "stores h2 = stores h1" and "accessible g ac"
  shows "command_done g (command_effect ac base h1) (command_effect ac base h2)"
proof -
  have k: "gpr h2 = gpr h1" "fpr h2 = fpr h1" "c \<notin> scratches g \<Longrightarrow> csr h2 c = csr h1 c" for c
    using assms(1) by (auto simp: kept_def)
  have v: "data_value ac h2 a = data_value ac h1 a" for a
    by (simp add: data_value_def loads_ram [OF assms(2)])
  have r: "get_reg ac h2 = get_reg ac h1"
    using assms(4) k by (simp add: get_reg_def accessible_def rd_reg_def)
  show ?thesis
  proof (cases "ar_write ac")
    case True
    then show ?thesis using k assms(3) v
      by (auto simp: command_effect_def command_done_def set_reg_def wr_reg_def)
  next
    case False
    then show ?thesis using k assms(3) r
      by (auto simp: command_effect_def command_done_def log_store_def)
  qed
qed

definition direct :: "dm_cfg \<Rightarrow> ac_ar_cmd_t \<Rightarrow> instr" where
  "direct g ac = (let base = LoadBaseAddr g; sz = aarsize ac; r = regno_index ac; data = DataAddr in
     if bit (regno ac) 5 then (if ar_write ac then FLOAD sz r base data else FSTORE sz r base data)
     else if ar_write ac then LOAD sz r base data else STORE sz r base data)"

definition via_s0 :: "dm_cfg \<Rightarrow> ac_ar_cmd_t \<Rightarrow> 12 word \<Rightarrow> instr list" where
  "via_s0 g ac c = (let base = LoadBaseAddr g; sz = aarsize ac; data = DataAddr in
     [CSRRW 0 CSR_DSCRATCH0 8] @
     (if ar_write ac then [LOAD sz 8 base data, CSRRW 0 c 8] else [CSRRS 8 c 0, STORE sz 8 base data]) @
     [CSRRS 8 CSR_DSCRATCH0 0])"

lemma cmd_instrs_parts:
  "cmd_instrs g ac = prologue (HasSndScratch g) @
     (if bit (regno ac) 12 \<and> \<not> is_a0 g ac then direct g ac # replicate 3 (ADDI 0 0 0)
      else via_s0 g ac (if is_a0 g ac then CSR_DSCRATCH1 else fld 11 0 (regno ac))) @
     epilogue (HasSndScratch g) (postexec ac)"
  by (simp add: cmd_instrs_def prologue_def direct_def via_s0_def epilogue_def Let_def eval_nat_numeral)

lemmas middle_simps = next_pc_def wr_reg_def rd_reg_def log_store_def served_def based_def LoadBaseAddr_def
  command_effect_def set_reg_def get_reg_def data_value_def scratches_def csr_names DataAddr_def add.assoc

lemma exec_direct:
  assumes "bit (regno ac) 12" and "\<not> is_a0 g ac" and "accessible g ac" and "unat (aarsize ac) < 4"
    and "HasSndScratch g \<or> base = 0"
  shows "\<exists>h'. exec_seq (direct g ac # replicate 3 (ADDI 0 0 0)) (based (HasSndScratch g) base h) = Running h' \<and>
    pc h' = pc h + 32 \<and> served g (command_effect ac base h) h'"
proof -
  obtain v where v: "load_value h (aarsize ac) (base + 0x380) = Some v" using size_ops(1) [OF assms(4)] by blast
  have f: "bit (regno ac) 5 \<Longrightarrow> aarsize ac = 2 \<or> aarsize ac = 3"
    using assms(1,3,4) float_size by (simp add: accessible_def)
  have nt: "replicate 3 i = [i, i, i]" for i :: instr by (simp add: eval_nat_numeral)
  show ?thesis
  proof (cases "HasSndScratch g")
    case True
    then have "DmBaseAddress g \<noteq> 0" by (simp add: HasSndScratch_def)
    then show ?thesis using assms(1,2) True v f size_ops(2) [OF assms(4)]
      by (cases "bit (regno ac) 5"; cases "ar_write ac")
        (auto simp: direct_def nt Let_def is_a0_def middle_simps)
  next
    case False
    then have "DmBaseAddress g = 0" "base = 0" using assms(5) by (simp_all add: HasSndScratch_def)
    then show ?thesis using assms(1,2) False v f size_ops(2) [OF assms(4)]
      by (cases "bit (regno ac) 5"; cases "ar_write ac")
        (auto simp: direct_def nt Let_def is_a0_def middle_simps)
  qed
qed

lemma exec_via_csr:
  assumes "\<not> bit (regno ac) 12" and "accessible g ac" and "unat (aarsize ac) < 4"
    and "HasSndScratch g \<or> base = 0"
  shows "\<exists>h'. exec_seq (via_s0 g ac (fld 11 0 (regno ac))) (based (HasSndScratch g) base h) = Running h' \<and>
    pc h' = pc h + 32 \<and> served g (command_effect ac base h) h'"
proof -
  obtain v where v: "load_value h (aarsize ac) (base + 0x380) = Some v" using size_ops(1) [OF assms(3)] by blast
  have c: "fld 11 0 (regno ac) \<notin> scratches g" using assms(1,2) by (simp add: accessible_def)
  show ?thesis
  proof (cases "HasSndScratch g")
    case True
    then have "DmBaseAddress g \<noteq> 0" by (simp add: HasSndScratch_def)
    then show ?thesis using assms(1) True v c size_ops(2) [OF assms(3)]
      by (cases "ar_write ac") (auto simp: via_s0_def Let_def middle_simps)
  next
    case False
    then have "DmBaseAddress g = 0" "base = 0" using assms(4) by (simp_all add: HasSndScratch_def)
    then show ?thesis using assms(1) False v c size_ops(2) [OF assms(3)]
      by (cases "ar_write ac") (auto simp: via_s0_def Let_def middle_simps fun_eq_iff)
  qed
qed

lemma exec_via_a0:
  assumes "is_a0 g ac" and "unat (aarsize ac) < 4"
  shows "\<exists>h'. exec_seq (via_s0 g ac CSR_DSCRATCH1) (based (HasSndScratch g) base h) = Running h' \<and>
    pc h' = pc h + 32 \<and> served g (command_effect ac base h) h'"
proof -
  obtain v where v: "load_value h (aarsize ac) (base + 0x380) = Some v" using size_ops(1) [OF assms(2)] by blast
  have a: "HasSndScratch g" "bit (regno ac) 12" "\<not> bit (regno ac) 5" "regno_index ac = 10" "DmBaseAddress g \<noteq> 0"
    using assms(1) by (simp_all add: is_a0_def HasSndScratch_def)
  then show ?thesis using v size_ops(2) [OF assms(2)]
    by (cases "ar_write ac") (auto simp: via_s0_def Let_def middle_simps)
qed

lemma exec_middle:
  assumes "accessible g ac" and "unat (aarsize ac) < 4" and "HasSndScratch g \<or> base = 0"
  shows "\<exists>h'. exec_seq (if bit (regno ac) 12 \<and> \<not> is_a0 g ac then direct g ac # replicate 3 (ADDI 0 0 0)
      else via_s0 g ac (if is_a0 g ac then CSR_DSCRATCH1 else fld 11 0 (regno ac)))
      (based (HasSndScratch g) base h) = Running h' \<and>
    pc h' = pc h + 32 \<and> served g (command_effect ac base h) h'"
  using exec_direct [of ac g base h] exec_via_csr [of ac g base h] exec_via_a0 [of g ac base h] assms
  by (cases "is_a0 g ac"; cases "bit (regno ac) 12") (simp_all add: is_a0_def)

lemma straight_command: "list_all straight (cmd_instrs g ac)"
  by (simp add: cmd_instrs_def Let_def eval_nat_numeral)

lemma length_command: "length (cmd_instrs g ac) = 10"
  by (simp add: cmd_instrs_def Let_def)

definition page_ok :: "dm_cfg \<Rightarrow> u64 \<Rightarrow> bool" where
  "page_ok g base \<longleftrightarrow> take_bit 12 base = 0 \<and> (HasSndScratch g \<or> base = 0)"

lemma run_command:
  assumes "transfer_ok g cmd ac" and "accessible g ac" and "page_ok g base"
    and "loaded (fst (abstract_prog g cmd)) (base + 0x338) h" and "pc h = base + 0x338"
  shows "\<exists>h'. run 10 h = (if postexec ac then Running h' else At_Ebreak h') \<and>
    pc h' = base + (if postexec ac then 0x360 else 0x35c) \<and>
    command_done g (command_effect ac base h) h'"
proof -
  have sz: "unat (aarsize ac) < 4" using assms(1) max_aar unfolding transfer_ok_def by blast
  have base: "take_bit 12 base = 0" "HasSndScratch g \<or> base = 0" using assms(3) by (simp_all add: page_ok_def)
  obtain h1 where h1: "pc h1 = pc h + 32" "served g (command_effect ac base h) h1"
    "exec_seq (if bit (regno ac) 12 \<and> \<not> is_a0 g ac then direct g ac # replicate 3 (ADDI 0 0 0)
      else via_s0 g ac (if is_a0 g ac then CSR_DSCRATCH1 else fld 11 0 (regno ac)))
      (based (HasSndScratch g) base h) = Running h1"
    using exec_middle [OF assms(2) sz base(2)] by blast
  have "run 10 h = exec_seq (cmd_instrs g ac) h"
    using run_straight [OF disasm_command [OF assms(1)] straight_command] assms(4,5)
    by (simp add: length_command)
  also have "\<dots> = exec_seq (epilogue (HasSndScratch g) (postexec ac)) h1"
    unfolding cmd_instrs_parts exec_seq_append exec_prologue [OF base(1) assms(5)] outcome.case h1(3) ..
  finally show ?thesis using exec_epilogue [OF h1(2), of "postexec ac"] h1(1) assms(5)
    by (auto simp: add.assoc)
qed

text \<open>C5: an Access Register command transfers exactly the named register. A hart that starts at the
  first slot of a supported command, anywhere the debug module may be mapped, runs through its ten
  slots: a write sets the register to the value of the data registers, a read stores the register
  there, in the width of the command. Every other integer and floating-point register is as before,
  and so is every CSR except the scratch registers; then the hart is at \<open>ebreak\<close>, or at the first
  word of the program buffer if the command asks for its execution.\<close>

theorem abstract_command_transfers:
  assumes "transfer_ok g cmd ac" and "accessible g ac" and "page_ok g base"
    and "loaded (fst (abstract_prog g cmd)) (base + 0x338) h" and "pc h = base + 0x338"
  shows "\<exists>h'. run 10 h = (if postexec ac then Running h' else At_Ebreak h') \<and>
    pc h' = base + (if postexec ac then 0x360 else 0x35c) \<and>
    command_done g (command_effect ac base h) h'"
  by (rule run_command [OF assms])

section \<open>Up to the CSR access\<close>

text \<open>The slots before the access of a CSR transfer, and the access itself.\<close>

definition csr_slots :: "dm_cfg \<Rightarrow> ac_ar_cmd_t \<Rightarrow> instr list" where
  "csr_slots g ac = prologue (HasSndScratch g) @ CSRRW 0 CSR_DSCRATCH0 8 #
     (if ar_write ac then [LOAD (aarsize ac) 8 (LoadBaseAddr g) DataAddr] else [])"

definition csr_access :: "ac_ar_cmd_t \<Rightarrow> instr" where
  "csr_access ac = (if ar_write ac then CSRRW 0 (fld 11 0 (regno ac)) 8 else CSRRS 8 (fld 11 0 (regno ac)) 0)"

lemma csr_slots_command:
  assumes "\<not> bit (regno ac) 12"
  shows "cmd_instrs g ac ! length (csr_slots g ac) = csr_access ac"
    and "csr_slots g ac = take (length (csr_slots g ac)) (cmd_instrs g ac)"
  using assms by (simp_all add: cmd_instrs_def csr_slots_def csr_access_def prologue_def is_a0_def Let_def eval_nat_numeral)

text \<open>The state of the hart at the access: what the command changed so far is in the scratch registers.\<close>

definition stashed :: "dm_cfg \<Rightarrow> hart \<Rightarrow> hart \<Rightarrow> bool" where
  "stashed g h h' \<longleftrightarrow> fpr h' = fpr h \<and> stores h' = stores h \<and> (\<forall>c. c \<in> scratches g \<or> csr h' c = csr h c) \<and>
     csr h' CSR_DSCRATCH0 = gpr h 8 \<and>
     (if HasSndScratch g then (\<forall>r. r = 8 \<or> r = 10 \<or> gpr h' r = gpr h r) \<and> csr h' CSR_DSCRATCH1 = gpr h 10
      else \<forall>r. r = 8 \<or> gpr h' r = gpr h r)"

lemma exec_csr_slots:
  assumes "take_bit 12 base = 0" and "pc h = base + 0x338" and "unat (aarsize ac) < 4"
  shows "\<exists>h'. exec_seq (csr_slots g ac) h = Running h' \<and> stashed g h h' \<and>
    pc h' = pc h + 4 * of_nat (length (csr_slots g ac)) \<and> code h' = code h"
proof -
  let ?b = "based (HasSndScratch g) base h"
  let ?s = "next_pc (?b\<lparr>csr := (csr ?b)(CSR_DSCRATCH0 := gpr h 8)\<rparr>)"
  have b: "gpr ?b 8 = gpr h 8" by (simp add: based_def)
  have x: "exec_seq (csr_slots g ac) h = exec_seq (if ar_write ac then [LOAD (aarsize ac) 8 (LoadBaseAddr g) DataAddr] else []) ?s"
    unfolding csr_slots_def exec_seq_append exec_prologue [OF assms(1,2)] outcome.case
    using b by (simp add: wr_reg_def rd_reg_def)
  obtain v where "load_value ?s (aarsize ac) (rd_reg ?s (LoadBaseAddr g) + scast DataAddr) = Some v"
    using size_ops(1) [OF assms(3)] by blast
  then show ?thesis unfolding x
    by (cases "ar_write ac"; cases "HasSndScratch g")
      (auto simp: stashed_def based_def next_pc_def wr_reg_def csr_slots_def prologue_def scratches_def csr_names add.assoc)
qed

lemma run_to_csr:
  assumes "transfer_ok g cmd ac" and "\<not> bit (regno ac) 12" and "page_ok g base"
    and "loaded (fst (abstract_prog g cmd)) (base + 0x338) h" and "pc h = base + 0x338"
  shows "\<exists>h'. run (length (csr_slots g ac)) h = Running h' \<and> stashed g h h' \<and> code h' = code h \<and>
    step h' = exec (csr_access ac) h'"
proof -
  let ?k = "length (csr_slots g ac)" and ?ws = "fst (abstract_prog g cmd)"
  have sz: "unat (aarsize ac) < 4" using assms(1) max_aar unfolding transfer_ok_def by blast
  have base: "take_bit 12 base = 0" using assms(3) by (simp add: page_ok_def)
  have k: "?k < 10" by (simp add: csr_slots_def prologue_def)
  note d = disasm_command [OF assms(1)]
  have w: "length ?ws = 10" using arg_cong [OF d, of length] by (simp add: length_command)
  have "map disasm (take ?k ?ws) = map Some (csr_slots g ac)"
    using d csr_slots_command(2) [OF assms(2), of g] by (metis take_map)
  moreover have "list_all straight (csr_slots g ac)" by (simp add: csr_slots_def prologue_def eval_nat_numeral)
  moreover have "loaded (take ?k ?ws) (pc h) h" using assms(4,5) k w by (simp add: loaded_def)
  ultimately have r: "run ?k h = exec_seq (csr_slots g ac) h" by (rule run_straight)
  obtain h' where h': "exec_seq (csr_slots g ac) h = Running h'" "stashed g h h'"
    "pc h' = pc h + 4 * of_nat ?k" "code h' = code h" using exec_csr_slots [OF base assms(5) sz, where g = g] by blast
  have "disasm (?ws ! ?k) = Some (cmd_instrs g ac ! ?k)"
    using arg_cong [OF d, of "\<lambda>l. l ! ?k"] k w by (simp add: length_command)
  then have "step h' = exec (csr_access ac) h'"
    using assms(4,5) h'(3,4) k w csr_slots_command(1) [OF assms(2), of g] by (simp add: step_def loaded_def add.assoc)
  then show ?thesis using r h' by (intro exI [of _ h']) simp
qed

text \<open>An example: write 0x2a from \<open>data0\<close> to \<open>x9\<close>.\<close>

definition write_x9 :: command_t where
  "write_x9 = unpack_command 0x00231009"

definition command_hart :: "command_t \<Rightarrow> hart" where
  "command_hart cmd = \<lparr>pc = 0x1A110338, gpr = (\<lambda>r. ucast r), fpr = (\<lambda>_. 0), csr = (\<lambda>_. 0),
     code = (\<lambda>a. fst (abstract_prog one_hart cmd) ! (unat (a - 0x1A110338) div 4)),
     ram = (\<lambda>a. if a = 0x1A110380 then 0x2a else 0), stores = []\<rparr>"

lemma write_x9_ok:
  "transfer_ok one_hart write_x9 (unpack_ac_ar_cmd 0x231009)"
  "accessible one_hart (unpack_ac_ar_cmd 0x231009)"
  by (simp_all add: transfer_ok_def accessible_def write_x9_def unpack_command_def unpack_ac_ar_cmd_def
      fld_def AccessRegister_def MaxAar_def one_hart_def reserved_regno_def)

lemma command_hart_loaded:
  assumes "length (fst (abstract_prog one_hart cmd)) \<le> 10"
  shows "loaded (fst (abstract_prog one_hart cmd)) (0x1A110000 + 0x338) (command_hart cmd)"
  unfolding loaded_def
proof (intro allI impI)
  fix k
  assume "k < length (fst (abstract_prog one_hart cmd))"
  then have "k < 10" using assms by simp
  then have "unat (4 * of_nat k :: u64) div 4 = k"
    by (simp add: unat_word_ariths unsigned_of_nat take_bit_nat_eq_self)
  then show "code (command_hart cmd) (0x1A110000 + 0x338 + 4 * of_nat k) = fst (abstract_prog one_hart cmd) ! k"
    by (simp add: command_hart_def)
qed

theorem abstract_command_transfers_witness:
  "\<exists>h'. run 10 (command_hart write_x9) = At_Ebreak h' \<and> gpr h' 9 = 0x2a \<and> gpr h' 10 = 10 \<and> gpr h' 8 = 8"
proof -
  let ?ac = "unpack_ac_ar_cmd 0x231009"
  have "map disasm (fst (abstract_prog one_hart write_x9)) = map Some (cmd_instrs one_hart ?ac)"
    by (rule disasm_command [OF write_x9_ok(1)])
  then have "length (fst (abstract_prog one_hart write_x9)) = length (cmd_instrs one_hart ?ac)"
    by (metis length_map)
  then have "length (fst (abstract_prog one_hart write_x9)) \<le> 10" by (simp add: length_command)
  from command_hart_loaded [OF this]
  have l: "loaded (fst (abstract_prog one_hart write_x9)) (0x1A110000 + 0x338) (command_hart write_x9)" .
  have p: "page_ok one_hart 0x1A110000" by (simp add: page_ok_def HasSndScratch_def one_hart_def)
  have pc: "pc (command_hart write_x9) = 0x1A110000 + 0x338" by (simp add: command_hart_def)
  have ac: "\<not> postexec ?ac" "ar_write ?ac" "bit (regno ?ac) 12" "\<not> bit (regno ?ac) 5" "regno_index ?ac = 9"
    "aarsize ?ac = 2"
    by (simp_all add: unpack_ac_ar_cmd_def fld_def regno_index_def)
  have four: "[0..<4] = [0, 1, 2, 3 :: nat]" by (simp add: upt_rec)
  have "signed_take_bit 31 (0x2a :: u64) = 0x2a"
    by (rule bit_word_eqI) (auto simp: bit_signed_take_bit_iff bit_numeral_rec)
  then have v: "data_value ?ac (command_hart write_x9) 0x1A110380 = 0x2a"
    unfolding data_value_def ac(6) using ac(4)
    by (simp add: load_value_def load_bytes_def command_hart_def four)
  have e: "gpr (command_effect ?ac 0x1A110000 (command_hart write_x9)) = (\<lambda>r. ucast r)(9 := 0x2a)"
    unfolding command_effect_def set_reg_def using ac v by (simp add: wr_reg_def) (simp add: command_hart_def)
  obtain h' where "run 10 (command_hart write_x9) = At_Ebreak h'"
    "command_done one_hart (command_effect ?ac 0x1A110000 (command_hart write_x9)) h'"
    using abstract_command_transfers [OF write_x9_ok p l pc] ac(1) by auto
  then show ?thesis
    by (intro exI [of _ h']) (simp add: command_done_def e)
qed

end
