(* ===== verification/Dm_Sba.thy ===== *)
theory Dm_Sba
  imports Dm_Pkg
begin

text \<open>
  The system bus access module, \<open>src/dm_sba.sv\<close>, for bus widths of 32 and 64 bits. Bus words are kept
  in 64 bits and truncated to the width; \<open>be_idx_width\<close> is the number of address bits that select a
  byte lane. The state register is the only state; everything else is a function of it, of the control
  registers (\<open>sb_ctl\<close>, driven by the CSR module) and of the bus (\<open>sb_bus\<close>).
\<close>

section \<open>State and ports\<close>

datatype sba_state_e = Sb_Idle | Sb_Read | Sb_Write | Sb_WaitRead | Sb_WaitWrite

record sb_ctl =
  sbaddress_i :: u64
  sbaddress_write_valid_i :: bool
  sbreadonaddr_i :: bool
  sbautoincrement_i :: bool
  sbaccess_i :: "3 word"
  sbreadondata_i :: bool
  sbdata_i :: u64
  sbdata_read_valid_i :: bool
  sbdata_write_valid_i :: bool

record sb_bus =
  master_gnt_i :: bool
  master_r_valid_i :: bool
  master_r_err_i :: bool
  master_r_other_err_i :: bool
  master_r_rdata_i :: u64

record sb_out =
  master_req_o :: bool
  master_add_o :: u64
  master_we_o :: bool
  master_wdata_o :: u64
  master_be_o :: u8
  sb_address_o :: u64
  sb_data_o :: u64
  sb_data_valid_o :: bool
  sb_busy_o :: bool
  sb_error_valid_o :: bool
  sb_error_o :: "3 word"

section \<open>Byte lanes\<close>

definition be_idx_width :: "nat \<Rightarrow> nat" where
  "be_idx_width BusWidth = (if BusWidth = 64 then 3 else 2)"

definition be_idx :: "nat \<Rightarrow> sb_ctl \<Rightarrow> nat" where
  "be_idx BusWidth c = unat (take_bit (be_idx_width BusWidth) (sbaddress_i c))"

text \<open>The byte-enable mask, case by case over the access size.\<close>

definition be_mask :: "nat \<Rightarrow> sb_ctl \<Rightarrow> u8" where
  "be_mask BusWidth c = (let i = be_idx BusWidth c; all = mask (BusWidth div 8) in
     if sbaccess_i c = 0 then push_bit i (mask 1)
     else if sbaccess_i c = 1 then push_bit (2 * (i div 2)) (mask 2)
     else if sbaccess_i c = 2 then
       (if BusWidth = 64 then push_bit (4 * (i div 4)) (mask 4) else all)
     else if sbaccess_i c = 3 then all
     else 0)"

definition sbaccess_mask :: "nat \<Rightarrow> sb_ctl \<Rightarrow> u64" where
  "sbaccess_mask BusWidth c = take_bit BusWidth (push_bit (unat (sbaccess_i c)) (mask BusWidth))"

definition be_idx_masked :: "nat \<Rightarrow> sb_ctl \<Rightarrow> nat" where
  "be_idx_masked BusWidth c = unat (take_bit (be_idx_width BusWidth)
     (sbaddress_i c AND sbaccess_mask BusWidth c))"

section \<open>The state machine\<close>

definition unsupported_size :: "nat \<Rightarrow> sb_ctl \<Rightarrow> bool" where
  "unsupported_size BusWidth c \<longleftrightarrow> be_idx_width BusWidth < unat (sbaccess_i c)"

definition misaligned :: "nat \<Rightarrow> sb_ctl \<Rightarrow> bool" where
  "misaligned BusWidth c \<longleftrightarrow>
     take_bit BusWidth (sbaddress_i c AND NOT (sbaccess_mask BusWidth c)) \<noteq> 0"

definition rejected :: "nat \<Rightarrow> sb_ctl \<Rightarrow> sba_state_e \<Rightarrow> bool" where
  "rejected BusWidth c s \<longleftrightarrow> s \<noteq> Sb_Idle \<and> (unsupported_size BusWidth c \<or> misaligned BusWidth c)"

definition sba_case :: "sb_ctl \<Rightarrow> sb_bus \<Rightarrow> sba_state_e \<Rightarrow> sba_state_e" where
  "sba_case c b s = (case s of
     Sb_Idle \<Rightarrow>
       (if sbdata_read_valid_i c \<and> sbreadondata_i c then Sb_Read
        else if sbdata_write_valid_i c then Sb_Write
        else if sbaddress_write_valid_i c \<and> sbreadonaddr_i c then Sb_Read
        else Sb_Idle)
   | Sb_Read \<Rightarrow> if master_gnt_i b then Sb_WaitRead else Sb_Read
   | Sb_Write \<Rightarrow> if master_gnt_i b then Sb_WaitWrite else Sb_Write
   | Sb_WaitRead \<Rightarrow> if master_r_valid_i b then Sb_Idle else Sb_WaitRead
   | Sb_WaitWrite \<Rightarrow> if master_r_valid_i b then Sb_Idle else Sb_WaitWrite)"

definition sba_state_d :: "nat \<Rightarrow> sb_ctl \<Rightarrow> sb_bus \<Rightarrow> sba_state_e \<Rightarrow> sba_state_e" where
  "sba_state_d BusWidth c b s = (if rejected BusWidth c s then Sb_Idle else sba_case c b s)"

text \<open>A response in a waiting state ends the access: it increments the address and reports bus errors.\<close>

definition sb_response :: "sb_bus \<Rightarrow> sba_state_e \<Rightarrow> bool" where
  "sb_response b s \<longleftrightarrow> s \<in> {Sb_WaitRead, Sb_WaitWrite} \<and> master_r_valid_i b"

definition sb_error :: "nat \<Rightarrow> sb_ctl \<Rightarrow> sb_bus \<Rightarrow> sba_state_e \<Rightarrow> bool \<times> 3 word" where
  "sb_error BusWidth c b s = (let
     e = (False, 0);
     e = (if sb_response b s then
            (if master_r_other_err_i b then (True, 7)
             else if master_r_err_i b then (True, 2) else e)
          else e);
     e = (if unsupported_size BusWidth c \<and> s \<noteq> Sb_Idle then (True, 4) else e)
   in if misaligned BusWidth c \<and> s \<noteq> Sb_Idle then (True, 3) else e)"

definition sba_out :: "nat \<Rightarrow> bool \<Rightarrow> sb_ctl \<Rightarrow> sb_bus \<Rightarrow> sba_state_e \<Rightarrow> sb_out" where
  "sba_out BusWidth ReadByteEnable c b s = \<lparr>
     master_req_o = (s = Sb_Read \<or> s = Sb_Write) \<and> \<not> rejected BusWidth c s,
     master_add_o = sbaddress_i c,
     master_we_o = (s = Sb_Write),
     master_wdata_o = take_bit BusWidth (push_bit (8 * be_idx_masked BusWidth c) (sbdata_i c)),
     master_be_o = (if s = Sb_Write \<or> (s = Sb_Read \<and> ReadByteEnable) then be_mask BusWidth c else 0),
     sb_address_o = take_bit BusWidth (sbaddress_i c +
       (if sb_response b s \<and> sbautoincrement_i c then push_bit (unat (sbaccess_i c)) 1 else 0)),
     sb_data_o = drop_bit (8 * be_idx_masked BusWidth c) (take_bit BusWidth (master_r_rdata_i b)),
     sb_data_valid_o = master_r_valid_i b,
     sb_busy_o = (s \<noteq> Sb_Idle),
     sb_error_valid_o = fst (sb_error BusWidth c b s),
     sb_error_o = snd (sb_error BusWidth c b s)\<rparr>"

section \<open>Alignment and lanes\<close>

definition bus_width_ok :: "nat \<Rightarrow> bool" where
  "bus_width_ok w \<longleftrightarrow> w = 32 \<or> w = 64"

lemma sbaccess_small: "unat (s :: 3 word) < 8"
proof -
  have "unat s < 2 ^ LENGTH(3)" by (rule unsigned_less)
  then show ?thesis by simp
qed

lemma misaligned_iff:
  assumes "bus_width_ok w"
  shows "misaligned w c \<longleftrightarrow> take_bit (unat (sbaccess_i c)) (sbaddress_i c) \<noteq> 0"
proof -
  have s: "unat (sbaccess_i c) < w" using sbaccess_small [of "sbaccess_i c"] assms
    by (auto simp: bus_width_ok_def)
  have w: "w \<le> 64" using assms by (auto simp: bus_width_ok_def)
  have "take_bit w (sbaddress_i c AND NOT (sbaccess_mask w c)) = take_bit (unat (sbaccess_i c)) (sbaddress_i c)"
    by (rule bit_word_eqI) (use s w in \<open>auto simp: bit_simps sbaccess_mask_def\<close>)
  then show ?thesis by (simp add: misaligned_def)
qed

lemma be_idx_masked_aligned:
  assumes "bus_width_ok w" and "\<not> misaligned w c"
  shows "be_idx_masked w c = be_idx w c"
proof -
  have a: "take_bit (unat (sbaccess_i c)) (sbaddress_i c) = 0" using assms misaligned_iff by blast
  have "take_bit (be_idx_width w) (sbaddress_i c AND sbaccess_mask w c)
      = take_bit (be_idx_width w) (sbaddress_i c)"
  proof (rule bit_word_eqI)
    fix n
    have z: "n < unat (sbaccess_i c) \<Longrightarrow> \<not> bit (sbaddress_i c) n"
      using arg_cong [OF a, of "\<lambda>x. bit x n"] by (simp add: bit_simps)
    show "bit (take_bit (be_idx_width w) (sbaddress_i c AND sbaccess_mask w c)) n
        = bit (take_bit (be_idx_width w) (sbaddress_i c)) n"
      using z assms(1)
      by (auto simp: bit_simps sbaccess_mask_def be_idx_width_def bus_width_ok_def
          dest: bit_imp_le_length intro: leI split: if_splits)
  qed
  then show ?thesis by (simp add: be_idx_masked_def be_idx_def)
qed

lemma be_idx_bound: "be_idx w c < 2 ^ be_idx_width w"
  unfolding be_idx_def by (simp add: unsigned_take_bit_eq)

lemma be_idx_dvd:
  assumes "bus_width_ok w" and "\<not> misaligned w c" and "\<not> unsupported_size w c"
  shows "2 ^ unat (sbaccess_i c) dvd be_idx w c"
proof -
  let ?s = "unat (sbaccess_i c)"
  have "take_bit ?s (sbaddress_i c) = 0" using assms(1,2) misaligned_iff by blast
  then have "take_bit ?s (unat (sbaddress_i c)) = 0"
    by (metis unsigned_0 unsigned_take_bit_eq)
  moreover have "?s \<le> be_idx_width w" using assms(3) by (simp add: unsupported_size_def)
  ultimately have "take_bit ?s (be_idx w c) = 0"
    by (simp add: be_idx_def unsigned_take_bit_eq min_def)
  then show ?thesis by (simp add: take_bit_eq_0_iff)
qed

text \<open>For an accepted access the enabled lanes are the addressed bytes.\<close>

lemma be_mask_lanes:
  assumes "bus_width_ok w" and "\<not> misaligned w c" and "\<not> unsupported_size w c"
  shows "be_mask w c = push_bit (be_idx w c) (mask (2 ^ unat (sbaccess_i c)))"
    and "be_idx w c + 2 ^ unat (sbaccess_i c) \<le> w div 8"
proof -
  let ?s = "unat (sbaccess_i c)"
  have d: "2 ^ ?s dvd be_idx w c" by (rule be_idx_dvd [OF assms])
  have b: "be_idx w c < 2 ^ be_idx_width w" by (rule be_idx_bound)
  have s: "?s \<le> be_idx_width w" using assms(3) by (simp add: unsupported_size_def)
  have eq: "sbaccess_i c = of_nat ?s" by simp
  consider "?s = 0" | "?s = 1" | "?s = 2" | "?s = 3 \<and> w = 64"
    using s assms(1) by (fastforce simp: be_idx_width_def bus_width_ok_def split: if_splits)
  then have "be_mask w c = push_bit (be_idx w c) (mask (2 ^ ?s)) \<and> be_idx w c + 2 ^ ?s \<le> w div 8"
  proof cases
    case 1
    then have "sbaccess_i c = 0" using eq by simp
    then show ?thesis using b assms(1) by (auto simp: be_mask_def be_idx_width_def bus_width_ok_def)
  next
    case 2
    then have "sbaccess_i c = 1" using eq by simp
    moreover have "2 * (be_idx w c div 2) = be_idx w c" using d 2 by simp
    moreover have "be_idx w c + 2 \<le> w div 8"
      using b d 2 assms(1) by (auto simp: be_idx_width_def bus_width_ok_def dvd_def)
    ultimately show ?thesis using 2 by (simp add: be_mask_def)
  next
    case 3
    then have "sbaccess_i c = 2" using eq by simp
    moreover have "4 * (be_idx w c div 4) = be_idx w c" using d 3 by simp
    moreover have "be_idx w c + 4 \<le> w div 8" "w \<noteq> 64 \<Longrightarrow> be_idx w c = 0"
      using b d 3 assms(1) by (auto simp: be_idx_width_def bus_width_ok_def dvd_def)
    ultimately show ?thesis using 3 assms(1) by (auto simp: be_mask_def bus_width_ok_def)
  next
    case 4
    then have "sbaccess_i c = 3" using eq by simp
    moreover have "be_idx w c = 0" using b d 4 by (auto simp: be_idx_width_def dvd_def)
    ultimately show ?thesis using 4 by (simp add: be_mask_def)
  qed
  then show "be_mask w c = push_bit (be_idx w c) (mask (2 ^ ?s))"
    "be_idx w c + 2 ^ ?s \<le> w div 8" by blast+
qed

section \<open>A byte-addressed memory on the bus\<close>

text \<open>What a memory with byte enables does with the signals of the module: it serves the bus word that
  contains the address.\<close>

definition bus_base :: "nat \<Rightarrow> u64 \<Rightarrow> u64" where
  "bus_base w a = push_bit (be_idx_width w) (drop_bit (be_idx_width w) a)"

definition bus_write :: "nat \<Rightarrow> u64 \<Rightarrow> u8 \<Rightarrow> u64 \<Rightarrow> (u64 \<Rightarrow> u8) \<Rightarrow> u64 \<Rightarrow> u8" where
  "bus_write w a be wd m x = (let j = unat (x - bus_base w a) in
     if j < w div 8 \<and> bit be j then ucast (drop_bit (8 * j) wd) else m x)"

definition bus_read :: "nat \<Rightarrow> u64 \<Rightarrow> (u64 \<Rightarrow> u8) \<Rightarrow> u64" where
  "bus_read w a m = word_le (map (\<lambda>j. m (bus_base w a + of_nat j)) [0..<w div 8])"

lemma bit_bus_read:
  assumes "bus_width_ok w"
  shows "bit (bus_read w a m) n \<longleftrightarrow> n < w \<and> bit (m (bus_base w a + of_nat (n div 8))) (n mod 8)"
proof -
  have "n < w \<Longrightarrow> n div 8 < w div 8" "8 * (w div 8) = w" "w \<le> 64"
    using assms by (auto simp: bus_width_ok_def)
  then show ?thesis by (auto simp: bus_read_def bit_word_le)
qed

lemma bus_base_idx: "sbaddress_i c = bus_base w (sbaddress_i c) + of_nat (be_idx w c)"
  unfolding bus_base_def be_idx_def by (simp add: bits_ident)

lemma bit_shifted_mask: "bit (push_bit i (mask k) :: u8) j \<longleftrightarrow> j < 8 \<and> i \<le> j \<and> j < i + k"
  by (auto simp: bit_simps)

lemma small_of_nat: "j < 8 \<Longrightarrow> unat (of_nat j :: u64) = j"
  by (simp add: unsigned_of_nat take_bit_nat_eq_self)

text \<open>The memory after a write of the module: exactly the lanes of the access change.\<close>

definition sba_write :: "nat \<Rightarrow> bool \<Rightarrow> sb_ctl \<Rightarrow> sb_bus \<Rightarrow> (u64 \<Rightarrow> u8) \<Rightarrow> u64 \<Rightarrow> u8" where
  "sba_write w r c b = bus_write w (master_add_o (sba_out w r c b Sb_Write))
     (master_be_o (sba_out w r c b Sb_Write)) (master_wdata_o (sba_out w r c b Sb_Write))"

lemma sba_write_lane:
  assumes "bus_width_ok w" and "\<not> misaligned w c" and "\<not> unsupported_size w c"
  shows "sba_write w r c b m y = (let j = unat (y - bus_base w (sbaddress_i c)) in
     if j < w div 8 \<and> be_idx w c \<le> j \<and> j < be_idx w c + 2 ^ unat (sbaccess_i c)
     then ucast (drop_bit (8 * j) (take_bit w (push_bit (8 * be_idx w c) (sbdata_i c)))) else m y)"
proof -
  note lanes = be_mask_lanes [OF assms] and im = be_idx_masked_aligned [OF assms(1,2)]
  have "w div 8 \<le> 8" using assms(1) by (auto simp: bus_width_ok_def)
  then show ?thesis
    using lanes by (auto simp: sba_write_def bus_write_def sba_out_def im bit_shifted_mask Let_def)
qed

lemma sba_write_outside:
  assumes "bus_width_ok w" and "\<not> misaligned w c" and "\<not> unsupported_size w c"
    and "2 ^ unat (sbaccess_i c) \<le> unat (x - sbaddress_i c)"
  shows "sba_write w r c b m x = m x"
proof -
  let ?j = "unat (x - bus_base w (sbaddress_i c))" and ?i = "be_idx w c"
  have w: "w div 8 \<le> 8" using assms(1) by (auto simp: bus_width_ok_def)
  have False if a: "?j < w div 8" "?i \<le> ?j" "?j < ?i + 2 ^ unat (sbaccess_i c)"
  proof -
    have "x - sbaddress_i c = of_nat ?j - of_nat ?i" by (subst bus_base_idx) simp
    also have "\<dots> = of_nat (?j - ?i)" using a by simp
    finally have e: "x - sbaddress_i c = of_nat (?j - ?i)" .
    have "unat (x - sbaddress_i c) = ?j - ?i"
      unfolding e by (rule small_of_nat) (use a w in linarith)
    then show False using a assms(4) by linarith
  qed
  then show ?thesis unfolding sba_write_lane [OF assms(1-3)] Let_def by (intro if_not_P) blast
qed

text \<open>Bit \<open>n\<close> of the data the module hands back is the bit of the memory byte it came from.\<close>

lemma sba_read_bit:
  assumes "bus_width_ok w" and "be_idx_masked w c' = i" and "n + 8 * i < w"
    and "master_r_rdata_i b' = bus_read w a m"
  shows "bit (sb_data_o (sba_out w r c' b' s)) n = bit (m (bus_base w a + of_nat (i + n div 8))) (n mod 8)"
proof -
  have n: "(n + 8 * i) div 8 = i + n div 8" "(n + 8 * i) mod 8 = n mod 8" by simp_all
  have "bit (sb_data_o (sba_out w r c' b' s)) n = bit (bus_read w a m) (n + 8 * i)"
    using assms by (simp add: sba_out_def bit_simps add.commute)
  then show ?thesis
    using assms(3) by (simp only: bit_bus_read [OF assms(1)] n simp_thms)
qed

lemma sba_write_bit:
  assumes "bus_width_ok w" and "\<not> misaligned w c" and "\<not> unsupported_size w c"
    and "n < 8 * 2 ^ unat (sbaccess_i c)"
  shows "bit (sba_write w r c b m (bus_base w (sbaddress_i c) + of_nat (be_idx w c + n div 8))) (n mod 8) =
     bit (sbdata_i c) n" and "n + 8 * be_idx w c < w"
proof -
  let ?j = "be_idx w c + n div 8"
  have w: "w div 8 \<le> 8" "w = 8 * (w div 8)" using assms(1) by (auto simp: bus_width_ok_def)
  have j: "?j < be_idx w c + 2 ^ unat (sbaccess_i c)" "?j < w div 8"
    using assms(4) be_mask_lanes(2) [OF assms(1-3)] by simp_all
  have n: "8 * ?j + n mod 8 = n + 8 * be_idx w c" by simp
  show nw: "n + 8 * be_idx w c < w" using j(2) n w(2) by linarith
  have "unat (bus_base w (sbaddress_i c) + of_nat ?j - bus_base w (sbaddress_i c)) = ?j"
    using j w small_of_nat [of ?j] by simp
  then have m': "sba_write w r c b m (bus_base w (sbaddress_i c) + of_nat ?j) =
      ucast (drop_bit (8 * ?j) (take_bit w (push_bit (8 * be_idx w c) (sbdata_i c))))"
    using j by (simp add: sba_write_lane [OF assms(1-3)] Let_def)
  have "bit (ucast v :: u8) (n mod 8) = bit v (n mod 8)" for v :: u64
    by (simp add: bit_ucast_word)
  then show "bit (sba_write w r c b m (bus_base w (sbaddress_i c) + of_nat ?j)) (n mod 8) = bit (sbdata_i c) n"
    unfolding m' using nw w n by (simp add: bit_take_bit_iff bit_push_bit_iff bit_drop_bit_eq add.commute)
qed

text \<open>C24: a system bus write stores exactly the addressed bytes, and a read of the same size at the
  same address returns them. For a supported and aligned access, on a memory with byte enables, the
  bytes outside the access keep their value and the data the module hands back agrees with the
  written data in all bits of the access.\<close>

theorem sba_write_read:
  assumes "bus_width_ok w" and "\<not> misaligned w c" and "\<not> unsupported_size w c"
    and "m' = bus_write w (master_add_o (sba_out w r c b Sb_Write))
      (master_be_o (sba_out w r c b Sb_Write)) (master_wdata_o (sba_out w r c b Sb_Write)) m"
    and "sbaddress_i c' = sbaddress_i c" and "sbaccess_i c' = sbaccess_i c"
    and "master_r_rdata_i b' = bus_read w (sbaddress_i c') m'"
  shows "take_bit (8 * 2 ^ unat (sbaccess_i c)) (sb_data_o (sba_out w r' c' b' s))
      = take_bit (8 * 2 ^ unat (sbaccess_i c)) (sbdata_i c) \<and>
    (2 ^ unat (sbaccess_i c) \<le> unat (x - sbaddress_i c) \<longrightarrow> m' x = m x)"
proof -
  have m': "m' = sba_write w r c b m" by (simp add: assms(4) sba_write_def)
  have "be_idx_masked w c' = be_idx w c"
    using be_idx_masked_aligned [OF assms(1,2)] assms(5,6) by (simp add: be_idx_masked_def sbaccess_mask_def)
  note reads = sba_read_bit [OF assms(1) this _ assms(7), unfolded assms(5) m']
  have "bit (sb_data_o (sba_out w r' c' b' s)) n = bit (sbdata_i c) n" if "n < 8 * 2 ^ unat (sbaccess_i c)" for n
    using reads sba_write_bit [OF assms(1-3) that] by blast
  then have "take_bit (8 * 2 ^ unat (sbaccess_i c)) (sb_data_o (sba_out w r' c' b' s))
      = take_bit (8 * 2 ^ unat (sbaccess_i c)) (sbdata_i c)"
    by (intro bit_word_eqI) (auto simp: bit_take_bit_iff)
  then show ?thesis using sba_write_outside [OF assms(1-3)] m' by blast
qed

definition sb_ctl_word :: "u64 \<Rightarrow> 3 word \<Rightarrow> u64 \<Rightarrow> sb_ctl" where
  "sb_ctl_word a sz v = \<lparr>sbaddress_i = a, sbaddress_write_valid_i = False, sbreadonaddr_i = False,
     sbautoincrement_i = True, sbaccess_i = sz, sbreadondata_i = False, sbdata_i = v,
     sbdata_read_valid_i = False, sbdata_write_valid_i = False\<rparr>"

definition sb_bus_word :: "u64 \<Rightarrow> sb_bus" where
  "sb_bus_word v = \<lparr>master_gnt_i = False, master_r_valid_i = True, master_r_err_i = False,
     master_r_other_err_i = False, master_r_rdata_i = v\<rparr>"

lemmas sb_example = sb_ctl_word_def sb_bus_word_def bus_width_ok_def misaligned_def unsupported_size_def
  sbaccess_mask_def be_idx_width_def

theorem sba_write_read_witness:
  "take_bit 16 (sb_data_o (sba_out 32 True (sb_ctl_word 0x1002 1 0) (sb_bus_word (bus_read 32 0x1002
     (bus_write 32 0x1002 0b1100 0xBEEF0000 (\<lambda>x. 7)))) Sb_WaitRead)) = 0xBEEF"
proof -
  have "bus_write 32 0x1002 0b1100 0xBEEF0000 (\<lambda>x. 7) =
    bus_write 32 (master_add_o (sba_out 32 True (sb_ctl_word 0x1002 1 0xBEEF) (sb_bus_word 0) Sb_Write))
      (master_be_o (sba_out 32 True (sb_ctl_word 0x1002 1 0xBEEF) (sb_bus_word 0) Sb_Write))
      (master_wdata_o (sba_out 32 True (sb_ctl_word 0x1002 1 0xBEEF) (sb_bus_word 0) Sb_Write)) (\<lambda>x. 7)"
    by (simp add: sba_out_def be_mask_def be_idx_def be_idx_masked_def sb_example mask_numeral)
  from sba_write_read [OF _ _ _ this, of "sb_ctl_word 0x1002 1 0" "sb_bus_word (bus_read 32 0x1002
      (bus_write 32 0x1002 0b1100 0xBEEF0000 (\<lambda>x. 7)))" True Sb_WaitRead 0]
  show ?thesis by (simp add: sb_example mask_numeral)
qed

text \<open>The guards of the module, in terms of the access: an access of \<open>2 ^ sbaccess\<close> bytes must fit into a
  bus word, and its address must be a multiple of its size.\<close>

lemma misaligned_dvd:
  assumes "bus_width_ok w"
  shows "misaligned w c \<longleftrightarrow> \<not> 2 ^ unat (sbaccess_i c) dvd unat (sbaddress_i c)"
proof -
  have "take_bit (unat (sbaccess_i c)) (sbaddress_i c) = 0 \<longleftrightarrow>
      take_bit (unat (sbaccess_i c)) (unat (sbaddress_i c)) = 0"
    by (metis unsigned_0 unsigned_take_bit_eq unsigned_eq_0_iff)
  then show ?thesis by (simp add: misaligned_iff [OF assms] take_bit_eq_0_iff)
qed

lemma unsupported_size_iff:
  assumes "bus_width_ok w"
  shows "unsupported_size w c \<longleftrightarrow> w < 8 * 2 ^ unat (sbaccess_i c)"
proof -
  have "unat (sbaccess_i c) \<in> {0, 1, 2, 3, 4, 5, 6, 7}" using sbaccess_small [of "sbaccess_i c"] by auto
  then show ?thesis using assms
    by (elim insertE) (auto simp: unsupported_size_def be_idx_width_def bus_width_ok_def)
qed

lemma be_idx_mod: "bus_width_ok w \<Longrightarrow> be_idx w c = unat (sbaddress_i c) mod (w div 8)"
  by (auto simp: be_idx_def be_idx_width_def bus_width_ok_def take_bit_eq_mod unat_mod_distrib)

text \<open>C26: an access that the module cannot perform never reaches the bus, and every other one does. On a
  bus of 32 or 64 bits, take an access of \<open>2 ^ sbaccess\<close> bytes. In every busy state, if it is wider than the
  bus word or its address is not a multiple of its size, the module drops the request, returns to idle
  and reports error 3 for the address and else 4 for the size. Otherwise the module requests the bus in
  its two requesting states, enabling exactly the byte lanes of the addressed bytes (for reads when it is
  configured to), and reports errors only with a response, where the other-error of the bus wins over its
  address error.\<close>

theorem sba_rejects:
  assumes "bus_width_ok w"
  shows "let o1 = sba_out w r c b s; size = 2 ^ unat (sbaccess_i c); a = unat (sbaddress_i c) in
   (if s \<noteq> Sb_Idle \<and> (w < 8 * size \<or> \<not> size dvd a)
    then \<not> master_req_o o1 \<and> sba_state_d w c b s = Sb_Idle \<and>
        sb_error_valid_o o1 \<and> sb_error_o o1 = (if size dvd a then 4 else 3)
    else master_req_o o1 = (s \<in> {Sb_Read, Sb_Write}) \<and>
        master_be_o o1 = (if s = Sb_Write \<or> s = Sb_Read \<and> r then push_bit (a mod (w div 8)) (mask size) else 0) \<and>
        sb_error_valid_o o1 = (sb_response b s \<and> (master_r_other_err_i b \<or> master_r_err_i b)) \<and>
        sb_error_o o1 = (if sb_response b s then
          (if master_r_other_err_i b then 7 else if master_r_err_i b then 2 else 0) else 0))"
proof -
  let ?size = "2 ^ unat (sbaccess_i c) :: nat" and ?a = "unat (sbaddress_i c)"
  note guards = misaligned_dvd [OF assms, of c] unsupported_size_iff [OF assms, of c]
  have be: "s \<noteq> Sb_Idle \<Longrightarrow> \<not> (w < 8 * ?size \<or> \<not> ?size dvd ?a) \<Longrightarrow>
      be_mask w c = push_bit (?a mod (w div 8)) (mask ?size)"
    using be_mask_lanes(1) [OF assms, of c] by (simp add: guards be_idx_mod [OF assms])
  show ?thesis
  proof (cases "s \<noteq> Sb_Idle \<and> (w < 8 * ?size \<or> \<not> ?size dvd ?a)")
    case True
    then show ?thesis
      by (auto simp: Let_def sba_out_def sba_state_d_def rejected_def sb_error_def guards)
  next
    case False
    then show ?thesis using be
      by (auto simp: Let_def sba_out_def rejected_def sb_error_def sb_response_def guards)
  qed
qed

text \<open>A word write to an odd address, and a double word on a 32-bit bus, are refused with errors 3 and 4;
  an aligned byte write enables its lane.\<close>

theorem sba_rejects_witness:
  "sb_error_o (sba_out 32 True (sb_ctl_word 0x1001 2 9) (sb_bus_word 0) Sb_Write) = 3 \<and>
   sb_error_o (sba_out 32 True (sb_ctl_word 0x1000 3 9) (sb_bus_word 0) Sb_Write) = 4 \<and>
   master_be_o (sba_out 32 True (sb_ctl_word 0x1003 0 9) (sb_bus_word 0) Sb_Write) = 8"
  using sba_rejects [of 32 True "sb_ctl_word 0x1001 2 9" "sb_bus_word 0" Sb_Write]
    sba_rejects [of 32 True "sb_ctl_word 0x1000 3 9" "sb_bus_word 0" Sb_Write]
    sba_rejects [of 32 True "sb_ctl_word 0x1003 0 9" "sb_bus_word 0" Sb_Write]
  by (simp add: sb_example Let_def)

text \<open>The request is held until the grant, and one grant makes one access. While the module
  requests and is not granted it stays in its state, so that with the same control inputs it drives
  the same address, direction, byte enables and data; once granted it does not request again before
  the response, and only the response, with auto-increment enabled, advances the address, by the
  size of the access.\<close>

theorem sba_handshake:
  "(master_req_o (sba_out w r c b s) \<longrightarrow> sba_state_d w c b s =
      (if master_gnt_i b then (if s = Sb_Read then Sb_WaitRead else Sb_WaitWrite) else s)) \<and>
   (s \<in> {Sb_WaitRead, Sb_WaitWrite} \<longrightarrow> \<not> master_req_o (sba_out w r c b s) \<and>
      sba_state_d w c b s = (if rejected w c s \<or> master_r_valid_i b then Sb_Idle else s)) \<and>
   sb_address_o (sba_out w r c b s) = take_bit w (sbaddress_i c +
      (if s \<in> {Sb_WaitRead, Sb_WaitWrite} \<and> master_r_valid_i b \<and> sbautoincrement_i c
       then 2 ^ unat (sbaccess_i c) else 0))"
  by (auto simp: sba_out_def sba_state_d_def sba_case_def sb_response_def push_bit_eq_mult)

theorem sba_handshake_witness:
  "sba_state_d 32 (sb_ctl_word 0x1000 2 9) ((sb_bus_word 0)\<lparr>master_gnt_i := True\<rparr>) Sb_Write = Sb_WaitWrite \<and>
   sb_address_o (sba_out 32 True (sb_ctl_word 0x1000 2 9) (sb_bus_word 0) Sb_WaitWrite) = 0x1004"
  using sba_handshake [of 32 True "sb_ctl_word 0x1000 2 9" "(sb_bus_word 0)\<lparr>master_gnt_i := True\<rparr>" Sb_Write]
    sba_handshake [of 32 True "sb_ctl_word 0x1000 2 9" "sb_bus_word 0" Sb_WaitWrite]
  by (simp add: sb_example mask_numeral sba_out_def rejected_def)

end
