(* ===== verification/Dm_Top.thy ===== *)
theory Dm_Top
  imports Abstract_Command Dm_Sba Held
begin

text \<open>
  The debug module as a whole, \<open>src/dm_top.sv\<close>: the CSRs, the system bus access module and the debug
  memory with their wiring. The modules exchange combinational signals in both directions, but none of
  those depends on itself: the strobes of the CSRs (\<open>clear_resumeack\<close> and the three bus strobes) enter
  only next states of the other modules. So the inputs are first formed without the strobes, and the
  strobes are added once they are computed; the lemmas of the first section show that this changes no
  signal already used.
\<close>

section \<open>Wiring\<close>

record top_in =
  top_next_dm :: u32
  top_dmi_valid :: bool
  top_resp_full :: bool
  top_dmi_req :: dmi_req_t
  top_ndmreset_ack :: bool
  top_unavailable :: "nat \<Rightarrow> bool"
  top_hartinfo :: "nat \<Rightarrow> u32"
  slave_req_i :: bool
  slave_we_i :: bool
  slave_addr_i :: u64
  slave_be_i :: u8
  slave_wdata_i :: u64
  top_master :: sb_bus

record dm_top =
  top_csrs :: csrs
  top_mem :: dm_mem
  top_sba :: sba_state_e

definition top_reset :: dm_top where
  "top_reset = \<lparr>top_csrs = csrs_reset, top_mem = mem_reset, top_sba = Sb_Idle\<rparr>"

definition mem_port :: "dm_cfg \<Rightarrow> bool \<Rightarrow> top_in \<Rightarrow> csrs \<Rightarrow> mem_in" where
  "mem_port g clear i s = \<lparr>ndmreset_i = ndmreset (dmcontrol_q s), hartsel_i = hartsel_o s,
     haltreq_i = haltreq_o g s, resumereq_i = resumereq_o g s, clear_resumeack_i = clear,
     progbuf_i = progbuf_q s, mem_data_i = data_q s, cmd_valid_i = cmd_valid_q s, cmd_i = command_q s,
     req_i = slave_req_i i, we_i = slave_we_i i, addr_i = slave_addr_i i, wdata_i = slave_wdata_i i,
     be_i = slave_be_i i\<rparr>"

definition sba_port :: "dm_cfg \<Rightarrow> bool \<Rightarrow> bool \<Rightarrow> bool \<Rightarrow> csrs \<Rightarrow> sb_ctl" where
  "sba_port g aw dr dw s = \<lparr>sbaddress_i = take_bit (BusWidth g) (sbaddr_q s), sbaddress_write_valid_i = aw,
     sbreadonaddr_i = sbreadonaddr (sbcs_q s), sbautoincrement_i = sbautoincrement (sbcs_q s),
     sbaccess_i = sbaccess (sbcs_q s), sbreadondata_i = sbreadondata (sbcs_q s),
     sbdata_i = take_bit (BusWidth g) (sbdata_q s), sbdata_read_valid_i = dr, sbdata_write_valid_i = dw\<rparr>"

definition top_sb_out :: "dm_cfg \<Rightarrow> top_in \<Rightarrow> dm_top \<Rightarrow> sb_out" where
  "top_sb_out g i t = sba_out (BusWidth g) (ReadByteEnable g) (sba_port g False False False (top_csrs t))
     (top_master i) (top_sba t)"

definition csr_port :: "dm_cfg \<Rightarrow> top_in \<Rightarrow> dm_top \<Rightarrow> csr_in" where
  "csr_port g i t = (let m = mem_port g False i (top_csrs t); c = hart_ctrl g m (top_mem t);
     o1 = top_sb_out g i t in
   \<lparr>next_dm_addr_i = top_next_dm i, dmi_req_valid_i = top_dmi_valid i, resp_queue_full = top_resp_full i,
     dmi_req_i = top_dmi_req i, ndmreset_ack_i = top_ndmreset_ack i, hartinfo_i = top_hartinfo i,
     halted_i = halted_q (top_mem t), unavailable_i = top_unavailable i, resumeack_i = resuming_q (top_mem t),
     cmderror_valid_i = cmderror_valid_o c, cmderror_i = cmderror_o c, cmdbusy_i = cmdbusy_o c,
     data_i = data_bits g m, data_valid_i = data_valid_o m,
     sba_address_i = sb_address_o o1, sba_data_i = sb_data_o o1, sba_data_valid_i = sb_data_valid_o o1,
     sbbusy_i = sb_busy_o o1, sberror_valid_i = sb_error_valid_o o1, sberror_i = sb_error_o o1\<rparr>)"

definition top_comb :: "dm_cfg \<Rightarrow> top_in \<Rightarrow> dm_top \<Rightarrow> comb" where
  "top_comb g i t = csr_comb g (csr_port g i t) (top_csrs t)"

definition top_mem_in :: "dm_cfg \<Rightarrow> top_in \<Rightarrow> dm_top \<Rightarrow> mem_in" where
  "top_mem_in g i t = mem_port g (clear_resumeack_o (top_comb g i t)) i (top_csrs t)"

definition top_sba_in :: "dm_cfg \<Rightarrow> top_in \<Rightarrow> dm_top \<Rightarrow> sb_ctl" where
  "top_sba_in g i t = (let c = top_comb g i t in
     sba_port g (sbaddress_write_valid_o c) (sbdata_read_valid_o c) (sbdata_write_valid_o c) (top_csrs t))"

definition top_clk :: "dm_cfg \<Rightarrow> top_in \<Rightarrow> dm_top \<Rightarrow> dm_top" where
  "top_clk g i t = \<lparr>top_csrs = csrs_clk g (csr_port g i t) (top_csrs t),
     top_mem = mem_clk g (top_mem_in g i t) (top_mem t),
     top_sba = sba_state_d (BusWidth g) (top_sba_in g i t) (top_master i) (top_sba t)\<rparr>"

text \<open>The strobes change no signal that was used to compute them.\<close>

lemma mem_strobe:
  "hart_ctrl g (m\<lparr>clear_resumeack_i := b\<rparr>) t = hart_ctrl g m t"
  "data_bits g (m\<lparr>clear_resumeack_i := b\<rparr>) = data_bits g m"
  "data_valid_o (m\<lparr>clear_resumeack_i := b\<rparr>) = data_valid_o m"
  "rdata_d g (m\<lparr>clear_resumeack_i := b\<rparr>) t = rdata_d g m t"
proof -
  have p: "mem_hartsel g (m\<lparr>clear_resumeack_i := b\<rparr>) = mem_hartsel g m"
    "wdata_hartsel g (m\<lparr>clear_resumeack_i := b\<rparr>) = wdata_hartsel g m"
    "mem_write (m\<lparr>clear_resumeack_i := b\<rparr>) = mem_write m" "daddr (m\<lparr>clear_resumeack_i := b\<rparr>) = daddr m"
    "unsupported_command g (m\<lparr>clear_resumeack_i := b\<rparr>) = unsupported_command g m"
    "dword_idx (m\<lparr>clear_resumeack_i := b\<rparr>) = dword_idx m" "data_reg_idx (m\<lparr>clear_resumeack_i := b\<rparr>) = data_reg_idx m"
    "abstract_cmd g (m\<lparr>clear_resumeack_i := b\<rparr>) = abstract_cmd g m"
    and w: "wdata_i (m\<lparr>clear_resumeack_i := b\<rparr>) = wdata_i m"
    by (simp_all add: mem_hartsel_def wdata_hartsel_def mem_write_def daddr_def unsupported_command_def
        dword_idx_def data_reg_idx_def abstract_cmd_def fun_eq_iff)
  show h: "hart_ctrl g (m\<lparr>clear_resumeack_i := b\<rparr>) t = hart_ctrl g m t"
    by (cases "mem_state_q t") (simp_all add: hart_ctrl_def ctrl_case_def idle_case_def mem_exception_def going_def
        halted_aligned_def p Let_def)
  show v: "data_valid_o (m\<lparr>clear_resumeack_i := b\<rparr>) = data_valid_o m" by (simp add: data_valid_o_def p)
  show "data_bits g (m\<lparr>clear_resumeack_i := b\<rparr>) = data_bits g m" unfolding data_bits_def v p w by simp
  have q: "where_to g (m\<lparr>clear_resumeack_i := b\<rparr>) t = where_to g m t"
    "data_word (m\<lparr>clear_resumeack_i := b\<rparr>) = data_word m" "progbuf_word (m\<lparr>clear_resumeack_i := b\<rparr>) = progbuf_word m"
    "flags_word g (m\<lparr>clear_resumeack_i := b\<rparr>) = flags_word g m"
    by (simp_all add: where_to_def h p data_word_def progbuf_word_def flags_word_def fun_eq_iff cong: if_cong)
  show "rdata_d g (m\<lparr>clear_resumeack_i := b\<rparr>) t = rdata_d g m t"
    unfolding rdata_d_def h p q by simp
qed

lemma mem_port_strobe: "mem_port g b i s = (mem_port g False i s)\<lparr>clear_resumeack_i := b\<rparr>"
  by (simp add: mem_port_def)

lemma sba_strobes:
  "sba_out w r (sba_port g aw dr dw s) bus st = sba_out w r (sba_port g False False False s) bus st"
proof -
  have "be_idx w (sba_port g aw dr dw s) = be_idx w (sba_port g False False False s)"
    "sbaccess_mask w (sba_port g aw dr dw s) = sbaccess_mask w (sba_port g False False False s)"
    by (simp_all add: be_idx_def sbaccess_mask_def sba_port_def)
  then have "be_mask w (sba_port g aw dr dw s) = be_mask w (sba_port g False False False s)"
    "be_idx_masked w (sba_port g aw dr dw s) = be_idx_masked w (sba_port g False False False s)"
    "misaligned w (sba_port g aw dr dw s) = misaligned w (sba_port g False False False s)"
    "unsupported_size w (sba_port g aw dr dw s) = unsupported_size w (sba_port g False False False s)"
    by (simp_all add: be_mask_def be_idx_masked_def misaligned_def unsupported_size_def sba_port_def Let_def)
  then show ?thesis by (simp add: sba_out_def rejected_def sb_error_def sba_port_def Let_def)
qed


lemma top_ctrl [simp]:
  "hart_ctrl g (top_mem_in g i t) = hart_ctrl g (mem_port g False i (top_csrs t))"
  "data_bits g (top_mem_in g i t) = data_bits g (mem_port g False i (top_csrs t))"
  "data_valid_o (top_mem_in g i t) = data_valid_o (mem_port g False i (top_csrs t))"
  by (simp_all add: top_mem_in_def fun_eq_iff mem_port_strobe [of g "clear_resumeack_o (top_comb g i t)"] mem_strobe)

lemma csr_port_simps [simp]:
  "cmdbusy_i (csr_port g i t) \<longleftrightarrow> mem_state_q (top_mem t) \<noteq> Mem_Idle"
  "data_i (csr_port g i t) = data_bits g (mem_port g False i (top_csrs t))"
  "data_valid_i (csr_port g i t) = data_valid_o (mem_port g False i (top_csrs t))"
  "dmi_req_i (csr_port g i t) = top_dmi_req i" "dmi_req_valid_i (csr_port g i t) = top_dmi_valid i"
  "resp_queue_full (csr_port g i t) = top_resp_full i"
  "sbbusy_i (csr_port g i t) \<longleftrightarrow> top_sba t \<noteq> Sb_Idle"
  "sba_data_valid_i (csr_port g i t) = master_r_valid_i (top_master i)"
  "sba_address_i (csr_port g i t) = sb_address_o (top_sb_out g i t)"
  "halted_i (csr_port g i t) = halted_q (top_mem t)" "resumeack_i (csr_port g i t) = resuming_q (top_mem t)"
  by (simp_all add: csr_port_def Let_def busy_iff) (simp_all add: top_sb_out_def sba_out_def)

section \<open>The program of a command\<close>

lemma csr_write_busy:
  "cmdbusy_i i \<Longrightarrow> command_q (nxt (csr_write g i s c)) = command_q (nxt c)"
  by (cases "is_data i"; cases "is_progbuf i"; simp add: handler_defs)

lemma busy_frame:
  assumes "cmdbusy_i i" and "dmactive (dmcontrol_q s)"
  shows "command_q (csrs_clk g i s) = command_q s" and "progbuf_q (csrs_clk g i s) = progbuf_q s"
  using assms by (simp_all add: csrs_clk_def csr_comb_def Let_def csr_update_frame csr_read_frame csr_write_frame
      csr_write_busy) (simp_all add: csr_default_def)

text \<open>The program of a command is what the harts fetch from the module: the slots and the program buffer.\<close>

definition top_busy :: "dm_top \<Rightarrow> bool" where
  "top_busy t \<longleftrightarrow> mem_state_q (top_mem t) \<noteq> Mem_Idle \<and> dmactive (dmcontrol_q (top_csrs t))"

definition stays_busy :: "dm_cfg \<Rightarrow> top_in \<Rightarrow> dm_top \<Rightarrow> bool" where
  "stays_busy g i t \<longleftrightarrow> top_busy (top_clk g i t)"

definition top_program :: "dm_top \<Rightarrow> command_t \<times> (nat \<Rightarrow> u32)" where
  "top_program t = (command_q (top_csrs t), progbuf_q (top_csrs t))"

definition hart_fetch :: "dm_cfg \<Rightarrow> top_in \<Rightarrow> dm_top \<Rightarrow> u32" where
  "hart_fetch g i t = read32 g (top_mem_in g i t) (top_mem t)"

definition hart_loads :: "top_in \<Rightarrow> 12 word \<Rightarrow> bool" where
  "hart_loads i a \<longleftrightarrow> slave_req_i i \<and> \<not> slave_we_i i \<and> ucast (slave_addr_i i) = a"

lemma top_mem_in_simps [simp]:
  "mem_read (top_mem_in g i t) a \<longleftrightarrow> hart_loads i a"
  "cmd_i (top_mem_in g i t) = command_q (top_csrs t)" "progbuf_i (top_mem_in g i t) = progbuf_q (top_csrs t)"
  "mem_data_i (top_mem_in g i t) = data_q (top_csrs t)" "cmd_valid_i (top_mem_in g i t) = cmd_valid_q (top_csrs t)"
  by (simp_all add: top_mem_in_def mem_port_def mem_read_def hart_loads_def daddr_def)

interpretation program: held "top_clk g" "stays_busy g" top_busy top_program for g
proof
  show "top_busy t \<Longrightarrow> stays_busy g i t \<Longrightarrow> top_busy (top_clk g i t)" for t i by (simp add: stays_busy_def)
  show "top_busy t \<Longrightarrow> stays_busy g i t \<Longrightarrow> top_program (top_clk g i t) = top_program t" for t i
    by (simp add: top_program_def top_busy_def top_clk_def busy_frame)
qed

lemma held_fetch:
  assumes "top_busy t" and "runs_ok (top_clk g) (stays_busy g) is t"
  shows "hart_loads i (AbstractCmdBaseAddr + 4 * of_nat k) \<Longrightarrow> k < 10 \<Longrightarrow>
      hart_fetch g i (runs (top_clk g) is t) = fst (abstract_prog g (command_q (top_csrs t))) ! k"
    and "hart_loads i (ProgBufBaseAddr + 4 * of_nat k) \<Longrightarrow> k < 8 \<Longrightarrow>
      hart_fetch g i (runs (top_clk g) is t) = progbuf_q (top_csrs t) k"
proof -
  have "top_program (runs (top_clk g) is t) = top_program t" using program.held_run assms by blast
  then show "hart_loads i (AbstractCmdBaseAddr + 4 * of_nat k) \<Longrightarrow> k < 10 \<Longrightarrow>
      hart_fetch g i (runs (top_clk g) is t) = fst (abstract_prog g (command_q (top_csrs t))) ! k"
    "hart_loads i (ProgBufBaseAddr + 4 * of_nat k) \<Longrightarrow> k < 8 \<Longrightarrow>
      hart_fetch g i (runs (top_clk g) is t) = progbuf_q (top_csrs t) k"
    by (simp_all add: hart_fetch_def top_program_def fetch_command fetch_progbuf)
qed

text \<open>C8: a command runs as it was accepted. From the moment the module is busy until it is idle again, or
  until the debugger deactivates it, no sequence of requests changes the program: whatever the
  debugger and the harts do in between, every fetch of a hart returns the slot of the command that was
  stored when the module became busy, and the program buffer of that moment.\<close>

theorem program_held_while_busy:
  assumes "top_busy t" and "runs_ok (top_clk g) (stays_busy g) is t"
    and "hart_loads i a"
  shows "let t' = runs (top_clk g) is t in
    (k < 10 \<and> a = AbstractCmdBaseAddr + 4 * of_nat k \<longrightarrow>
      hart_fetch g i t' = fst (abstract_prog g (command_q (top_csrs t))) ! k) \<and>
    (k < 8 \<and> a = ProgBufBaseAddr + 4 * of_nat k \<longrightarrow> hart_fetch g i t' = progbuf_q (top_csrs t) k)"
  using held_fetch [OF assms(1,2)] assms(3) by (auto simp: Let_def)

section \<open>The data registers\<close>

definition top_dmi :: "dm_cfg \<Rightarrow> top_in \<Rightarrow> dm_top \<Rightarrow> 2 word \<Rightarrow> 8 word \<Rightarrow> bool" where
  "top_dmi g i t p a \<longleftrightarrow> request (csr_port g i t) p \<and> dm_csr_addr (csr_port g i t) = a"

definition data_untouched :: "dm_cfg \<Rightarrow> top_in \<Rightarrow> dm_top \<Rightarrow> bool" where
  "data_untouched g i t \<longleftrightarrow> dmactive (dmcontrol_q (top_csrs (top_clk g i t))) \<and>
     \<not> data_valid_o (top_mem_in g i t) \<and>
     \<not> (top_dmi g i t DTM_WRITE Data0 \<or> top_dmi g i t DTM_WRITE (Data0 + 1))"

definition top_active :: "dm_top \<Rightarrow> bool" where
  "top_active t \<longleftrightarrow> dmactive (dmcontrol_q (top_csrs t))"

lemma data_frame:
  assumes "dmactive (dmcontrol_q s)"
  shows "data_q (csrs_clk g i s) = (if data_valid_i i then data_i i
    else if request i DTM_WRITE \<and> is_data i \<and> \<not> cmdbusy_i i then (data_q s)(data_idx i := wdata i) else data_q s)"
  using assms read_not_write [of i]
  by (auto simp: csrs_clk_def csr_comb_def Let_def csr_update_frame csr_read_frame csr_write_frame data_idx_write)
    (simp_all add: csr_default_def)

interpretation mailbox: held "top_clk g" "data_untouched g" top_active "\<lambda>t. data_q (top_csrs t)" for g
proof
  show "top_active t \<Longrightarrow> data_untouched g i t \<Longrightarrow> top_active (top_clk g i t)" for t i
    by (simp add: top_active_def data_untouched_def)
  show "top_active t \<Longrightarrow> data_untouched g i t \<Longrightarrow> data_q (top_csrs (top_clk g i t)) = data_q (top_csrs t)" for t i
    using data_addr_cases [of "csr_port g i t"]
    by (auto simp: top_active_def data_untouched_def top_clk_def data_frame top_dmi_def dm_addresses)
qed

lemma word_of_bytes:
  assumes "\<And>l. l < 4 \<Longrightarrow> (fld (8 * l + 7) (8 * l) (v :: u32) :: u8) = fld (8 * l + 7) (8 * l) (w :: u64)"
  shows "v = fld 31 0 w"
proof (rule bit_word_eqI)
  fix n
  assume "n < LENGTH(32)"
  then have n: "n div 8 < 4" "8 * (n div 8) + n mod 8 = n" "n mod 8 < 8" "n < 32" by auto
  have "bit (fld (8 * (n div 8) + 7) (8 * (n div 8)) v :: u8) (n mod 8) = bit v n"
    "bit (fld (8 * (n div 8) + 7) (8 * (n div 8)) w :: u8) (n mod 8) = bit w n"
    using n by (simp_all add: bit_fld)
  then show "bit v n = bit (fld 31 0 w :: u32) n" using assms [OF n(1)] n by (simp add: bit_fld)
qed

text \<open>A 32-bit store of a hart on the lowest four lanes, at data register \<open>k\<close>: on a 32-bit bus every store
  is on these lanes, on a 64-bit bus those at the double-word address. The others of a 64-bit bus are on
  the upper four lanes.\<close>

definition hart_stores :: "dm_cfg \<Rightarrow> top_in \<Rightarrow> nat \<Rightarrow> bool" where
  "hart_stores g i k \<longleftrightarrow> slave_req_i i \<and> slave_we_i i \<and> ucast (slave_addr_i i) = (DataAddr + 4 * of_nat k :: 12 word) \<and>
     k < 2 \<and> (BusWidth g = 64 \<longrightarrow> k = 0) \<and> mem_bus_ok g \<and> take_bit 4 (slave_be_i i) = mask 4"

definition hart_stores_upper :: "dm_cfg \<Rightarrow> top_in \<Rightarrow> 12 word \<Rightarrow> bool" where
  "hart_stores_upper g i a \<longleftrightarrow> slave_req_i i \<and> slave_we_i i \<and> ucast (slave_addr_i i) = a \<and>
     BusWidth g = 64 \<and> slave_be_i i = push_bit 4 (mask 4)"

lemma upper_lanes: "bit (push_bit 4 (mask 4) :: u8) l \<longleftrightarrow> 4 \<le> l \<and> l < 8"
  by (auto simp: bit_simps)

text \<open>With the address of the double word the upper lanes reach the second data register; with the address
  of that register itself they reach nothing, and the store is lost.\<close>

lemma hart_store_upper:
  assumes "hart_stores_upper g i DataAddr"
  shows "data_bits g (mem_port g False i s) 1 = fld 63 32 (slave_wdata_i i)" and "data_valid_o (mem_port g False i s)"
proof -
  let ?m = "mem_port g False i s" and ?w = "slave_wdata_i i"
  have m: "req_i ?m" "we_i ?m" "daddr ?m = DataAddr + 4 * of_nat 0" "be_i ?m = push_bit 4 (mask 4)" "wdata_i ?m = ?w"
    and k: "mem_bus_ok g" "(0 :: nat) < 2" "BusWidth g = 64 \<longrightarrow> (0 :: nat) = 0" "BusWidth g = 64"
    using assms by (simp_all add: hart_stores_upper_def mem_port_def daddr_def mem_bus_ok_def)
  show "data_valid_o ?m" by (rule store_valid [OF k(1) m(1-3) k(2,3)])
  have "data_bits g ?m 1 = fld 31 0 (drop_bit 32 ?w)"
  proof (rule word_of_bytes)
    fix l :: nat
    assume l: "l < 4"
    have "(fld (8 * l + 7) (8 * l) (drop_bit 32 ?w) :: u8) = fld (8 * (4 + l) + 7) (8 * (4 + l)) ?w"
      using l by (intro bit_word_eqI) (auto simp: bit_fld bit_drop_bit_eq algebra_simps)
    moreover have "(4 + l) div 4 = 1" "(4 + l) mod 4 = l" using l by auto
    ultimately show "(fld (8 * l + 7) (8 * l) (data_bits g ?m 1) :: u8) = fld (8 * l + 7) (8 * l) (drop_bit 32 ?w)"
      using store_bytes [OF k(1) m(1-3) k(2,3), of "4 + l"] l k(4) m by (simp add: data_byte_def upper_lanes)
  qed
  also have "\<dots> = fld 63 32 ?w" by (rule bit_word_eqI) (auto simp: bit_fld bit_drop_bit_eq add.commute)
  finally show "data_bits g ?m 1 = fld 63 32 ?w" .
qed

lemma hart_store_lost:
  assumes "hart_stores_upper g i (DataAddr + 4)"
  shows "data_bits g (mem_port g False i s) = data_q s" and "data_valid_o (mem_port g False i s)"
proof -
  let ?m = "mem_port g False i s"
  have m: "req_i ?m" "we_i ?m" "daddr ?m = DataAddr + 4" "be_i ?m = push_bit 4 (mask 4)" "mem_data_i ?m = data_q s"
    using assms by (simp_all add: hart_stores_upper_def mem_port_def daddr_def)
  then show v: "data_valid_o ?m" by (auto simp: data_valid_o_def map_addresses)
  have r: "data_reg_idx ?m = 1"
    unfolding data_reg_idx_def addr_fields m(3) by (simp add: map_addresses fld_def)
  have "foldl (\<lambda>d b. let k = 1 + b div 4 in if bit (push_bit 4 (mask 4) :: u8) b \<and> k < DataCount
      then d(k := set_byte (b mod 4) (f b) (d k)) else d) d [0..<n] = d" for d f n
    by (induction n) (auto simp: Let_def upper_lanes dm_constants div_eq_0_iff)
  then show "data_bits g ?m = data_q s" using v by (simp add: data_bits_def r m)
qed

lemma hart_store_word:
  assumes "hart_stores g i k"
  shows "data_bits g (mem_port g False i s) k = fld 31 0 (slave_wdata_i i)" and "data_valid_o (mem_port g False i s)"
proof -
  let ?m = "mem_port g False i s"
  have m: "req_i ?m" "we_i ?m" "daddr ?m = DataAddr + 4 * of_nat k" "be_i ?m = slave_be_i i" "wdata_i ?m = slave_wdata_i i"
    and k: "k < 2" "BusWidth g = 64 \<longrightarrow> k = 0" "mem_bus_ok g" "BusWidth g = 32 \<or> BusWidth g = 64"
    using assms by (simp_all add: hart_stores_def mem_port_def daddr_def mem_bus_ok_def)
  have be: "bit (slave_be_i i) l" if "l < 4" for l
  proof -
    have "take_bit 4 (slave_be_i i) = mask 4" using assms by (simp add: hart_stores_def)
    from arg_cong [OF this, of "\<lambda>w. bit w l"] show ?thesis using that by (simp add: bit_take_bit_iff bit_mask_iff)
  qed
  note st = store_bytes [OF k(3) m(1-3) k(1,2)]
  show "data_valid_o ?m" by (rule store_valid [OF k(3) m(1-3) k(1,2)])
  show "data_bits g ?m k = fld 31 0 (slave_wdata_i i)"
  proof (rule word_of_bytes)
    fix l :: nat
    assume l: "l < 4"
    have "l < BusWidth g div 8" using l k(4) by auto
    then show "(fld (8 * l + 7) (8 * l) (data_bits g ?m k) :: u8) = fld (8 * l + 7) (8 * l) (slave_wdata_i i)"
      using st [of "4 * k + l"] be [OF l] l k(1) m by (simp add: data_byte_def)
  qed
qed

lemma data_number: "is_data j \<Longrightarrow> data_idx j = (if dm_csr_addr j = Data0 then 0 else 1)"
  using data_addr_cases [of j] by (auto simp: data_idx_def autoexecdata_idx_def dm_addresses)

lemma data_access:
  assumes "top_dmi g i t p (Data0 + of_nat k)" and "k < 2"
  shows "request (csr_port g i t) p" "is_data (csr_port g i t)" "data_idx (csr_port g i t) = k"
proof -
  have k: "k = 0 \<or> k = 1" using assms(2) by auto
  show "request (csr_port g i t) p" using assms(1) by (simp add: top_dmi_def)
  show d: "is_data (csr_port g i t)" using assms(1) k
    by (auto simp: top_dmi_def is_data_def DataEnd_def dm_addresses dm_constants)
  show "data_idx (csr_port g i t) = k" using assms(1) k
    by (auto simp: data_number [OF d] top_dmi_def dm_addresses)
qed

lemma mailbox_kept:
  assumes "top_active (top_clk g i t)" and "runs_ok (top_clk g) (data_untouched g) is (top_clk g i t)"
  shows "data_q (top_csrs (runs (top_clk g) is (top_clk g i t))) = data_q (csrs_clk g (csr_port g i t) (top_csrs t))"
  using mailbox.held_run [OF assms] by (simp add: top_clk_def)

lemma host_to_hart:
  assumes "top_active t" and "top_active (top_clk g i t)" and "k < 2"
    and "runs_ok (top_clk g) (data_untouched g) is (top_clk g i t)"
    and "top_dmi g i t DTM_WRITE (Data0 + of_nat k)" and "\<not> cmdbusy_i (csr_port g i t)"
    and "\<not> data_valid_i (csr_port g i t)" and "hart_loads j (DataAddr + 4 * of_nat k)"
  shows "hart_fetch g j (runs (top_clk g) is (top_clk g i t)) = dmi_data (top_dmi_req i)"
proof -
  let ?r = "runs (top_clk g) is (top_clk g i t)"
  have a: "dmactive (dmcontrol_q (top_csrs t))" using assms(1) by (simp add: top_active_def)
  show ?thesis
    using assms(3,6-8) data_access [OF assms(5,3)] load_data [of "top_mem_in g j ?r" k g "top_mem ?r"]
    by (simp add: hart_fetch_def mailbox_kept [OF assms(2,4)] data_frame [OF a] wdata_def)
qed

lemma hart_to_host:
  assumes "top_active t" and "top_active (top_clk g i t)"
    and "runs_ok (top_clk g) (data_untouched g) is (top_clk g i t)"
    and "hart_stores g i k" and "top_dmi g j (runs (top_clk g) is (top_clk g i t)) DTM_READ (Data0 + of_nat k)"
  shows "resp_data (resp_queue_inp (top_comb g j (runs (top_clk g) is (top_clk g i t)))) = fld 31 0 (slave_wdata_i i)"
proof -
  have a: "dmactive (dmcontrol_q (top_csrs t))" and k: "k < 2"
    using assms(1,4) by (simp_all add: top_active_def hart_stores_def)
  show ?thesis
    using data_access [OF assms(5) k] hart_store_word [OF assms(4)]
    by (simp add: top_comb_def read_comb csr_update_frame csr_read_storage mailbox_kept [OF assms(2,3)] data_frame [OF a])
qed

lemma upper_to_host:
  assumes "top_active t" and "top_active (top_clk g i t)"
    and "runs_ok (top_clk g) (data_untouched g) is (top_clk g i t)"
  shows "hart_stores_upper g i DataAddr \<Longrightarrow> top_dmi g j (runs (top_clk g) is (top_clk g i t)) DTM_READ (Data0 + 1) \<Longrightarrow>
      resp_data (resp_queue_inp (top_comb g j (runs (top_clk g) is (top_clk g i t)))) = fld 63 32 (slave_wdata_i i)"
    and "hart_stores_upper g i (DataAddr + 4) \<Longrightarrow>
      data_q (top_csrs (runs (top_clk g) is (top_clk g i t))) = data_q (top_csrs t)"
proof -
  have a: "dmactive (dmcontrol_q (top_csrs t))" using assms(1) by (simp add: top_active_def)
  show "resp_data (resp_queue_inp (top_comb g j (runs (top_clk g) is (top_clk g i t)))) = fld 63 32 (slave_wdata_i i)"
    if "hart_stores_upper g i DataAddr" "top_dmi g j (runs (top_clk g) is (top_clk g i t)) DTM_READ (Data0 + 1)"
    using data_access [of g j _ DTM_READ 1] that(2) hart_store_upper [OF that(1)]
    by (simp add: top_comb_def read_comb csr_update_frame csr_read_storage mailbox_kept [OF assms(2,3)] data_frame [OF a])
  show "data_q (top_csrs (runs (top_clk g) is (top_clk g i t))) = data_q (top_csrs t)"
    if "hart_stores_upper g i (DataAddr + 4)"
    using hart_store_lost [OF that] by (simp add: mailbox_kept [OF assms(2,3)] data_frame [OF a])
qed

text \<open>C9: the data registers are the mailbox between the debugger and the harts, but for one kind of store.
  A word that the debugger writes to data register \<open>k\<close> while no command runs is the word a hart loads
  there, and a word that a hart stores there on the lowest lanes of the bus is the word the debugger reads
  back; so is, in \<open>data1\<close>, a word stored on the upper lanes of a 64-bit bus at the address of the double
  word. This holds after any number of cycles in which neither of them writes a data register and the
  module stays active. The exception is a store on the upper lanes of a 64-bit bus at the address of
  \<open>data1\<close> itself, the way a 64-bit hart stores a word there: it is lost, and both data registers keep
  their values.\<close>

theorem data_mailbox:
  assumes "top_active t" and "top_active (top_clk g i t)" and "k < 2"
    and "runs_ok (top_clk g) (data_untouched g) is (top_clk g i t)"
  shows "let t' = runs (top_clk g) is (top_clk g i t) in
    (top_dmi g i t DTM_WRITE (Data0 + of_nat k) \<and> \<not> cmdbusy_i (csr_port g i t) \<and>
       \<not> data_valid_i (csr_port g i t) \<and> hart_loads j (DataAddr + 4 * of_nat k) \<longrightarrow>
       hart_fetch g j t' = dmi_data (top_dmi_req i)) \<and>
    (hart_stores g i k \<and> top_dmi g j t' DTM_READ (Data0 + of_nat k) \<longrightarrow>
       resp_data (resp_queue_inp (top_comb g j t')) = fld 31 0 (slave_wdata_i i)) \<and>
    (hart_stores_upper g i DataAddr \<and> top_dmi g j t' DTM_READ (Data0 + 1) \<longrightarrow>
       resp_data (resp_queue_inp (top_comb g j t')) = fld 63 32 (slave_wdata_i i)) \<and>
    (hart_stores_upper g i (DataAddr + 4) \<longrightarrow> data_q (top_csrs t') = data_q (top_csrs t))"
  using host_to_hart [OF assms] hart_to_host [OF assms(1,2,4)] upper_to_host [OF assms(1,2,4)] unfolding Let_def by blast

section \<open>Bus requests of the debugger\<close>

definition top_bus_out :: "dm_cfg \<Rightarrow> top_in \<Rightarrow> dm_top \<Rightarrow> sb_out" where
  "top_bus_out g i t = sba_out (BusWidth g) (ReadByteEnable g) (top_sba_in g i t) (top_master i) (top_sba t)"

definition sb_settings :: "sbcs_t \<Rightarrow> 3 word \<times> bool \<times> bool \<times> bool" where
  "sb_settings b = (sbaccess b, sbreadonaddr b, sbautoincrement b, sbreadondata b)"

lemma fix_sbcs_settings: "sb_settings (fix_sbcs g i b) = sb_settings b"
  by (simp add: sb_settings_def fix_sbcs_def)

lemma sb_busy_read:
  "sb_settings (sbcs_q (nxt (csr_read g i s c))) = sb_settings (sbcs_q (nxt c))"
  by (simp add: handler_defs sb_settings_def)

lemma sb_busy_write:
  assumes "sbbusy_i i"
  shows "sb_settings (sbcs_q (nxt (csr_write g i s c))) = sb_settings (sbcs_q (nxt c))"
    and "sbaddr_q (nxt (csr_write g i s c)) = sbaddr_q (nxt c)"
    and "sbdata_q (nxt (csr_write g i s c)) = sbdata_q (nxt c)"
  using assms by (simp_all add: handler_defs sb_settings_def sb_blocked_def)

lemma sb_busy_frame:
  assumes "sbbusy_i i" and "dmactive (dmcontrol_q s)"
  shows "sb_settings (sbcs_q (csrs_clk g i s)) = sb_settings (sbcs_q s)"
    and "sbaddr_q (csrs_clk g i s) = sba_address_i i"
    and "sbdata_q (csrs_clk g i s) = (if sba_data_valid_i i then sba_data_i i else sbdata_q s)"
proof -
  have n: "sbcs_q (nxt (Dm_Csrs.csr_update g i s c)) = fix_sbcs g i (sbcs_q (nxt c))"
    "sbdata_q (nxt (Dm_Csrs.csr_update g i s c)) = (if sba_data_valid_i i then sba_data_i i else sbdata_q (nxt c))" for c
    by (simp_all add: Dm_Csrs.csr_update_def Let_def)
  have d: "sbcs_q (nxt (csr_default i s)) = sbcs_q s" "sbaddr_q (nxt (csr_default i s)) = sba_address_i i"
    "sbdata_q (nxt (csr_default i s)) = sbdata_q s" by (simp_all add: csr_default_def)
  show "sb_settings (sbcs_q (csrs_clk g i s)) = sb_settings (sbcs_q s)"
    "sbaddr_q (csrs_clk g i s) = sba_address_i i"
    "sbdata_q (csrs_clk g i s) = (if sba_data_valid_i i then sba_data_i i else sbdata_q s)"
    using assms(2) by (simp_all add: csrs_clk_def csr_comb_def Let_def csr_update_frame csr_read_frame n d
        fix_sbcs_settings sb_busy_read sb_busy_write [OF assms(1)])
qed

text \<open>What the bus module drives depends on the registers only, through these parts.\<close>

definition bus_view :: "dm_cfg \<Rightarrow> dm_top \<Rightarrow> u64 \<times> u64 \<times> (3 word \<times> bool \<times> bool \<times> bool) \<times> sba_state_e" where
  "bus_view g t = (take_bit (BusWidth g) (sbaddr_q (top_csrs t)), take_bit (BusWidth g) (sbdata_q (top_csrs t)),
     sb_settings (sbcs_q (top_csrs t)), top_sba t)"

definition quiet_port :: "dm_cfg \<Rightarrow> dm_top \<Rightarrow> sb_ctl" where
  "quiet_port g t = sba_port g False False False (top_csrs t)"

lemma quiet_port_view: "bus_view g t' = bus_view g t \<Longrightarrow> quiet_port g t' = quiet_port g t \<and> top_sba t' = top_sba t"
  by (simp add: bus_view_def quiet_port_def sba_port_def sb_settings_def)

definition top_requests :: "dm_cfg \<Rightarrow> dm_top \<Rightarrow> bool" where
  "top_requests g t \<longleftrightarrow> top_active t \<and> (top_sba t = Sb_Read \<or> top_sba t = Sb_Write) \<and>
     \<not> rejected (BusWidth g) (quiet_port g t) (top_sba t)"

definition ungranted :: "dm_cfg \<Rightarrow> top_in \<Rightarrow> dm_top \<Rightarrow> bool" where
  "ungranted g i t \<longleftrightarrow> \<not> master_gnt_i (top_master i) \<and> \<not> master_r_valid_i (top_master i) \<and>
     top_active (top_clk g i t)"

lemma rejected_strobes:
  "rejected w (sba_port g aw dr dw s) st = rejected w (sba_port g False False False s) st"
  by (simp add: rejected_def unsupported_size_def misaligned_def sbaccess_mask_def sba_port_def)

lemma requests_cases:
  assumes "top_requests g t"
  obtains "top_sba t = Sb_Read" | "top_sba t = Sb_Write"
  using assms unfolding top_requests_def by blast

lemma request_step:
  assumes "top_requests g t" and "\<not> master_gnt_i (top_master i)" and "\<not> master_r_valid_i (top_master i)"
  shows "bus_view g (top_clk g i t) = bus_view g t"
proof -
  have busy: "sbbusy_i (csr_port g i t)" and a: "dmactive (dmcontrol_q (top_csrs t))"
    using assms(1) by (cases rule: requests_cases; simp)+ (use assms(1) in \<open>simp add: top_requests_def top_active_def\<close>)
  note u = assms(2,3)
  have "rejected (BusWidth g) (top_sba_in g i t) (top_sba t) = rejected (BusWidth g) (quiet_port g t) (top_sba t)"
    unfolding top_sba_in_def quiet_port_def Let_def by (rule rejected_strobes)
  then have r: "\<not> rejected (BusWidth g) (top_sba_in g i t) (top_sba t)" using assms(1) by (simp add: top_requests_def)
  have st: "top_sba (top_clk g i t) = top_sba t"
    using assms(1) r u by (cases rule: requests_cases) (simp_all add: top_clk_def sba_state_d_def sba_case_def)
  have "\<not> sb_response (top_master i) (top_sba t)" using u by (simp add: sb_response_def)
  then have "sb_address_o (top_sb_out g i t) = take_bit (BusWidth g) (sbaddr_q (top_csrs t))"
    by (simp add: top_sb_out_def sba_out_def sba_port_def)
  moreover have "top_csrs (top_clk g i t) = csrs_clk g (csr_port g i t) (top_csrs t)" by (simp add: top_clk_def)
  ultimately show ?thesis using st u by (simp add: bus_view_def sb_busy_frame [OF busy a, of g])
qed

lemma requests_view:
  assumes "bus_view g t' = bus_view g t" and "top_requests g t" and "top_active t'"
  shows "top_requests g t'"
  using assms(2,3) quiet_port_view [OF assms(1)] by (simp add: top_requests_def)

interpretation bus: held "top_clk g" "ungranted g" "top_requests g" "bus_view g" for g
  by unfold_locales (auto simp: request_step ungranted_def intro: requests_view)

lemma top_bus_out_quiet:
  "top_bus_out g i t = sba_out (BusWidth g) (ReadByteEnable g) (quiet_port g t) (top_master i) (top_sba t)"
  unfolding top_bus_out_def top_sba_in_def quiet_port_def Let_def by (rule sba_strobes)

text \<open>The start of a bus write: the debugger writes \<open>sbdata0\<close>.\<close>

definition starts_write :: "dm_cfg \<Rightarrow> top_in \<Rightarrow> dm_top \<Rightarrow> bool" where
  "starts_write g i t \<longleftrightarrow> top_dmi g i t DTM_WRITE SBData0 \<and> \<not> sb_blocked (csr_port g i t) (top_csrs t) \<and>
     sberror (sbcs_q (top_csrs t)) = 0 \<and> \<not> master_r_valid_i (top_master i)"

lemma sbdata0_write:
  assumes "dm_csr_addr i = SBData0" and "\<not> sb_blocked i s"
  shows "csr_write g i s c = (set_nxt (\<lambda>d. d\<lparr>sbdata_q := low_half (wdata i) (sbdata_q d)\<rparr>) c)
     \<lparr>sbdata_write_valid_o := sberror (sbcs_q s) = 0\<rparr>"
  using named_not_ranges [of i] assms by (simp add: csr_write_def Let_def dm_addresses)

lemma starts_write_comb:
  assumes "starts_write g i t"
  shows "top_comb g i t = Dm_Csrs.csr_update g (csr_port g i t) (top_csrs t)
    ((set_nxt (\<lambda>d. d\<lparr>sbdata_q := low_half (wdata (csr_port g i t)) (sbdata_q d)\<rparr>)
      (csr_default (csr_port g i t) (top_csrs t)))\<lparr>sbdata_write_valid_o := True\<rparr>)"
  using assms by (simp add: starts_write_def top_dmi_def top_comb_def write_comb sbdata0_write)

lemma starts_write_step:
  assumes "starts_write g i t" and "top_active t"
  shows "bus_view g (top_clk g i t) = (take_bit (BusWidth g) (sbaddr_q (top_csrs t)),
      take_bit (BusWidth g) (low_half (dmi_data (top_dmi_req i)) (sbdata_q (top_csrs t))),
      sb_settings (sbcs_q (top_csrs t)), Sb_Write)"
    and "top_active (top_clk g i t)"
proof -
  let ?p = "csr_port g i t"
  have idle: "top_sba t = Sb_Idle" and r: "\<not> master_r_valid_i (top_master i)"
    using assms(1) by (auto simp: starts_write_def sb_blocked_def)
  have "sba_address_i ?p = take_bit (BusWidth g) (sbaddr_q (top_csrs t))"
    by (simp add: top_sb_out_def sba_out_def sba_port_def sb_response_def idle)
  moreover have "sbdata_write_valid_i (top_sba_in g i t)" "\<not> sbdata_read_valid_i (top_sba_in g i t)"
    by (simp_all add: top_sba_in_def Let_def sba_port_def starts_write_comb [OF assms(1)] Dm_Csrs.csr_update_def
        csr_default_def set_nxt_def)
  then have "top_sba (top_clk g i t) = Sb_Write"
    by (simp add: top_clk_def sba_state_d_def rejected_def sba_case_def idle)
  moreover have "csr_comb g ?p (top_csrs t) = top_comb g i t" by (simp add: top_comb_def)
  ultimately show "bus_view g (top_clk g i t) = (take_bit (BusWidth g) (sbaddr_q (top_csrs t)),
      take_bit (BusWidth g) (low_half (dmi_data (top_dmi_req i)) (sbdata_q (top_csrs t))),
      sb_settings (sbcs_q (top_csrs t)), Sb_Write)"
    using assms(2) r
    by (simp add: bus_view_def top_clk_def csrs_clk_def Let_def top_active_def starts_write_comb [OF assms(1)]
        Dm_Csrs.csr_update_def csr_default_def set_nxt_def fix_sbcs_settings wdata_def)
  show "top_active (top_clk g i t)" using assms
    by (simp add: top_active_def top_clk_def csrs_clk_def Let_def dmactive_comb starts_write_def top_dmi_def dm_addresses)
qed

text \<open>The request and its outputs from the start of a write to its grant.\<close>

lemma bus_write_port:
  assumes "top_active t" and "starts_write g i t" and "bus_width_ok (BusWidth g)"
    and "\<not> misaligned (BusWidth g) (quiet_port g t)" and "\<not> unsupported_size (BusWidth g) (quiet_port g t)"
    and "runs_ok (top_clk g) (ungranted g) is (top_clk g i t)"
  shows "quiet_port g (runs (top_clk g) is (top_clk g i t)) = (quiet_port g t)\<lparr>sbdata_i :=
      take_bit (BusWidth g) (low_half (dmi_data (top_dmi_req i)) (sbdata_q (top_csrs t)))\<rparr>"
    and "top_sba (runs (top_clk g) is (top_clk g i t)) = Sb_Write"
    and "top_requests g (runs (top_clk g) is (top_clk g i t))"
    and "\<not> misaligned (BusWidth g) (quiet_port g (runs (top_clk g) is (top_clk g i t)))"
    and "\<not> unsupported_size (BusWidth g) (quiet_port g (runs (top_clk g) is (top_clk g i t)))"
proof -
  let ?t = "top_clk g i t" and ?w = "BusWidth g" and ?r = "runs (top_clk g) is (top_clk g i t)"
  note step = starts_write_step [OF assms(2,1)]
  have p: "quiet_port g ?t = (quiet_port g t)\<lparr>sbdata_i :=
      take_bit ?w (low_half (dmi_data (top_dmi_req i)) (sbdata_q (top_csrs t)))\<rparr>" and st: "top_sba ?t = Sb_Write"
    using step(1) by (simp_all add: bus_view_def quiet_port_def sba_port_def sb_settings_def)
  have same: "misaligned ?w (c\<lparr>sbdata_i := v\<rparr>) = misaligned ?w c"
    "unsupported_size ?w (c\<lparr>sbdata_i := v\<rparr>) = unsupported_size ?w c" for c v
    by (simp_all add: misaligned_def unsupported_size_def sbaccess_mask_def)
  have ok: "\<not> misaligned ?w (quiet_port g ?t)" "\<not> unsupported_size ?w (quiet_port g ?t)"
    using assms(4,5) by (simp_all add: p same)
  have req: "top_requests g ?t" using step(2) st ok by (simp add: top_requests_def rejected_def)
  then have view: "bus_view g ?r = bus_view g ?t" and "top_requests g ?r" using bus.held_run assms(6) by blast+
  then show "quiet_port g ?r = (quiet_port g t)\<lparr>sbdata_i :=
      take_bit ?w (low_half (dmi_data (top_dmi_req i)) (sbdata_q (top_csrs t)))\<rparr>" "top_sba ?r = Sb_Write"
    "top_requests g ?r" "\<not> misaligned ?w (quiet_port g ?r)" "\<not> unsupported_size ?w (quiet_port g ?r)"
    using quiet_port_view [OF view] st p ok by simp_all
qed

lemma bus_write_out:
  assumes "top_active t" and "starts_write g i t" and "bus_width_ok (BusWidth g)"
    and "\<not> misaligned (BusWidth g) (quiet_port g t)" and "\<not> unsupported_size (BusWidth g) (quiet_port g t)"
    and "runs_ok (top_clk g) (ungranted g) is (top_clk g i t)"
  shows "let o' = top_bus_out g j (runs (top_clk g) is (top_clk g i t)); w = BusWidth g;
      lane = be_idx w (quiet_port g t) in
    master_req_o o' \<and> master_we_o o' \<and> master_add_o o' = take_bit w (sbaddr_q (top_csrs t)) \<and>
    master_be_o o' = push_bit lane (mask (2 ^ unat (sbaccess (sbcs_q (top_csrs t))))) \<and>
    master_wdata_o o' = take_bit w (push_bit (8 * lane)
      (take_bit w (low_half (dmi_data (top_dmi_req i)) (sbdata_q (top_csrs t)))))"
proof -
  let ?w = "BusWidth g" and ?r = "runs (top_clk g) is (top_clk g i t)"
  note p = bus_write_port [OF assms]
  have same: "be_idx ?w (c\<lparr>sbdata_i := v\<rparr>) = be_idx ?w c" for c v by (simp add: be_idx_def)
  have q: "sbaddress_i (quiet_port g t) = take_bit ?w (sbaddr_q (top_csrs t))"
    "sbaccess_i (quiet_port g t) = sbaccess (sbcs_q (top_csrs t))"
    by (simp_all add: quiet_port_def sba_port_def)
  show ?thesis
    using be_mask_lanes(1) [OF assms(3) p(4,5)] be_idx_masked_aligned [OF assms(3) p(4)] p(4,5)
    by (simp add: Let_def top_bus_out_quiet p(2) sba_out_def rejected_def p(1) same q)
qed

text \<open>Deactivating the module resets the registers behind a request, but not the request. The debugger's write
  of zero to \<open>dmactive\<close> takes effect in the next cycle; in the one after, the registers are reset and the
  bus module, which ignores \<open>dmactive\<close>, still requests.\<close>

definition deactivates :: "dm_cfg \<Rightarrow> top_in \<Rightarrow> dm_top \<Rightarrow> bool" where
  "deactivates g i t \<longleftrightarrow> top_dmi g i t DTM_WRITE DMControl \<and> \<not> bit (dmi_data (top_dmi_req i)) 0"

definition no_answer :: "top_in \<Rightarrow> bool" where
  "no_answer i \<longleftrightarrow> \<not> master_gnt_i (top_master i) \<and> \<not> master_r_valid_i (top_master i)"

lemma deactivates_step:
  assumes "deactivates g i t" and "top_active t"
  shows "\<not> top_active (top_clk g i t)"
proof -
  have "dm_csr_addr (csr_port g i t) = DMControl" "request (csr_port g i t) DTM_WRITE"
    using assms(1) by (simp_all add: deactivates_def top_dmi_def)
  then show ?thesis using assms
    by (simp add: top_active_def top_clk_def csrs_clk_def Let_def dmactive_comb deactivates_def wdata_def)
qed

lemma reset_registers:
  assumes "\<not> top_active t"
  shows "sbaddr_q (top_csrs (top_clk g i t)) = 0" "sbdata_q (top_csrs (top_clk g i t)) = 0"
    "sbcs_q (top_csrs (top_clk g i t)) = sbcs_reset"
  using assms by (simp_all add: top_clk_def csrs_clk_def Let_def top_active_def csrs_reset_def)

lemma reset_port:
  assumes "\<not> top_active t" and "bus_width_ok (BusWidth g)"
  shows "\<not> rejected (BusWidth g) (quiet_port g (top_clk g i t)) st"
    and "be_mask (BusWidth g) (quiet_port g (top_clk g i t)) = 15"
    and "sbdata_i (quiet_port g (top_clk g i t)) = 0" "sbaddress_i (quiet_port g (top_clk g i t)) = 0"
proof -
  let ?c = "quiet_port g (top_clk g i t)" and ?w = "BusWidth g"
  have c: "sbaddress_i ?c = 0" "sbaccess_i ?c = 2" "sbdata_i ?c = 0"
    using reset_registers [OF assms(1), of g i] by (simp_all add: quiet_port_def sba_port_def sbcs_reset_def)
  then show "sbdata_i ?c = 0" "sbaddress_i ?c = 0" by simp_all
  have "\<not> misaligned ?w ?c" "\<not> unsupported_size ?w ?c"
    using c assms(2) by (auto simp: misaligned_def unsupported_size_def be_idx_width_def bus_width_ok_def)
  then show "\<not> rejected ?w ?c st" by (simp add: rejected_def)
  have "be_mask ?w ?c = push_bit (be_idx ?w ?c) (mask 4)"
    using be_mask_lanes(1) [OF assms(2) \<open>\<not> misaligned ?w ?c\<close> \<open>\<not> unsupported_size ?w ?c\<close>] c by simp
  moreover have "be_idx ?w ?c = 0" using c by (simp add: be_idx_def)
  ultimately show "be_mask ?w ?c = 15" by (simp add: mask_numeral)
qed

lemma deactivated_request:
  assumes "top_requests g t" and "top_sba t = Sb_Write" and "deactivates g i1 t" and "no_answer i1" and "no_answer i2"
    and "bus_width_ok (BusWidth g)" and "top_bus_out g j (top_clk g i2 (top_clk g i1 t)) = o'"
  shows "master_req_o o' \<and> master_we_o o' \<and> master_add_o o' = 0 \<and> master_be_o o' = 15 \<and> master_wdata_o o' = 0"
proof -
  let ?w = "BusWidth g" and ?t1 = "top_clk g i1 t" and ?t2 = "top_clk g i2 (top_clk g i1 t)"
  have "bus_view g ?t1 = bus_view g t" using request_step [OF assms(1)] assms(4) by (simp add: no_answer_def)
  then have v: "quiet_port g ?t1 = quiet_port g t" "top_sba ?t1 = Sb_Write"
    using quiet_port_view assms(2) by metis+
  have off: "\<not> top_active ?t1" using deactivates_step [OF assms(3)] assms(1) by (simp add: top_requests_def)
  have "rejected ?w (top_sba_in g i2 ?t1) (top_sba ?t1) = rejected ?w (quiet_port g ?t1) (top_sba ?t1)"
    unfolding top_sba_in_def quiet_port_def Let_def by (rule rejected_strobes)
  then have "\<not> rejected ?w (top_sba_in g i2 ?t1) Sb_Write" using assms(1,2) v by (simp add: top_requests_def)
  then have st: "top_sba ?t2 = Sb_Write"
    using v(2) assms(5) by (simp add: top_clk_def [of g i2] sba_state_d_def sba_case_def no_answer_def)
  note p = reset_port [OF off assms(6), of i2]
  show ?thesis unfolding assms(7) [symmetric] top_bus_out_quiet st
    using p by (simp add: sba_out_def)
qed

text \<open>C10: a bus write of the debugger reaches the bus as it was requested, as long as the module stays
  active. Writing \<open>sbdata0\<close> while the bus module is free starts a write at the current \<open>sbaddress\<close>. For an
  aligned access of a supported size the request stays up until the bus grants it, for any number of
  cycles in which the module is not deactivated and whatever the debugger and the harts do otherwise,
  always with this address, with exactly the byte lanes of the access enabled and with the written data
  on these lanes. If the debugger deactivates the module while the request waits, the request is not
  withdrawn: two cycles later, still ungranted, it is a write of the word zero to address zero.\<close>

theorem debugger_bus_write:
  assumes "top_active t" and "starts_write g i t" and "bus_width_ok (BusWidth g)"
    and "\<not> misaligned (BusWidth g) (quiet_port g t)" and "\<not> unsupported_size (BusWidth g) (quiet_port g t)"
    and "runs_ok (top_clk g) (ungranted g) is (top_clk g i t)"
  shows "let t' = runs (top_clk g) is (top_clk g i t); o' = top_bus_out g j t'; w = BusWidth g;
      lane = be_idx w (quiet_port g t) in
    master_req_o o' \<and> master_we_o o' \<and> master_add_o o' = take_bit w (sbaddr_q (top_csrs t)) \<and>
    master_be_o o' = push_bit lane (mask (2 ^ unat (sbaccess (sbcs_q (top_csrs t))))) \<and>
    master_wdata_o o' = take_bit w (push_bit (8 * lane)
      (take_bit w (low_half (dmi_data (top_dmi_req i)) (sbdata_q (top_csrs t))))) \<and>
    (deactivates g i1 t' \<and> no_answer i1 \<and> no_answer i2 \<longrightarrow>
      (let o2 = top_bus_out g j (top_clk g i2 (top_clk g i1 t')) in
        master_req_o o2 \<and> master_we_o o2 \<and> master_add_o o2 = 0 \<and> master_be_o o2 = 15 \<and> master_wdata_o o2 = 0))"
  using bus_write_out [OF assms] deactivated_request [OF bus_write_port(3) [OF assms] bus_write_port(2) [OF assms] _ _ _ assms(3) refl]
  unfolding Let_def by blast

text \<open>The end of a bus read: the response, and the debugger reading \<open>sbdata0\<close> afterwards.\<close>

lemma sbdata0_read:
  assumes "dm_csr_addr i = SBData0" and "\<not> sb_blocked i s"
  shows "csr_read g i s c = (respond (ucast (sbdata_q s)) c)\<lparr>sbdata_read_valid_o := sberror (sbcs_q s) = 0\<rparr>"
  using named_not_ranges [of i] assms by (simp add: csr_read_def Let_def dm_addresses)

lemma bus_response_step:
  assumes "top_active t" and "top_sba t = Sb_WaitRead" and "master_r_valid_i (top_master i)"
  shows "sbdata_q (top_csrs (top_clk g i t)) = drop_bit (8 * be_idx_masked (BusWidth g) (quiet_port g t))
      (take_bit (BusWidth g) (master_r_rdata_i (top_master i)))"
    and "sbaddr_q (top_csrs (top_clk g i t)) = take_bit (BusWidth g) (take_bit (BusWidth g) (sbaddr_q (top_csrs t)) +
      (if sbautoincrement (sbcs_q (top_csrs t)) then 2 ^ unat (sbaccess (sbcs_q (top_csrs t))) else 0))"
    and "top_sba (top_clk g i t) = Sb_Idle"
    and "sb_settings (sbcs_q (top_csrs (top_clk g i t))) = sb_settings (sbcs_q (top_csrs t))"
proof -
  have busy: "sbbusy_i (csr_port g i t)" and a: "dmactive (dmcontrol_q (top_csrs t))"
    using assms by (simp_all add: top_active_def)
  have "sba_data_i (csr_port g i t) = drop_bit (8 * be_idx_masked (BusWidth g) (quiet_port g t))
      (take_bit (BusWidth g) (master_r_rdata_i (top_master i)))"
    by (simp add: csr_port_def Let_def top_sb_out_def sba_out_def quiet_port_def)
  moreover have "sba_address_i (csr_port g i t) = take_bit (BusWidth g) (take_bit (BusWidth g) (sbaddr_q (top_csrs t)) +
      (if sbautoincrement (sbcs_q (top_csrs t)) then 2 ^ unat (sbaccess (sbcs_q (top_csrs t))) else 0))"
    using assms by (simp add: top_sb_out_def sba_out_def sb_response_def sba_port_def push_bit_eq_mult)
  ultimately show "sbdata_q (top_csrs (top_clk g i t)) = drop_bit (8 * be_idx_masked (BusWidth g) (quiet_port g t))
      (take_bit (BusWidth g) (master_r_rdata_i (top_master i)))"
    "sbaddr_q (top_csrs (top_clk g i t)) = take_bit (BusWidth g) (take_bit (BusWidth g) (sbaddr_q (top_csrs t)) +
      (if sbautoincrement (sbcs_q (top_csrs t)) then 2 ^ unat (sbaccess (sbcs_q (top_csrs t))) else 0))"
    "sb_settings (sbcs_q (top_csrs (top_clk g i t))) = sb_settings (sbcs_q (top_csrs t))"
    using assms(3) by (simp_all add: top_clk_def sb_busy_frame [OF busy a])
  show "top_sba (top_clk g i t) = Sb_Idle"
    using assms(2,3) by (simp add: top_clk_def sba_state_d_def sba_case_def)
qed

lemma bus_read_out:
  assumes "top_active t" and "top_sba t = Sb_WaitRead" and "master_r_valid_i (top_master i)"
    and "\<not> master_r_valid_i (top_master j)"
    and "top_dmi g j (top_clk g i t) DTM_READ SBData0"
    and "\<not> sbbusyerror (sbcs_q (top_csrs (top_clk g i t)))" and "top_active (top_clk g i t)"
  shows "let t' = top_clk g i t; t'' = top_clk g j t'; b = sbcs_q (top_csrs t'); w = BusWidth g in
    sbaddr_q (top_csrs t') = take_bit w (take_bit w (sbaddr_q (top_csrs t)) +
      (if sbautoincrement (sbcs_q (top_csrs t)) then 2 ^ unat (sbaccess (sbcs_q (top_csrs t))) else 0)) \<and>
    resp_resp (resp_queue_inp (top_comb g j t')) = DTM_SUCCESS \<and>
    resp_data (resp_queue_inp (top_comb g j t')) =
      ucast (drop_bit (8 * be_idx_masked w (quiet_port g t)) (take_bit w (master_r_rdata_i (top_master i)))) \<and>
    top_sba t'' = (if sbreadondata (sbcs_q (top_csrs t)) \<and> sberror b = 0 then Sb_Read else Sb_Idle) \<and>
    take_bit w (sbaddr_q (top_csrs t'')) = sbaddr_q (top_csrs t')"
proof -
  let ?t = "top_clk g i t" and ?p = "csr_port g j (top_clk g i t)"
  note step = bus_response_step [OF assms(1-3), of g]
  have free: "\<not> sb_blocked ?p (top_csrs ?t)" using step(3) assms(6) by (simp add: sb_blocked_def)
  have comb: "csr_comb g ?p (top_csrs ?t) = Dm_Csrs.csr_update g ?p (top_csrs ?t)
      ((respond (ucast (sbdata_q (top_csrs ?t))) (csr_default ?p (top_csrs ?t)))
        \<lparr>sbdata_read_valid_o := sberror (sbcs_q (top_csrs ?t)) = 0\<rparr>)"
    using assms(5) free by (simp add: top_dmi_def read_comb sbdata0_read)
  have r: "resp_resp (resp_queue_inp (csr_comb g ?p (top_csrs ?t))) = DTM_SUCCESS"
    "resp_data (resp_queue_inp (csr_comb g ?p (top_csrs ?t))) = ucast (sbdata_q (top_csrs ?t))"
    "sbdata_read_valid_o (csr_comb g ?p (top_csrs ?t)) = (sberror (sbcs_q (top_csrs ?t)) = 0)"
    "\<not> sbdata_write_valid_o (csr_comb g ?p (top_csrs ?t))" "\<not> sbaddress_write_valid_o (csr_comb g ?p (top_csrs ?t))"
    "sbaddr_q (nxt (csr_comb g ?p (top_csrs ?t))) = sba_address_i ?p"
    by (simp_all add: comb Dm_Csrs.csr_update_def csr_default_def respond_def Let_def)
  have a: "sba_address_i ?p = sbaddr_q (top_csrs ?t)"
    by (simp add: top_sb_out_def sba_out_def sb_response_def sba_port_def step)
  have "sbreadondata (sbcs_q (top_csrs ?t)) = sbreadondata (sbcs_q (top_csrs t))"
    using step(4) by (simp add: sb_settings_def)
  then have "top_sba (top_clk g j ?t) = (if sbreadondata (sbcs_q (top_csrs t)) \<and> sberror (sbcs_q (top_csrs ?t)) = 0
      then Sb_Read else Sb_Idle)" "sbaddr_q (top_csrs (top_clk g j ?t)) = sbaddr_q (top_csrs ?t)"
    using step(3) assms(7) r(3-6) a
    by (simp_all add: top_clk_def [of g j] sba_state_d_def rejected_def sba_case_def top_sba_in_def Let_def sba_port_def
        top_comb_def csrs_clk_def top_active_def)
  then show ?thesis using r(1,2) by (simp add: Let_def top_comb_def step)
qed


section \<open>A command that replaces another\<close>

text \<open>The registered strobe \<open>cmd_valid_q\<close> reaches the hart control one cycle after the request was accepted;
  in this cycle the module does not count as busy.\<close>

lemma command_write:
  assumes "top_dmi g i t DTM_WRITE Command" and "\<not> cmdbusy_i (csr_port g i t)"
  shows "csr_comb g (csr_port g i t) (top_csrs t) = Dm_Csrs.csr_update g (csr_port g i t) (top_csrs t)
    (set_nxt (\<lambda>d. d\<lparr>cmd_valid_q := True, command_q := unpack_command (dmi_data (top_dmi_req i))\<rparr>)
      (csr_default (csr_port g i t) (top_csrs t)))"
proof -
  have "dm_csr_addr (csr_port g i t) = Command" "request (csr_port g i t) DTM_WRITE" using assms by (simp_all add: top_dmi_def)
  then show ?thesis using named_not_ranges [of "csr_port g i t"] assms(2)
    by (simp add: write_comb csr_write_def Let_def dm_addresses wdata_def)
qed

text \<open>C15: a command written in the cycle after another one replaces it without an error. While the strobe of
  an accepted command is on its way to an idle module, a further write of \<open>command\<close> is answered with
  success; the module becomes busy for the first command, which was checked, but holds the second one,
  and no busy error is recorded. By the first theorem it is the second one that the harts then run.\<close>

theorem command_replaced:
  assumes "top_active t" and "mem_state_q (top_mem t) = Mem_Idle" and "cmd_valid_q (top_csrs t)"
    and "\<not> unsupported_command g (top_mem_in g i t)" and "\<not> ndmreset (dmcontrol_q (top_csrs t))"
    and "aligned g (halted_q (top_mem t)) (selected_hart g (top_csrs t))"
    and "\<not> resumereq (dmcontrol_q (top_csrs t))" and "\<not> mem_exception (top_mem_in g i t)"
    and "top_dmi g i t DTM_WRITE Command"
  shows "resp_resp (resp_queue_inp (top_comb g i t)) = DTM_SUCCESS \<and> top_busy (top_clk g i t) \<and>
    command_q (top_csrs (top_clk g i t)) = unpack_command (dmi_data (top_dmi_req i)) \<and>
    cmderr_q (top_csrs (top_clk g i t)) = cmderr_q (top_csrs t)"
proof -
  let ?m = "top_mem_in g i t" and ?p = "csr_port g i t"
  have m: "ndmreset_i ?m = ndmreset (dmcontrol_q (top_csrs t))" "mem_hartsel g ?m = selected_hart g (top_csrs t)"
    "resumereq_i ?m = resumereq_o g (top_csrs t)"
    by (simp_all add: top_mem_in_def mem_port_def mem_hartsel_def selected_hart_def)
  have "mem_state_q (mem_clk g ?m (top_mem t)) = Mem_Go"
    using assms(2-7) by (simp add: state_idle m Let_def aligned_def resumereq_o_def)
  moreover have "\<not> cmderror_valid_o (hart_ctrl g ?m (top_mem t))"
    using assms(2,4,6,8) unfolding reported_error m by simp
  then have "\<not> cmderror_valid_i ?p" by (simp add: csr_port_def Let_def)
  then have "resp_resp (resp_queue_inp (csr_comb g ?p (top_csrs t))) = DTM_SUCCESS"
    "command_q (nxt (csr_comb g ?p (top_csrs t))) = unpack_command (dmi_data (top_dmi_req i))"
    "cmderr_q (nxt (csr_comb g ?p (top_csrs t))) = cmderr_q (top_csrs t)"
    using command_write [OF assms(9)] assms(2)
    by (simp_all add: Dm_Csrs.csr_update_def csr_default_def set_nxt_def Let_def)
  moreover have "dmactive (dmcontrol_q (nxt (csr_comb g ?p (top_csrs t))))"
    using assms(1,9) by (simp add: dmactive_comb top_active_def top_dmi_def dm_addresses)
  ultimately show ?thesis using assms(1)
    by (simp add: top_comb_def top_busy_def top_clk_def top_active_def csrs_clk_def Let_def)
qed

section \<open>Well-formed states\<close>

definition csrs_wf :: "dm_cfg \<Rightarrow> csrs \<Rightarrow> bool" where
  "csrs_wf g s \<longleftrightarrow> cmderr_q s \<le> CmdErrorHaltResume \<and> sberror (sbcs_q s) \<in> {0, 2, 3, 4, 7} \<and>
     aa_zero0 (abstractauto_q s) = 0 \<and> unat (hartsel_o s) < 2 ^ clog2 (NrHarts g) \<and>
     (let d = dmcontrol_q s in \<not> hasel d \<and> \<not> hartreset d \<and> \<not> ackhavereset d \<and> \<not> setresethaltreq d \<and>
       \<not> clrresethaltreq d \<and> \<not> dc_zero1 d \<and> dc_zero0 d = 0)"

definition top_wf :: "dm_cfg \<Rightarrow> dm_top \<Rightarrow> bool" where
  "top_wf g t \<longleftrightarrow> csrs_wf g (top_csrs t) \<and>
     (\<forall>h. halted_q (top_mem t) h \<or> resuming_q (top_mem t) h \<longrightarrow> SelectableHarts g h \<and> hart_valid g h)"

lemma cmderr_handlers:
  assumes "cmderr_q s \<le> CmdErrorHaltResume" and "cmderr_q (nxt c) \<le> CmdErrorHaltResume"
  shows "cmderr_q (nxt (csr_read g i s c)) \<le> CmdErrorHaltResume"
    and "cmderr_q (nxt (csr_write g i s c)) \<le> CmdErrorHaltResume"
proof -
  have b: "CmdErrBusy \<le> CmdErrorHaltResume" by (simp add: cmderr_e)
  show "cmderr_q (nxt (csr_read g i s c)) \<le> CmdErrorHaltResume"
    using assms b by (simp add: handler_defs)
  have "NOT (fld 10 8 (wdata i)) AND cmderr_q s \<le> CmdErrorHaltResume"
    using assms(1) word_and_le1 order_trans by blast
  then show "cmderr_q (nxt (csr_write g i s c)) \<le> CmdErrorHaltResume"
    using assms b by (simp add: handler_defs)
qed

lemma sberror_handlers:
  "sberror (sbcs_q (nxt (csr_read g i s c))) = sberror (sbcs_q (nxt c))"
  "sberror (sbcs_q (nxt (csr_write g i s c))) \<in> {0, sberror (sbcs_q s), sberror (sbcs_q (nxt c))}"
  by (simp_all add: handler_defs)

lemma auto_handlers:
  "aa_zero0 (abstractauto_q (nxt c)) = 0 \<Longrightarrow> aa_zero0 (abstractauto_q (nxt (csr_write g i s c))) = 0"
  by (simp add: handler_defs)

lemma csrs_wf_step:
  assumes "csrs_wf g s" and "cmderror_valid_i i \<Longrightarrow> cmderror_i i \<le> CmdErrorHaltResume"
    and "sberror_valid_i i \<Longrightarrow> sberror_i i \<in> {0, 2, 3, 4, 7}"
  shows "csrs_wf g (csrs_clk g i s)"
proof -
  have s: "cmderr_q s \<le> CmdErrorHaltResume" "sberror (sbcs_q s) \<in> {0, 2, 3, 4, 7}"
    using assms(1) by (simp_all add: csrs_wf_def)
  have d: "cmderr_q (nxt (csr_default i s)) = cmderr_q s" "sbcs_q (nxt (csr_default i s)) = sbcs_q s"
    "aa_zero0 (abstractauto_q (nxt (csr_default i s))) = 0" by (simp_all add: csr_default_def)
  let ?c = "let c = csr_default i s; c = (if request i DTM_READ then csr_read g i s c else c)
     in if request i DTM_WRITE then csr_write g i s c else c"
  have comb: "csr_comb g i s = Dm_Csrs.csr_update g i s ?c" by (simp add: csr_comb_def Let_def)
  have c: "cmderr_q (nxt ?c) \<le> CmdErrorHaltResume" "sberror (sbcs_q (nxt ?c)) \<in> {0, 2, 3, 4, 7}"
    "aa_zero0 (abstractauto_q (nxt ?c)) = 0"
    using s sberror_handlers(2) [of g i s "csr_default i s"]
    by (auto simp: Let_def d cmderr_handlers sberror_handlers(1) auto_handlers csr_read_frame read_not_write)
  have n: "cmderr_q (nxt (csr_comb g i s)) \<le> CmdErrorHaltResume" "aa_zero0 (abstractauto_q (nxt (csr_comb g i s))) = 0"
    "sberror (sbcs_q (nxt (csr_comb g i s))) \<in> {0, 2, 3, 4, 7}"
    using c assms(2,3) unfolding comb by (auto simp: Dm_Csrs.csr_update_def Let_def fix_sbcs_def)
  have f: "\<not> hasel d \<and> \<not> hartreset d \<and> \<not> ackhavereset d \<and> \<not> setresethaltreq d \<and> \<not> clrresethaltreq d \<and>
      \<not> dc_zero1 d \<and> dc_zero0 d = 0" if "d = fix_dmcontrol g i s d' \<or> d = (unpack_dmcontrol 0)\<lparr>dmactive := b\<rparr>" for d d' b
    using that by (auto simp: fix_dmcontrol_def warl_hartsel_def Let_def unpack_dmcontrol_def fld_def)
  have "dmcontrol_q (nxt (csr_comb g i s)) = fix_dmcontrol g i s (dmcontrol_q (nxt ?c))"
    unfolding comb by (simp add: Dm_Csrs.csr_update_def Let_def)
  note f1 = f [of "dmcontrol_q (nxt (csr_comb g i s))" "dmcontrol_q (nxt ?c)", OF disjI1, OF this]
    and f2 = f [of "(unpack_dmcontrol 0)\<lparr>dmactive := b\<rparr>" for b, OF disjI2, OF refl]
  have r: "cmderr_q csrs_reset \<le> CmdErrorHaltResume" "sberror (sbcs_q csrs_reset) = 0" "aa_zero0 (abstractauto_q csrs_reset) = 0"
    by (simp_all add: csrs_reset_def cmderr_e sbcs_reset_def unpack_sbcs_def unpack_abstractauto_def fld_def)
  have h: "unat (hartsel_o (csrs_clk g i s)) < 2 ^ clog2 (NrHarts g)" using hartsel_warl by blast
  show ?thesis
    unfolding csrs_wf_def Let_def
    using h n f1 f2 r by (auto simp: csrs_clk_def Let_def)
qed

lemma reset_wf: "top_wf g top_reset"
  by (simp add: top_wf_def top_reset_def mem_reset_def csrs_wf_def csrs_reset_def cmderr_e sbcs_reset_def
      unpack_sbcs_def unpack_abstractauto_def unpack_dmcontrol_def hartsel_o_def hartsel_of_def fld_def cat_simps)

lemma errors_named:
  "cmderror_i (csr_port g i t) \<le> CmdErrorHaltResume" "sberror_i (csr_port g i t) \<in> {0, 2, 3, 4, 7}"
proof -
  show "cmderror_i (csr_port g i t) \<le> CmdErrorHaltResume"
    by (simp add: csr_port_def Let_def reported_error) (simp add: cmderr_e)
  show "sberror_i (csr_port g i t) \<in> {0, 2, 3, 4, 7}"
    by (auto simp: csr_port_def Let_def top_sb_out_def sba_out_def sb_error_def)
qed

lemma top_wf_step: "top_wf g t \<Longrightarrow> top_wf g (top_clk g i t)"
proof -
  assume wf: "top_wf g t"
  have m: "SelectableHarts g h \<and> hart_valid g h" if "halted_q (mem_clk g j s) h \<or> resuming_q (mem_clk g j s) h"
    and "\<forall>h. halted_q s h \<or> resuming_q s h \<longrightarrow> SelectableHarts g h \<and> hart_valid g h" for h j s
    using that by (auto simp: halted_step acked_step halt_event_def ack_event_def split: if_splits)
  show ?thesis using wf m csrs_wf_step errors_named
    unfolding top_wf_def by (auto simp: top_clk_def)
qed

text \<open>C14: the registers always hold legal values. In every state that any sequence of inputs reaches from
  reset, the recorded errors are named error codes, the fields of \<open>dmcontrol\<close> and \<open>abstractauto\<close> that
  the module does not implement are zero, the hart selection fits the number of harts, and only
  existing, selectable harts count as halted or as having acknowledged a resume.\<close>

theorem top_wf_reachable: "top_wf g (runs (top_clk g) is top_reset)"
proof -
  have "top_wf g (runs (top_clk g) is t)" if "top_wf g t" for t
    using that by (induction "is" arbitrary: t) (auto simp: top_wf_step)
  then show ?thesis using reset_wf .
qed

section \<open>Examples\<close>

definition quiet_top :: top_in where
  "quiet_top = \<lparr>top_next_dm = 0, top_dmi_valid = False, top_resp_full = False,
     top_dmi_req = \<lparr>dmi_addr = 0, dmi_op = 0, dmi_data = 0\<rparr>, top_ndmreset_ack = False,
     top_unavailable = (\<lambda>_. False), top_hartinfo = (\<lambda>_. 0), slave_req_i = False, slave_we_i = False,
     slave_addr_i = 0, slave_be_i = 0, slave_wdata_i = 0,
     top_master = \<lparr>master_gnt_i = False, master_r_valid_i = False, master_r_err_i = False,
       master_r_other_err_i = False, master_r_rdata_i = 0\<rparr>\<rparr>"

definition host :: "2 word \<Rightarrow> 8 word \<Rightarrow> u32 \<Rightarrow> top_in" where
  "host p a v = quiet_top\<lparr>top_dmi_valid := True, top_dmi_req := \<lparr>dmi_addr = ucast a, dmi_op = p, dmi_data = v\<rparr>\<rparr>"

definition load_from :: "u64 \<Rightarrow> top_in" where
  "load_from a = quiet_top\<lparr>slave_req_i := True, slave_addr_i := a\<rparr>"

definition active_top :: dm_top where
  "active_top = top_reset\<lparr>top_csrs := active_csrs\<lparr>command_q := unpack_command 0x00231009\<rparr>,
     top_mem := mem_reset\<lparr>halted_q := (\<lambda>_. True)\<rparr>\<rparr>"

lemmas top_example = host_def load_from_def quiet_top_def request_def dm_csr_addr_def wdata_def dm_addresses
  dtm_constants dm_constants

lemma active_top_simps [simp]:
  "top_active active_top" "mem_state_q (top_mem active_top) = Mem_Idle" "top_sba active_top = Sb_Idle"
  "dmactive (dmcontrol_q (top_csrs active_top))" "cmderr_q (top_csrs active_top) = 0"
  "\<not> ndmreset (dmcontrol_q (top_csrs active_top))" "\<not> resumereq (dmcontrol_q (top_csrs active_top))"
  "hartsel_o (top_csrs active_top) = 0" "halted_q (top_mem active_top) = (\<lambda>_. True)"
  "sbcs_q (top_csrs active_top) = sbcs_reset" "sbaddr_q (top_csrs active_top) = 0"
  "command_q (top_csrs active_top) = unpack_command 0x00231009"
  by (simp_all add: active_top_def top_active_def top_reset_def active_csrs_def csrs_reset_def mem_reset_def cmderr_e
      unpack_dmcontrol_def hartsel_o_def hartsel_of_def fld_def cat_simps)

lemma top_dmi_host [simp]:
  "top_dmi g (host p a v) t q b \<longleftrightarrow> p = q \<and> ucast (ucast a :: 7 word) = b"
  by (auto simp: top_dmi_def top_example)

lemma stays_active:
  "top_active t \<Longrightarrow> \<not> top_dmi g i t DTM_WRITE DMControl \<Longrightarrow> top_active (top_clk g i t)"
  by (auto simp: top_active_def top_clk_def csrs_clk_def Let_def dmactive_comb top_dmi_def)

theorem program_held_while_busy_witness:
  "hart_fetch one_hart (load_from 0x338) (top_clk one_hart (host DTM_WRITE Command 0)
     (active_top\<lparr>top_mem := (top_mem active_top)\<lparr>mem_state_q := Mem_Go\<rparr>\<rparr>)) = csrw CSR_DSCRATCH1 10"
proof -
  let ?t = "active_top\<lparr>top_mem := (top_mem active_top)\<lparr>mem_state_q := Mem_Go\<rparr>\<rparr>"
  let ?i = "host DTM_WRITE Command 0"
  have "\<not> ndmreset_i (top_mem_in one_hart ?i ?t)" by (simp add: top_mem_in_def mem_port_def)
  then have "mem_state_q (top_mem (top_clk one_hart ?i ?t)) \<noteq> Mem_Idle"
    by (simp add: top_clk_def state_step)
  moreover have a: "top_active ?t" by (simp add: top_active_def)
  have "top_active (top_clk one_hart ?i ?t)" by (rule stays_active [OF a]) (simp add: dm_addresses)
  ultimately have "runs_ok (top_clk one_hart) (stays_busy one_hart) [?i] ?t"
    by (simp add: stays_busy_def top_busy_def top_active_def)
  moreover have "fst (abstract_prog one_hart (command_q (top_csrs ?t))) ! 0 = csrw CSR_DSCRATCH1 10"
    by (simp add: abstract_prog_def unpack_command_def unpack_ac_ar_cmd_def cmd_template_def
        fld_def AccessRegister_def write_reg_cmd_def reserved_regno_def is_a0_def regno_index_def Let_def)
  moreover have "hart_loads (load_from 0x338) 0x338" by (simp add: hart_loads_def load_from_def quiet_top_def)
  ultimately show ?thesis
    using program_held_while_busy [where t = ?t and g = one_hart and ?is = "[?i]" and i = "load_from 0x338" and a = "0x338" and k = 0] a
    by (simp add: top_busy_def top_active_def map_addresses)
qed

text \<open>The debugger writes \<open>data1\<close> and a hart loads it; a hart stores \<open>data1\<close> and the debugger reads it; and
  the same store of a 64-bit hart is lost.\<close>

definition store_at :: "u64 \<Rightarrow> u8 \<Rightarrow> u64 \<Rightarrow> top_in" where
  "store_at a be v = quiet_top\<lparr>slave_req_i := True, slave_we_i := True, slave_addr_i := a, slave_be_i := be,
     slave_wdata_i := v\<rparr>"

theorem data_mailbox_witness:
  "hart_fetch one_hart (load_from 0x384) (top_clk one_hart (host DTM_WRITE (Data0 + 1) 0xCAFE) active_top) = 0xCAFE \<and>
   resp_data (resp_queue_inp (top_comb one_hart (host DTM_READ (Data0 + 1) 0)
     (top_clk one_hart (store_at 0x384 15 0xBEEF) active_top))) = 0xBEEF \<and>
   data_q (top_csrs (top_clk (one_hart\<lparr>BusWidth := 64\<rparr>) (store_at 0x384 0xF0 0xBEEF00000000) active_top)) 1 = 0"
proof -
  let ?i = "host DTM_WRITE (Data0 + 1) 0xCAFE" and ?s = "store_at 0x384 15 0xBEEF" and ?g = "one_hart\<lparr>BusWidth := 64\<rparr>"
    and ?u = "store_at 0x384 0xF0 0xBEEF00000000"
  have "top_active (top_clk one_hart ?i active_top)"
    by (rule stays_active) (simp_all add: dm_addresses)
  moreover have "hart_loads (load_from 0x384) 0x384" by (simp add: hart_loads_def load_from_def quiet_top_def)
  moreover have "\<not> data_valid_o (mem_port one_hart False ?i (top_csrs active_top))"
    by (simp add: data_valid_o_def mem_port_def top_example)
  moreover have hv: "dmi_data (top_dmi_req ?i) = 0xCAFE" by (simp add: host_def)
  ultimately have 1: "hart_fetch one_hart (load_from 0x384) (top_clk one_hart ?i active_top) = 0xCAFE"
    using data_mailbox [of active_top one_hart ?i 1 "[]" "load_from 0x384"]
    by (simp add: map_addresses Let_def hv dm_addresses)
  have on: "top_active (top_clk g (store_at a be v) active_top)" for g a be v
    by (rule stays_active) (simp_all add: top_dmi_def request_def store_at_def quiet_top_def)
  have "hart_stores one_hart ?s 1"
    by (simp add: hart_stores_def store_at_def quiet_top_def mem_bus_ok_def map_addresses mask_numeral one_hart_def)
  moreover have "(fld 31 0 (slave_wdata_i ?s) :: u32) = 0xBEEF" by (simp add: store_at_def fld_def)
  ultimately have 2: "resp_data (resp_queue_inp (top_comb one_hart (host DTM_READ (Data0 + 1) 0)
      (top_clk one_hart ?s active_top))) = 0xBEEF"
    using data_mailbox [of active_top one_hart ?s 1 "[]" "host DTM_READ (Data0 + 1) 0"] on
    by (simp add: Let_def dm_addresses)
  have "hart_stores_upper ?g ?u (DataAddr + 4)"
    by (simp add: hart_stores_upper_def store_at_def quiet_top_def map_addresses mask_numeral)
  then have "data_q (top_csrs (top_clk ?g ?u active_top)) = data_q (top_csrs active_top)"
    using data_mailbox [of active_top ?g ?u 1 "[]"] on by (simp add: Let_def)
  then show ?thesis using 1 2 by (simp add: active_top_def active_csrs_def csrs_reset_def)
qed

theorem debugger_bus_write_witness:
  "let o' = top_bus_out one_hart quiet_top (top_clk one_hart (host DTM_WRITE SBData0 0xBEEF) active_top) in
   master_req_o o' \<and> master_we_o o' \<and> master_add_o o' = 0 \<and> master_be_o o' = 15 \<and> master_wdata_o o' = 0xBEEF \<and>
   master_wdata_o (top_bus_out one_hart quiet_top (top_clk one_hart quiet_top (top_clk one_hart (host DTM_WRITE DMControl 0)
     (top_clk one_hart (host DTM_WRITE SBData0 0xBEEF) active_top)))) = 0"
proof -
  let ?i = "host DTM_WRITE SBData0 0xBEEF"
  have q: "sbaddress_i (quiet_port one_hart active_top) = 0" "sbaccess_i (quiet_port one_hart active_top) = 2"
    "sbaccess sbcs_reset = 2" "sbdata_q (top_csrs active_top) = 0" "sberror sbcs_reset = 0" "\<not> sbbusyerror sbcs_reset"
    "BusWidth one_hart = 32"
    by (simp_all add: quiet_port_def sba_port_def sbcs_reset_def unpack_sbcs_def fld_def active_top_def active_csrs_def
        csrs_reset_def one_hart_def)
  then have "starts_write one_hart ?i active_top"
    by (simp add: starts_write_def sb_blocked_def dm_addresses) (simp add: host_def quiet_top_def)
  moreover have "deactivates one_hart (host DTM_WRITE DMControl 0) t" "no_answer (host DTM_WRITE DMControl 0)"
    "no_answer quiet_top" for t
    by (simp_all add: deactivates_def no_answer_def dm_addresses) (simp_all add: host_def quiet_top_def)
  ultimately show ?thesis
    using debugger_bus_write [of active_top one_hart ?i "[]" quiet_top "host DTM_WRITE DMControl 0" quiet_top] q
    by (simp add: bus_width_ok_def misaligned_def unsupported_size_def be_idx_def be_idx_width_def sbaccess_mask_def
        Let_def mask_numeral low_half_def cat_simps fld_def) (simp add: host_def)
qed


theorem command_replaced_witness:
  "let t = active_top\<lparr>top_csrs := (top_csrs active_top)\<lparr>cmd_valid_q := True\<rparr>\<rparr>; t' = top_clk one_hart (host DTM_WRITE Command 0) t in
   top_busy t' \<and> command_q (top_csrs t') = unpack_command 0 \<and> cmderr_q (top_csrs t') = CmdErrNone"
proof -
  let ?t = "active_top\<lparr>top_csrs := (top_csrs active_top)\<lparr>cmd_valid_q := True\<rparr>\<rparr>" and ?i = "host DTM_WRITE Command 0"
  have "unsupported_command one_hart (top_mem_in one_hart ?i ?t) = unsupported_command one_hart (quiet_mem\<lparr>cmd_valid_i := True\<rparr>)"
    by (simp add: unsupported_command_def quiet_mem_def)
  moreover have "selected_hart one_hart (top_csrs ?t) = 0" by (simp add: selected_hart_def hartsel_o_def)
      (simp flip: hartsel_o_def)
  moreover have "\<not> mem_exception (top_mem_in one_hart ?i ?t)"
    by (simp add: mem_exception_def mem_write_def top_mem_in_def mem_port_def top_example)
  ultimately show ?thesis
    using command_replaced [of ?t one_hart ?i] quiet_supported
    by (simp add: dm_addresses aligned_def top_active_def Let_def cmderr_e) (simp add: host_def)
qed

end
