(* ===== verification/Dm_Obi_Top.thy ===== *)
theory Dm_Obi_Top
  imports Dm_Top
begin

text \<open>
  The OBI wrapper of the debug module, \<open>src/dm_obi_top.sv\<close>: it grants every request of a hart at once
  and answers it in the next cycle with the identifier of the request. Identifiers are natural numbers.
\<close>

record obi_in =
  obi_dm_in :: top_in
  slave_aid_i :: nat

record obi_top =
  obi_dm :: dm_top
  slave_rvalid_q :: bool
  slave_rid_q :: nat

definition obi_reset :: obi_top where
  "obi_reset = \<lparr>obi_dm = top_reset, slave_rvalid_q = False, slave_rid_q = 0\<rparr>"

text \<open>The wrapper ties the chain address to zero and feeds the reset request back as its acknowledgement.\<close>

definition obi_inner :: "obi_in \<Rightarrow> obi_top \<Rightarrow> top_in" where
  "obi_inner i s = (obi_dm_in i)\<lparr>top_next_dm := 0, top_ndmreset_ack := ndmreset (dmcontrol_q (top_csrs (obi_dm s)))\<rparr>"

text \<open>The parameters it hands on; \<open>ReadByteEnable\<close> keeps its default.\<close>

definition obi_cfg :: "dm_cfg \<Rightarrow> dm_cfg" where
  "obi_cfg g = g\<lparr>ReadByteEnable := True\<rparr>"

definition slave_gnt_o :: bool where
  "slave_gnt_o = True"

definition obi_clk :: "dm_cfg \<Rightarrow> obi_in \<Rightarrow> obi_top \<Rightarrow> obi_top" where
  "obi_clk g i s = \<lparr>obi_dm = top_clk (obi_cfg g) (obi_inner i s) (obi_dm s),
     slave_rvalid_q = slave_req_i (obi_dm_in i) \<and> slave_gnt_o,
     slave_rid_q = (if slave_req_i (obi_dm_in i) \<and> slave_gnt_o then slave_aid_i i else slave_rid_q s)\<rparr>"

section \<open>Transactions\<close>

text \<open>The accepted requests of a run, and its responses: the identifier and the word on the lanes of the
  access, observed in the cycle after each clock.\<close>

fun obi_requests :: "obi_in list \<Rightarrow> nat list" where
  "obi_requests [] = []"
| "obi_requests (i # is) = (if slave_req_i (obi_dm_in i) \<and> slave_gnt_o then slave_aid_i i # obi_requests is
     else obi_requests is)"

fun obi_responses :: "dm_cfg \<Rightarrow> obi_in list \<Rightarrow> obi_top \<Rightarrow> nat list" where
  "obi_responses g [] s = []"
| "obi_responses g (i # is) s = (let s' = obi_clk g i s in
     if slave_rvalid_q s' then slave_rid_q s' # obi_responses g is s' else obi_responses g is s')"

definition obi_rdata :: "dm_cfg \<Rightarrow> obi_top \<Rightarrow> u64" where
  "obi_rdata g s = mem_rdata_o (obi_cfg g) (top_mem (obi_dm s))"

lemma read32_rdata:
  "read32 g (top_mem_in g i t) (top_mem t) = (let w = mem_rdata_o g (top_mem (top_clk g i t)) in
     if BusWidth g = 64 \<and> bit (slave_addr_i i) 2 then fld 63 32 w else fld 31 0 w)"
proof -
  have "addr_i (top_mem_in g i t) = slave_addr_i i" by (simp add: top_mem_in_def mem_port_def)
  then show ?thesis by (simp add: read32_def top_clk_def)
qed

text \<open>The word on the lanes of the access.\<close>

definition obi_word :: "dm_cfg \<Rightarrow> u64 \<Rightarrow> obi_top \<Rightarrow> u32" where
  "obi_word g a s = (let w = obi_rdata g s in if BusWidth g = 64 \<and> bit a 2 then fld 63 32 w else fld 31 0 w)"

lemma obi_word_fetch:
  "obi_word g (slave_addr_i (obi_dm_in i)) (obi_clk g i s) = hart_fetch (obi_cfg g) (obi_inner i s) (obi_dm s)"
proof -
  have "slave_addr_i (obi_inner i s) = slave_addr_i (obi_dm_in i)" "BusWidth (obi_cfg g) = BusWidth g"
    by (simp_all add: obi_inner_def obi_cfg_def)
  then show ?thesis by (simp add: obi_word_def hart_fetch_def read32_rdata obi_rdata_def obi_clk_def)
qed

text \<open>The wrapper leaves the requests of the harts to the module as they are.\<close>

lemma obi_inner_access:
  "hart_loads (obi_inner i s) a \<longleftrightarrow> hart_loads (obi_dm_in i) a" "hart_stores g (obi_inner i s) k \<longleftrightarrow> hart_stores g (obi_dm_in i) k"
  "slave_wdata_i (obi_inner i s) = slave_wdata_i (obi_dm_in i)"
  by (simp_all add: hart_loads_def hart_stores_def obi_inner_def)

lemma obi_store:
  assumes "hart_stores (obi_cfg g) (obi_dm_in i) k" and "top_active (obi_dm s)"
  shows "data_q (top_csrs (obi_dm (obi_clk g i s))) k = fld 31 0 (slave_wdata_i (obi_dm_in i))"
proof -
  have st: "hart_stores (obi_cfg g) (obi_inner i s) k" using assms(1) by (simp add: obi_inner_access)
  have a: "dmactive (dmcontrol_q (top_csrs (obi_dm s)))" using assms(2) by (simp add: top_active_def)
  show ?thesis using hart_store_word [OF st]
    by (simp add: obi_clk_def top_clk_def data_frame [OF a] obi_inner_access(3))
qed

text \<open>C16: every request gets exactly one response, with the outcome of its access. In any run the responses
  carry the identifiers of the accepted requests, all of them, once each and in their order, and no
  request is ever stalled. A load at any address is answered in the next cycle with its identifier and
  the word the debug module reads there, which is the slot of the command for the command area, the word
  of the program buffer and of the data registers for theirs; and a 32-bit store at a data register, on
  the lowest lanes, is answered with its identifier and leaves its word in that register of an active
  module.\<close>

theorem obi_transactions:
  "obi_responses g is s = obi_requests is \<and> slave_gnt_o \<and>
   (hart_loads (obi_dm_in i) a \<longrightarrow> (let s' = obi_clk g i s; w = obi_word g (slave_addr_i (obi_dm_in i)) s' in
     slave_rvalid_q s' \<and> slave_rid_q s' = slave_aid_i i \<and>
     w = hart_fetch (obi_cfg g) (obi_inner i s) (obi_dm s) \<and>
     (k < 10 \<and> a = AbstractCmdBaseAddr + 4 * of_nat k \<longrightarrow>
       w = fst (abstract_prog (obi_cfg g) (command_q (top_csrs (obi_dm s)))) ! k) \<and>
     (k < 8 \<and> a = ProgBufBaseAddr + 4 * of_nat k \<longrightarrow> w = progbuf_q (top_csrs (obi_dm s)) k) \<and>
     (k < 2 \<and> a = DataAddr + 4 * of_nat k \<longrightarrow> w = data_q (top_csrs (obi_dm s)) k))) \<and>
   (hart_stores (obi_cfg g) (obi_dm_in i) k \<longrightarrow> (let s' = obi_clk g i s in
     slave_rvalid_q s' \<and> slave_rid_q s' = slave_aid_i i \<and>
     (top_active (obi_dm s) \<longrightarrow> data_q (top_csrs (obi_dm s')) k = fld 31 0 (slave_wdata_i (obi_dm_in i)))))"
proof (intro conjI impI)
  show "obi_responses g is s = obi_requests is"
    by (induction "is" arbitrary: s) (simp_all add: obi_clk_def Let_def)
  show slave_gnt_o by (simp add: slave_gnt_o_def)
next
  assume l: "hart_loads (obi_dm_in i) a"
  have "mem_read (top_mem_in (obi_cfg g) (obi_inner i s) (obi_dm s)) a" using l by (simp add: obi_inner_access)
  note r = hart_words [OF this, of k "obi_cfg g" "top_mem (obi_dm s)"]
  show "let s' = obi_clk g i s; w = obi_word g (slave_addr_i (obi_dm_in i)) s' in
     slave_rvalid_q s' \<and> slave_rid_q s' = slave_aid_i i \<and>
     w = hart_fetch (obi_cfg g) (obi_inner i s) (obi_dm s) \<and>
     (k < 10 \<and> a = AbstractCmdBaseAddr + 4 * of_nat k \<longrightarrow>
       w = fst (abstract_prog (obi_cfg g) (command_q (top_csrs (obi_dm s)))) ! k) \<and>
     (k < 8 \<and> a = ProgBufBaseAddr + 4 * of_nat k \<longrightarrow> w = progbuf_q (top_csrs (obi_dm s)) k) \<and>
     (k < 2 \<and> a = DataAddr + 4 * of_nat k \<longrightarrow> w = data_q (top_csrs (obi_dm s)) k)"
    unfolding Let_def obi_word_fetch using r l
    by (simp add: hart_fetch_def) (simp add: obi_clk_def slave_gnt_o_def hart_loads_def)
next
  assume "hart_stores (obi_cfg g) (obi_dm_in i) k"
  moreover from this have "slave_req_i (obi_dm_in i)" by (simp add: hart_stores_def)
  ultimately show "let s' = obi_clk g i s in slave_rvalid_q s' \<and> slave_rid_q s' = slave_aid_i i \<and>
     (top_active (obi_dm s) \<longrightarrow> data_q (top_csrs (obi_dm s')) k = fld 31 0 (slave_wdata_i (obi_dm_in i)))"
    using obi_store [of g i k s] by (simp add: Let_def) (simp add: obi_clk_def slave_gnt_o_def)
qed

text \<open>A fetch of the first slot with identifier 3, and a store of 5 at \<open>data0\<close> with identifier 4.\<close>

theorem obi_transactions_witness:
  "let l = \<lparr>obi_dm_in = load_from 0x338, slave_aid_i = 3\<rparr>; w = \<lparr>obi_dm_in = store_at 0x380 15 5, slave_aid_i = 4\<rparr>;
     s = obi_reset\<lparr>obi_dm := active_top\<rparr> in
   obi_responses one_hart [l, \<lparr>obi_dm_in = quiet_top, slave_aid_i = 7\<rparr>, w] s = [3, 4] \<and>
   slave_rid_q (obi_clk one_hart l s) = 3 \<and> slave_rid_q (obi_clk one_hart w s) = 4 \<and>
   obi_word one_hart 0x338 (obi_clk one_hart l s) = fst (abstract_prog (obi_cfg one_hart) (unpack_command 0x00231009)) ! 0 \<and>
   data_q (top_csrs (obi_dm (obi_clk one_hart w s))) 0 = 5"
proof -
  let ?l = "\<lparr>obi_dm_in = load_from 0x338, slave_aid_i = 3\<rparr>" and ?w = "\<lparr>obi_dm_in = store_at 0x380 15 5, slave_aid_i = 4\<rparr>"
    and ?s = "obi_reset\<lparr>obi_dm := active_top\<rparr>" and ?q = "\<lparr>obi_dm_in = quiet_top, slave_aid_i = 7\<rparr>"
  have l: "hart_loads (load_from 0x338) 0x338" by (simp add: hart_loads_def load_from_def quiet_top_def)
  have st: "hart_stores (obi_cfg one_hart) (store_at 0x380 15 5) 0"
    by (simp add: hart_stores_def store_at_def quiet_top_def mem_bus_ok_def map_addresses mask_numeral one_hart_def obi_cfg_def)
  have v: "(fld 31 0 (slave_wdata_i (store_at 0x380 15 5)) :: u32) = 5" "slave_addr_i (load_from 0x338) = 0x338"
    by (simp_all add: store_at_def load_from_def fld_def)
  have r: "obi_requests [?l, ?q, ?w] = [3, 4]"
    by (simp add: slave_gnt_o_def load_from_def store_at_def quiet_top_def)
  show ?thesis
    using obi_transactions [of one_hart "[?l, ?q, ?w]" ?s ?l "0x338" 0] obi_transactions [of one_hart "[]" ?s ?w "0x338" 0] l st v r
    by (auto simp: map_addresses Let_def simp del: obi_responses.simps obi_requests.simps)
qed

end
