(* ===== verification/Dm_Progress.thy ===== *)
theory Dm_Progress
  imports Dm_Top
begin

text \<open>
  How the debug module moves on between the requests of the debugger: what stays while no request is
  accepted, how an accepted command makes it busy, how the signals of a hart lead back to idle, and the
  responses to accesses of the first data register.
\<close>

section \<open>Cycles without a request\<close>

text \<open>A request is accepted if the response queue has room.\<close>

definition accepts :: "top_in \<Rightarrow> bool" where
  "accepts i \<longleftrightarrow> top_dmi_valid i \<and> \<not> top_resp_full i"

lemma unaccepted: "\<not> accepts i \<Longrightarrow> \<not> request (csr_port g i t) p" "\<not> accepts i \<Longrightarrow> \<not> top_dmi g i t p a"
  by (auto simp: accepts_def top_dmi_def request_def)

lemma unaccepted_active: "list_all (\<lambda>i. \<not> accepts i) is \<Longrightarrow> top_active t \<Longrightarrow> top_active (runs (top_clk g) is t)"
proof (induction "is" arbitrary: t)
  case (Cons i "is")
  then show ?case using stays_active [of t g i] unaccepted(2) [of i] by auto
qed simp

text \<open>The state machine of a command.\<close>

lemma mem_steps:
  assumes "\<not> ndmreset (dmcontrol_q (top_csrs t))"
  shows "mem_state_q (top_mem t) = Mem_Go \<Longrightarrow> mem_state_q (top_mem (top_clk g i t)) =
      (if going (top_mem_in g i t) then Mem_CmdExecuting else Mem_Go)"
    and "mem_state_q (top_mem t) = Mem_CmdExecuting \<Longrightarrow> mem_state_q (top_mem (top_clk g i t)) =
      (if mem_write (top_mem_in g i t) HaltedAddr \<and> mem_hartsel g (top_mem_in g i t) = wdata_hartsel g (top_mem_in g i t)
       then Mem_Idle else Mem_CmdExecuting)"
proof -
  have "\<not> ndmreset_i (top_mem_in g i t)" using assms by (simp add: top_mem_in_def mem_port_def)
  then show "mem_state_q (top_mem t) = Mem_Go \<Longrightarrow> mem_state_q (top_mem (top_clk g i t)) =
      (if going (top_mem_in g i t) then Mem_CmdExecuting else Mem_Go)"
    "mem_state_q (top_mem t) = Mem_CmdExecuting \<Longrightarrow> mem_state_q (top_mem (top_clk g i t)) =
      (if mem_write (top_mem_in g i t) HaltedAddr \<and> mem_hartsel g (top_mem_in g i t) = wdata_hartsel g (top_mem_in g i t)
       then Mem_Idle else Mem_CmdExecuting)" by (simp_all add: top_clk_def state_step)
qed

lemma dmcontrol_kept:
  assumes "top_active t" and "\<not> top_dmi g i t DTM_WRITE DMControl"
  shows "ndmreset (dmcontrol_q (top_csrs (top_clk g i t))) = ndmreset (dmcontrol_q (top_csrs t))"
    "resumereq (dmcontrol_q (top_csrs (top_clk g i t))) \<Longrightarrow> resumereq (dmcontrol_q (top_csrs t))"
    "hartsel_o (top_csrs (top_clk g i t)) = take_bit (clog2 (NrHarts g)) (hartsel_o (top_csrs t))"
proof -
  let ?p = "csr_port g i t" and ?s = "top_csrs t"
  have n: "request ?p DTM_WRITE \<Longrightarrow> dm_csr_addr ?p \<noteq> DMControl" using assms(2) by (auto simp: top_dmi_def)
  have a: "dmactive (dmcontrol_q ?s)" using assms(1) by (simp add: top_active_def)
  have f: "ndmreset (fix_dmcontrol g ?p ?s d) = ndmreset d" "resumereq (fix_dmcontrol g ?p ?s d) \<Longrightarrow> resumereq d" for d
    by (simp_all add: fix_dmcontrol_def warl_hartsel_def Let_def)
  have c: "dmcontrol_q (csrs_clk g ?p ?s) = fix_dmcontrol g ?p ?s (dmcontrol_q ?s)"
    using a n named_not_ranges [of ?p] read_not_write [of ?p]
    by (simp add: csrs_clk_def csr_comb_def Let_def Dm_Csrs.csr_update_def csr_write_frame csr_read_frame)
      (simp add: csr_default_def)
  show "ndmreset (dmcontrol_q (top_csrs (top_clk g i t))) = ndmreset (dmcontrol_q ?s)"
    "resumereq (dmcontrol_q (top_csrs (top_clk g i t))) \<Longrightarrow> resumereq (dmcontrol_q ?s)"
    using f by (simp_all add: top_clk_def c)
  show "hartsel_o (top_csrs (top_clk g i t)) = take_bit (clog2 (NrHarts g)) (hartsel_o ?s)"
    using hartsel_warl [of g ?p ?s] a n by (auto simp: top_clk_def)
qed

lemma mem_stays_idle:
  assumes "mem_state_q (top_mem t) = Mem_Idle" and "\<not> ndmreset (dmcontrol_q (top_csrs t))"
    and "\<not> cmd_valid_q (top_csrs t)" and "\<not> resumereq (dmcontrol_q (top_csrs t))"
  shows "mem_state_q (top_mem (top_clk g i t)) = Mem_Idle"
  using assms by (simp add: top_clk_def state_idle top_mem_in_def mem_port_def Let_def aligned_def resumereq_o_def)

text \<open>An active module without resets and with hart 0 selected, between two writes of \<open>dmcontrol\<close>.\<close>

definition settled :: "dm_top \<Rightarrow> bool" where
  "settled t \<longleftrightarrow> top_active t \<and> \<not> ndmreset (dmcontrol_q (top_csrs t)) \<and> \<not> resumereq (dmcontrol_q (top_csrs t)) \<and>
     hartsel_o (top_csrs t) = 0"

lemma settled_step:
  "settled t \<Longrightarrow> \<not> top_dmi g i t DTM_WRITE DMControl \<Longrightarrow> settled (top_clk g i t)"
  using stays_active [of t g i] dmcontrol_kept [of t g i] by (auto simp: settled_def)

section \<open>Starting a command\<close>

definition ready_for_command :: "dm_cfg \<Rightarrow> dm_top \<Rightarrow> bool" where
  "ready_for_command g t \<longleftrightarrow> top_active t \<and> mem_state_q (top_mem t) = Mem_Idle \<and>
     \<not> ndmreset (dmcontrol_q (top_csrs t)) \<and> \<not> resumereq (dmcontrol_q (top_csrs t)) \<and>
     aligned g (halted_q (top_mem t)) (selected_hart g (top_csrs t))"

text \<open>A command accepted in one cycle makes the module busy with it in the next.\<close>

lemma command_starts:
  assumes "ready_for_command g t" and "ready_for_command g (top_clk g i t)" and "top_dmi g i t DTM_WRITE Command"
    and "transfer_ok g (unpack_command (dmi_data (top_dmi_req i))) ac" and "\<not> accepts i'"
  shows "top_busy (top_clk g i' (top_clk g i t))"
    and "command_q (top_csrs (top_clk g i' (top_clk g i t))) = unpack_command (dmi_data (top_dmi_req i))"
    and "resp_resp (resp_queue_inp (top_comb g i t)) = DTM_SUCCESS"
    and "mem_state_q (top_mem (top_clk g i' (top_clk g i t))) = Mem_Go"
proof -
  let ?t = "top_clk g i t" and ?m = "top_mem_in g i' (top_clk g i t)" and ?c = "unpack_command (dmi_data (top_dmi_req i))"
  have a: "dmactive (dmcontrol_q (top_csrs t))" "\<not> cmdbusy_i (csr_port g i t)"
    using assms(1) by (simp_all add: ready_for_command_def top_active_def)
  note w = command_write [OF assms(3) a(2)]
  have q: "cmd_valid_q (top_csrs ?t)" "command_q (top_csrs ?t) = ?c"
    using a(1) by (simp_all add: top_clk_def csrs_clk_def Let_def w csr_update_frame set_nxt_def)
  show "resp_resp (resp_queue_inp (top_comb g i t)) = DTM_SUCCESS"
    by (simp add: top_comb_def w csr_update_frame set_nxt_def csr_default_def)
  have t: "top_active ?t" using assms(2) by (simp add: ready_for_command_def)
  have b: "top_active (top_clk g i' ?t)" by (rule stays_active [OF t unaccepted(2) [OF assms(5)]])
  have "\<not> unsupported_command g ?m"
    using abstract_prog_transfer [OF assms(4)] q(2) by (simp add: unsupported_command_def Let_def)
  moreover have "ndmreset_i ?m = ndmreset (dmcontrol_q (top_csrs ?t))" "mem_hartsel g ?m = selected_hart g (top_csrs ?t)"
    "resumereq_i ?m = resumereq_o g (top_csrs ?t)"
    by (simp_all add: top_mem_in_def mem_port_def mem_hartsel_def selected_hart_def)
  ultimately have "mem_state_q (mem_clk g ?m (top_mem ?t)) = Mem_Go"
    using assms(2) q(1) by (simp add: state_idle ready_for_command_def Let_def aligned_def resumereq_o_def)
  then show go: "mem_state_q (top_mem (top_clk g i' ?t)) = Mem_Go" by (simp add: top_clk_def [of g i'])
  then show "top_busy (top_clk g i' ?t)" using b by (simp add: top_busy_def top_active_def)
  show "command_q (top_csrs (top_clk g i' ?t)) = ?c"
    using t q(2) unaccepted(1) [OF assms(5)]
    by (simp add: top_clk_def [of g i'] top_active_def csrs_clk_def Let_def csr_comb_def csr_update_frame)
      (simp add: csr_default_def)
qed

section \<open>Responses\<close>

lemma two_responses: "resp_resp (resp_queue_inp (top_comb g i t)) \<in> {DTM_SUCCESS, DTM_BUSY}"
proof -
  have r: "resp_resp (resp_queue_inp (csr_read g p s c)) = resp_resp (resp_queue_inp c) \<or>
      resp_resp (resp_queue_inp (csr_read g p s c)) = DTM_BUSY"
    and w: "resp_resp (resp_queue_inp (csr_write g p s c)) = resp_resp (resp_queue_inp c) \<or>
      resp_resp (resp_queue_inp (csr_write g p s c)) = DTM_BUSY" for p s c
    by (simp_all add: handler_defs)
  have d: "resp_resp (resp_queue_inp (csr_default p s)) = DTM_SUCCESS" for p s by (simp add: csr_default_def)
  let ?p = "csr_port g i t" and ?s = "top_csrs t"
  let ?c = "if request ?p DTM_READ then csr_read g ?p ?s (csr_default ?p ?s) else csr_default ?p ?s"
  have "resp_resp (resp_queue_inp ?c) \<in> {DTM_SUCCESS, DTM_BUSY}"
    using r [of ?p ?s "csr_default ?p ?s"] d [of ?p ?s] by (simp split: if_split)
  then show ?thesis
    using w [of ?p ?s ?c] unfolding top_comb_def csr_comb_def Let_def csr_update_frame
    by (cases "request ?p DTM_WRITE"; elim insertE; simp)
qed

lemma data0_response:
  assumes "top_dmi g i t DTM_READ Data0"
  shows "resp_resp (resp_queue_inp (top_comb g i t)) =
    (if mem_state_q (top_mem t) = Mem_Idle then DTM_SUCCESS else DTM_BUSY)"
  using data_access [of g i t DTM_READ 0] assms
  by (simp add: top_comb_def read_comb csr_update_frame)
    (simp add: csr_read_def Let_def respond_def set_nxt_def cmd_busy_error_def busy_resp_def csr_default_def)

lemma write_data_response:
  assumes "top_dmi g i t DTM_WRITE Data0" and "mem_state_q (top_mem t) = Mem_Idle"
  shows "resp_resp (resp_queue_inp (top_comb g i t)) = DTM_SUCCESS"
  using data_access [of g i t DTM_WRITE 0] assms
  by (simp add: top_comb_def write_comb csr_update_frame) (simp add: csr_write_def Let_def set_nxt_def csr_default_def)

lemma data0_read_data:
  assumes "top_dmi g i t DTM_READ Data0"
  shows "resp_data (resp_queue_inp (top_comb g i t)) = csrs.data_q (top_csrs t) 0"
  using data_access [of g i t DTM_READ 0] assms
  by (simp add: top_comb_def read_comb csr_update_frame csr_read_storage)

section \<open>Examples\<close>

text \<open>Hart 0 writes a zero word to one of the signal registers.\<close>

definition signal_store :: "u64 \<Rightarrow> top_in" where
  "signal_store a = quiet_top\<lparr>slave_req_i := True, slave_we_i := True, slave_addr_i := a, slave_be_i := 15\<rparr>"

lemma signal_store_simps [simp]:
  "\<not> accepts (signal_store a)" "slave_req_i (signal_store a)" "slave_we_i (signal_store a)"
  "slave_addr_i (signal_store a) = a" "slave_wdata_i (signal_store a) = 0"
  by (simp_all add: accepts_def signal_store_def quiet_top_def)

end
