(* ===== verification/Debug_Session.thy ===== *)
theory Debug_Session
  imports Dm_Progress
begin

text \<open>
  Debugger, debug module and hart together: reading and writing a register of a halted hart through an
  abstract command. The debug module of \<open>Dm_Top\<close> runs cycle by cycle under any traffic; the hart of
  \<open>Riscv\<close> fetches the instructions of the command from it, and its loads and stores of the data
  registers are accesses to it.
\<close>

section \<open>A hart on the bus of the debug module\<close>

text \<open>Each slot of the command is fetched in some cycle in which the module is busy with it.\<close>

definition fetches_from :: "dm_cfg \<Rightarrow> dm_top \<Rightarrow> u64 \<Rightarrow> hart \<Rightarrow> bool" where
  "fetches_from g t base h \<longleftrightarrow> (\<forall>k < 10. \<exists>is i. runs_ok (top_clk g) (stays_busy g) is t \<and>
     hart_loads i (AbstractCmdBaseAddr + 4 * of_nat k) \<and>
     code h (base + 0x338 + 4 * of_nat k) = hart_fetch g i (runs (top_clk g) is t))"

lemma fetched_program:
  assumes "top_busy t" and "fetches_from g t base h"
  shows "loaded (fst (abstract_prog g (command_q (top_csrs t)))) (base + 0x338) h"
  using assms(2) held_fetch(1) [OF assms(1)]
  unfolding loaded_def fetches_from_def length_abstract_prog by metis

text \<open>An access \<open>i\<close> on the bus delivers a store of the hart to the first data register.\<close>

definition delivers :: "dm_cfg \<Rightarrow> u64 \<Rightarrow> top_in \<Rightarrow> u64 \<times> nat \<times> u64 \<Rightarrow> bool" where
  "delivers g base i st \<longleftrightarrow> (case st of (a, n, v) \<Rightarrow>
     a = base + 0x380 \<and> n = 4 \<and> hart_stores g i 0 \<and> take_bit 32 (slave_wdata_i i) = v)"

lemma word32: "take_bit 32 w = take_bit 32 v \<Longrightarrow> (fld 31 0 (w :: u64) :: u32) = ucast v"
proof (rule bit_word_eqI)
  fix n
  assume e: "take_bit 32 w = take_bit 32 v" and n: "n < LENGTH(32)"
  have "bit w n = bit v n" using arg_cong [OF e, of "\<lambda>x. bit x n"] n by (simp add: bit_take_bit_iff)
  then show "bit (fld 31 0 w :: u32) n = bit (ucast v :: u32) n" using n by (simp add: bit_fld bit_ucast_word)
qed

section \<open>Reading and writing registers\<close>

lemma read_command_run:
  assumes "top_busy t" and "transfer_ok g (command_q (top_csrs t)) ac" and "accessible g ac" and "page_ok g base"
    and "fetches_from g t base h" and "pc h = base + 0x338" and "\<not> ar_write ac" and "aarsize ac = 2"
  shows "\<exists>h'. run 10 h = (if postexec ac then Running h' else At_Ebreak h') \<and> gpr h' = gpr h \<and> fpr h' = fpr h \<and>
    stores h' = stores h @ [(base + 0x380, 4, take_bit 32 (get_reg ac h))]"
  using run_command [OF assms(2-4) fetched_program [OF assms(1,5)] assms(6)] assms(7,8)
  by (auto simp: command_done_def command_effect_def log_store_def)

lemma delivered_read:
  assumes "top_active t" and "top_active (top_clk g i t)" and "delivers g base i (base + 0x380, 4, take_bit 32 v)"
    and "runs_ok (top_clk g) (data_untouched g) is (top_clk g i t)"
    and "top_dmi g j (runs (top_clk g) is (top_clk g i t)) DTM_READ Data0"
  shows "resp_data (resp_queue_inp (top_comb g j (runs (top_clk g) is (top_clk g i t)))) = ucast v"
proof -
  have d: "hart_stores g i 0" "take_bit 32 (slave_wdata_i i) = take_bit 32 v"
    using assms(3) by (simp_all add: delivers_def)
  show ?thesis unfolding word32 [OF d(2), symmetric]
    by (rule hart_to_host [OF assms(1,2,4) d(1)]) (use assms(5) in simp)
qed

text \<open>The debugger reads a register. While the module is busy with a supported 32-bit read command, a
  hart that fetches its slots from the module, each whenever it likes and whatever the debugger does
  meanwhile, comes to the end of the command with all its registers as they were and with one store
  to the data register. Whenever this store arrives, a later read of \<open>data0\<close> by the debugger, before
  anyone writes the data registers again, is answered with the register the command named.\<close>

theorem debugger_reads_register:
  assumes "top_busy t" and "transfer_ok g (command_q (top_csrs t)) ac" and "accessible g ac" and "page_ok g base"
    and "fetches_from g t base h" and "pc h = base + 0x338" and "\<not> ar_write ac" and "aarsize ac = 2"
  shows "\<exists>h'. run 10 h = (if postexec ac then Running h' else At_Ebreak h') \<and> gpr h' = gpr h \<and> fpr h' = fpr h \<and>
    stores h' = stores h @ [(base + 0x380, 4, take_bit 32 (get_reg ac h))] \<and>
    (\<forall>t1 i is j. top_active t1 \<and> top_active (top_clk g i t1) \<and> delivers g base i (last (stores h')) \<and>
       runs_ok (top_clk g) (data_untouched g) is (top_clk g i t1) \<and>
       top_dmi g j (runs (top_clk g) is (top_clk g i t1)) DTM_READ Data0 \<longrightarrow>
       resp_data (resp_queue_inp (top_comb g j (runs (top_clk g) is (top_clk g i t1)))) = ucast (get_reg ac h))"
proof -
  obtain h' where h': "run 10 h = (if postexec ac then Running h' else At_Ebreak h')"
    "gpr h' = gpr h" "fpr h' = fpr h" "stores h' = stores h @ [(base + 0x380, 4, take_bit 32 (get_reg ac h))]"
    using read_command_run [OF assms] by blast
  have "resp_data (resp_queue_inp (top_comb g j (runs (top_clk g) is (top_clk g i t1)))) = ucast (get_reg ac h)"
    if "top_active t1" "top_active (top_clk g i t1)" "delivers g base i (last (stores h'))"
      "runs_ok (top_clk g) (data_untouched g) is (top_clk g i t1)"
      "top_dmi g j (runs (top_clk g) is (top_clk g i t1)) DTM_READ Data0" for t1 i "is" j
    using delivered_read [OF that(1,2) _ that(4,5)] that(3) h'(4) by simp
  then show ?thesis using h' by (intro exI [of _ h']) simp
qed

text \<open>The value a 32-bit command loads for a word in the data register: boxed for a floating-point
  register, sign-extended for any other.\<close>

definition written_value :: "ac_ar_cmd_t \<Rightarrow> u32 \<Rightarrow> u64" where
  "written_value ac v = (if bit (regno ac) 12 \<and> bit (regno ac) 5 then 0xffffffff00000000 OR ucast v
     else signed_take_bit 31 (ucast v))"

text \<open>C4: the debugger writes a register. A word written to \<open>data0\<close> while the module is idle, followed by a
  32-bit write command for an integer register, a floating-point register or a CSR, ends up in the
  register the command names (a CSR that is not a scratch register of the debugger): sign-extended, or
  boxed in a floating-point register. This holds for a hart that fetches the slots from the module while
  it is busy with the command and loads the data register from it at any later time, as long as nobody
  writes the data registers in between. Every other integer and floating-point register is as before,
  so is every other CSR but the scratch registers, and the hart has stored nothing. Commands of other
  widths are not covered.\<close>

theorem debugger_writes_register:
  assumes "top_active t0" and "top_active (top_clk g i0 t0)" and "top_dmi g i0 t0 DTM_WRITE Data0"
    and "\<not> cmdbusy_i (csr_port g i0 t0)" and "\<not> data_valid_i (csr_port g i0 t0)"
    and "t = runs (top_clk g) is1 (top_clk g i0 t0)"
    and "runs_ok (top_clk g) (data_untouched g) (is1 @ is2) (top_clk g i0 t0)"
    and "top_busy t" and "transfer_ok g (command_q (top_csrs t)) ac" and "accessible g ac" and "page_ok g base"
    and "fetches_from g t base h" and "pc h = base + 0x338" and "ar_write ac" and "aarsize ac = 2"
    and "hart_loads j DataAddr" and "load_bytes h (base + 0x380) 4 = ucast (hart_fetch g j (runs (top_clk g) is2 t))"
  shows "\<exists>h'. run 10 h = (if postexec ac then Running h' else At_Ebreak h') \<and>
    command_done g (set_reg ac (written_value ac (dmi_data (top_dmi_req i0))) h) h' \<and> stores h' = stores h"
proof -
  obtain h' where h': "run 10 h = (if postexec ac then Running h' else At_Ebreak h')"
    "command_done g (command_effect ac base h) h'"
    using run_command [OF assms(9-11) fetched_program [OF assms(8,12)] assms(13)] by blast
  have "hart_fetch g j (runs (top_clk g) (is1 @ is2) (top_clk g i0 t0)) = dmi_data (top_dmi_req i0)"
    using host_to_hart [OF assms(1,2) _ assms(7), of 0 j] assms(3-5,16) by simp
  then have "load_bytes h (base + 0x380) 4 = ucast (dmi_data (top_dmi_req i0))" using assms(6,17) by simp
  then have "command_effect ac base h = set_reg ac (written_value ac (dmi_data (top_dmi_req i0))) h"
    using assms(14,15) by (simp add: command_effect_def written_value_def data_value_def load_value_def)
  moreover have "stores (set_reg ac v h) = stores h" for v by (simp add: set_reg_def)
  ultimately show ?thesis using h' by (intro exI [of _ h']) (simp add: command_done_def)
qed

section \<open>Examples\<close>

text \<open>The command of \<open>active_top\<close> writes \<open>x9\<close>; the hart of \<open>Abstract_Command\<close> finds 42 in \<open>data0\<close>.\<close>

definition busy_top :: "command_t \<Rightarrow> dm_top" where
  "busy_top c = active_top\<lparr>top_csrs := (top_csrs active_top)\<lparr>command_q := c\<rparr>,
     top_mem := (top_mem active_top)\<lparr>mem_state_q := Mem_Go\<rparr>\<rparr>"

lemma busy_top_simps [simp]:
  "top_busy (busy_top c)" "command_q (top_csrs (busy_top c)) = c"
  by (simp_all add: busy_top_def top_busy_def)

lemma fetches_command:
  assumes "top_busy t"
    and "\<And>k. k < 10 \<Longrightarrow> code h (base + 0x338 + 4 * of_nat k) = fst (abstract_prog g (command_q (top_csrs t))) ! k"
  shows "fetches_from g t base h"
  unfolding fetches_from_def
proof (intro allI impI)
  fix k :: nat
  assume k: "k < 10"
  let ?i = "load_from (ucast (AbstractCmdBaseAddr + 4 * of_nat k))"
  have l: "hart_loads ?i (AbstractCmdBaseAddr + 4 * of_nat k)"
    by (simp add: hart_loads_def load_from_def quiet_top_def ucast_ucast_self)
  have "hart_fetch g ?i (runs (top_clk g) [] t) = fst (abstract_prog g (command_q (top_csrs t))) ! k"
    using held_fetch(1) [of t g "[]", OF assms(1) _ l k] by simp
  then show "\<exists>is i. runs_ok (top_clk g) (stays_busy g) is t \<and>
      hart_loads i (AbstractCmdBaseAddr + 4 * of_nat k) \<and>
      code h (base + 0x338 + 4 * of_nat k) = hart_fetch g i (runs (top_clk g) is t)"
    using assms(2) [OF k] l by (intro exI [of _ "[]"] exI [of _ ?i]) simp
qed

definition read_x9 :: command_t where
  "read_x9 = unpack_command 0x00221009"

lemma read_x9_ok:
  "transfer_ok one_hart read_x9 (unpack_ac_ar_cmd 0x221009)" "accessible one_hart (unpack_ac_ar_cmd 0x221009)"
  by (simp_all add: transfer_ok_def accessible_def read_x9_def unpack_command_def unpack_ac_ar_cmd_def
      fld_def AccessRegister_def MaxAar_def one_hart_def reserved_regno_def)

lemma command_hart_fetches:
  assumes "top_busy t" and "command_q (top_csrs t) = c"
  shows "fetches_from one_hart t 0x1A110000 (command_hart c)"
proof (rule fetches_command [OF assms(1)])
  fix k :: nat
  assume "k < 10"
  then show "code (command_hart c) (0x1A110000 + 0x338 + 4 * of_nat k) = fst (abstract_prog one_hart (command_q (top_csrs t))) ! k"
    using command_hart_loaded [of c] length_abstract_prog [of one_hart c] assms(2) unfolding loaded_def by simp
qed

lemma command_hart_page: "page_ok one_hart 0x1A110000" "pc (command_hart c) = 0x1A110000 + 0x338"
  by (simp_all add: page_ok_def HasSndScratch_def one_hart_def command_hart_def)

definition store_data0 :: "u64 \<Rightarrow> top_in" where
  "store_data0 v = quiet_top\<lparr>slave_req_i := True, slave_we_i := True, slave_addr_i := 0x380, slave_be_i := 15,
     slave_wdata_i := v\<rparr>"

theorem debugger_reads_register_witness:
  "(\<exists>h'. run 10 (command_hart read_x9) = At_Ebreak h' \<and> last (stores h') = (0x1A110380, 4, 9)) \<and>
   resp_data (resp_queue_inp (top_comb one_hart (host DTM_READ Data0 0)
     (top_clk one_hart (store_data0 9) (busy_top read_x9)))) = 9"
proof -
  let ?ac = "unpack_ac_ar_cmd 0x221009" and ?t = "busy_top read_x9"
  have ac: "\<not> ar_write ?ac" "aarsize ?ac = 2" "\<not> postexec ?ac" "get_reg ?ac (command_hart read_x9) = 9"
    by (simp_all add: unpack_ac_ar_cmd_def fld_def get_reg_def rd_reg_def regno_index_def command_hart_def)
  have a: "top_active ?t" by (simp add: busy_top_def top_active_def)
  have "top_active (top_clk one_hart (store_data0 9) ?t)"
    by (rule stays_active [OF a]) (simp add: top_dmi_def request_def store_data0_def quiet_top_def)
  moreover have "delivers one_hart 0x1A110000 (store_data0 9) (0x1A110380, 4, 9)"
    by (simp add: delivers_def hart_stores_def store_data0_def quiet_top_def mem_bus_ok_def map_addresses mask_numeral)
  moreover have "top_dmi one_hart (host DTM_READ Data0 0) (top_clk one_hart (store_data0 9) ?t) DTM_READ Data0"
    by (simp add: dm_addresses)
  moreover obtain h' where h': "run 10 (command_hart read_x9) = At_Ebreak h'" "stores h' = [(0x1A110380, 4, 9)]"
    and later: "\<forall>t1 i is j. top_active t1 \<and> top_active (top_clk one_hart i t1) \<and> delivers one_hart 0x1A110000 i (last (stores h')) \<and>
       runs_ok (top_clk one_hart) (data_untouched one_hart) is (top_clk one_hart i t1) \<and>
       top_dmi one_hart j (runs (top_clk one_hart) is (top_clk one_hart i t1)) DTM_READ Data0 \<longrightarrow>
       resp_data (resp_queue_inp (top_comb one_hart j (runs (top_clk one_hart) is (top_clk one_hart i t1)))) = 9"
    using debugger_reads_register [where t = ?t and g = one_hart and ac = ?ac and base = "0x1A110000" and h = "command_hart read_x9"]
      read_x9_ok command_hart_page command_hart_fetches [of ?t read_x9] ac a by (auto simp: command_hart_def)
  ultimately show ?thesis
    using later [rule_format, of ?t "store_data0 9" "[]" "host DTM_READ Data0 0"] a by simp
qed

text \<open>The command to write \<open>x9\<close> is on its way to the hart control when the debugger writes \<open>data0\<close>.\<close>

definition starting_top :: dm_top where
  "starting_top = active_top\<lparr>top_csrs := (top_csrs active_top)\<lparr>cmd_valid_q := True, command_q := write_x9\<rparr>\<rparr>"

lemma starting_step:
  "top_busy (top_clk one_hart (host DTM_WRITE Data0 v) starting_top)"
  "command_q (top_csrs (top_clk one_hart (host DTM_WRITE Data0 v) starting_top)) = write_x9"
  "\<not> cmdbusy_i (csr_port one_hart (host DTM_WRITE Data0 v) starting_top)"
  "\<not> data_valid_i (csr_port one_hart (host DTM_WRITE Data0 v) starting_top)"
  "top_active starting_top"
proof -
  let ?i = "host DTM_WRITE Data0 v" and ?t = starting_top
  have idle: "mem_state_q (top_mem ?t) = Mem_Idle" "halted_q (top_mem ?t) = (\<lambda>_. True)"
    by (simp_all add: starting_top_def)
  show b: "\<not> cmdbusy_i (csr_port one_hart ?i ?t)" using idle by simp
  show d: "\<not> data_valid_i (csr_port one_hart ?i ?t)"
    by (simp add: data_valid_o_def mem_port_def host_def quiet_top_def)
  show a: "top_active ?t" by (simp add: starting_top_def top_active_def)
  have sel: "hartsel_o (top_csrs ?t) = 0"
    using active_top_simps(8) by (simp add: hartsel_o_def starting_top_def)
  have "\<not> unsupported_command one_hart (top_mem_in one_hart ?i ?t)"
    using write_x9_ok(1) abstract_prog_transfer [OF write_x9_ok(1)]
    by (simp add: unsupported_command_def starting_top_def Let_def)
  moreover have "\<not> ndmreset_i (top_mem_in one_hart ?i ?t)" "\<not> resumereq (dmcontrol_q (top_csrs ?t))"
    "mem_hartsel one_hart (top_mem_in one_hart ?i ?t) = 0" "resumereq_i (top_mem_in one_hart ?i ?t) = resumereq_o one_hart (top_csrs ?t)"
    "cmd_valid_q (top_csrs ?t)"
    using sel by (simp_all add: top_mem_in_def mem_port_def mem_hartsel_def) (simp_all add: starting_top_def)
  ultimately have "mem_state_q (mem_clk one_hart (top_mem_in one_hart ?i ?t) (top_mem ?t)) = Mem_Go"
    using idle by (simp add: state_idle Let_def aligned_def resumereq_o_def)
  moreover have "top_active (top_clk one_hart ?i ?t)" by (rule stays_active [OF a]) (simp add: dm_addresses)
  ultimately show "top_busy (top_clk one_hart ?i ?t)" by (simp add: top_busy_def top_active_def top_clk_def)
  have w: "top_dmi one_hart ?i ?t DTM_WRITE (Data0 + of_nat 0)" by (simp add: dm_addresses)
  show "command_q (top_csrs (top_clk one_hart ?i ?t)) = write_x9"
    using a by (simp add: top_clk_def csrs_clk_def Let_def top_active_def write_comb [OF data_access(1) [OF w]]
        csr_update_frame csr_write_storage(1) [OF b data_access(2) [OF w]] set_nxt_def)
      (simp add: csr_default_def starting_top_def)
qed

lemma load_42: "load_bytes (command_hart c) 0x1A110380 4 = 0x2a"
proof -
  have four: "[0..<4] = [0, 1, 2, 3 :: nat]" by (simp add: upt_rec)
  show ?thesis by (simp add: load_bytes_def command_hart_def four)
qed

theorem debugger_writes_register_witness:
  "\<exists>h'. run 10 (command_hart write_x9) = At_Ebreak h' \<and> gpr h' 9 = signed_take_bit 31 0x2a \<and> gpr h' 10 = 10 \<and>
     csr h' 0x300 = 0"
proof -
  let ?ac = "unpack_ac_ar_cmd 0x231009" and ?i = "host DTM_WRITE Data0 0x2a" and ?j = "load_from 0x380"
  let ?t = "top_clk one_hart ?i starting_top"
  have ac: "ar_write ?ac" "aarsize ?ac = 2" "\<not> postexec ?ac" "bit (regno ?ac) 12" "\<not> bit (regno ?ac) 5" "regno_index ?ac = 9"
    by (simp_all add: unpack_ac_ar_cmd_def fld_def regno_index_def)
  have a: "top_active ?t" using starting_step(1) [of "0x2a"] by (simp add: top_busy_def top_active_def)
  have w: "top_dmi one_hart ?i starting_top DTM_WRITE Data0" by (simp add: dm_addresses)
  have l: "hart_loads ?j DataAddr" by (simp add: hart_loads_def load_from_def quiet_top_def map_addresses)
  have "hart_fetch one_hart ?j ?t = 0x2a"
    using host_to_hart [OF starting_step(5) a, of 0 "[]" ?j] w l starting_step(3,4) [of "0x2a"] by (simp add: host_def)
  moreover have "fetches_from one_hart ?t 0x1A110000 (command_hart write_x9)"
    using command_hart_fetches [OF starting_step(1,2)] .
  ultimately obtain h' where h': "run 10 (command_hart write_x9) = At_Ebreak h'"
    and d: "command_done one_hart (set_reg ?ac (written_value ?ac 0x2a) (command_hart write_x9)) h'"
    using debugger_writes_register [where t = ?t and g = one_hart and ?t0.0 = starting_top and ?i0.0 = ?i and ac = ?ac
        and base = "0x1A110000" and h = "command_hart write_x9" and ?is1.0 = "[]" and ?is2.0 = "[]" and j = ?j]
      starting_step(1-4) [of "0x2a"] starting_step(5) a w l write_x9_ok command_hart_page ac load_42 [of write_x9]
    by (auto simp: host_def)
  have v: "set_reg ?ac (written_value ?ac 0x2a) h = wr_reg 9 (signed_take_bit 31 0x2a) h" for h
    using ac by (simp add: written_value_def set_reg_def)
  have "csr h' 0x300 = csr (command_hart write_x9) 0x300"
    using d [unfolded v command_done_def] by (auto simp: scratches_def csr_names dest: spec [of _ "0x300"] split: if_splits)
  moreover have "gpr h' 9 = signed_take_bit 31 0x2a" "gpr h' 10 = 10"
    using d [unfolded v command_done_def] by (simp_all add: wr_reg_def) (simp add: command_hart_def)
  ultimately show ?thesis using h' by (intro exI [of _ h']) (simp add: command_hart_def)
qed

end
