(* ===== verification/Host_Session.thy ===== *)
theory Host_Session
  imports Debug_Session Dmi_Jtag
begin

text \<open>
  The debugger at the JTAG pins: the transport module of \<open>Dmi_Jtag\<close> and the debug module of \<open>Dm_Top\<close> in one
  session. They run on clocks of their own and meet in the clock domain crossing, whose cells are not
  in the repository: what it shows the transport module is an input of every edge of TCK, what it
  offers the debug module an input of every core clock, and \<open>carries\<close> states what the two clocks see of
  one request that it carries.
\<close>

section \<open>Requests on both sides of the crossing\<close>

text \<open>The requests that the debug module accepts in a run, each with the response it queues for it.\<close>

fun answers :: "dm_cfg \<Rightarrow> top_in list \<Rightarrow> dm_top \<Rightarrow> (dmi_req_t \<times> dmi_resp_t) list" where
  "answers g [] t = []"
| "answers g (i # is) t =
    (if accepts i then [(top_dmi_req i, resp_queue_inp (top_comb g i t))] else []) @ answers g is (top_clk g i t)"

text \<open>The transport module requests nothing and nothing arrives, or its request arrives once and its
  answer comes back.\<close>

definition carries :: "dm_cfg \<Rightarrow> cdc list \<Rightarrow> top_in list \<Rightarrow> dm_top \<Rightarrow> dmi_jtag \<Rightarrow> bool" where
  "carries g cs is t d \<longleftrightarrow> (case answers g is t of
     [] \<Rightarrow> \<not> dmi_req_valid d
   | (q, r) # rest \<Rightarrow> dmi_req_valid d \<and> rest = [] \<and> q = dmi_req d \<and> handshake cs r)"

text \<open>One access of the host: a scan of the DMI register and a wait in Run-Test/Idle, with what the crossing
  shows the transport module meanwhile, and the core clocks that pass.\<close>

record access =
  acc_addr :: "7 word"
  acc_data :: u32
  acc_op :: "2 word"
  scan_cdc :: "cdc list"
  wait_tdi :: "bool list"
  wait_cdc :: "cdc list"
  core_ins :: "top_in list"

definition scan_of :: "access \<Rightarrow> (bool \<times> bool) list" where
  "scan_of x = dr_scan (word_bits (dmi_word (acc_addr x) (acc_data x) (acc_op x)))"

definition access_ok :: "access \<Rightarrow> bool" where
  "access_ok x \<longleftrightarrow> length (scan_cdc x) = 46 \<and> length (wait_tdi x) = length (wait_cdc x)"

definition scanned :: "u32 \<Rightarrow> access \<Rightarrow> dmi_jtag \<Rightarrow> dmi_jtag" where
  "scanned idv x d = jtag_run idv (scan_of x) (scan_cdc x) d"

definition after_access :: "u32 \<Rightarrow> access \<Rightarrow> dmi_jtag \<Rightarrow> dmi_jtag" where
  "after_access idv x d = jtag_run idv (map (Pair False) (wait_tdi x)) (wait_cdc x) (scanned idv x d)"

definition core_after :: "dm_cfg \<Rightarrow> access \<Rightarrow> dm_top \<Rightarrow> dm_top" where
  "core_after g x t = runs (top_clk g) (core_ins x) t"

text \<open>What the host reads from TDO in each scan of a session, and the condition on the crossing.\<close>

fun host_reads :: "u32 \<Rightarrow> access list \<Rightarrow> dmi_jtag \<Rightarrow> bool list list" where
  "host_reads idv [] d = []"
| "host_reads idv (x # xs) d =
    take 41 (drop 3 (jtag_outs idv (scan_of x) (scan_cdc x) d)) # host_reads idv xs (after_access idv x d)"

fun crossed :: "u32 \<Rightarrow> dm_cfg \<Rightarrow> access list \<Rightarrow> dmi_jtag \<Rightarrow> dm_top \<Rightarrow> bool" where
  "crossed idv g [] d t = True"
| "crossed idv g (x # xs) d t = (access_ok x \<and> carries g (wait_cdc x) (core_ins x) t (scanned idv x d) \<and>
     crossed idv g xs (after_access idv x d) (core_after g x t))"

section \<open>The host with the debug module at hand\<close>

text \<open>The specification: the host sees the last access and its result, until one is answered with busy.\<close>

record host_view =
  seen_addr :: "7 word"
  seen_data :: u32
  seen_busy :: bool

definition view_word :: "host_view \<Rightarrow> 41 word" where
  "view_word v = dmi_word (seen_addr v) (seen_data v) (if seen_busy v then DMIBusy else DMINoError)"

definition issue_view :: "access \<Rightarrow> host_view \<Rightarrow> host_view" where
  "issue_view x v = (if seen_busy v then v else v\<lparr>seen_addr := acc_addr x, seen_data := acc_data x\<rparr>)"

definition answer_view :: "dmi_req_t \<times> dmi_resp_t \<Rightarrow> host_view \<Rightarrow> host_view" where
  "answer_view a v = (case a of (q, r) \<Rightarrow> v\<lparr>
     seen_data := (if dmi_op q = DTM_WRITE then seen_data v
       else if resp_resp r = DTM_BUSY then 0xB051B051 else resp_data r),
     seen_busy := (resp_resp r = DTM_BUSY)\<rparr>)"

definition next_view :: "dm_cfg \<Rightarrow> access \<Rightarrow> dm_top \<Rightarrow> host_view \<Rightarrow> host_view" where
  "next_view g x t v = fold answer_view (answers g (core_ins x) t) (issue_view x v)"

fun direct_reads :: "dm_cfg \<Rightarrow> access list \<Rightarrow> dm_top \<Rightarrow> host_view \<Rightarrow> 41 word list" where
  "direct_reads g [] t v = []"
| "direct_reads g (x # xs) t v =
    view_word v # direct_reads g xs (core_after g x t) (next_view g x t v)"

definition the_view :: "dmi_jtag \<Rightarrow> host_view" where
  "the_view d = \<lparr>seen_addr = address_q d, seen_data = dmi_jtag.data_q d, seen_busy = (error_q d = DMIBusy)\<rparr>"

definition dtm_ready :: "dmi_jtag \<Rightarrow> bool" where
  "dtm_ready d \<longleftrightarrow> tap_state_q (tap_i d) = RunTestIdle \<and> jtag_ir_q (tap_i d) = DMIACCESS \<and>
     state_q d = DmiIdle \<and> error_q d \<in> {DMINoError, DMIBusy}"

section \<open>The refinement\<close>

lemma answers_two: "(q, r) \<in> set (answers g is t) \<Longrightarrow> resp_resp r = DTM_SUCCESS \<or> resp_resp r = DTM_BUSY"
proof (induction "is" arbitrary: t)
  case (Cons i "is")
  then show ?case using two_responses [of g i t] by (auto split: if_splits)
qed simp

lemma idle_wait:
  assumes "tap_state_q (tap_i d) = RunTestIdle" and "state_q d = DmiIdle" and "length tds = length cs"
  shows "jtag_run idv (map (Pair False) tds) cs d = d"
  using assms(3,1,2)
proof (induction tds cs rule: list_induct2)
  case (Cons td tds c cs)
  have "dmi_jtag_posedge idv False td c d = d" using Cons.prems by (simp add: resting)
  with Cons show ?case by simp
qed simp

lemma dtm_ready_captured: "dtm_ready d \<Longrightarrow> dmi_captured d = view_word (the_view d)"
  by (auto simp: dtm_ready_def dmi_captured_def view_word_def the_view_def dmi_error_e)

lemma scanned_eq:
  assumes "dtm_ready d" and "length (scan_cdc x) = 46"
  defines "w \<equiv> dmi_word (acc_addr x) (acc_data x) (acc_op x)"
  shows "scanned idv x d = (if error_q d = DMINoError then dmi_issue w (d\<lparr>dr_q := w\<rparr>) else d\<lparr>dr_q := w\<rparr>)"
    and "take 41 (drop 3 (jtag_outs idv (scan_of x) (scan_cdc x) d)) = word_bits (view_word (the_view d))"
  using dmi_scan_gen [of d "scan_cdc x" idv w] assms(1,2) dtm_ready_captured [OF assms(1)]
  by (simp_all add: dtm_ready_def scanned_def scan_of_def w_def)

lemma scanned_ready:
  assumes "dtm_ready d" and "length (scan_cdc x) = 46"
  shows "tap_state_q (tap_i (scanned idv x d)) = RunTestIdle" "jtag_ir_q (tap_i (scanned idv x d)) = DMIACCESS"
    "error_q (scanned idv x d) = error_q d" "the_view (scanned idv x d) = issue_view x (the_view d)"
    "state_q (scanned idv x d) = (if error_q d = DMINoError then
       (if acc_op x = DTM_READ then DmiRead else if acc_op x = DTM_WRITE then DmiWrite else DmiIdle) else DmiIdle)"
  using assms(1) by (auto simp: scanned_eq [OF assms] dtm_ready_def dmi_issue_def the_view_def issue_view_def dmi_error_e)

lemma dmi_req_valid_resting:
  "tap_state_q (tap_i d) = RunTestIdle \<Longrightarrow> dmi_req_valid d \<longleftrightarrow> state_q d \<in> {DmiRead, DmiWrite}"
  by (simp add: dmi_req_valid_def dmi_clear_def update_def strobes)

lemma after_response_view:
  assumes "state_q d \<in> {DmiRead, DmiWrite}" and "error_q d = DMINoError" and "resp_resp r \<in> {DTM_SUCCESS, DTM_BUSY}"
  shows "the_view (after_response r d) = answer_view (dmi_req d, r) (the_view d)"
    and "error_q (after_response r d) \<in> {DMINoError, DMIBusy}"
  using assms by (auto simp: after_response_def the_view_def answer_view_def dmi_req_def dtm_constants dmi_error_e)

text \<open>One access: what the transport module is in afterwards is what the host would see at the module.\<close>

lemma access_step:
  assumes "dtm_ready d" and "access_ok x" and "carries g (wait_cdc x) (core_ins x) t (scanned idv x d)"
  shows "dtm_ready (after_access idv x d)" and "the_view (after_access idv x d) = next_view g x t (the_view d)"
proof -
  let ?s = "scanned idv x d"
  have l: "length (scan_cdc x) = 46" "length (wait_tdi x) = length (wait_cdc x)"
    using assms(2) by (simp_all add: access_ok_def)
  note s = scanned_ready [OF assms(1) l(1), of idv]
  have v: "dmi_req_valid ?s \<longleftrightarrow> state_q ?s \<in> {DmiRead, DmiWrite}" by (rule dmi_req_valid_resting [OF s(1)])
  have e: "error_q d \<in> {DMINoError, DMIBusy}" using assms(1) by (simp add: dtm_ready_def)
  show "dtm_ready (after_access idv x d)" "the_view (after_access idv x d) = next_view g x t (the_view d)"
  proof (atomize(full), cases "answers g (core_ins x) t")
    case Nil
    then have "state_q ?s = DmiIdle" using assms(3) v s(5) by (auto simp: carries_def split: if_splits)
    then have "after_access idv x d = ?s" unfolding after_access_def by (rule idle_wait [OF s(1) _ l(2)])
    then show "dtm_ready (after_access idv x d) \<and> the_view (after_access idv x d) = next_view g x t (the_view d)"
      using Nil s e \<open>state_q ?s = DmiIdle\<close> by (simp add: dtm_ready_def next_view_def)
  next
    case (Cons a rest)
    obtain q r where a: "a = (q, r)" by (cases a)
    have c: "dmi_req_valid ?s" "rest = []" "q = dmi_req ?s" "handshake (wait_cdc x) r"
      using assms(3) Cons a by (simp_all add: carries_def)
    have st: "state_q ?s = DmiRead \<or> state_q ?s = DmiWrite" using c(1) v by simp
    have n: "error_q ?s = DMINoError" using st s(5) s(3) e by (auto split: if_splits)
    have "resp_resp r \<in> {DTM_SUCCESS, DTM_BUSY}" using answers_two [of q r g "core_ins x" t] Cons a by simp
    note r = after_response_view [OF _ n this]
    have "after_access idv x d = after_response r ?s"
      unfolding after_access_def by (rule request_served [OF s(1) st c(4) l(2)])
    then show "dtm_ready (after_access idv x d) \<and> the_view (after_access idv x d) = next_view g x t (the_view d)"
      using r st s c Cons a by (simp add: dtm_ready_def next_view_def after_response_def)
  qed
qed

lemma session_reads:
  "dtm_ready d \<Longrightarrow> crossed idv g xs d t \<Longrightarrow>
   host_reads idv xs d = map word_bits (direct_reads g xs t (the_view d))"
proof (induction xs arbitrary: d t)
  case (Cons x xs)
  have l: "length (scan_cdc x) = 46" and c: "access_ok x" "carries g (wait_cdc x) (core_ins x) t (scanned idv x d)"
    using Cons.prems(2) by (simp_all add: access_ok_def)
  show ?case
    using Cons.IH [of "after_access idv x d" "core_after g x t"] access_step [OF Cons.prems(1) c] Cons.prems(2)
      scanned_eq(2) [OF Cons.prems(1) l, of idv] by simp
qed simp

section \<open>What the module saw\<close>

lemma answers_append: "answers g (is @ js) t = answers g is t @ answers g js (runs (top_clk g) is t)"
  by (induction "is" arbitrary: t) simp_all

definition host_req :: "access \<Rightarrow> dmi_req_t" where
  "host_req x = \<lparr>dmi_addr = acc_addr x, dmi_op = acc_op x, dmi_data = acc_data x\<rparr>"

definition requests_of :: "access list \<Rightarrow> dmi_req_t list" where
  "requests_of xs = map host_req (filter (\<lambda>x. acc_op x = DTM_READ \<or> acc_op x = DTM_WRITE) xs)"

definition session_log :: "dm_cfg \<Rightarrow> access list \<Rightarrow> dm_top \<Rightarrow> (dmi_req_t \<times> dmi_resp_t) list" where
  "session_log g xs t = answers g (concat (map core_ins xs)) t"

lemma session_log_Cons:
  "session_log g [] t = []"
  "session_log g (x # xs) t = answers g (core_ins x) t @ session_log g xs (core_after g x t)"
  by (simp_all add: session_log_def answers_append core_after_def)

lemma access_answer:
  assumes "dtm_ready d" and "access_ok x" and "carries g (wait_cdc x) (core_ins x) t (scanned idv x d)"
  shows "error_q d = DMINoError \<and> (acc_op x = DTM_READ \<or> acc_op x = DTM_WRITE) \<Longrightarrow>
      \<exists>r. answers g (core_ins x) t = [(host_req x, r)] \<and> (resp_resp r = DTM_SUCCESS \<or> resp_resp r = DTM_BUSY)"
    and "error_q d \<noteq> DMINoError \<or> \<not> (acc_op x = DTM_READ \<or> acc_op x = DTM_WRITE) \<Longrightarrow> answers g (core_ins x) t = []"
proof -
  let ?s = "scanned idv x d" and ?w = "dmi_word (acc_addr x) (acc_data x) (acc_op x)"
  have l: "length (scan_cdc x) = 46" using assms(2) by (simp add: access_ok_def)
  note s = scanned_ready [OF assms(1) l, of idv]
  have v: "dmi_req_valid ?s \<longleftrightarrow> error_q d = DMINoError \<and> (acc_op x = DTM_READ \<or> acc_op x = DTM_WRITE)"
    unfolding dmi_req_valid_resting [OF s(1)] s(5) by auto
  show "\<exists>r. answers g (core_ins x) t = [(host_req x, r)] \<and> (resp_resp r = DTM_SUCCESS \<or> resp_resp r = DTM_BUSY)"
    if "error_q d = DMINoError \<and> (acc_op x = DTM_READ \<or> acc_op x = DTM_WRITE)"
  proof -
    have "dmi_req_valid ?s" using v that by blast
    then obtain r where r: "answers g (core_ins x) t = [(dmi_req ?s, r)]"
      using assms(3) by (auto simp: carries_def split: list.splits prod.splits)
    have "dmi_req ?s = host_req x"
      using that by (auto simp: dmi_req_def host_req_def scanned_eq [OF assms(1) l] dmi_issue_def dtm_constants)
    then show ?thesis using r answers_two [of "dmi_req ?s" r g "core_ins x" t] by simp
  qed
  show "answers g (core_ins x) t = []"
    if "error_q d \<noteq> DMINoError \<or> \<not> (acc_op x = DTM_READ \<or> acc_op x = DTM_WRITE)"
  proof -
    have "\<not> dmi_req_valid ?s" using v that by blast
    then show ?thesis using assms(3) by (auto simp: carries_def split: list.splits prod.splits)
  qed
qed

lemma session_log_stops:
  assumes "dtm_ready d" and "crossed idv g xs d t" and "error_q d \<noteq> DMINoError"
  shows "session_log g xs t = []"
  using assms
proof (induction xs arbitrary: d t)
  case (Cons x xs)
  have c: "access_ok x" "carries g (wait_cdc x) (core_ins x) t (scanned idv x d)" using Cons.prems(2) by simp_all
  note a = access_answer(2) [OF Cons.prems(1) c] and st = access_step [OF Cons.prems(1) c]
  have "answers g (core_ins x) t = []" using a Cons.prems(3) by blast
  moreover have "error_q d = DMIBusy" using Cons.prems(1,3) by (simp add: dtm_ready_def)
  ultimately have "seen_busy (the_view (after_access idv x d))"
    unfolding st(2) by (simp add: next_view_def issue_view_def the_view_def)
  then have "error_q (after_access idv x d) \<noteq> DMINoError" by (simp add: the_view_def dmi_error_e)
  then show ?case using Cons.IH [OF st(1)] Cons.prems(2) \<open>answers g (core_ins x) t = []\<close>
    by (simp add: session_log_Cons)
qed (simp add: session_log_Cons)

lemma session_requests:
  assumes "dtm_ready d" and "crossed idv g xs d t" and "error_q d = DMINoError"
  shows "\<exists>rest. requests_of xs = map fst (session_log g xs t) @ rest \<and>
    (rest \<noteq> [] \<longrightarrow> session_log g xs t \<noteq> [] \<and> resp_resp (snd (last (session_log g xs t))) = DTM_BUSY) \<and>
    list_all (\<lambda>a. resp_resp (snd a) = DTM_SUCCESS) (butlast (session_log g xs t))"
  using assms
proof (induction xs arbitrary: d t)
  case (Cons x xs)
  have c: "access_ok x" "carries g (wait_cdc x) (core_ins x) t (scanned idv x d)"
    and rest: "crossed idv g xs (after_access idv x d) (core_after g x t)" using Cons.prems(2) by simp_all
  note a = access_answer [OF Cons.prems(1) c] and st = access_step [OF Cons.prems(1) c]
  let ?d = "after_access idv x d"
  have ed: "error_q ?d = DMINoError \<longleftrightarrow> \<not> seen_busy (the_view ?d)"
    using st(1) by (auto simp: dtm_ready_def the_view_def dmi_error_e)
  have nb: "\<not> seen_busy (the_view d)" using Cons.prems(3) by (simp add: the_view_def dmi_error_e)
  show ?case
  proof (cases "acc_op x = DTM_READ \<or> acc_op x = DTM_WRITE")
    case False
    then have "answers g (core_ins x) t = []" using a(2) by blast
    moreover from this have "error_q ?d = DMINoError" using ed nb st(2) by (simp add: next_view_def issue_view_def)
    ultimately show ?thesis using Cons.IH [OF st(1) rest] False by (simp add: session_log_Cons requests_of_def)
  next
    case True
    then obtain r where r: "answers g (core_ins x) t = [(host_req x, r)]"
      "resp_resp r = DTM_SUCCESS \<or> resp_resp r = DTM_BUSY" using a(1) Cons.prems(3) by blast
    have e: "error_q ?d = DMINoError \<longleftrightarrow> resp_resp r = DTM_SUCCESS"
      using ed st(2) r by (auto simp: next_view_def answer_view_def dtm_constants)
    show ?thesis
    proof (cases "resp_resp r = DTM_SUCCESS")
      case True
      then show ?thesis
        using Cons.IH [OF st(1) rest] e r(1) \<open>acc_op x = DTM_READ \<or> acc_op x = DTM_WRITE\<close>
        by (auto simp: session_log_Cons requests_of_def)
    next
      case False
      then have "session_log g xs (core_after g x t) = []" using session_log_stops [OF st(1) rest] e by blast
      then show ?thesis using r False \<open>acc_op x = DTM_READ \<or> acc_op x = DTM_WRITE\<close>
        by (auto simp: session_log_Cons requests_of_def)
    qed
  qed
qed (simp add: session_log_Cons requests_of_def)

text \<open>At the JTAG pins the host works with the debug module itself. In any session of accesses, each
  scanned and waited for, with the crossing carrying every request, what the host reads from TDO in
  each scan is the address of its last access and what the debug module answered to it, as if it had
  accessed the module directly; the module accepts exactly the scanned read and write requests, once
  each and in order, up to the first one it answers with busy, after which the host reads the busy
  code and the module accepts nothing.\<close>

theorem jtag_session:
  assumes "dtm_ready d" and "crossed idv g xs d t"
  shows "host_reads idv xs d = map word_bits (direct_reads g xs t (the_view d)) \<and>
    (if error_q d = DMINoError
     then \<exists>rest. requests_of xs = map fst (session_log g xs t) @ rest \<and>
       (rest \<noteq> [] \<longrightarrow> session_log g xs t \<noteq> [] \<and> resp_resp (snd (last (session_log g xs t))) = DTM_BUSY) \<and>
       list_all (\<lambda>a. resp_resp (snd a) = DTM_SUCCESS) (butlast (session_log g xs t))
     else session_log g xs t = [])"
  using session_reads [OF assms] session_requests [OF assms] session_log_stops [OF assms] by simp

section \<open>Reading a register at the pins\<close>

lemma answers_none: "answers g is t = [] \<longleftrightarrow> list_all (\<lambda>i. \<not> accepts i) is"
  by (induction "is" arbitrary: t) simp_all

text \<open>Where the one request of an access is accepted.\<close>

lemma accepted_at:
  assumes "answers g (us @ i # vs) t = [(q, r)]" and "accepts i"
  shows "top_dmi_req i = q" "r = resp_queue_inp (top_comb g i (runs (top_clk g) us t))"
    "list_all (\<lambda>i. \<not> accepts i) us" "list_all (\<lambda>i. \<not> accepts i) vs"
proof -
  have a: "answers g us t @ (top_dmi_req i, resp_queue_inp (top_comb g i (runs (top_clk g) us t))) #
      answers g vs (top_clk g i (runs (top_clk g) us t)) = [(q, r)]"
    using assms by (simp add: answers_append)
  then have u: "answers g us t = []" by (cases "answers g us t") auto
  show "list_all (\<lambda>i. \<not> accepts i) us" using u by (simp add: answers_none)
  have v: "answers g vs (top_clk g i (runs (top_clk g) us t)) = []" using a u by simp
  then show "list_all (\<lambda>i. \<not> accepts i) vs" by (simp add: answers_none)
  show "top_dmi_req i = q" "r = resp_queue_inp (top_comb g i (runs (top_clk g) us t))" using a u by simp_all
qed

lemma accepted_dmi:
  "accepts i \<Longrightarrow> top_dmi_req i = host_req x \<Longrightarrow> top_dmi g i t (acc_op x) (ucast (acc_addr x))"
  by (simp add: accepts_def top_dmi_def request_def host_req_def dm_csr_addr_def)

text \<open>C2: the debugger reads a register of a halted hart through the JTAG pins. Three scans: a write of a
  supported 32-bit read command to \<open>command\<close>, a read of \<open>data0\<close>, and any third one. The module takes the
  command while it is ready for one; the hart fetches the slots from the module, runs them to their end
  with all its registers unchanged, and its store reaches the module before the read is accepted, with
  nobody writing the data registers in between. Then the third scan shifts out the value of the
  register that the command named, without an error, if the command is over by then, and the busy
  pattern with the busy code if the hart has not reported back yet.\<close>

theorem jtag_reads_register:
  assumes "dtm_ready d" and "error_q d = DMINoError" and "crossed idv g [x1, x2, x3] d t"
    and "host_req x1 = \<lparr>dmi_addr = ucast Command, dmi_op = DTM_WRITE, dmi_data = w\<rparr>"
    and "acc_addr x2 = ucast Data0" and "acc_op x2 = DTM_READ"
    and "core_ins x1 = us @ i0 # i1 # vs @ j # ws" and "accepts i0"
    and "core_ins x2 = ps @ k # qs" and "accepts k"
    and "t0 = runs (top_clk g) us t" and "ready_for_command g t0" and "ready_for_command g (top_clk g i0 t0)"
    and "t2 = top_clk g i1 (top_clk g i0 t0)" and "t3 = top_clk g j (runs (top_clk g) vs t2)"
    and "transfer_ok g (unpack_command w) ac" and "accessible g ac" and "page_ok g base"
    and "\<not> ar_write ac" and "aarsize ac = 2" and "fetches_from g t2 base h" and "pc h = base + 0x338"
    and "run 10 h = Running h' \<or> run 10 h = At_Ebreak h'" and "delivers g base j (last (stores h'))"
    and "runs_ok (top_clk g) (data_untouched g) (ws @ ps) t3"
  shows "gpr h' = gpr h \<and> fpr h' = fpr h \<and> host_reads idv [x1, x2, x3] d ! 2 =
    word_bits (if mem_state_q (top_mem (runs (top_clk g) (ws @ ps) t3)) = Mem_Idle
      then dmi_word (ucast Data0) (ucast (get_reg ac h)) DMINoError else dmi_word (ucast Data0) 0xB051B051 DMIBusy)"
proof -
  have c1: "access_ok x1" "carries g (wait_cdc x1) (core_ins x1) t (scanned idv x1 d)"
    and c2: "access_ok x2" "carries g (wait_cdc x2) (core_ins x2) (core_after g x1 t) (scanned idv x2 (after_access idv x1 d))"
    using assms(3) by simp_all
  have x1: "acc_op x1 = DTM_WRITE" "acc_addr x1 = ucast Command" "acc_data x1 = w" using assms(4) by (simp_all add: host_req_def)
  note st1 = access_step [OF assms(1) c1]
  obtain r1 where r1: "answers g (us @ i0 # i1 # vs @ j # ws) t = [(host_req x1, r1)]"
    using access_answer(1) [OF assms(1) c1] assms(2,7) x1(1) by auto
  note a1 = accepted_at [OF r1 assms(8)]
  have na: "\<not> accepts i1" "list_all (\<lambda>i. \<not> accepts i) vs" "\<not> accepts j" using a1(4) by simp_all
  have d0: "top_dmi g i0 t0 DTM_WRITE Command" using accepted_dmi [OF assms(8) a1(1), of g t0] x1 by (simp add: dm_addresses)
  have w: "dmi_data (top_dmi_req i0) = w" using a1(1) assms(4) by simp
  note s = command_starts [OF assms(12,13) d0 _ na(1), unfolded w, OF assms(16)]
  have t2: "top_busy t2" "command_q (top_csrs t2) = unpack_command w" using s(1,2) assms(14) by simp_all
  have v1: "\<not> seen_busy (the_view (after_access idv x1 d))"
    using st1(2) r1 assms(7) s(3) a1(2) assms(11) by (simp add: next_view_def answer_view_def dtm_constants)
  then have e1: "error_q (after_access idv x1 d) = DMINoError"
    using st1(1) by (auto simp: the_view_def dtm_ready_def)
  obtain r2 where r2: "answers g (ps @ k # qs) (core_after g x1 t) = [(host_req x2, r2)]"
    using access_answer(1) [OF st1(1) c2] e1 assms(6,9) by auto
  note a2 = accepted_at [OF r2 assms(10)]
  let ?t = "runs (top_clk g) (ws @ ps) t3"
  have tk: "runs (top_clk g) ps (core_after g x1 t) = ?t"
    by (simp add: core_after_def assms(7,11,14,15))
  have dk: "top_dmi g k ?t DTM_READ Data0"
    using accepted_dmi [OF assms(10) a2(1), of g ?t] assms(5,6) by (simp add: dm_addresses)
  have act: "top_active (runs (top_clk g) vs t2)" "top_active t3"
    using unaccepted_active [OF na(2), of t2 g] t2(1) stays_active [of "runs (top_clk g) vs t2" g j] unaccepted(2) [OF na(3)]
    by (auto simp: top_busy_def top_active_def assms(15))
  have "gpr h' = gpr h" "fpr h' = fpr h" "last (stores h') = (base + 0x380, 4, take_bit 32 (get_reg ac h))"
    using read_command_run [OF t2(1) _ assms(17,18,21,22,19,20), unfolded t2(2), OF assms(16)] assms(23)
    by (auto split: if_splits)
  moreover from this have "resp_data (resp_queue_inp (top_comb g k ?t)) = ucast (get_reg ac h)"
    using delivered_read [OF act(1) _ _ assms(25) [unfolded assms(15)]] act(2) assms(15,24) dk by simp
  moreover have "host_reads idv [x1, x2, x3] d ! 2 = word_bits (view_word (next_view g x2 (core_after g x1 t) (next_view g x1 t (the_view d))))"
    unfolding session_reads [OF assms(1,3)] by simp
  moreover have "next_view g x2 (core_after g x1 t) (next_view g x1 t (the_view d)) =
      answer_view (host_req x2, r2) (issue_view x2 (next_view g x1 t (the_view d)))"
    by (simp add: next_view_def [of g x2] assms(9) r2)
  moreover have "\<not> seen_busy (next_view g x1 t (the_view d))" using v1 st1(2) by simp
  ultimately show ?thesis
    using a2(2) tk assms(5,6) data0_response [OF dk]
    by (simp add: view_word_def answer_view_def issue_view_def host_req_def dtm_constants)
qed

section \<open>Examples\<close>

definition host_access :: "dm_cfg \<Rightarrow> 2 word \<Rightarrow> 8 word \<Rightarrow> u32 \<Rightarrow> top_in list \<Rightarrow> dm_top \<Rightarrow> access" where
  "host_access g p a v is t = \<lparr>acc_addr = ucast a, acc_data = v, acc_op = p, scan_cdc = replicate 46 quiet,
     wait_tdi = [False, False], wait_cdc = [quiet\<lparr>dmi_req_ready := True\<rparr>,
       quiet\<lparr>dmi_resp_valid := True, dmi_resp := snd (hd (answers g is t))\<rparr>], core_ins = is\<rparr>"

lemma host_access_simps [simp]:
  "acc_addr (host_access g p a v is t) = ucast a" "acc_data (host_access g p a v is t) = v"
  "acc_op (host_access g p a v is t) = p" "core_ins (host_access g p a v is t) = is"
  "access_ok (host_access g p a v is t)" "core_after g (host_access g p a v is t) s = runs (top_clk g) is s"
  "host_req (host_access g p a v is t) = \<lparr>dmi_addr = ucast a, dmi_op = p, dmi_data = v\<rparr>"
  by (simp_all add: host_access_def access_ok_def core_after_def host_req_def)

lemma crossed_host:
  assumes "dtm_ready d" and "error_q d = DMINoError" and "p = DTM_READ \<or> p = DTM_WRITE"
    and "answers g is t = [(\<lparr>dmi_addr = ucast a, dmi_op = p, dmi_data = v\<rparr>, r)]" and "resp_resp r = DTM_SUCCESS"
    and "\<And>d'. dtm_ready d' \<Longrightarrow> error_q d' = DMINoError \<Longrightarrow> crossed idv g xs d' (runs (top_clk g) is t)"
  shows "crossed idv g (host_access g p a v is t # xs) d t"
proof -
  let ?x = "host_access g p a v is t"
  have l: "length (scan_cdc ?x) = 46" by (simp add: host_access_def)
  note s = scanned_ready [OF assms(1) l, of idv]
  have "handshake (wait_cdc ?x) r"
    unfolding handshake_def
    by (rule exI [of _ "[]"], rule exI [of _ "quiet\<lparr>dmi_req_ready := True\<rparr>"], rule exI [of _ "[]"])
      (simp add: host_access_def assms(4))
  moreover have "dmi_req_valid (scanned idv ?x d)"
    using assms(2,3) unfolding dmi_req_valid_resting [OF s(1)] s(5) by auto
  moreover have "dmi_req (scanned idv ?x d) = \<lparr>dmi_addr = ucast a, dmi_op = p, dmi_data = v\<rparr>"
    using assms(2,3) by (auto simp: dmi_req_def scanned_eq [OF assms(1) l] dmi_issue_def dtm_constants)
  ultimately have c: "carries g (wait_cdc ?x) (core_ins ?x) t (scanned idv ?x d)"
    by (simp add: carries_def assms(4))
  note st = access_step [OF assms(1) _ c]
  have "\<not> seen_busy (the_view (after_access idv ?x d))"
    using st(2) assms(5) by (simp add: next_view_def assms(4) answer_view_def dtm_constants)
  then have "error_q (after_access idv ?x d) = DMINoError" using st(1) by (auto simp: the_view_def dtm_ready_def)
  then show ?thesis using c st(1) assms(6) by simp
qed

lemma crossed_nop:
  "dtm_ready d \<Longrightarrow> crossed idv g [host_access g 0 a v [] t'] d t"
  using scanned_ready(1,5) [of d "host_access g 0 a v [] t'" idv] dmi_req_valid_resting [of "scanned idv (host_access g 0 a v [] t') d"]
  by (simp add: carries_def) (simp add: host_access_def dtm_constants)

lemma ready_dtm_ready: "dtm_ready ready_dtm" "error_q ready_dtm = DMINoError"
  by (simp_all add: dtm_ready_def)

lemma accepts_host [simp]: "accepts (host p a v)" "\<not> accepts quiet_top" "\<not> accepts (store_data0 u)"
  "top_dmi_req (host p a v) = \<lparr>dmi_addr = ucast a, dmi_op = p, dmi_data = v\<rparr>"
  by (simp_all add: accepts_def host_def quiet_top_def store_data0_def)

lemma active_top_fields [simp]: "\<not> cmd_valid_q (top_csrs active_top)"
  by (simp add: active_top_def top_reset_def active_csrs_def csrs_reset_def)

text \<open>A session that writes \<open>data0\<close>, reads it back and scans once more for the result.\<close>

definition written_top :: dm_top where
  "written_top = top_clk one_hart (host DTM_WRITE Data0 0xCAFE) active_top"

definition data_session :: "access list" where
  "data_session = [host_access one_hart DTM_WRITE Data0 0xCAFE [host DTM_WRITE Data0 0xCAFE] active_top,
     host_access one_hart DTM_READ Data0 0 [host DTM_READ Data0 0] written_top,
     host_access one_hart 0 Data0 0 [] written_top]"

lemma data_session_runs:
  "crossed 0xDB3 one_hart data_session ready_dtm active_top"
  "direct_reads one_hart data_session active_top (the_view ready_dtm) =
     [dmi_word 0 0 0, dmi_word 4 0xCAFE 0, dmi_word 4 0xCAFE 0]"
proof -
  let ?w = "host DTM_WRITE Data0 0xCAFE" and ?r = "host DTM_READ Data0 0"
  have w: "top_dmi one_hart ?w active_top DTM_WRITE Data0" and r: "top_dmi one_hart ?r written_top DTM_READ Data0"
    by (simp_all add: dm_addresses)
  have idle: "mem_state_q (top_mem written_top) = Mem_Idle" unfolding written_top_def by (rule mem_stays_idle) simp_all
  have rw: "resp_resp (resp_queue_inp (top_comb one_hart ?w active_top)) = DTM_SUCCESS"
    by (rule write_data_response [OF w]) simp
  have rr: "resp_resp (resp_queue_inp (top_comb one_hart ?r written_top)) = DTM_SUCCESS"
    using data0_response [OF r] idle by simp
  have "\<not> data_valid_o (mem_port one_hart False ?w (top_csrs active_top))"
    by (simp add: data_valid_o_def mem_port_def top_example)
  then have v: "resp_data (resp_queue_inp (top_comb one_hart ?r written_top)) = 0xCAFE"
    unfolding data0_read_data [OF r] using data_access [of one_hart ?w active_top DTM_WRITE 0] w
    by (simp add: written_top_def top_clk_def data_frame wdata_def)
  have t: "runs (top_clk one_hart) [?w] active_top = written_top" by (simp add: written_top_def)
  show "crossed 0xDB3 one_hart data_session ready_dtm active_top"
    unfolding data_session_def
  proof (rule crossed_host [OF ready_dtm_ready _ _ rw])
    fix d'
    assume d: "dtm_ready d'" "error_q d' = DMINoError"
    show "crossed 0xDB3 one_hart [host_access one_hart DTM_READ Data0 0 [?r] written_top, host_access one_hart 0 Data0 0 [] written_top]
        d' (runs (top_clk one_hart) [?w] active_top)"
      unfolding t by (rule crossed_host [OF d _ _ rr crossed_nop]) simp_all
  qed simp_all
  have n: "DTM_READ \<noteq> DTM_WRITE" "DTM_SUCCESS \<noteq> DTM_BUSY" by (simp_all add: dtm_constants)
  have "direct_reads one_hart data_session active_top (the_view ready_dtm) =
      [dmi_word 0 0 DMINoError, dmi_word (ucast Data0) 0xCAFE DMINoError, dmi_word (ucast Data0) 0xCAFE DMINoError]"
    using n t by (simp add: data_session_def view_word_def the_view_def next_view_def answer_view_def issue_view_def v rw rr)
      (simp add: dmi_error_e)
  then show "direct_reads one_hart data_session active_top (the_view ready_dtm) =
     [dmi_word 0 0 0, dmi_word 4 0xCAFE 0, dmi_word 4 0xCAFE 0]" by (simp only:) (simp add: dm_addresses dmi_error_e)
qed

theorem jtag_session_witness:
  "host_reads 0xDB3 data_session ready_dtm = map word_bits [dmi_word 0 0 0, dmi_word 4 0xCAFE 0, dmi_word 4 0xCAFE 0]"
  using jtag_session [OF ready_dtm_ready(1) data_session_runs(1)] unfolding data_session_runs(2) by (rule conjunct1)

text \<open>The hart signals \<open>GOING\<close> and, at the end of the command, \<open>HALTED\<close> again.\<close>

lemma signal_untouched:
  assumes "top_active t" and "a = 0x108 \<or> a = 0x100"
  shows "data_untouched one_hart (signal_store a) t"
proof -
  have n: "\<not> accepts (signal_store a)" by (simp add: accepts_def signal_store_def quiet_top_def)
  have "top_active (top_clk one_hart (signal_store a) t)" by (rule stays_active [OF assms(1) unaccepted(2) [OF n]])
  moreover have "\<not> data_valid_o (mem_port one_hart False (signal_store a) (top_csrs t))"
    using assms(2) by (auto simp: data_valid_o_def mem_port_def signal_store_def quiet_top_def daddr_def map_addresses)
  ultimately show ?thesis using unaccepted(2) [OF n] by (simp add: data_untouched_def top_active_def)
qed

lemma settled_ready:
  assumes "settled t" and "mem_state_q (top_mem t) = Mem_Idle" and "halted_q (top_mem t) 0"
  shows "ready_for_command one_hart t"
  using assms by (simp add: ready_for_command_def settled_def aligned_def selected_hart_def hartsel_o_def)

lemma active_top_settled: "settled active_top"
  by (simp add: settled_def)

text \<open>The cycles of the example: the command is accepted, starts, the hart stores \<open>x9\<close> and reports back.\<close>

definition read_x9_cycles :: "top_in list" where
  "read_x9_cycles = [host DTM_WRITE Command 0x221009, quiet_top, store_data0 9, signal_store 0x108, signal_store 0x100]"

lemma read_x9_run:
  defines "i0 \<equiv> host DTM_WRITE Command 0x221009"
  defines "t1 \<equiv> top_clk one_hart i0 active_top"
  defines "t2 \<equiv> top_clk one_hart quiet_top t1"
  defines "t3 \<equiv> top_clk one_hart (store_data0 9) t2"
  shows "ready_for_command one_hart active_top" "ready_for_command one_hart t1" "top_busy t2"
    "command_q (top_csrs t2) = read_x9" "resp_resp (resp_queue_inp (top_comb one_hart i0 active_top)) = DTM_SUCCESS"
    "runs_ok (top_clk one_hart) (data_untouched one_hart) [signal_store 0x108, signal_store 0x100] t3"
    "mem_state_q (top_mem (runs (top_clk one_hart) [signal_store 0x108, signal_store 0x100] t3)) = Mem_Idle"
proof -
  have w: "top_dmi one_hart i0 active_top DTM_WRITE Command" "dmi_data (top_dmi_req i0) = 0x221009"
    "\<not> top_dmi one_hart i0 active_top DTM_WRITE DMControl"
    by (simp_all add: i0_def dm_addresses)
  show 0: "ready_for_command one_hart active_top" by (rule settled_ready [OF active_top_settled]) simp_all
  have s1: "settled t1" unfolding t1_def by (rule settled_step [OF active_top_settled w(3)])
  have "mem_state_q (top_mem t1) = Mem_Idle" unfolding t1_def by (rule mem_stays_idle) simp_all
  moreover have "halted_q (top_mem t1) 0"
    by (simp add: t1_def top_clk_def halted_step halt_event_def mem_write_def top_mem_in_def mem_port_def i0_def host_def
        quiet_top_def one_hart_def)
  ultimately show 1: "ready_for_command one_hart t1" by (rule settled_ready [OF s1])
  have "transfer_ok one_hart (unpack_command (dmi_data (top_dmi_req i0))) (unpack_ac_ar_cmd 0x221009)"
    using read_x9_ok(1) by (simp add: w(2) read_x9_def)
  note c = command_starts [OF 0 1 [unfolded t1_def] w(1) this accepts_host(2)]
  show t2: "top_busy t2" "command_q (top_csrs t2) = read_x9"
    "resp_resp (resp_queue_inp (top_comb one_hart i0 active_top)) = DTM_SUCCESS"
    using c by (simp_all add: t2_def t1_def w(2) read_x9_def)
  have nd: "\<not> top_dmi g (store_data0 v) t p a" "\<not> top_dmi g quiet_top t p a" "\<not> top_dmi g (signal_store b) t p a" for g v t p a b
    by (rule unaccepted(2), simp)+
  have s2: "settled t2" and s3: "settled t3"
    using settled_step [OF s1] settled_step nd by (auto simp: t2_def t3_def)
  define t4 where "t4 = top_clk one_hart (signal_store 0x108) t3"
  have s4: "settled t4" unfolding t4_def by (rule settled_step [OF s3 nd(3)])
  show "runs_ok (top_clk one_hart) (data_untouched one_hart) [signal_store 0x108, signal_store 0x100] t3"
    using signal_untouched s3 s4 by (simp add: settled_def t4_def)
  have m2: "mem_state_q (top_mem t2) = Mem_Go" using c(4) by (simp add: t2_def t1_def)
  note m = mem_steps [where g = one_hart]
  have m3: "mem_state_q (top_mem t3) = Mem_Go"
    using m(1) [of t2 "store_data0 9"] m2 s2
    by (simp add: settled_def t3_def going_def mem_write_def top_mem_in_def mem_port_def daddr_def map_addresses store_data0_def quiet_top_def)
  have m4: "mem_state_q (top_mem t4) = Mem_CmdExecuting"
    using m(1) [of t3 "signal_store 0x108"] m3 s3
    by (simp add: settled_def t4_def going_def mem_write_def top_mem_in_def mem_port_def daddr_def map_addresses signal_store_def quiet_top_def)
  have "mem_state_q (top_mem (top_clk one_hart (signal_store 0x100) t4)) = Mem_Idle"
    using m(2) [of t4 "signal_store 0x100"] m4 s4
    by (simp add: settled_def mem_write_def top_mem_in_def mem_port_def daddr_def map_addresses signal_store_def quiet_top_def
        mem_hartsel_def wdata_hartsel_def)
  then show "mem_state_q (top_mem (runs (top_clk one_hart) [signal_store 0x108, signal_store 0x100] t3)) = Mem_Idle"
    by (simp add: t4_def)
qed

theorem jtag_reads_register_witness:
  "\<exists>x1 x2 x3 h'. host_req x1 = \<lparr>dmi_addr = ucast Command, dmi_op = DTM_WRITE, dmi_data = 0x221009\<rparr> \<and>
     (run 10 (command_hart read_x9) = Running h' \<or> run 10 (command_hart read_x9) = At_Ebreak h') \<and>
     host_reads 0xDB3 [x1, x2, x3] ready_dtm ! 2 = word_bits (dmi_word (ucast Data0) 9 DMINoError)"
proof -
  let ?i0 = "host DTM_WRITE Command 0x221009" and ?k = "host DTM_READ Data0 0" and ?ac = "unpack_ac_ar_cmd 0x221009"
  let ?t1 = "top_clk one_hart ?i0 active_top"
  let ?t2 = "top_clk one_hart quiet_top ?t1"
  let ?t3 = "top_clk one_hart (store_data0 9) ?t2"
  let ?t = "runs (top_clk one_hart) read_x9_cycles active_top" and ?ws = "[signal_store 0x108, signal_store 0x100]"
  let ?x1 = "host_access one_hart DTM_WRITE Command 0x221009 read_x9_cycles active_top"
    and ?x2 = "host_access one_hart DTM_READ Data0 0 [?k] ?t" and ?x3 = "host_access one_hart 0 Data0 0 [] ?t"
  note r = read_x9_run
  have t: "?t = runs (top_clk one_hart) ?ws ?t3" by (simp add: read_x9_cycles_def)
  have a: "\<not> accepts (signal_store b)" for b by (simp add: signal_store_def accepts_def quiet_top_def)
  have a1: "answers one_hart read_x9_cycles active_top =
      [(\<lparr>dmi_addr = ucast Command, dmi_op = DTM_WRITE, dmi_data = 0x221009\<rparr>,
        resp_queue_inp (top_comb one_hart ?i0 active_top))]"
    by (simp add: read_x9_cycles_def a)
  have k: "top_dmi one_hart ?k ?t DTM_READ Data0" by (simp add: dm_addresses)
  have rk: "resp_resp (resp_queue_inp (top_comb one_hart ?k ?t)) = DTM_SUCCESS"
    using data0_response [OF k] r(7) by (simp add: t)
  have x: "crossed 0xDB3 one_hart [?x1, ?x2, ?x3] ready_dtm active_top"
  proof (rule crossed_host [OF ready_dtm_ready _ a1 r(5)])
    fix d'
    assume d: "dtm_ready d'" "error_q d' = DMINoError"
    show "crossed 0xDB3 one_hart [?x2, ?x3] d' ?t"
      by (rule crossed_host [OF d _ _ rk crossed_nop]) simp_all
  qed simp
  have ac: "\<not> ar_write ?ac" "aarsize ?ac = 2" "\<not> postexec ?ac" "get_reg ?ac (command_hart read_x9) = 9"
    by (simp_all add: unpack_ac_ar_cmd_def fld_def get_reg_def rd_reg_def regno_index_def command_hart_def)
  obtain h' where h': "run 10 (command_hart read_x9) = At_Ebreak h'" "stores h' = [(0x1A110380, 4, 9)]"
    using read_command_run [of ?t2 one_hart ?ac "0x1A110000" "command_hart read_x9"] r(3,4) read_x9_ok command_hart_page
      command_hart_fetches [OF r(3,4)] ac by (auto simp: command_hart_def)
  have dl: "delivers one_hart 0x1A110000 (store_data0 9) (last (stores h'))"
    by (simp add: h'(2) delivers_def hart_stores_def store_data0_def quiet_top_def mem_bus_ok_def map_addresses mask_numeral)
  have c: "unpack_command 0x221009 = read_x9" by (simp add: read_x9_def)
  have f: "fetches_from one_hart ?t2 0x1A110000 (command_hart read_x9)" by (rule command_hart_fetches [OF r(3,4)])
  have k1: "host_req ?x1 = \<lparr>dmi_addr = ucast Command, dmi_op = DTM_WRITE, dmi_data = 0x221009\<rparr>"
    "core_ins ?x1 = [] @ ?i0 # quiet_top # [] @ store_data0 9 # ?ws" "core_ins ?x2 = [] @ ?k # []"
    by (simp_all add: read_x9_cycles_def)
  have m: "mem_state_q (top_mem (runs (top_clk one_hart) (?ws @ []) ?t3)) = Mem_Idle"
    "runs_ok (top_clk one_hart) (data_untouched one_hart) (?ws @ []) ?t3" using r(6,7) unfolding append_Nil2 by blast+
  have "host_reads 0xDB3 [?x1, ?x2, ?x3] ready_dtm ! 2 = word_bits (dmi_word (ucast Data0) 9 DMINoError)"
    using jtag_reads_register [OF ready_dtm_ready x k1(1) host_access_simps(1,3) k1(2) accepts_host(1) k1(3) accepts_host(1)
        runs_simps(1) [symmetric] r(1,2) refl _ read_x9_ok [folded c] command_hart_page(1) ac(1,2) f command_hart_page(2)
        disjI2 [OF h'(1)] dl m(2)]
    using r(7) by (simp add: ac(4))
  then show ?thesis using h'(1) k1(1) by blast
qed

end
