(* ===== verification/Socket_Session.thy ===== *)
theory Socket_Session
  imports Bitbang_Session Host_Session
begin

text \<open>
  From the bytes on the socket to the debug module: the remote-bitbang server of \<open>Bitbang_Session\<close> drives
  the JTAG pins of the transport module, as \<open>tb/SimJTAG.sv\<close> and \<open>tb/tb_test_env.sv\<close> connect them. A tick
  samples TDO, executes one command byte and drives the pins; the transport module reacts to the edges
  of TCK and to a low TRSTn.
\<close>

section \<open>The transport module on the pins of the server\<close>

definition pin_change :: "u32 \<Rightarrow> cdc \<Rightarrow> bb_pins \<Rightarrow> bb_pins \<Rightarrow> dmi_jtag \<Rightarrow> dmi_jtag" where
  "pin_change idv c p p' d = (case (p, p') of ((k, _, _, _), (k', m, b, r)) \<Rightarrow>
     if \<not> r then dmi_jtag_reset idv
     else if \<not> k \<and> k' then dmi_jtag_posedge idv m b c d
     else if k \<and> \<not> k' then dmi_jtag_negedge d
     else d)"

definition tdo_level :: "dmi_jtag \<Rightarrow> u8" where
  "tdo_level d = of_bool (td_o (tap_i d))"

fun pins_run :: "u32 \<Rightarrow> (char \<times> cdc) list \<Rightarrow> bb_pins \<Rightarrow> dmi_jtag \<Rightarrow> dmi_jtag" where
  "pins_run idv [] p d = d"
| "pins_run idv ((b, c) # bs) p d = pins_run idv bs (bb_pins_step b p) (pin_change idv c p (bb_pins_step b p) d)"

fun pins_levels :: "u32 \<Rightarrow> (char \<times> cdc) list \<Rightarrow> bb_pins \<Rightarrow> dmi_jtag \<Rightarrow> u8 list" where
  "pins_levels idv [] p d = []"
| "pins_levels idv ((b, c) # bs) p d =
    tdo_level d # pins_levels idv bs (bb_pins_step b p) (pin_change idv c p (bb_pins_step b p) d)"

section \<open>What a debugger sends\<close>

text \<open>One clock of TCK: the data with TCK low, a read of TDO, the data with TCK high. The crossing shows the
  transport module something in each of the three ticks; it is looked at in the last one.\<close>

definition clock_bytes :: "bool \<times> bool \<Rightarrow> char list" where
  "clock_bytes io = [bb_encode False (fst io) (snd io), CHR ''R'', bb_encode True (fst io) (snd io)]"

definition clock_ticks :: "(bool \<times> bool) \<Rightarrow> cdc \<times> cdc \<times> cdc \<Rightarrow> (char \<times> cdc) list" where
  "clock_ticks io cs = zip (clock_bytes io) [fst cs, fst (snd cs), snd (snd cs)]"

definition bit_char :: "bool \<Rightarrow> char" where
  "bit_char b = (if b then CHR ''1'' else CHR ''0'')"

text \<open>The output stage of the port has no influence on the rest.\<close>

definition with_tdo :: "bool \<Rightarrow> bool \<Rightarrow> dmi_jtag \<Rightarrow> dmi_jtag" where
  "with_tdo x y d = d\<lparr>tap_i := (tap_i d)\<lparr>td_o := x, tdo_oe_o := y\<rparr>\<rparr>"

lemma with_tdo_fields:
  "update (with_tdo x y d) = update d" "capture (with_tdo x y d) = capture d" "shift (with_tdo x y d) = shift d"
  "dmi_select (tap_i (with_tdo x y d)) = dmi_select (tap_i d)" "dtmcs_select (tap_i (with_tdo x y d)) = dtmcs_select (tap_i d)"
  "test_logic_reset (tap_i (with_tdo x y d)) = test_logic_reset (tap_i d)"
  "dtmcs_q (with_tdo x y d) = dtmcs_q d" "dr_q (with_tdo x y d) = dr_q d" "state_q (with_tdo x y d) = state_q d"
  "address_q (with_tdo x y d) = address_q d" "dmi_jtag.data_q (with_tdo x y d) = dmi_jtag.data_q d" "error_q (with_tdo x y d) = error_q d"
  by (simp_all add: with_tdo_def update_def capture_def shift_def strobes selects)

lemma with_tdo_posedge: "dmi_jtag_posedge idv m b c (with_tdo x y d) = with_tdo x y (dmi_jtag_posedge idv m b c d)"
proof -
  let ?e = "with_tdo x y d"
  have s: "dmi_clear ?e = dmi_clear d" "dtmcs_d b ?e = dtmcs_d b d" "fsm_case c ?e = fsm_case c d"
    by (simp_all only: dmi_clear_def dtmcs_d_def fsm_case_def fsm_default_def with_tdo_fields)
  then have n: "busy_now c ?e = busy_now c d" by (simp only: busy_now_def with_tdo_fields)
  then have e: "error_d c ?e = error_d c d" "dr_d b c ?e = dr_d b c d"
    using s(3) by (simp_all only: error_d_def dr_d_def with_tdo_fields)
  have "tap_posedge idv m b (tap_i ?e) = (tap_posedge idv m b (tap_i d))\<lparr>td_o := x, tdo_oe_o := y\<rparr>"
    by (simp add: with_tdo_def tap_next selects)
  then show ?thesis using s e by (simp add: dmi_jtag_posedge_def) (simp add: with_tdo_def)
qed

lemma with_tdo_negedge: "dmi_jtag_negedge (with_tdo x y d) = dmi_jtag_negedge d"
  by (simp add: with_tdo_def dmi_jtag_negedge_def tap_negedge_def tdo_mux_def strobes)

lemma negedge_with_tdo: "\<exists>x y. dmi_jtag_negedge d = with_tdo x y d"
  by (auto simp: with_tdo_def dmi_jtag_negedge_def tap_negedge_def)

lemma with_tdo_twice: "with_tdo x y (with_tdo x' y' d) = with_tdo x y d"
  by (simp add: with_tdo_def)

lemma with_tdo_self: "\<exists>x y. d = with_tdo x y d"
  by (rule exI [of _ "td_o (tap_i d)"], rule exI [of _ "tdo_oe_o (tap_i d)"]) (simp add: with_tdo_def)

section \<open>One clock after another\<close>

definition jtag_ticks :: "(bool \<times> bool) list \<Rightarrow> (cdc \<times> cdc \<times> cdc) list \<Rightarrow> (char \<times> cdc) list" where
  "jtag_ticks ios ts = concat (map (\<lambda>(io, t). clock_ticks io t) (zip ios ts))"

definition at_rise :: "(cdc \<times> cdc \<times> cdc) list \<Rightarrow> cdc list" where
  "at_rise ts = map (\<lambda>t. snd (snd t)) ts"

lemma read_is_no_pin: "bb_pins_step (CHR ''R'') (a, b, c, r) = (a, b, c, r)"
  by (simp add: bb_pins_step_def bb_digit_def)

lemma encode_not_read: "bb_encode a b c \<noteq> CHR ''R''" "bb_encode a b c \<noteq> CHR ''Q''"
  using bb_encode_digit [of a b c] by (auto simp: bb_digit_def)

lemma clock_step:
  "pins_run idv (clock_ticks (m, b) t @ rest) (True, x, y, True) d =
     pins_run idv rest (True, m, b, True) (dmi_jtag_posedge idv m b (snd (snd t)) (dmi_jtag_negedge d))"
  "pins_levels idv (clock_ticks (m, b) t @ rest) (True, x, y, True) d =
     [tdo_level d, tdo_level (dmi_jtag_negedge d), tdo_level (dmi_jtag_negedge d)] @
     pins_levels idv rest (True, m, b, True) (dmi_jtag_posedge idv m b (snd (snd t)) (dmi_jtag_negedge d))"
  by (simp_all add: clock_ticks_def clock_bytes_def bb_pins_step_encode read_is_no_pin pin_change_def)

lemma clock_replies:
  "bb_replies (map fst (clock_ticks io t @ rest)) ([l1, l2, l3] @ ls) = bb_reply (CHR ''R'') l2 @ bb_replies (map fst rest) ls"
  by (simp add: clock_ticks_def clock_bytes_def bb_reply_def encode_not_read)

lemma socket_clocks:
  assumes "length ios = length ts"
  shows "\<exists>u v. pins_run idv (jtag_ticks ios ts) (True, x, y, True) (with_tdo a e d) =
      with_tdo u v (jtag_run idv ios (at_rise ts) d)"
    and "bb_replies (map fst (jtag_ticks ios ts)) (pins_levels idv (jtag_ticks ios ts) (True, x, y, True) (with_tdo a e d)) =
      map bit_char (jtag_outs idv ios (at_rise ts) d)"
proof -
  have "(\<exists>u v. pins_run idv (jtag_ticks ios ts) (True, x, y, True) (with_tdo a e d) =
      with_tdo u v (jtag_run idv ios (at_rise ts) d)) \<and>
    bb_replies (map fst (jtag_ticks ios ts)) (pins_levels idv (jtag_ticks ios ts) (True, x, y, True) (with_tdo a e d)) =
      map bit_char (jtag_outs idv ios (at_rise ts) d)"
    using assms
  proof (induction ios ts arbitrary: d x y a e rule: list_induct2)
    case Nil
    then show ?case by (auto simp: jtag_ticks_def at_rise_def)
  next
    case (Cons io ios t ts)
    obtain m b where io: "io = (m, b)" by (cases io)
    obtain u v where n: "dmi_jtag_negedge (with_tdo a e d) = with_tdo u v d"
      using negedge_with_tdo [of d] by (auto simp: with_tdo_negedge)
    have c: "jtag_ticks (io # ios) (t # ts) = clock_ticks (m, b) t @ jtag_ticks ios ts" by (simp add: jtag_ticks_def io)
    have r: "bb_reply (CHR ''R'') (tdo_level (dmi_jtag_negedge d)) = [bit_char (td_o (tap_i (dmi_jtag_negedge d)))]"
      by (simp add: bb_reply_def tdo_level_def bit_char_def)
    note ih = Cons.IH [of m b u v "dmi_jtag_posedge idv m b (snd (snd t)) d"]
    show ?case
      unfolding c clock_step clock_replies n with_tdo_posedge
      using ih r by (simp add: io at_rise_def n [symmetric] with_tdo_negedge)
  qed
  then show "\<exists>u v. pins_run idv (jtag_ticks ios ts) (True, x, y, True) (with_tdo a e d) =
      with_tdo u v (jtag_run idv ios (at_rise ts) d)"
    "bb_replies (map fst (jtag_ticks ios ts)) (pins_levels idv (jtag_ticks ios ts) (True, x, y, True) (with_tdo a e d)) =
      map bit_char (jtag_outs idv ios (at_rise ts) d)" by blast+
qed

section \<open>Sessions of accesses\<close>

text \<open>All clocks of a session of accesses, each with what the crossing shows at its rising edge.\<close>

definition access_clocks :: "access \<Rightarrow> ((bool \<times> bool) \<times> cdc) list" where
  "access_clocks x = zip (scan_of x) (scan_cdc x) @ zip (map (Pair False) (wait_tdi x)) (wait_cdc x)"

definition session_clocks :: "access list \<Rightarrow> ((bool \<times> bool) \<times> cdc) list" where
  "session_clocks xs = concat (map access_clocks xs)"

definition session_ticks :: "access list \<Rightarrow> (cdc \<times> cdc \<times> cdc) list \<Rightarrow> (char \<times> cdc) list" where
  "session_ticks xs ts = jtag_ticks (map fst (session_clocks xs)) ts"

text \<open>The bits the host picks from the samples of TDO: 41 from each scan.\<close>

fun host_parse :: "access list \<Rightarrow> bool list \<Rightarrow> bool list list" where
  "host_parse [] bs = []"
| "host_parse (x # xs) bs = take 41 (drop 3 bs) # host_parse xs (drop (46 + length (wait_tdi x)) bs)"

lemma length_scan_of: "length (scan_of x) = 46"
  by (simp add: scan_of_def dr_scan_def length_shift_cycles)

lemma length_jtag_outs: "length ios = length cs \<Longrightarrow> length (jtag_outs idv ios cs d) = length ios"
  by (induction ios cs arbitrary: d rule: list_induct2) auto

lemma access_clocks_fst_snd:
  assumes "access_ok x"
  shows "map fst (access_clocks x) = scan_of x @ map (Pair False) (wait_tdi x)"
    and "map snd (access_clocks x) = scan_cdc x @ wait_cdc x"
  using assms length_scan_of [of x] by (simp_all add: access_clocks_def access_ok_def)

lemma session_outs:
  "crossed idv g xs d t \<Longrightarrow>
   host_parse xs (jtag_outs idv (map fst (session_clocks xs)) (map snd (session_clocks xs)) d) = host_reads idv xs d"
proof (induction xs arbitrary: d t)
  case (Cons x xs)
  have x: "access_ok x" and rest: "crossed idv g xs (after_access idv x d) (core_after g x t)" using Cons.prems by simp_all
  have l: "length (scan_of x) = length (scan_cdc x)" "length (map (Pair False) (wait_tdi x)) = length (wait_cdc x)"
    using x length_scan_of [of x] by (simp_all add: access_ok_def)
  let ?o = "jtag_outs idv (scan_of x) (scan_cdc x) d"
  let ?w = "jtag_outs idv (map (Pair False) (wait_tdi x)) (wait_cdc x) (scanned idv x d)"
  let ?r = "jtag_outs idv (map fst (session_clocks xs)) (map snd (session_clocks xs)) (after_access idv x d)"
  have s: "session_clocks (x # xs) = access_clocks x @ session_clocks xs" by (simp add: session_clocks_def)
  have o: "jtag_outs idv (map fst (session_clocks (x # xs))) (map snd (session_clocks (x # xs))) d = ?o @ ?w @ ?r"
    unfolding s map_append access_clocks_fst_snd [OF x] append_assoc
    by (simp add: jtag_outs_append [OF l(1)] jtag_outs_append [OF l(2)] scanned_def after_access_def)
  have "length ?o = 46" using length_jtag_outs [OF l(1)] length_scan_of [of x] by simp
  moreover have "length ?w = length (wait_tdi x)" using length_jtag_outs [OF l(2)] by simp
  ultimately show ?case using Cons.IH [OF rest] unfolding o by simp
qed simp

lemma session_bytes:
  assumes "at_rise ts = map snd (session_clocks xs)"
  shows "length (map fst (session_clocks xs)) = length ts" "CHR ''Q'' \<notin> set (map fst (session_ticks xs ts))"
proof -
  have "length (at_rise ts) = length (session_clocks xs)" using assms by simp
  then show "length (map fst (session_clocks xs)) = length ts" by (simp add: at_rise_def)
  have "CHR ''Q'' \<notin> fst ` set (clock_ticks io t)" for io t
    using encode_not_read(2) [symmetric] by (auto simp: clock_ticks_def clock_bytes_def)
  then show "CHR ''Q'' \<notin> set (map fst (session_ticks xs ts))"
    by (fastforce simp: session_ticks_def jtag_ticks_def)
qed

lemma length_levels: "length (pins_levels idv bs p d) = length bs"
  by (induction idv bs p d rule: pins_levels.induct) simp_all

text \<open>C1: a debugger on the socket works with the debug module itself. The client of the bit-bang server sends
  the bytes of a session of accesses: for each clock the data with TCK low, a read of TDO, and the data
  with TCK high. Every tick of the server returns, drives the pins of the protocol and reacts to what
  the transport module on these pins shows on TDO; all bytes are consumed, and the 41 bits of each scan
  that the client picks from the replies are the address of its last access and the answer of the
  debug module to it, as if it had accessed the module directly.\<close>

theorem socket_session:
  assumes "socket_stream os (client_fd s) inq outq delay" and "0 < client_fd s" and "quit s = 0"
    and "pins_abs (pins_of s) = (True, x, y, True)" and "dtm_ready d" and "crossed idv g xs d t"
    and "at_rise ts = map snd (session_clocks xs)" and "inq w = map fst (session_ticks xs ts) @ rest"
  shows "\<exists>ps s' w' reply. rbs_session os (pins_levels idv (session_ticks xs ts) (True, x, y, True) d) s w = ret (ps, s', w') \<and>
    map pins_abs ps = bb_trace (True, x, y, True) (map fst (session_ticks xs ts)) \<and>
    inq w' = rest \<and> outq w' = outq w @ map bit_char reply \<and>
    host_parse xs reply = map word_bits (direct_reads g xs t (the_view d))"
proof -
  let ?bs = "session_ticks xs ts"
  let ?ls = "pins_levels idv ?bs (True, x, y, True) d"
  note b = session_bytes [OF assms(7)]
  have i: "take (length ?ls) (inq w) = map fst ?bs" "drop (length ?ls) (inq w) = rest" "length ?ls \<le> length (inq w)"
    by (simp_all add: length_levels assms(8))
  have q: "CHR ''Q'' \<notin> set (take (length ?ls) (inq w))" unfolding i by (rule b(2))
  obtain ps s' w' where r: "rbs_session os ?ls s w = ret (ps, s', w')"
    "map pins_abs ps = bb_trace (True, x, y, True) (map fst ?bs)" "inq w' = rest"
    "outq w' = outq w @ bb_replies (map fst ?bs) ?ls"
    using session_stream [OF assms(1,2) refl assms(3) i(3) q] unfolding i assms(4) by blast
  obtain a e where d: "d = with_tdo a e d" using with_tdo_self by blast
  let ?o = "jtag_outs idv (map fst (session_clocks xs)) (map snd (session_clocks xs)) d"
  have "bb_replies (map fst ?bs) ?ls = map bit_char ?o"
    using socket_clocks(2) [OF b(1), of idv x y a e d] unfolding d [symmetric] assms(7) session_ticks_def .
  moreover have "host_parse xs ?o = map word_bits (direct_reads g xs t (the_view d))"
    unfolding session_outs [OF assms(6)] by (rule session_reads [OF assms(5,6)])
  ultimately show ?thesis using r by (intro exI [of _ ps] exI [of _ s'] exI [of _ w'] exI [of _ ?o]) simp
qed

section \<open>Example\<close>

definition steady :: "cdc list \<Rightarrow> (cdc \<times> cdc \<times> cdc) list" where
  "steady cs = map (\<lambda>c. (c, c, c)) cs"

definition connected :: rbs where
  "connected = rbs_zero\<lparr>client_fd := 4, tck := 1, tms := 1, tdi := 1, trstn := 1\<rparr>"

theorem socket_session_witness:
  "\<exists>levels ps s' w' reply. rbs_session script_os levels connected
     (2, map fst (session_ticks data_session (steady (map snd (session_clocks data_session)))), []) = ret (ps, s', w') \<and>
   snd (snd w') = map bit_char reply \<and>
   host_parse data_session reply = map word_bits [dmi_word 0 0 0, dmi_word 4 0xCAFE 0, dmi_word 4 0xCAFE 0]"
proof -
  let ?ts = "steady (map snd (session_clocks data_session))"
  let ?w = "(2, map fst (session_ticks data_session ?ts), []) :: nat \<times> char list \<times> char list"
  have c: "0 < client_fd connected" "quit connected = 0" "pins_abs (pins_of connected) = (True, True, True, True)"
    by (simp_all add: connected_def rbs_zero_def pins_abs_def pins_of_def)
  have t: "at_rise ?ts = map snd (session_clocks data_session)" by (simp add: at_rise_def steady_def comp_def)
  have i: "(\<lambda>(d, i, out). i) ?w = map fst (session_ticks data_session ?ts) @ []" by simp
  obtain ps s' w' reply where r:
    "rbs_session script_os (pins_levels 0xDB3 (session_ticks data_session ?ts) (True, True, True, True) ready_dtm) connected ?w
      = ret (ps, s', w')"
    "(\<lambda>(d, i, out). out) w' = (\<lambda>(d, i, out). out) ?w @ map bit_char reply"
    "host_parse data_session reply = map word_bits (direct_reads one_hart data_session active_top (the_view ready_dtm))"
    using socket_session [OF script_os_stream c ready_dtm_ready(1) data_session_runs(1) t i] by blast
  have "snd (snd w') = map bit_char reply" using r(2) by (simp add: case_prod_beta)
  then show ?thesis using r(1,3) unfolding data_session_runs(2) by blast
qed

end
