(* ===== verification/Sim_Jtag.thy ===== *)
theory Sim_Jtag
  imports Bitbang_Session
begin

text \<open>
  The module \<open>tb/SimJTAG.sv\<close>, which calls the bit-bang server from the simulation: a down counter decides
  in which clock cycles \<open>jtag_tick\<close> is called, TDO is sampled in those cycles, and the pins and the exit
  code the call returns are registered.
\<close>

text \<open>The registers, and the variables the DPI call writes.\<close>

record sim_jtag =
  r_reset :: bool
  tickCounterReg :: u32
  init_done_sticky :: bool
  jtag_pins :: pins
  jtag_exit :: int

record sim_jtag_in =
  sim_reset :: bool
  sim_enable :: bool
  init_done :: bool
  jtag_TDO_data :: bool
  jtag_TDO_driven :: bool
  random_bit :: bool

definition tickCounterNxt :: "u32 \<Rightarrow> sim_jtag \<Rightarrow> u32" where
  "tickCounterNxt TICK_DELAY s = (if tickCounterReg s = 0 then TICK_DELAY else tickCounterReg s - 1)"

definition jtag_TDO :: "sim_jtag_in \<Rightarrow> u8" where
  "jtag_TDO i = of_bool (if jtag_TDO_driven i then jtag_TDO_data i else random_bit i)"

text \<open>The clocked block; \<open>sv\<close> are the globals of the server behind \<open>jtag_tick\<close>.\<close>

definition sim_jtag_clk ::
  "'w posix \<Rightarrow> u32 \<Rightarrow> int \<Rightarrow> sim_jtag_in \<Rightarrow> sim_jtag \<times> sim \<times> 'w \<Rightarrow> (sim_jtag \<times> sim \<times> 'w) result" where
  "sim_jtag_clk os TICK_DELAY PORT i st = (case st of (s, sv, w) \<Rightarrow>
     let n = s\<lparr>r_reset := sim_reset i\<rparr> in
     if sim_reset i \<or> r_reset s
     then ret (n\<lparr>jtag_exit := 0, tickCounterReg := TICK_DELAY, init_done_sticky := False\<rparr>, sv, w)
     else let n = n\<lparr>init_done_sticky := init_done i \<or> init_done_sticky s\<rparr> in
       if sim_enable i \<and> init_done_sticky s
       then let n = n\<lparr>tickCounterReg := tickCounterNxt TICK_DELAY s\<rparr> in
         if tickCounterReg s = 0
         then seq (jtag_tick os PORT (jtag_TDO i) sv w)
           (\<lambda>(e, ps, sv', w'). ret (n\<lparr>jtag_exit := e, jtag_pins := ps\<rparr>, sv', w'))
         else ret (n, sv, w)
       else ret (n, sv, w))"

primrec sim_jtag_run ::
  "'w posix \<Rightarrow> u32 \<Rightarrow> int \<Rightarrow> sim_jtag_in list \<Rightarrow> sim_jtag \<times> sim \<times> 'w \<Rightarrow> (sim_jtag \<times> sim \<times> 'w) result" where
  "sim_jtag_run os D port [] st = ret st"
| "sim_jtag_run os D port (i # is) st = seq (sim_jtag_clk os D port i st) (sim_jtag_run os D port is)"

section \<open>Calls of the server without a clock\<close>

text \<open>The specification: one call for each sample of TDO. Exit code and pins are those of the last call.\<close>

primrec tick_calls ::
  "'w posix \<Rightarrow> int \<Rightarrow> u8 list \<Rightarrow> int \<times> pins \<times> sim \<times> 'w \<Rightarrow> (int \<times> pins \<times> sim \<times> 'w) result" where
  "tick_calls os port [] v = ret v"
| "tick_calls os port (x # xs) v = (case v of (_, _, sv, w) \<Rightarrow> seq (jtag_tick os port x sv w) (tick_calls os port xs))"

definition seen :: "sim_jtag \<times> sim \<times> 'w \<Rightarrow> int \<times> pins \<times> sim \<times> 'w" where
  "seen st = (case st of (s, sv, w) \<Rightarrow> (jtag_exit s, jtag_pins s, sv, w))"

lemma ret_seen: "(\<lambda>st. ret (seen st)) = (\<lambda>(s, sv, w). ret (jtag_exit s, jtag_pins s, sv, w))"
  by (auto simp: seen_def)

definition counting :: "sim_jtag \<Rightarrow> bool" where
  "counting s \<longleftrightarrow> init_done_sticky s \<and> \<not> r_reset s"

definition steady_in :: "sim_jtag_in \<Rightarrow> bool" where
  "steady_in i \<longleftrightarrow> sim_enable i \<and> \<not> sim_reset i"

text \<open>The samples of the cycles that follow \<open>c\<close> others, and then every \<open>n\<close>-th one.\<close>

definition samples :: "nat \<Rightarrow> nat \<Rightarrow> sim_jtag_in list \<Rightarrow> u8 list" where
  "samples n c is = nths (map jtag_TDO is) {k. k mod n = c}"

lemma samples_Nil [simp]: "samples n c [] = []"
  by (simp add: samples_def)

lemma samples_Cons:
  assumes "c \<le> D"
  shows "samples (Suc D) c (i # is) =
    (if c = 0 then jtag_TDO i # samples (Suc D) D is else samples (Suc D) (c - 1) is)"
proof -
  have "{j. Suc j mod Suc D = c} = {j. j mod Suc D = (if c = 0 then D else c - 1)}"
    using assms by (auto simp: mod_Suc)
  then show ?thesis by (simp add: samples_def nths_Cons)
qed

lemma counting_step:
  assumes "counting s" and "steady_in i"
  shows "sim_jtag_clk os D port i (s, sv, w) =
    (let n = s\<lparr>r_reset := False, init_done_sticky := True, tickCounterReg := tickCounterNxt D s\<rparr> in
     if tickCounterReg s = 0
     then seq (jtag_tick os port (jtag_TDO i) sv w) (\<lambda>(e, ps, sv', w'). ret (n\<lparr>jtag_exit := e, jtag_pins := ps\<rparr>, sv', w'))
     else ret (n, sv, w))"
  using assms by (simp add: counting_def steady_in_def sim_jtag_clk_def Let_def)

lemma seq_assoc: "seq (seq m f) g = seq m (\<lambda>x. seq (f x) g)"
  by (simp add: seq_def split: option.splits sum.splits)

lemma seq_cong: "(\<And>x. m = ret x \<Longrightarrow> f x = g x) \<Longrightarrow> seq m f = seq m g"
  by (simp add: seq_def ret_def split: option.splits sum.splits)

lemma counter_unat: "unat (tickCounterNxt D s) = (if tickCounterReg s = 0 then unat D else unat (tickCounterReg s) - 1)"
  by (simp add: tickCounterNxt_def unat_minus_one)

lemma counting_run:
  assumes "counting s" and "list_all steady_in is" and "unat (tickCounterReg s) \<le> unat D"
  shows "seq (sim_jtag_run os D port is (s, sv, w)) (\<lambda>st. ret (seen st)) =
    tick_calls os port (samples (Suc (unat D)) (unat (tickCounterReg s)) is) (seen (s, sv, w))"
  using assms
proof (induction "is" arbitrary: s sv w)
  case (Cons i "is")
  have i: "steady_in i" "list_all steady_in is" using Cons.prems(2) by simp_all
  let ?n = "s\<lparr>r_reset := False, init_done_sticky := True, tickCounterReg := tickCounterNxt D s\<rparr>"
  have next_ok: "seq (sim_jtag_run os D port is (n, sv', w')) (\<lambda>st. ret (seen st)) =
      tick_calls os port (samples (Suc (unat D)) (unat (tickCounterNxt D s)) is) (jtag_exit n, jtag_pins n, sv', w')"
    if "r_reset n = False" "init_done_sticky n = True" "tickCounterReg n = tickCounterNxt D s" for n sv' w'
  proof -
    have "unat (tickCounterNxt D s) \<le> unat D" using Cons.prems(3) by (simp add: counter_unat del: unat_eq_zero) linarith
    then show ?thesis using Cons.IH [of n sv' w'] i(2) that by (simp add: counting_def seen_def)
  qed
  show ?case
  proof (cases "tickCounterReg s = 0")
    case True
    then show ?thesis
      by (simp add: counting_step [OF Cons.prems(1) i(1)] seq_assoc samples_Cons seen_def [of "(s, sv, w)"])
        (rule seq_cong, auto simp: next_ok counter_unat)
  next
    case False
    then have "unat (tickCounterReg s) \<noteq> 0" by (simp add: unat_eq_0)
    then show ?thesis using False Cons.prems(3) next_ok [of ?n sv w]
      by (simp add: counting_step [OF Cons.prems(1) i(1)] samples_Cons seen_def [of "(s, sv, w)"] counter_unat)
  qed
qed (simp add: seen_def)

lemma waiting_run:
  assumes "list_all (\<lambda>i. \<not> sim_reset i \<and> \<not> init_done i) ws" and "\<not> init_done_sticky s" and "\<not> r_reset s"
  shows "sim_jtag_run os D port (ws @ is) (s, sv, w) = sim_jtag_run os D port is (s, sv, w)"
  using assms
proof (induction ws)
  case (Cons i ws)
  then have "sim_jtag_clk os D port i (s, sv, w) = ret (s, sv, w)" by (simp add: sim_jtag_clk_def Let_def)
  then show ?case using Cons by simp
qed simp

text \<open>C27: after a reset the simulation module calls the bit-bang server with a fixed period. Before
  \<open>init_done\<close> was seen it makes no call; from the next cycle on, while it is enabled and not reset, it
  calls the server exactly in every (\<open>TICK_DELAY + 1\<close>)-th clock cycle, with the TDO of that cycle (a random
  bit when nobody drives TDO), for every 32-bit value of the delay. Pins, exit code, server state and world
  are those of the calls alone, also when a call blocks or aborts.\<close>

theorem paced_ticks:
  assumes "sim_reset r" and "\<not> sim_reset q" and "list_all (\<lambda>i. \<not> sim_reset i \<and> \<not> init_done i) ws"
    and "init_done e" and "\<not> sim_reset e" and "list_all (\<lambda>i. sim_enable i \<and> \<not> sim_reset i) is"
  shows "seq (sim_jtag_run os D port (r # q # ws @ e # is) (s, sv, w))
      (\<lambda>(s', sv', w'). ret (jtag_exit s', jtag_pins s', sv', w')) =
    tick_calls os port (nths (map jtag_TDO is) {k. k mod (unat D + 1) = unat D}) (0, jtag_pins s, sv, w)"
proof -
  let ?s = "s\<lparr>r_reset := False, jtag_exit := 0, tickCounterReg := D, init_done_sticky := False\<rparr>"
  let ?e = "?s\<lparr>init_done_sticky := True\<rparr>"
  have "sim_jtag_run os D port (r # q # ws @ e # is) (s, sv, w) = sim_jtag_run os D port (ws @ e # is) (?s, sv, w)"
    using assms(1,2) by (simp add: sim_jtag_clk_def Let_def)
  also have "\<dots> = sim_jtag_run os D port (e # is) (?s, sv, w)" by (rule waiting_run [OF assms(3)]) simp_all
  also have "\<dots> = sim_jtag_run os D port is (?e, sv, w)"
    using assms(4,5) by (cases s) (simp add: sim_jtag_clk_def Let_def)
  finally have run: "sim_jtag_run os D port (r # q # ws @ e # is) (s, sv, w) = sim_jtag_run os D port is (?e, sv, w)" .
  have "counting ?e" "list_all steady_in is" "unat (tickCounterReg ?e) \<le> unat D"
    using assms(6) by (simp_all add: counting_def steady_in_def [abs_def])
  from counting_run [OF this, of os port sv w] show ?thesis
    unfolding run ret_seen by (simp add: seen_def samples_def)
qed

text \<open>A delay of 1, from power-up: the first call starts the server and accepts the client, the second
  executes the command \<open>6\<close> and the third answers \<open>R\<close> with the TDO of its cycle.\<close>

definition cycle :: "bool \<Rightarrow> bool \<Rightarrow> bool \<Rightarrow> sim_jtag_in" where
  "cycle rst don b = \<lparr>sim_reset = rst, sim_enable = True, init_done = don, jtag_TDO_data = b, jtag_TDO_driven = True,
     random_bit = False\<rparr>"

definition power_up :: "sim_jtag \<times> sim \<times> nat \<times> char list \<times> char list" where
  "power_up = (\<lparr>r_reset = False, tickCounterReg = 0, init_done_sticky = True, jtag_pins = (0, 0, 0, 0), jtag_exit = 7\<rparr>,
     \<lparr>sim_init = 0, sim_rbs = rbs_zero\<rparr>, 0, ''6R'', [])"

lemma script_tick:
  "client_fd s = 0 \<Longrightarrow> rbs_tick script_os l s w = ret (pins_of s, s\<lparr>client_fd := 4\<rparr>, w)"
  "client_fd s = 4 \<Longrightarrow> quit s = 0 \<Longrightarrow> rbs_tick script_os l s (0, CHR ''6'' # cs, out) =
     ret ((1, 1, 0, trstn s), s\<lparr>tdo := l, tck := 1, tms := 1, tdi := 0\<rparr>, (0, cs, out))"
  "client_fd s = 4 \<Longrightarrow> quit s = 0 \<Longrightarrow> rbs_tick script_os l s (0, CHR ''R'' # cs, out) =
     ret (pins_of s, s\<lparr>tdo := l\<rparr>, (0, cs, out @ [if l \<noteq> 0 then CHR ''1'' else CHR ''0'']))"
  by (simp_all add: rbs_tick_def rbs_accept_def accept_loop.simps rbs_execute_command_def read_loop.simps send_loop.simps
      script_os_def exec_switch_def rbs_set_pins_def pins_of_def Let_def)

theorem paced_ticks_witness:
  "\<exists>sv. seq (sim_jtag_run script_os 1 9823 ([cycle True False False, cycle False True False, cycle False False True,
         cycle False True True] @ map (cycle False False) [True, False, False, True, False, True]) power_up)
      (\<lambda>(s, sv, w). ret (jtag_exit s, jtag_pins s, sv, w)) =
    ret (0, (1, 1, 0, 1), sv, 0, [], ''1'')"
proof -
  have r: "sim_reset (cycle True False False)" "\<not> sim_reset (cycle False True False)"
    "list_all (\<lambda>i. \<not> sim_reset i \<and> \<not> init_done i) [cycle False False True]"
    "init_done (cycle False True True)" "\<not> sim_reset (cycle False True True)"
    "list_all (\<lambda>i. sim_enable i \<and> \<not> sim_reset i) (map (cycle False False) [True, False, False, True, False, True])"
    by (simp_all add: cycle_def)
  have n: "nths (map jtag_TDO (map (cycle False False) [True, False, False, True, False, True])) {k. k mod (unat (1::u32) + 1) = unat (1::u32)}
      = [0, 1, 1]" by (simp add: nths_Cons mod_Suc jtag_TDO_def cycle_def)
  have "seq (sim_jtag_run script_os 1 9823 ([cycle True False False, cycle False True False, cycle False False True,
         cycle False True True] @ map (cycle False False) [True, False, False, True, False, True]) power_up)
      (\<lambda>(s, sv, w). ret (jtag_exit s, jtag_pins s, sv, w)) =
    tick_calls script_os 9823 [0, 1, 1] (0, (0, 0, 0, 0), \<lparr>sim_init = 0, sim_rbs = rbs_zero\<rparr>, 0, ''6R'', [])"
    using paced_ticks [OF r, of script_os 1 9823 "fst power_up" "fst (snd power_up)" "snd (snd power_up)"]
    unfolding n append_Cons append_Nil prod.collapse by (simp add: power_up_def)
  moreover have "rbs_init script_os p rbs_zero w = ret (1, rbs_zero\<lparr>socket_fd := 3, tck := 1, tms := 1, tdi := 1, trstn := 1\<rparr>, w)"
    for p w by (simp add: rbs_init_def script_os_def rbs_zero_def Let_def)
  ultimately show ?thesis
    by (simp add: jtag_tick_def script_tick rbs_zero_def pins_of_def rbs_done_def)
qed

end
