(* ===== verification/Hart_Session.thy ===== *)
theory Hart_Session
  imports Debug_Session Park_Loop
begin

text \<open>
  The parked hart and the debug module together: the park loop of \<open>Park_Loop\<close> runs against the module of
  \<open>Dm_Top\<close>. The flag byte the hart polls is a read of the module, its signals are writes to it, and the
  debugger sees in \<open>dmstatus\<close> what the hart reported.
\<close>

section \<open>Accesses of a parked hart\<close>

text \<open>An access \<open>i\<close> on the bus delivers a 32-bit store of the hart to the page of the module.\<close>

definition sends :: "u64 \<Rightarrow> top_in \<Rightarrow> u64 \<times> nat \<times> u64 \<Rightarrow> bool" where
  "sends base i st \<longleftrightarrow> (case st of (a, n, v) \<Rightarrow> n = 4 \<and> slave_req_i i \<and> slave_we_i i \<and>
     (ucast (slave_addr_i i) :: 12 word) = ucast (a - base) \<and> take_bit 32 (slave_wdata_i i) = v)"

text \<open>The hart polls its flag byte in the cycle \<open>i\<close> of the module.\<close>

definition polls_flag :: "dm_cfg \<Rightarrow> u64 \<Rightarrow> hart \<Rightarrow> (u64 \<Rightarrow> u8) \<Rightarrow> top_in \<Rightarrow> dm_top \<Rightarrow> bool" where
  "polls_flag g base h r i t \<longleftrightarrow> hart_loads i (FlagsBaseAddr + of_nat (unat (csr h CSR_MHARTID))) \<and>
     flag_of base h r = mem_byte g (top_mem_in g i t) (top_mem t)"

definition numbered :: "dm_cfg \<Rightarrow> hart \<Rightarrow> nat \<Rightarrow> bool" where
  "numbered g h n \<longleftrightarrow> csr h CSR_MHARTID = of_nat n \<and> n < NrHarts g \<and> NrHarts g \<le> 1024 \<and> SelectableHarts g n"

lemma clog2_le: "n \<le> 2 ^ m \<Longrightarrow> clog2 n \<le> m"
proof (rule ccontr)
  assume n: "n \<le> 2 ^ m" and "\<not> clog2 n \<le> m"
  then have m: "m < length (takeWhile (\<lambda>k. 2 ^ k < n) [0..<n])" by (simp add: clog2_def)
  moreover have "length (takeWhile (\<lambda>k. 2 ^ k < n) [0..<n]) \<le> n" using length_takeWhile_le [of _ "[0..<n]"] by simp
  ultimately have "takeWhile (\<lambda>k. 2 ^ k < n) [0..<n] ! m = m" by (simp add: takeWhile_nth)
  then have "2 ^ m < n" using nth_mem [OF m] by (auto dest: set_takeWhileD)
  then show False using n by simp
qed

lemma hartsel_bounds:
  assumes "NrHarts g \<le> 1024"
  shows "HartSelLen g \<le> 10" "n < NrHarts g \<Longrightarrow> n < 2 ^ HartSelLen g"
  using clog2_le [of "NrHarts g" 10] clog2_bound [of "NrHarts g"] assms by (auto simp: HartSelLen_def)

lemma sent_number:
  assumes "numbered g h n" and "sends base i (signal base a (csr h CSR_MHARTID))"
  shows "mem_write (top_mem_in g i t) a" "wdata_hartsel g (top_mem_in g i t) = n" "hart_valid g n"
proof -
  have n: "n < NrHarts g" "NrHarts g \<le> 1024" "csr h CSR_MHARTID = of_nat n" using assms(1) by (simp_all add: numbered_def)
  note b = hartsel_bounds [OF n(2)]
  show "mem_write (top_mem_in g i t) a"
    using assms(2) by (simp add: sends_def signal_def mem_write_def top_mem_in_def mem_port_def daddr_def ucast_ucast_self)
  show "hart_valid g n" using n(1) by (auto simp: hart_valid_def)
  have "take_bit 32 (slave_wdata_i i) = take_bit 32 (of_nat n)" using assms(2) n(3) by (simp add: sends_def signal_def)
  from arg_cong [OF this, of "take_bit (HartSelLen g)"]
  have "take_bit (HartSelLen g) (slave_wdata_i i) = take_bit (HartSelLen g) (of_nat n)"
    using b(1) by (simp add: min_def)
  moreover have "unat (take_bit (HartSelLen g) (of_nat n :: u64)) = n"
    using b(2) [OF n(1)] n(1,2) by (simp add: unsigned_take_bit_eq unsigned_of_nat take_bit_nat_eq_self)
  ultimately show "wdata_hartsel g (top_mem_in g i t) = n"
    by (simp add: wdata_hartsel_def top_mem_in_def mem_port_def)
qed

lemma sent_going:
  "sends base i (signal base GOING 0) \<Longrightarrow> going (top_mem_in g i t)"
  by (simp add: sends_def signal_def going_def mem_write_def top_mem_in_def mem_port_def daddr_def ucast_ucast_self)
    (simp add: rom_addresses map_addresses)

text \<open>The events that the debug memory hears.\<close>

lemma top_ndmreset: "ndmreset_i (top_mem_in g i t) = ndmreset (dmcontrol_q (top_csrs t))"
  "mem_hartsel g (top_mem_in g i t) = selected_hart g (top_csrs t)"
  by (simp_all add: top_mem_in_def mem_port_def mem_hartsel_def selected_hart_def)

lemma heard:
  assumes "numbered g h n" and "\<not> ndmreset (dmcontrol_q (top_csrs t))"
  shows "sends base i (signal base HALTED (csr h CSR_MHARTID)) \<Longrightarrow> halt_event g n (top_mem_in g i t) = Some True"
    and "sends base i (signal base RESUMING (csr h CSR_MHARTID)) \<Longrightarrow>
      halt_event g n (top_mem_in g i t) = Some False \<and> ack_event g n (top_mem_in g i t) = Some True"
proof -
  have a: "HALTED = HaltedAddr" "RESUMING = ResumingAddr" "HaltedAddr \<noteq> ResumingAddr"
    by (simp_all add: rom_addresses map_addresses)
  have w: "mem_write m HaltedAddr \<Longrightarrow> \<not> mem_write m ResumingAddr" for m using a(3) by (auto simp: mem_write_def)
  show "halt_event g n (top_mem_in g i t) = Some True" if "sends base i (signal base HALTED (csr h CSR_MHARTID))"
    using sent_number(1,2) [OF assms(1) that, of t] sent_number(3) [OF assms(1) that] assms(2) a by (simp add: halt_event_def top_ndmreset)
  show "halt_event g n (top_mem_in g i t) = Some False \<and> ack_event g n (top_mem_in g i t) = Some True"
    if "sends base i (signal base RESUMING (csr h CSR_MHARTID))"
    using sent_number(1,2) [OF assms(1) that, of t] sent_number(3) [OF assms(1) that] assms(2) a w
    by (auto simp: halt_event_def ack_event_def top_ndmreset)
qed

lemma status_read:
  assumes "top_dmi g j t DTM_READ DMStatus"
  shows "unpack_dmstatus (resp_data (resp_queue_inp (top_comb g j t))) = dmstatus g (csr_port g j t) (top_csrs t)"
    and "resp_resp (resp_queue_inp (top_comb g j t)) = DTM_SUCCESS"
proof -
  have r: "request (csr_port g j t) DTM_READ" "dm_csr_addr (csr_port g j t) = DMStatus" using assms by (simp_all add: top_dmi_def)
  have "csr_comb g (csr_port g j t) (top_csrs t) = Dm_Csrs.csr_update g (csr_port g j t) (top_csrs t)
      (respond (pack_dmstatus (dmstatus g (csr_port g j t) (top_csrs t))) (csr_default (csr_port g j t) (top_csrs t)))"
    using r named_not_ranges [of "csr_port g j t"] by (simp add: read_comb csr_read_def Let_def dm_addresses)
  then show "unpack_dmstatus (resp_data (resp_queue_inp (top_comb g j t))) = dmstatus g (csr_port g j t) (top_csrs t)"
    "resp_resp (resp_queue_inp (top_comb g j t)) = DTM_SUCCESS"
    by (simp_all add: top_comb_def csr_update_frame respond_def csr_default_def unpack_pack)
qed

lemma polled_bits:
  assumes "mem_bus_ok g" and "numbered g h n" and "polls_flag g base h r i t" and "\<not> ndmreset (dmcontrol_q (top_csrs t))"
  shows "bit (flag_of base h r) b \<longleftrightarrow> n = selected_hart g (top_csrs t) \<and>
    (b = FLAG_GO \<and> mem_state_q (top_mem t) = Mem_Go \<or> b = FLAG_RESUME \<and> mem_state_q (top_mem t) = Mem_Resume)"
proof -
  have n: "n < 1024" "NrHarts g \<le> 1024" "csr h CSR_MHARTID = of_nat n" using assms(2) by (simp_all add: numbered_def)
  have "unat (csr h CSR_MHARTID) = n" using n(1,3) by (simp add: unsigned_of_nat take_bit_nat_eq_self)
  then have "mem_read (top_mem_in g i t) (FlagsBaseAddr + of_nat n)" and f: "flag_of base h r = mem_byte g (top_mem_in g i t) (top_mem t)"
    using assms(3) by (simp_all add: polls_flag_def)
  then show ?thesis unfolding f
    using polled_flags [OF assms(1) hartsel_bounds(1) [OF n(2)] n(1), of "top_mem_in g i t" "top_mem t" b] assms(4)
    by (simp add: top_ndmreset)
qed

section \<open>Halting and resuming\<close>

text \<open>What the debugger reads in \<open>dmstatus\<close> once a store of hart \<open>n\<close> has reached the module, for as long as the
  module hears nothing else about this hart, while it is selected and available.\<close>

definition unheard :: "dm_cfg \<Rightarrow> nat \<Rightarrow> top_in \<Rightarrow> dm_top \<Rightarrow> bool" where
  "unheard g n i t \<longleftrightarrow> halt_event g n (top_mem_in g i t) = None \<and> ack_event g n (top_mem_in g i t) = None"

definition status_seen :: "dm_cfg \<Rightarrow> top_in \<Rightarrow> dm_top \<Rightarrow> dmstatus_t" where
  "status_seen g j t = unpack_dmstatus (resp_data (resp_queue_inp (top_comb g j t)))"

definition once_heard :: "dm_cfg \<Rightarrow> u64 \<Rightarrow> nat \<Rightarrow> u64 \<times> nat \<times> u64 \<Rightarrow> (dmstatus_t \<Rightarrow> bool) \<Rightarrow> bool" where
  "once_heard g base n st P \<longleftrightarrow> (\<forall>t i is j. \<not> ndmreset (dmcontrol_q (top_csrs t)) \<and> sends base i st \<and>
     runs_ok (top_clk g) (unheard g n) is (top_clk g i t) \<and>
     top_dmi g j (runs (top_clk g) is (top_clk g i t)) DTM_READ DMStatus \<and>
     selected_hart g (top_csrs (runs (top_clk g) is (top_clk g i t))) = n \<and> \<not> top_unavailable j n \<longrightarrow>
     P (status_seen g j (runs (top_clk g) is (top_clk g i t))))"

interpretation heard_flags: held "top_clk g" "unheard g n" "\<lambda>_. SelectableHarts g n"
    "\<lambda>t. (halted_q (top_mem t) n, resuming_q (top_mem t) n)" for g n
  by unfold_locales (simp_all add: top_clk_def halted_step acked_step unheard_def)

lemma once_heard_status:
  assumes "numbered g h n" and "a = HALTED \<or> a = RESUMING"
  shows "once_heard g base n (signal base a (csr h CSR_MHARTID)) (\<lambda>s. allhalted s = (a = HALTED) \<and>
    anyhalted s = (a = HALTED) \<and> allrunning s = (a = RESUMING) \<and> anyrunning s = (a = RESUMING) \<and>
    (a = RESUMING \<longrightarrow> allresumeack s \<and> anyresumeack s))"
proof -
  have n: "n < NrHarts g" "SelectableHarts g n" using assms(1) by (simp_all add: numbered_def)
  have d: "HALTED \<noteq> RESUMING" by (simp add: rom_addresses)
  have "halted_q (top_mem (runs (top_clk g) is (top_clk g i t))) n = (a = HALTED) \<and>
      (a = RESUMING \<longrightarrow> resuming_q (top_mem (runs (top_clk g) is (top_clk g i t))) n)"
    if "\<not> ndmreset (dmcontrol_q (top_csrs t))" "sends base i (signal base a (csr h CSR_MHARTID))"
      "runs_ok (top_clk g) (unheard g n) is (top_clk g i t)" for t i "is"
    using heard_flags.held_run [OF n(2) that(3)] heard [OF assms(1) that(1), of base i] that(2) assms(2) n(2) d
    by (auto simp: top_clk_def halted_step acked_step)
  then show ?thesis using n(1) assms(2) d
    by (auto simp: once_heard_def status_seen_def status_read dmstatus_def Let_def aligned_def csr_port_def)
qed

text \<open>C6: the debugger sees a hart halt. A hart that enters the debug ROM reports itself with each poll of its
  clear flags; once such a report has reached the module, the debugger reads in \<open>dmstatus\<close> that the
  selected hart is halted and not running, until the module hears from the hart again.\<close>

theorem halted_hart_seen:
  assumes "rom_at reset_vec base h" and "pc h = base + 0x800" and "list_all (idle_flag base h) rs" and "rs \<noteq> []"
    and "numbered g h n"
  shows "\<exists>h1 h2. reach h h1 \<and> polls h1 rs h2 \<and>
    stores h2 = stores h @ replicate (length rs) (signal base HALTED (csr h CSR_MHARTID)) \<and>
    once_heard g base n (last (stores h2)) (\<lambda>s. allhalted s \<and> anyhalted s \<and> \<not> allrunning s \<and> \<not> anyrunning s)"
proof -
  obtain h1 where h1: "reach h h1" "waits_two base h h1" "stores h1 = stores h"
    using two.enter_law [OF assms(1,2)] by blast
  obtain h2 where h2: "polls h1 rs h2" "stores h2 = stores h1 @ replicate (length rs) (halted_signal base h)"
    using two.idle_polls [OF h1(2) assms(3)] by blast
  have "HALTED \<noteq> RESUMING" by (simp add: rom_addresses)
  then have "once_heard g base n (last (stores h2)) (\<lambda>s. allhalted s \<and> anyhalted s \<and> \<not> allrunning s \<and> \<not> anyrunning s)"
    using once_heard_status [OF assms(5), of HALTED base] h2(2) assms(4) by (simp add: once_heard_def)
  then show ?thesis using h1(1,3) h2 by (intro exI [of _ h1] exI [of _ h2]) simp
qed

text \<open>C7: the debugger resumes a hart. While the module asks the selected hart to resume, this hart's next poll of
  its flag byte makes it report RESUMING and leave debug mode with its registers restored; once the
  report has reached the module, the debugger reads in \<open>dmstatus\<close> that the hart has acknowledged the
  resume, runs and is not halted, until the module hears from it again or a new resume is requested.\<close>

theorem resumed_hart_seen:
  assumes "rom_at reset_vec base h" and "pc h = base + 0x800" and "list_all (idle_flag base h) rs"
    and "numbered g h n" and "mem_bus_ok g" and "polls_flag g base h r i t" and "\<not> ndmreset (dmcontrol_q (top_csrs t))"
    and "mem_state_q (top_mem t) = Mem_Resume" and "selected_hart g (top_csrs t) = n"
  shows "\<exists>h1 h2 k h3. reach h h1 \<and> polls h1 rs h2 \<and> run k (h2\<lparr>ram := r\<rparr>) = Returned h3 \<and> gpr h3 = gpr h \<and>
    stores h3 = stores h @ replicate (Suc (length rs)) (signal base HALTED (csr h CSR_MHARTID)) @
      [signal base RESUMING (csr h CSR_MHARTID)] \<and>
    once_heard g base n (last (stores h3))
      (\<lambda>s. allresumeack s \<and> anyresumeack s \<and> allrunning s \<and> anyrunning s \<and> \<not> allhalted s \<and> \<not> anyhalted s)"
proof -
  have b: "\<not> bit (flag_of base h r) 0" "bit (flag_of base h r) 1"
    unfolding polled_bits [OF assms(5,4,6,7)] using assms(8,9) by (simp_all add: FLAG_GO_def FLAG_RESUME_def)
  obtain h1 h2 k h3 where h: "reach h h1" "polls h1 rs h2" "run k (h2\<lparr>ram := r\<rparr>) = Returned h3" "gpr h3 = gpr h"
    "stores h3 = stores h @ replicate (Suc (length rs)) (halted_signal base h) @ [signal base RESUMING (csr h CSR_MHARTID)]"
    using two.wait_then_resume [OF assms(1-3) b] by blast
  have "HALTED \<noteq> RESUMING" by (simp add: rom_addresses)
  then have "once_heard g base n (last (stores h3))
      (\<lambda>s. allresumeack s \<and> anyresumeack s \<and> allrunning s \<and> anyrunning s \<and> \<not> allhalted s \<and> \<not> anyhalted s)"
    using once_heard_status [OF assms(4), of RESUMING base] h(5) by (simp add: once_heard_def)
  then show ?thesis using h by (intro exI [of _ h1] exI [of _ h2] exI [of _ k] exI [of _ h3]) simp
qed

section \<open>A command, from the park loop and back\<close>

text \<open>Running changes no code.\<close>

lemma exec_code: "exec i h = Running h' \<Longrightarrow> code h' = code h"
  by (cases i) (auto simp: next_pc_def wr_reg_def log_store_def split: option.splits if_splits)

lemma run_code: "run m h = Running h' \<Longrightarrow> code h' = code h"
proof (induction m arbitrary: h)
  case (Suc m)
  then obtain h1 where h1: "step h = Running h1" "run m h1 = Running h'" by (auto split: outcome.splits)
  then have "code h1 = code h" by (auto simp: step_def split: option.splits dest: exec_code)
  then show ?case using Suc.IH [OF h1(2)] by simp
qed simp

lemma reach_code: "reach h h' \<Longrightarrow> code h' = code h"
  by (auto simp: reach_def dest: run_code)

lemma polls_code: "polls h rs h' \<Longrightarrow> code h' = code h"
  by (induction rule: polls.induct) (auto dest: reach_code)

text \<open>The jump at \<open>whereto\<close>, fetched while the module is busy with a command that transfers a register.\<close>

definition fetches_jump :: "dm_cfg \<Rightarrow> dm_top \<Rightarrow> u64 \<Rightarrow> hart \<Rightarrow> bool" where
  "fetches_jump g t base h \<longleftrightarrow> (\<exists>is i. runs_ok (top_clk g) (stays_busy g) is t \<and> hart_loads i WhereToAddr \<and>
     code h (base + 0x300) = hart_fetch g i (runs (top_clk g) is t))"

lemma jump_word:
  assumes "top_busy t" and "fetches_jump g t base h" and "transfer_ok g (command_q (top_csrs t)) ac"
  shows "code h (base + 0x300) = jal 0 0x38"
proof -
  obtain "is" i where i: "runs_ok (top_clk g) (stays_busy g) is t" "hart_loads i WhereToAddr"
    "code h (base + 0x300) = hart_fetch g i (runs (top_clk g) is t)" using assms(2) by (auto simp: fetches_jump_def)
  let ?t = "runs (top_clk g) is t"
  have p: "top_busy ?t" "top_program ?t = top_program t" using program.held_run [OF assms(1) i(1)] by blast+
  have "\<not> shortcut (command_q (top_csrs ?t))" using p(2) assms(3) by (auto simp: top_program_def shortcut_def transfer_ok_def)
  then show ?thesis
    using i(2,3) p(1) fetch_where_to [of "top_mem_in g i ?t" "top_mem ?t" g] by (simp add: hart_fetch_def top_busy_def)
qed

lemma jump_step:
  assumes "code h (base + 0x300) = jal 0 0x38" and "pc h = base + 0x300"
  shows "step h = Running (h\<lparr>pc := base + 0x338\<rparr>)"
proof -
  have "(cat [(20, fld 20 1 (0x38 :: 21 word)), (1, 0)] :: 21 word) = 0x38" by (simp add: cat_simps fld_def)
  then show ?thesis using assms by (simp add: step_def disasm_generators wr_reg_def add.assoc)
qed

text \<open>The ROM the module presents: the two-scratch one, or for a module at address zero the other.\<close>

definition park_rom :: "dm_cfg \<Rightarrow> u32 list" where
  "park_rom g = (if HasSndScratch g then reset_vec else one_scratch_vec)"

lemma parked_goes:
  assumes "rom_at (park_rom g) base h" and "pc h = base + 0x800" and "list_all (idle_flag base h) rs"
    and "page_ok g base" and "bit (flag_of base h r) 0"
  shows "\<exists>h1 h2 h3. reach h h1 \<and> polls h1 rs h2 \<and> reach (h2\<lparr>ram := r\<rparr>) h3 \<and>
    pc h3 = base + 0x300 \<and> kept (scratches g) h h3 \<and> ram h3 = r \<and>
    stores h3 = stores h @ replicate (Suc (length rs)) (halted_signal base h) @ [signal base GOING 0]"
proof (cases "HasSndScratch g")
  case True
  then show ?thesis
    using two.wait_then_go [of base h rs r] assms by (simp add: park_rom_def scratches_def)
next
  case False
  then have "base = 0" using assms(4) by (simp add: page_ok_def)
  then show ?thesis
    using False one.wait_then_go [of h rs r] assms by (simp add: park_rom_def scratches_def)
qed

text \<open>What the module makes of the signals while it runs a command for hart \<open>n\<close>.\<close>

lemma command_signals:
  assumes "\<not> ndmreset (dmcontrol_q (top_csrs t))"
  shows "mem_state_q (top_mem t) = Mem_Go \<Longrightarrow> sends base i (signal base GOING 0) \<Longrightarrow>
      mem_state_q (top_mem (top_clk g i t)) = Mem_CmdExecuting"
    and "mem_state_q (top_mem t) = Mem_CmdExecuting \<Longrightarrow> numbered g h n \<Longrightarrow> selected_hart g (top_csrs t) = n \<Longrightarrow>
      sends base i (signal base HALTED (csr h CSR_MHARTID)) \<Longrightarrow> mem_state_q (top_mem (top_clk g i t)) = Mem_Idle"
proof -
  show "mem_state_q (top_mem (top_clk g i t)) = Mem_CmdExecuting"
    if "mem_state_q (top_mem t) = Mem_Go" "sends base i (signal base GOING 0)"
    using mem_steps(1) [OF assms that(1), of g i] sent_going [OF that(2)] by simp
  have "HALTED = HaltedAddr" by (simp add: rom_addresses map_addresses)
  then show "mem_state_q (top_mem (top_clk g i t)) = Mem_Idle"
    if "mem_state_q (top_mem t) = Mem_CmdExecuting" "numbered g h n" "selected_hart g (top_csrs t) = n"
      "sends base i (signal base HALTED (csr h CSR_MHARTID))"
    using mem_steps(2) [OF assms that(1), of g i] sent_number(1,2) [OF that(2,4), of t] that(3) by (simp add: top_ndmreset)
qed


section \<open>A command that faults\<close>

text \<open>A hart in debug mode that cannot perform an instruction, such as the access of a CSR it does not have,
  changes no register and goes on at the exception address of the module.\<close>

definition trap :: "u64 \<Rightarrow> hart \<Rightarrow> hart" where
  "trap base h = h\<lparr>pc := base + ExceptionAddress\<rparr>"

lemma handler_restores:
  assumes "rom_at (park_rom g) base h" and "page_ok g base" and "stashed g h h1" and "code h1 = code h"
  shows "\<exists>m h2. run m (trap base h1) = At_Ebreak h2 \<and> gpr h2 = gpr h \<and> fpr h2 = fpr h \<and>
    (\<forall>c. c \<in> scratches g \<or> csr h2 c = csr h c) \<and> stores h2 = stores h @ [signal base EXCEPTION 0]"
proof (cases "HasSndScratch g")
  case True
  have "rom_at reset_vec base (trap base h1)"
    using assms(1,4) True by (simp add: rom_at_def park_rom_def trap_def)
  from handle_exception [OF this] show ?thesis using assms(3) True
    by (intro exI [of _ 8] exI) (auto simp: trap_def dm_constants stashed_def fun_eq_iff)
next
  case False
  then have b: "base = 0" using assms(2) by (simp add: page_ok_def)
  have "rom_at one_scratch_vec 0 (trap 0 h1)"
    using assms(1,4) False b by (simp add: rom_at_def park_rom_def trap_def)
  from one_exception [OF this] show ?thesis using assms(3) False b
    by (intro exI [of _ 4] exI) (auto simp: trap_def dm_constants stashed_def fun_eq_iff)
qed

lemma exception_heard:
  assumes "top_active t" and "sends base i (signal base EXCEPTION 0)"
  shows "cmderr_q (top_csrs (top_clk g i t)) = CmdErrorException"
proof -
  have m: "mem_exception (mem_port g False i (top_csrs t))"
    using assms(2) by (simp add: sends_def signal_def mem_exception_def mem_write_def mem_port_def daddr_def ucast_ucast_self)
      (simp add: rom_addresses map_addresses)
  then have "cmderror_valid_i (csr_port g i t)" "cmderror_i (csr_port g i t) = CmdErrorException"
    by (simp_all add: csr_port_def Let_def reported_error)
  then show ?thesis using assms(1)
    by (simp add: top_clk_def csrs_clk_def csr_comb_def Dm_Csrs.csr_update_def Let_def top_active_def)
qed

text \<open>C31: an abstract command that faults is reported and leaves the halted program as it was. A hart runs
  the slots of a supported CSR transfer, a read or a write in any width, up to the access of the CSR; if
  it faults there, as a hart without this CSR does, and so goes on at the exception entry of the ROM
  (either ROM), it signals EXCEPTION and nothing else and reaches \<open>ebreak\<close> with every integer and
  floating-point register, and every CSR but the scratch registers, as before the command. An active
  module that receives the signal records the exception in \<open>cmderr\<close>, whatever the debugger does in that
  cycle. Faults in the program buffer, which runs after the registers are restored, are not covered.\<close>

theorem exception_reported:
  assumes "rom_at (park_rom g) base h" and "top_busy t" and "transfer_ok g (command_q (top_csrs t)) ac"
    and "\<not> bit (regno ac) 12" and "page_ok g base" and "fetches_from g t base h" and "pc h = base + 0x338"
  shows "\<exists>h1 m h2. run (if ar_write ac then 6 else 5) h = Running h1 \<and>
    step h1 = exec (if ar_write ac then CSRRW 0 (fld 11 0 (regno ac)) 8 else CSRRS 8 (fld 11 0 (regno ac)) 0) h1 \<and>
    run m (trap base h1) = At_Ebreak h2 \<and> gpr h2 = gpr h \<and> fpr h2 = fpr h \<and>
    (\<forall>c. c \<in> scratches g \<or> csr h2 c = csr h c) \<and> stores h2 = stores h @ [signal base EXCEPTION 0] \<and>
    (\<forall>t' i'. top_active t' \<and> sends base i' (last (stores h2)) \<longrightarrow>
       cmderr_q (top_csrs (top_clk g i' t')) = CmdErrorException)"
proof -
  obtain h1 where h1: "run (length (csr_slots g ac)) h = Running h1" "stashed g h h1" "code h1 = code h"
      "step h1 = exec (csr_access ac) h1"
    using run_to_csr [OF assms(3-5) fetched_program [OF assms(2,6)] assms(7)] by blast
  obtain m h2 where h2: "run m (trap base h1) = At_Ebreak h2" "gpr h2 = gpr h" "fpr h2 = fpr h"
      "\<forall>c. c \<in> scratches g \<or> csr h2 c = csr h c" "stores h2 = stores h @ [signal base EXCEPTION 0]"
    using handler_restores [OF assms(1,5) h1(2,3)] by blast
  have "length (csr_slots g ac) = (if ar_write ac then 6 else 5)" by (simp add: csr_slots_def prologue_def)
  moreover have "cmderr_q (top_csrs (top_clk g i' t')) = CmdErrorException"
    if "top_active t'" "sends base i' (last (stores h2))" for t' i'
    using exception_heard [OF that(1)] that(2) h2(5) by simp
  ultimately show ?thesis using h1(1,4) h2
    by (intro exI [of _ h1] exI [of _ m] exI [of _ h2]) (simp add: csr_access_def)
qed

section \<open>Examples\<close>

text \<open>The page of the module while it is busy with a command: the jump, the slots and the ROM; and hart 0 at
  the halt entry, with the command to read \<open>x9\<close> in the slots.\<close>

definition page_code :: "command_t \<Rightarrow> u64 \<Rightarrow> u32" where
  "page_code c a = (let k = unat (a - 0x1A110000) in
     if k = 0x300 then jal 0 0x38
     else if k < 0x800 then fst (abstract_prog one_hart c) ! ((k - 0x338) div 4)
     else reset_vec ! ((k - 0x800) div 4))"

definition parked_hart :: hart where
  "parked_hart = \<lparr>pc = 0x1A110800, gpr = (\<lambda>r. ucast r), fpr = (\<lambda>_. 0), csr = (\<lambda>_. 0),
     code = page_code read_x9, ram = (\<lambda>_. 0), stores = []\<rparr>"

lemma unat_small: "k < 0x1000 \<Longrightarrow> unat (word_of_nat k :: u64) = k"
  by (simp add: unsigned_of_nat take_bit_nat_eq_self)

lemma page_code: "k < 0x1000 \<Longrightarrow> page_code c (0x1A110000 + word_of_nat k) =
    (if k = 0x300 then jal 0 0x38 else if k < 0x800 then fst (abstract_prog one_hart c) ! ((k - 0x338) div 4)
     else reset_vec ! ((k - 0x800) div 4))"
  by (simp add: page_code_def Let_def unat_small)

lemma parked_code [simp]: "code parked_hart = page_code read_x9"
  by (simp add: parked_hart_def)

lemma page_rom:
  assumes "code h = page_code c"
  shows "rom_at reset_vec 0x1A110000 h" "rom_at (park_rom one_hart) 0x1A110000 h"
proof -
  have "code h (0x1A110000 + 0x800 + 4 * of_nat k) = reset_vec ! k" if "k < length reset_vec" for k
  proof -
    have "k < 100" using that by (simp add: vec_lengths)
    moreover have "0x1A110000 + 0x800 + 4 * of_nat k = (0x1A110000 + word_of_nat (0x800 + 4 * k) :: u64)" by simp
    ultimately show ?thesis using page_code [of "0x800 + 4 * k" c] assms by simp
  qed
  then show "rom_at reset_vec 0x1A110000 h" by (simp add: rom_at_def list_all_iff)
  then show "rom_at (park_rom one_hart) 0x1A110000 h" by (simp add: park_rom_def HasSndScratch_def one_hart_def)
qed

lemmas parked_rom = page_rom [OF parked_code]

lemma parked_number: "numbered one_hart parked_hart 0" "pc parked_hart = 0x1A110000 + 0x800"
  "csr parked_hart CSR_MHARTID = 0" "stores parked_hart = []" "idle_flag 0x1A110000 parked_hart (\<lambda>_. 0)"
  by (simp_all add: numbered_def parked_hart_def idle_flag_def flag_of_def)

lemma sent_store: "sends 0x1A110000 (signal_store 0x100) (signal 0x1A110000 HALTED 0)"
  "sends 0x1A110000 (signal_store 0x110) (signal 0x1A110000 RESUMING 0)"
  by (simp_all add: sends_def signal_def rom_addresses)

lemma settled_selected: "settled t \<Longrightarrow> selected_hart g (top_csrs t) = 0"
  by (simp add: settled_def selected_hart_def)

lemma settled_signal: "settled t \<Longrightarrow> settled (top_clk g (signal_store a) t)"
  by (erule settled_step) (rule unaccepted(2), simp)

lemma status_dmi: "top_dmi one_hart (host DTM_READ DMStatus 0) t DTM_READ DMStatus" "\<not> top_unavailable (host p a v) n"
  by (simp_all add: dm_addresses) (simp add: host_def quiet_top_def)

text \<open>A module with hart 0 selected, and the status read right after a signal.\<close>

lemma active_settled: "settled (active_top\<lparr>top_mem := m\<rparr>)"
  by (simp add: settled_def top_active_def)

definition status_after :: "u64 \<Rightarrow> dm_mem \<Rightarrow> dmstatus_t" where
  "status_after a m = status_seen one_hart (host DTM_READ DMStatus 0) (top_clk one_hart (signal_store a) (active_top\<lparr>top_mem := m\<rparr>))"

lemma once_heard_after:
  assumes "once_heard one_hart 0x1A110000 0 st P" and "sends 0x1A110000 (signal_store a) st"
  shows "P (status_after a m)"
proof -
  let ?t = "active_top\<lparr>top_mem := m\<rparr>"
  have "settled (top_clk one_hart (signal_store a) ?t)" by (rule settled_signal [OF active_settled])
  then show ?thesis
    using assms(1) [unfolded once_heard_def, rule_format, of ?t "signal_store a" "[]" "host DTM_READ DMStatus 0"] assms(2)
      status_dmi settled_selected active_settled [of m] by (simp add: status_after_def settled_def)
qed

theorem halted_hart_seen_witness:
  "\<exists>h1 h2. reach parked_hart h1 \<and> polls h1 [\<lambda>_. 0] h2 \<and> allhalted (status_after 0x100 mem_reset)"
proof -
  obtain h1 h2 where h: "reach parked_hart h1" "polls h1 [\<lambda>_. 0] h2" "stores h2 = [signal 0x1A110000 HALTED 0]"
    and seen: "once_heard one_hart 0x1A110000 0 (last (stores h2))
      (\<lambda>s. allhalted s \<and> anyhalted s \<and> \<not> allrunning s \<and> \<not> anyrunning s)"
    using halted_hart_seen [OF parked_rom(1) parked_number(2) _ _ parked_number(1), of "[\<lambda>_. 0]"] parked_number(3-5) by auto
  have "allhalted (status_after 0x100 mem_reset)"
    using once_heard_after [OF seen, of "0x100" mem_reset] sent_store(1) h(3) by simp
  then show ?thesis using h by blast
qed

definition polled_from :: "dm_top \<Rightarrow> u64 \<Rightarrow> u8" where
  "polled_from t = (\<lambda>_. mem_byte one_hart (top_mem_in one_hart (load_from 0x400) t) (top_mem t))"

lemma polled_from: "polls_flag one_hart 0x1A110000 parked_hart (polled_from t) (load_from 0x400) t"
  by (simp add: polls_flag_def polled_from_def flag_of_def parked_number(3) hart_loads_def load_from_def quiet_top_def map_addresses)

lemma one_hart_bus: "mem_bus_ok one_hart"
  by (simp add: mem_bus_ok_def)

theorem resumed_hart_seen_witness:
  "\<exists>h1 h2 k h3. reach parked_hart h1 \<and> polls h1 [\<lambda>_. 0] h2 \<and>
     run k (h2\<lparr>ram := polled_from (active_top\<lparr>top_mem := mem_reset\<lparr>mem_state_q := Mem_Resume\<rparr>\<rparr>)\<rparr>) = Returned h3 \<and>
     gpr h3 9 = 9 \<and> allrunning (status_after 0x110 (mem_reset\<lparr>halted_q := (\<lambda>_. True)\<rparr>))"
proof -
  let ?t = "active_top\<lparr>top_mem := mem_reset\<lparr>mem_state_q := Mem_Resume\<rparr>\<rparr>"
  have t: "\<not> ndmreset (dmcontrol_q (top_csrs ?t))" "mem_state_q (top_mem ?t) = Mem_Resume" "selected_hart one_hart (top_csrs ?t) = 0"
    using active_settled settled_selected by (simp_all add: settled_def)
  have i: "list_all (idle_flag 0x1A110000 parked_hart) [\<lambda>_. 0]" using parked_number(5) by simp
  obtain h1 h2 k h3 where h: "reach parked_hart h1" "polls h1 [\<lambda>_. 0] h2" "run k (h2\<lparr>ram := polled_from ?t\<rparr>) = Returned h3"
      "gpr h3 = gpr parked_hart" "last (stores h3) = signal 0x1A110000 RESUMING 0"
    and seen: "once_heard one_hart 0x1A110000 0 (last (stores h3))
      (\<lambda>s. allresumeack s \<and> anyresumeack s \<and> allrunning s \<and> anyrunning s \<and> \<not> allhalted s \<and> \<not> anyhalted s)"
    using resumed_hart_seen [OF parked_rom(1) parked_number(2) i parked_number(1) one_hart_bus polled_from t] parked_number(3) by auto
  have "allrunning (status_after 0x110 (mem_reset\<lparr>halted_q := (\<lambda>_. True)\<rparr>))"
    using once_heard_after [OF seen] sent_store(2) h(5) by simp
  moreover have "gpr h3 9 = 9" using h(4) by (simp add: parked_hart_def)
  ultimately show ?thesis using h(1-3) by blast
qed

lemma page_fetches:
  assumes "top_busy t" and "command_q (top_csrs t) = c" and "code h = page_code c"
  shows "fetches_from one_hart t 0x1A110000 h"
proof (rule fetches_command [OF assms(1)])
  fix k :: nat
  assume k: "k < 10"
  have "0x1A110000 + 0x338 + 4 * of_nat k = (0x1A110000 + word_of_nat (0x338 + 4 * k) :: u64)" by simp
  then show "code h (0x1A110000 + 0x338 + 4 * of_nat k) = fst (abstract_prog one_hart (command_q (top_csrs t))) ! k"
    using page_code [of "0x338 + 4 * k" c] k assms(2,3) by simp
qed

lemma parked_fetches:
  assumes "top_busy t" and "command_q (top_csrs t) = read_x9"
  shows "fetches_from one_hart t 0x1A110000 parked_hart" "fetches_jump one_hart t 0x1A110000 parked_hart"
proof -
  show "fetches_from one_hart t 0x1A110000 parked_hart" by (rule page_fetches [OF assms parked_code])
  have j: "\<not> shortcut read_x9" using read_x9_ok(1) by (auto simp: transfer_ok_def shortcut_def)
  have l: "hart_loads (load_from 0x300) WhereToAddr" by (simp add: hart_loads_def load_from_def quiet_top_def map_addresses)
  have "hart_fetch one_hart (load_from 0x300) t = jal 0 0x38"
    using fetch_where_to [of "top_mem_in one_hart (load_from 0x300) t" "top_mem t" one_hart] l j assms
    by (simp add: hart_fetch_def top_busy_def)
  moreover have "code parked_hart (0x1A110000 + 0x300) = jal 0 0x38" using page_code [of "0x300" read_x9] by simp
  ultimately show "fetches_jump one_hart t 0x1A110000 parked_hart"
    unfolding fetches_jump_def by (intro exI [of _ "[]"] exI [of _ "load_from 0x300"]) (simp add: l)
qed


text \<open>Hart 0 at the first slot of the command to read CSR \<open>0x301\<close>, which it does not have.\<close>

definition read_misa :: command_t where
  "read_misa = unpack_command 0x00220301"

definition slot_hart :: hart where
  "slot_hart = parked_hart\<lparr>pc := 0x1A110338, code := page_code read_misa\<rparr>"

lemma sent_exception: "sends 0x1A110000 (signal_store 0x118) (signal 0x1A110000 EXCEPTION 0)"
  by (simp add: sends_def signal_def rom_addresses)

theorem exception_reported_witness:
  "\<exists>h1 m h2. run 5 slot_hart = Running h1 \<and> run m (trap 0x1A110000 h1) = At_Ebreak h2 \<and> gpr h2 10 = 10 \<and>
     cmderr_q (top_csrs (top_clk one_hart (signal_store 0x118) (busy_top read_misa))) = CmdErrorException"
proof -
  let ?ac = "unpack_ac_ar_cmd 0x220301" and ?t = "busy_top read_misa"
  have c: "code slot_hart = page_code read_misa" by (simp add: slot_hart_def)
  have ok: "transfer_ok one_hart (command_q (top_csrs ?t)) ?ac" "\<not> bit (regno ?ac) 12" "\<not> ar_write ?ac"
    by (simp_all add: transfer_ok_def read_misa_def unpack_command_def unpack_ac_ar_cmd_def
        fld_def AccessRegister_def MaxAar_def one_hart_def reserved_regno_def)
  have p: "pc slot_hart = 0x1A110000 + 0x338" by (simp add: slot_hart_def)
  have a: "top_active ?t" using busy_top_simps(1) [of read_misa] by (simp add: top_busy_def top_active_def)
  obtain h1 m h2 where h: "run 5 slot_hart = Running h1" "run m (trap 0x1A110000 h1) = At_Ebreak h2"
      "gpr h2 = gpr slot_hart" "stores h2 = stores slot_hart @ [signal 0x1A110000 EXCEPTION 0]"
    and e: "\<forall>t' i'. top_active t' \<and> sends 0x1A110000 i' (last (stores h2)) \<longrightarrow>
       cmderr_q (top_csrs (top_clk one_hart i' t')) = CmdErrorException"
    using exception_reported [OF page_rom(2) [OF c] busy_top_simps(1) ok(1,2) command_hart_page(1)
        page_fetches [OF busy_top_simps c] p] ok(3) by auto
  have "cmderr_q (top_csrs (top_clk one_hart (signal_store 0x118) ?t)) = CmdErrorException"
    using e a sent_exception h(4) by simp
  moreover have "gpr h2 10 = 10" using h(3) by (simp add: slot_hart_def parked_hart_def)
  ultimately show ?thesis using h(1,2) by blast
qed

end
