(* ===== verification/Mm_Ram.thy ===== *)
theory Mm_Ram
  imports Prelude
begin

text \<open>
  The memories around the debug module: the address map of \<open>tb/dm_tb_pkg.sv\<close>, the boot ROM
  \<open>tb/boot_rom.sv\<close>, the dual-ported RAM \<open>tb/dp_ram.sv\<close> with its 32-bit ports, and \<open>tb/mm_ram.sv\<close>, which
  arbitrates the system bus, the data port and the instruction port of the core. Printed characters are
  the outputs \<open>print_valid\<close> and \<open>print_wdata\<close>; the messages on unmapped accesses are left out.
\<close>

section \<open>The address map\<close>

definition ROM_BASE :: u32 where "ROM_BASE = 0x1A000000"
definition FLL_BASE :: u32 where "FLL_BASE = 0x1A100000"
definition GPIO_BASE :: u32 where "GPIO_BASE = 0x1A101000"
definition UDMA_BASE :: u32 where "UDMA_BASE = 0x1A102000"
definition CNTRL_BASE :: u32 where "CNTRL_BASE = 0x1A104000"
definition ADVTIMER_BASE :: u32 where "ADVTIMER_BASE = 0x1A105000"
definition EVENT_BASE :: u32 where "EVENT_BASE = 0x1A106000"
definition TIMER_BASE :: u32 where "TIMER_BASE = 0x1A10B000"
definition HWPE_BASE :: u32 where "HWPE_BASE = 0x1A10C000"
definition STDOUT_BASE :: u32 where "STDOUT_BASE = 0x1A10F000"
definition DEBUG_BASE :: u32 where "DEBUG_BASE = 0x1A110000"
definition SRAM_BASE :: u32 where "SRAM_BASE = 0x1C000000"

definition RomLen :: u32 where "RomLen = 0x00100000"
definition FllLen :: u32 where "FllLen = 0x00001000"
definition GpioLen :: u32 where "GpioLen = 0x00001000"
definition UdmaLen :: u32 where "UdmaLen = 0x00002000"
definition CntrlLen :: u32 where "CntrlLen = 0x00001000"
definition AdvTimerLen :: u32 where "AdvTimerLen = 0x00001000"
definition EventLen :: u32 where "EventLen = 0x00005000"
definition TimerLen :: u32 where "TimerLen = 0x00001000"
definition HwpeLen :: u32 where "HwpeLen = 0x00003000"
definition StdoutLen :: u32 where "StdoutLen = 0x00001000"
definition DebugLen :: u32 where "DebugLen = 0x00001000"
definition SramLen :: u32 where "SramLen = 0x000FC000"

lemmas map_defs = ROM_BASE_def FLL_BASE_def GPIO_BASE_def UDMA_BASE_def CNTRL_BASE_def ADVTIMER_BASE_def
  EVENT_BASE_def TIMER_BASE_def HWPE_BASE_def STDOUT_BASE_def DEBUG_BASE_def SRAM_BASE_def
  RomLen_def FllLen_def GpioLen_def UdmaLen_def CntrlLen_def AdvTimerLen_def EventLen_def TimerLen_def HwpeLen_def
  StdoutLen_def DebugLen_def SramLen_def

definition mapped :: "u32 \<Rightarrow> u32 \<Rightarrow> u32 \<Rightarrow> bool" where
  "mapped base len a \<longleftrightarrow> base \<le> a \<and> a < base + len"

text \<open>The chain of comparisons that every access goes through. The peripherals that no access reaches
  are \<open>Reg_Periph\<close>; the RAM is also mapped at address 0.\<close>

datatype mmap_region = Reg_Rom | Reg_Cntrl | Reg_Periph | Reg_Stdout | Reg_Debug | Reg_Ram | Reg_None

definition region :: "u32 \<Rightarrow> mmap_region" where
  "region a =
    (if mapped ROM_BASE RomLen a then Reg_Rom
     else if mapped FLL_BASE FllLen a then Reg_Periph
     else if mapped GPIO_BASE GpioLen a then Reg_Periph
     else if mapped UDMA_BASE UdmaLen a then Reg_Periph
     else if mapped CNTRL_BASE CntrlLen a then Reg_Cntrl
     else if mapped ADVTIMER_BASE AdvTimerLen a then Reg_Periph
     else if mapped EVENT_BASE EventLen a then Reg_Periph
     else if mapped TIMER_BASE TimerLen a then Reg_Periph
     else if mapped HWPE_BASE HwpeLen a then Reg_Periph
     else if mapped STDOUT_BASE StdoutLen a then Reg_Stdout
     else if mapped DEBUG_BASE DebugLen a then Reg_Debug
     else if mapped SRAM_BASE SramLen a \<or> mapped 0 SramLen a then Reg_Ram
     else Reg_None)"

section \<open>The boot ROM\<close>

definition tb_jalr :: "5 word \<Rightarrow> 5 word \<Rightarrow> 12 word \<Rightarrow> u32" where
  "tb_jalr rd rs1 offset = cat [(12, ucast offset), (5, ucast rs1), (3, 0), (5, ucast rd), (7, 0x67)]"

definition tb_lui :: "5 word \<Rightarrow> 20 word \<Rightarrow> u32" where
  "tb_lui rd uimm = cat [(20, ucast uimm), (5, ucast rd), (7, 0x37)]"

definition EntryAddr :: u32 where
  "EntryAddr = 0x1C000080"

definition boot_rom_mem :: "nat \<Rightarrow> u32" where
  "boot_rom_mem k = (if k = 0 then tb_lui 1 (fld 31 12 EntryAddr) else tb_jalr 0 1 (fld 11 0 EntryAddr))"

definition boot_rom_rdata :: "1 word \<Rightarrow> u32" where
  "boot_rom_rdata addr_q = (if unat addr_q < 2 then boot_rom_mem (unat addr_q) else 0)"

definition boot_rom_clk :: "bool \<Rightarrow> u32 \<Rightarrow> 1 word \<Rightarrow> 1 word" where
  "boot_rom_clk req addr addr_q = (if req then fld 3 2 addr else addr_q)"

section \<open>The RAM\<close>

record dp_ram =
  ram_mem :: "u32 \<Rightarrow> u8"
  rdata_a :: u32
  rdata_b :: u32

definition addr_int :: "nat \<Rightarrow> u32 \<Rightarrow> u32" where
  "addr_int ADDR_WIDTH a = push_bit 2 (drop_bit 2 (take_bit ADDR_WIDTH a))"

definition ram_word :: "(u32 \<Rightarrow> u8) \<Rightarrow> u32 \<Rightarrow> u32" where
  "ram_word m a = word_le [m a, m (a + 1), m (a + 2), m (a + 3)]"

definition ram_store :: "u32 \<Rightarrow> 4 word \<Rightarrow> u32 \<Rightarrow> (u32 \<Rightarrow> u8) \<Rightarrow> u32 \<Rightarrow> u8" where
  "ram_store a be w m = (let
     m = (if bit be 0 then m(a := fld 7 0 w) else m);
     m = (if bit be 1 then m(a + 1 := fld 15 8 w) else m);
     m = (if bit be 2 then m(a + 2 := fld 23 16 w) else m)
   in if bit be 3 then m(a + 3 := fld 31 24 w) else m)"

text \<open>Port \<open>a\<close> only reads, port \<open>b\<close> reads or writes; a read sees the memory before the write.\<close>

definition dp_ram_clk :: "nat \<Rightarrow> u32 \<Rightarrow> bool \<Rightarrow> u32 \<Rightarrow> u32 \<Rightarrow> bool \<Rightarrow> 4 word \<Rightarrow> dp_ram \<Rightarrow> dp_ram" where
  "dp_ram_clk ADDR_WIDTH addr_a_i en_b_i addr_b_i wdata_b_i we_b_i be_b_i s = (let
     a = addr_int ADDR_WIDTH addr_a_i; b = addr_int ADDR_WIDTH addr_b_i;
     n = s\<lparr>rdata_a := ram_word (ram_mem s) a\<rparr>
   in if en_b_i then
        (if we_b_i then n\<lparr>ram_mem := ram_store b be_b_i wdata_b_i (ram_mem s)\<rparr>
         else n\<lparr>rdata_b := ram_word (ram_mem s) b\<rparr>)
      else n)"

text \<open>The two functions for the simulator: reading truncates the address to the width of its argument; a write
  outside the array has no effect, and what it reads back is undefined.\<close>

definition read_byte :: "nat \<Rightarrow> u32 \<Rightarrow> dp_ram \<Rightarrow> u32" where
  "read_byte ADDR_WIDTH byte_addr s = ucast (ram_mem s (take_bit ADDR_WIDTH byte_addr))"

definition write_byte :: "nat \<Rightarrow> u32 \<Rightarrow> u8 \<Rightarrow> dp_ram \<Rightarrow> dp_ram \<times> u8 option" where
  "write_byte ADDR_WIDTH byte_addr val s =
    (if unat byte_addr < 2 ^ ADDR_WIDTH
     then (let s' = s\<lparr>ram_mem := (ram_mem s)(byte_addr := val)\<rparr> in (s', Some (ram_mem s' byte_addr)))
     else (s, None))"

lemma write_read_byte:
  assumes "unat a < 2 ^ w"
  shows "snd (write_byte w a v s) = Some v" "read_byte w a (fst (write_byte w a v s)) = ucast v"
proof -
  have "take_bit w a = a"
    using assms by (simp add: word_unat_eq_iff unsigned_take_bit_eq take_bit_nat_eq_self)
  then show "snd (write_byte w a v s) = Some v" "read_byte w a (fst (write_byte w a v s)) = ucast v"
    using assms by (simp_all add: write_byte_def read_byte_def Let_def)
qed

section \<open>Arbitration\<close>

datatype read_select_e = Rd_RAM | Rd_DEBUG | Rd_ROM | Rd_UNMAP | Rd_IDLE
datatype write_select_e = Wr_SB | Wr_CORE | Wr_IDLE

record mm_cfg =
  RAM_ADDR_WIDTH :: nat
  JTAG_BOOT :: bool

record mm_in =
  instr_req_i :: bool
  instr_addr_i :: u32
  data_req_i :: bool
  data_addr_i :: u32
  data_we_i :: bool
  data_be_i :: "4 word"
  data_wdata_i :: u32
  sb_req_i :: bool
  sb_addr_i :: u32
  sb_we_i :: bool
  sb_be_i :: "4 word"
  sb_wdata_i :: u32
  irq_id_i :: "5 word"
  irq_ack_i :: bool

record mm_comb =
  sb_gnt_o :: bool
  data_gnt_o :: bool
  instr_gnt_o :: bool
  ram_data_req :: bool
  ram_data_addr :: u32
  ram_data_wdata :: u32
  ram_data_we :: bool
  ram_data_be :: "4 word"
  ram_instr_req :: bool
  ram_instr_addr :: u32
  dm_req :: bool
  dm_addr :: u32
  dm_we :: bool
  dm_be :: "4 word"
  dm_wdata :: u32
  rom_req :: bool
  rom_addr :: u32
  print_wdata :: u32
  print_valid :: bool
  select_rdata_d :: read_select_e
  select_wdata_d :: write_select_e
  data_rvalid_d :: bool
  sb_rvalid_d :: bool
  instr_rvalid_d :: bool
  tests_passed_o :: bool
  tests_failed_o :: bool

definition mm_default :: mm_comb where
  "mm_default = \<lparr>sb_gnt_o = False, data_gnt_o = False, instr_gnt_o = False,
     ram_data_req = False, ram_data_addr = 0, ram_data_wdata = 0, ram_data_we = False, ram_data_be = 0,
     ram_instr_req = False, ram_instr_addr = 0,
     dm_req = False, dm_addr = 0, dm_we = False, dm_be = 0, dm_wdata = 0,
     rom_req = False, rom_addr = 0, print_wdata = 0, print_valid = False,
     select_rdata_d = Rd_IDLE, select_wdata_d = Wr_IDLE,
     data_rvalid_d = False, sb_rvalid_d = False, instr_rvalid_d = False,
     tests_passed_o = False, tests_failed_o = False\<rparr>"

definition instr_from_ram :: "mm_in \<Rightarrow> mm_comb \<Rightarrow> mm_comb" where
  "instr_from_ram i c =
    (if instr_req_i i \<and> (mapped SRAM_BASE SramLen (instr_addr_i i) \<or> mapped 0 SramLen (instr_addr_i i))
     then c\<lparr>instr_gnt_o := True, instr_rvalid_d := True, ram_instr_req := True, ram_instr_addr := instr_addr_i i\<rparr>
     else c)"

definition sb_write :: "nat \<Rightarrow> mm_in \<Rightarrow> mm_comb \<Rightarrow> mm_comb" where
  "sb_write aw i c = (case region (sb_addr_i i) of
     Reg_Stdout \<Rightarrow> c\<lparr>select_wdata_d := Wr_SB, print_wdata := sb_wdata_i i, print_valid := True\<rparr>
   | Reg_Ram \<Rightarrow> c\<lparr>select_wdata_d := Wr_SB, ram_data_req := sb_req_i i,
       ram_data_addr := take_bit aw (sb_addr_i i), ram_data_wdata := sb_wdata_i i,
       ram_data_we := sb_we_i i, ram_data_be := sb_be_i i\<rparr>
   | _ \<Rightarrow> c)"

definition sb_read :: "nat \<Rightarrow> mm_in \<Rightarrow> mm_comb \<Rightarrow> mm_comb" where
  "sb_read aw i c = (case region (sb_addr_i i) of
     Reg_Rom \<Rightarrow> c\<lparr>select_rdata_d := Rd_ROM\<rparr>
   | Reg_Ram \<Rightarrow> c\<lparr>select_rdata_d := Rd_RAM, ram_data_req := sb_req_i i,
       ram_data_addr := take_bit aw (sb_addr_i i), ram_data_wdata := sb_wdata_i i,
       ram_data_we := sb_we_i i, ram_data_be := sb_be_i i\<rparr>
   | _ \<Rightarrow> c\<lparr>select_rdata_d := Rd_UNMAP\<rparr>)"

definition data_write :: "nat \<Rightarrow> mm_in \<Rightarrow> mm_comb \<Rightarrow> mm_comb" where
  "data_write aw i c = (case region (data_addr_i i) of
     Reg_Cntrl \<Rightarrow> (if data_wdata_i i = 0xF00D then c\<lparr>tests_passed_o := True\<rparr> else c\<lparr>tests_failed_o := True\<rparr>)
   | Reg_Stdout \<Rightarrow> c\<lparr>select_wdata_d := Wr_CORE, print_wdata := data_wdata_i i, print_valid := True\<rparr>
   | Reg_Debug \<Rightarrow> c\<lparr>select_wdata_d := Wr_CORE, dm_req := data_req_i i, dm_addr := data_addr_i i,
       dm_we := data_we_i i, dm_be := data_be_i i, dm_wdata := data_wdata_i i\<rparr>
   | Reg_Ram \<Rightarrow> c\<lparr>select_wdata_d := Wr_CORE, ram_data_req := data_req_i i,
       ram_data_addr := take_bit aw (data_addr_i i), ram_data_wdata := data_wdata_i i,
       ram_data_we := data_we_i i, ram_data_be := data_be_i i\<rparr>
   | _ \<Rightarrow> c)"

definition data_read :: "nat \<Rightarrow> mm_in \<Rightarrow> mm_comb \<Rightarrow> mm_comb" where
  "data_read aw i c = (case region (data_addr_i i) of
     Reg_Rom \<Rightarrow> c\<lparr>select_rdata_d := Rd_ROM, rom_req := data_req_i i, rom_addr := data_addr_i i - ROM_BASE\<rparr>
   | Reg_Debug \<Rightarrow> c\<lparr>select_rdata_d := Rd_DEBUG, dm_req := data_req_i i, dm_addr := data_addr_i i,
       dm_we := data_we_i i, dm_be := data_be_i i\<rparr>
   | Reg_Ram \<Rightarrow> c\<lparr>select_rdata_d := Rd_RAM, ram_data_req := data_req_i i,
       ram_data_addr := take_bit aw (data_addr_i i), ram_data_we := data_we_i i, ram_data_be := data_be_i i\<rparr>
   | _ \<Rightarrow> c\<lparr>select_rdata_d := Rd_UNMAP\<rparr>)"

definition instr_read :: "mm_in \<Rightarrow> mm_comb \<Rightarrow> mm_comb" where
  "instr_read i c = (case region (instr_addr_i i) of
     Reg_Rom \<Rightarrow> c\<lparr>select_rdata_d := Rd_ROM, rom_req := instr_req_i i, rom_addr := instr_addr_i i - ROM_BASE - 0x80\<rparr>
   | Reg_Debug \<Rightarrow> c\<lparr>select_rdata_d := Rd_DEBUG, dm_req := True, dm_addr := instr_addr_i i, dm_we := False, dm_be := 0xF\<rparr>
   | Reg_Ram \<Rightarrow> c\<lparr>select_rdata_d := Rd_RAM\<rparr>
   | _ \<Rightarrow> c\<lparr>select_rdata_d := Rd_UNMAP\<rparr>)"

text \<open>The system bus goes before the data port of the core, and that before its instruction port; fetches
  from the RAM have a port of their own.\<close>

definition mm_comb_of :: "mm_cfg \<Rightarrow> mm_in \<Rightarrow> mm_comb" where
  "mm_comb_of k i = (let c = instr_from_ram i mm_default; aw = RAM_ADDR_WIDTH k in
     if sb_req_i i then
       (let c = c\<lparr>sb_gnt_o := True, sb_rvalid_d := True\<rparr> in if sb_we_i i then sb_write aw i c else sb_read aw i c)
     else if data_req_i i then
       (let c = c\<lparr>data_gnt_o := True, data_rvalid_d := True\<rparr> in if data_we_i i then data_write aw i c else data_read aw i c)
     else if instr_req_i i then instr_read i (c\<lparr>instr_gnt_o := True, instr_rvalid_d := True\<rparr>)
     else c)"

section \<open>The clocked part\<close>

record tb_timer =
  timer_irq_mask_q :: u32
  timer_cnt_q :: u32
  irq_q :: bool

definition TimerIrqId :: "5 word" where
  "TimerIrqId = 3"

definition timer_reset :: tb_timer where
  "timer_reset = \<lparr>timer_irq_mask_q = 0, timer_cnt_q = 0, irq_q = False\<rparr>"

text \<open>The strobes of the timer are declared in \<open>mm_ram\<close>, but nothing drives them: parameters.\<close>

record timer_strobes =
  timer_reg_valid :: bool
  timer_val_valid :: bool
  timer_wdata :: u32

definition timer_clk :: "timer_strobes \<Rightarrow> mm_in \<Rightarrow> tb_timer \<Rightarrow> tb_timer" where
  "timer_clk v i s =
    (if timer_reg_valid v then s\<lparr>timer_irq_mask_q := timer_wdata v\<rparr>
     else if timer_val_valid v then s\<lparr>timer_cnt_q := timer_wdata v\<rparr>
     else (let
       n = (if 0 < timer_cnt_q s then s\<lparr>timer_cnt_q := timer_cnt_q s - 1\<rparr> else s);
       n = (if timer_cnt_q s = 1 then n\<lparr>irq_q := bit (timer_irq_mask_q s) (unat TimerIrqId)\<rparr> else n)
     in if irq_ack_i i \<and> irq_id_i i = TimerIrqId then n\<lparr>irq_q := False\<rparr> else n))"

record mm_ram =
  select_rdata_q :: read_select_e
  select_wdata_q :: write_select_e
  data_rvalid_q :: bool
  sb_rvalid_q :: bool
  instr_rvalid_q :: bool
  mm_timer :: tb_timer
  mm_dp :: dp_ram
  mm_boot :: "1 word"

text \<open>A clock edge; with \<open>rst_ni\<close> low the registers are reset, but not the memories.\<close>

definition mm_clk :: "mm_cfg \<Rightarrow> bool \<Rightarrow> timer_strobes \<Rightarrow> mm_in \<Rightarrow> mm_ram \<Rightarrow> mm_ram" where
  "mm_clk k rst_ni v i s = (let c = mm_comb_of k i;
     n = s\<lparr>mm_dp := dp_ram_clk (RAM_ADDR_WIDTH k) (take_bit (RAM_ADDR_WIDTH k) (ram_instr_addr c))
           (ram_data_req c) (ram_data_addr c) (ram_data_wdata c) (ram_data_we c) (ram_data_be c) (mm_dp s),
         mm_boot := boot_rom_clk (rom_req c) (rom_addr c) (mm_boot s)\<rparr>
   in if \<not> rst_ni then n\<lparr>select_rdata_q := Rd_IDLE, select_wdata_q := Wr_IDLE, data_rvalid_q := False,
          sb_rvalid_q := False, instr_rvalid_q := False, mm_timer := timer_reset\<rparr>
      else n\<lparr>select_rdata_q := select_rdata_d c, select_wdata_q := select_wdata_d c, data_rvalid_q := data_rvalid_d c,
          sb_rvalid_q := sb_rvalid_d c, instr_rvalid_q := instr_rvalid_d c, mm_timer := timer_clk v i (mm_timer s)\<rparr>)"

text \<open>The read data for the data port, the system bus and the instruction port; \<open>dm_rdata\<close> comes from the
  debug module.\<close>

definition read_mux :: "mm_cfg \<Rightarrow> u32 \<Rightarrow> mm_ram \<Rightarrow> u32 \<times> u32 \<times> u32" where
  "read_mux k dm_rdata s = (let instr = rdata_a (mm_dp s) in
     if select_rdata_q s = Rd_RAM then (rdata_b (mm_dp s), rdata_b (mm_dp s), instr)
     else if select_rdata_q s = Rd_DEBUG then (dm_rdata, dm_rdata, dm_rdata)
     else if select_rdata_q s = Rd_ROM then
       (let w = (if JTAG_BOOT k then 0x6F else boot_rom_rdata (mm_boot s)) in (w, w, w))
     else (0, 0, instr))"

definition data_rdata_o :: "mm_cfg \<Rightarrow> u32 \<Rightarrow> mm_ram \<Rightarrow> u32" where
  "data_rdata_o k dm_rdata s = fst (read_mux k dm_rdata s)"

definition sb_rdata_o :: "mm_cfg \<Rightarrow> u32 \<Rightarrow> mm_ram \<Rightarrow> u32" where
  "sb_rdata_o k dm_rdata s = fst (snd (read_mux k dm_rdata s))"

definition instr_rdata_o :: "mm_cfg \<Rightarrow> u32 \<Rightarrow> mm_ram \<Rightarrow> u32" where
  "instr_rdata_o k dm_rdata s = snd (snd (read_mux k dm_rdata s))"

lemmas rdata_defs = data_rdata_o_def sb_rdata_o_def instr_rdata_o_def read_mux_def

section \<open>The RAM behind the arbiter\<close>

lemma mapped_ram: "region a = Reg_Ram \<Longrightarrow> mapped SRAM_BASE SramLen a \<or> mapped 0 SramLen a"
  by (simp add: region_def split: if_splits)

lemma mapped_debug:
  assumes "region a = Reg_Debug"
  shows "\<not> mapped SRAM_BASE SramLen a" "\<not> mapped 0 SramLen a"
proof -
  have "mapped DEBUG_BASE DebugLen a" using assms by (simp add: region_def split: if_splits)
  then have b: "0x1A110000 \<le> a" "a < 0x1A111000" by (simp_all add: mapped_def DEBUG_BASE_def DebugLen_def)
  have "a < 0x1C000000" by (rule less_trans [OF b(2)]) simp
  moreover have "0xFC000 \<le> a" by (rule order_trans [OF _ b(1)]) simp
  ultimately show "\<not> mapped SRAM_BASE SramLen a" "\<not> mapped 0 SramLen a"
    by (auto simp: mapped_def SRAM_BASE_def SramLen_def not_less not_le)
qed

text \<open>The bytes of a store.\<close>

lemma lane_cases: "j < 4 \<Longrightarrow> j = 0 \<or> j = 1 \<or> j = 2 \<or> j = (3 :: nat)"
  by auto

lemma ram_store_lane:
  "ram_store a be w m x = (let j = unat (x - a) in
     if j < 4 \<and> bit be j then fld (8 * j + 7) (8 * j) w else m x)"
proof -
  have x: "x = a + of_nat (unat (x - a))" by simp
  show ?thesis
  proof (cases "unat (x - a) < 4")
    case True
    have "ram_store a be w m (a + of_nat j) = (if bit be j then fld (8 * j + 7) (8 * j) w else m (a + of_nat j))"
      if "j < 4" for j
      using lane_cases [OF that] by (elim disjE) (simp_all add: ram_store_def Let_def)
    from this [OF True] show ?thesis using True unfolding x [symmetric] by (simp add: Let_def)
  next
    case False
    have "x \<noteq> a" "x \<noteq> a + 1" "x \<noteq> a + 2" "x \<noteq> a + 3" using False by auto
    then show ?thesis using False by (simp add: ram_store_def Let_def)
  qed
qed

lemma ram_word_byte: "j < 4 \<Longrightarrow> fld (8 * j + 7) (8 * j) (ram_word m a) = m (a + of_nat j)"
proof -
  assume j: "j < 4"
  have l: "[m a, m (a + 1), m (a + 2), m (a + 3)] ! j = m (a + of_nat j)"
    using lane_cases [OF j] by auto
  show ?thesis
  proof (rule bit_word_eqI)
    fix n
    assume n: "n < LENGTH(8)"
    then have "(8 * j + n) div 8 = j" "(8 * j + n) mod 8 = n" "8 * j + n < 32" using j by simp_all
    then show "bit (fld (8 * j + 7) (8 * j) (ram_word m a) :: u8) n = bit (m (a + of_nat j)) n"
      using n l by (simp add: bit_fld ram_word_def bit_word_le)
  qed
qed

text \<open>What a request of the system bus does, whatever the core asks for in the same cycle.\<close>

lemma sb_comb:
  assumes "sb_req_i i" and "region (sb_addr_i i) = Reg_Ram"
  shows "sb_gnt_o (mm_comb_of k i)" "sb_rvalid_d (mm_comb_of k i)" "\<not> data_gnt_o (mm_comb_of k i)"
    "ram_data_req (mm_comb_of k i)" "ram_data_addr (mm_comb_of k i) = take_bit (RAM_ADDR_WIDTH k) (sb_addr_i i)"
    "ram_data_we (mm_comb_of k i) = sb_we_i i" "ram_data_be (mm_comb_of k i) = sb_be_i i"
    "ram_data_wdata (mm_comb_of k i) = sb_wdata_i i" "\<not> sb_we_i i \<Longrightarrow> select_rdata_d (mm_comb_of k i) = Rd_RAM"
  using assms by (simp_all add: mm_comb_of_def sb_write_def sb_read_def instr_from_ram_def mm_default_def Let_def)

lemma addr_int_truncated: "addr_int w (take_bit w a) = addr_int w a"
  by (simp add: addr_int_def)

lemma sb_store:
  assumes "sb_req_i i" and "sb_we_i i" and "region (sb_addr_i i) = Reg_Ram"
  shows "ram_mem (mm_dp (mm_clk k r v i s)) =
    ram_store (addr_int (RAM_ADDR_WIDTH k) (sb_addr_i i)) (sb_be_i i) (sb_wdata_i i) (ram_mem (mm_dp s))"
  using sb_comb [OF assms(1,3), of k] assms(2) by (simp add: mm_clk_def Let_def dp_ram_clk_def addr_int_truncated)

lemma sb_load:
  assumes "sb_req_i i" and "\<not> sb_we_i i" and "region (sb_addr_i i) = Reg_Ram"
  shows "ram_mem (mm_dp (mm_clk k r v i s)) = ram_mem (mm_dp s)"
    and "sb_rdata_o k d (mm_clk k True v i s) = ram_word (ram_mem (mm_dp s)) (addr_int (RAM_ADDR_WIDTH k) (sb_addr_i i))"
  using sb_comb [OF assms(1,3), of k] assms(2)
  by (simp_all add: mm_clk_def Let_def dp_ram_clk_def addr_int_truncated rdata_defs)

lemma sb_answered: "sb_rvalid_q (mm_clk k r v i s) \<longleftrightarrow> r \<and> sb_req_i i"
  by (simp add: mm_clk_def mm_comb_of_def Let_def sb_write_def sb_read_def data_write_def data_read_def instr_read_def
      instr_from_ram_def mm_default_def split: mmap_region.splits)

text \<open>A fetch from the RAM is granted and answered at once, but with the word of the debug module or the ROM
  if another port reads there in the same cycle.\<close>

lemma rvalid_instr: "instr_rvalid_d (sb_write w i c) = instr_rvalid_d c" "instr_rvalid_d (sb_read w i c) = instr_rvalid_d c"
  "instr_rvalid_d (data_write w i c) = instr_rvalid_d c" "instr_rvalid_d (data_read w i c) = instr_rvalid_d c"
  "instr_gnt_o (sb_write w i c) = instr_gnt_o c" "instr_gnt_o (sb_read w i c) = instr_gnt_o c"
  "instr_gnt_o (data_write w i c) = instr_gnt_o c" "instr_gnt_o (data_read w i c) = instr_gnt_o c"
  "ram_instr_addr (sb_write w i c) = ram_instr_addr c" "ram_instr_addr (sb_read w i c) = ram_instr_addr c"
  "ram_instr_addr (data_write w i c) = ram_instr_addr c" "ram_instr_addr (data_read w i c) = ram_instr_addr c"
  by (simp_all add: sb_write_def sb_read_def data_write_def data_read_def split: mmap_region.splits)

lemma instr_read_frame: "instr_rvalid_d (instr_read i c) = instr_rvalid_d c" "instr_gnt_o (instr_read i c) = instr_gnt_o c"
  "ram_instr_addr (instr_read i c) = ram_instr_addr c"
  by (simp_all add: instr_read_def split: mmap_region.splits)

lemma ram_fetch:
  assumes "instr_req_i i" and "region (instr_addr_i i) = Reg_Ram"
  shows "instr_gnt_o (mm_comb_of k i)" and "instr_rvalid_q (mm_clk k True v i s)"
    and "instr_rdata_o k d (mm_clk k True v i s) = (let c = mm_comb_of k i in
      if select_rdata_d c = Rd_DEBUG then d
      else if select_rdata_d c = Rd_ROM then (if JTAG_BOOT k then 0x6F else boot_rom_rdata (boot_rom_clk (rom_req c) (rom_addr c) (mm_boot s)))
      else ram_word (ram_mem (mm_dp s)) (addr_int (RAM_ADDR_WIDTH k) (instr_addr_i i)))"
proof -
  have c: "instr_gnt_o (mm_comb_of k i)" "instr_rvalid_d (mm_comb_of k i)" "ram_instr_addr (mm_comb_of k i) = instr_addr_i i"
    using mapped_ram [OF assms(2)] assms(1)
    by (simp_all add: mm_comb_of_def Let_def rvalid_instr instr_read_frame instr_from_ram_def)
  then show "instr_gnt_o (mm_comb_of k i)" "instr_rvalid_q (mm_clk k True v i s)"
    by (simp_all add: mm_clk_def Let_def)
  show "instr_rdata_o k d (mm_clk k True v i s) = (let c = mm_comb_of k i in
      if select_rdata_d c = Rd_DEBUG then d
      else if select_rdata_d c = Rd_ROM then (if JTAG_BOOT k then 0x6F else boot_rom_rdata (boot_rom_clk (rom_req c) (rom_addr c) (mm_boot s)))
      else ram_word (ram_mem (mm_dp s)) (addr_int (RAM_ADDR_WIDTH k) (instr_addr_i i)))"
    using c(3) by (simp add: mm_clk_def Let_def rdata_defs dp_ram_clk_def addr_int_truncated)
qed

text \<open>A debugger that reads the boot ROM over the system bus makes the core execute the jump-to-self of the
  ROM instead of the fetched word.\<close>

lemma rom_read_disturbs_fetch:
  assumes "instr_req_i i" and "region (instr_addr_i i) = Reg_Ram" and "JTAG_BOOT k"
    and "sb_req_i i" and "\<not> sb_we_i i" and "region (sb_addr_i i) = Reg_Rom"
  shows "instr_rvalid_q (mm_clk k True v i s)" and "instr_rdata_o k d (mm_clk k True v i s) = 0x6F"
proof -
  have "select_rdata_d (mm_comb_of k i) = Rd_ROM"
    using assms(4-6) by (simp add: mm_comb_of_def sb_read_def Let_def)
  then show "instr_rvalid_q (mm_clk k True v i s)" "instr_rdata_o k d (mm_clk k True v i s) = 0x6F"
    using ram_fetch [OF assms(1,2), of k] assms(3) by simp_all
qed

text \<open>The undriven strobes keep the timer silent: no interrupt is ever raised.\<close>

definition undriven :: timer_strobes where
  "undriven = \<lparr>timer_reg_valid = False, timer_val_valid = False, timer_wdata = 0\<rparr>"

lemma no_interrupt:
  "mm_timer s = timer_reset \<Longrightarrow> mm_timer (foldl (\<lambda>s (r, i). mm_clk k r undriven i s) s is) = timer_reset"
proof (induction "is" arbitrary: s)
  case (Cons ri "is")
  obtain r i where ri: "ri = (r, i)" by (cases ri)
  have "mm_timer (mm_clk k r undriven i s) = timer_reset" using Cons.prems
    by (simp add: mm_clk_def Let_def timer_clk_def undriven_def timer_reset_def)
  then show ?case using Cons.IH by (simp add: ri)
qed simp

end
