(* ===== verification/Test_Env.thy ===== *)
theory Test_Env
  imports Mm_Ram Dm_Progress
begin

text \<open>
  The test environment \<open>tb/tb_test_env.sv\<close>: the debug module with a 32-bit bus and the memories of \<open>Mm_Ram\<close>,
  wired together. The core is code of another repository: its instruction and data ports are inputs of
  every clock, as are the request of the transport module and the reset \<open>ndmreset_n\<close> that the reset
  generator derives.
\<close>

section \<open>Wiring\<close>

record env_in =
  core_i :: mm_in
  dmi_i :: top_in
  ndmreset_n :: bool

type_synonym test_env = "dm_top \<times> mm_ram"

definition HartInfo :: u32 where
  "HartInfo = cat [(8, 0), (4, 2), (3, 0), (1, 1), (4, of_nat DataCount), (12, ucast DataAddr)]"

text \<open>The bus requests depend on the registers of the debug module only.\<close>

definition env_sb :: "dm_cfg \<Rightarrow> dm_top \<Rightarrow> sb_out" where
  "env_sb g t = sba_out (BusWidth g) (ReadByteEnable g) (quiet_port g t)
     \<lparr>master_gnt_i = False, master_r_valid_i = False, master_r_err_i = False, master_r_other_err_i = False,
      master_r_rdata_i = 0\<rparr> (top_sba t)"

definition env_mm_in :: "dm_cfg \<Rightarrow> env_in \<Rightarrow> dm_top \<Rightarrow> mm_in" where
  "env_mm_in g e t = (let o1 = env_sb g t in (core_i e)\<lparr>sb_req_i := master_req_o o1, sb_addr_i := ucast (master_add_o o1),
     sb_we_i := master_we_o o1, sb_be_i := ucast (master_be_o o1), sb_wdata_i := ucast (master_wdata_o o1)\<rparr>)"

definition env_comb :: "mm_cfg \<Rightarrow> dm_cfg \<Rightarrow> env_in \<Rightarrow> dm_top \<Rightarrow> mm_comb" where
  "env_comb k g e t = mm_comb_of k (env_mm_in g e t)"

definition dm_rdata :: "dm_cfg \<Rightarrow> dm_top \<Rightarrow> u32" where
  "dm_rdata g t = fld 31 0 (mem_rdata_o g (top_mem t))"

definition env_top_in :: "mm_cfg \<Rightarrow> dm_cfg \<Rightarrow> env_in \<Rightarrow> test_env \<Rightarrow> top_in" where
  "env_top_in k g e s = (case s of (t, m) \<Rightarrow> let c = env_comb k g e t in
     (dmi_i e)\<lparr>top_next_dm := 0, top_unavailable := (\<lambda>h. \<not> SelectableHarts g h), top_hartinfo := (\<lambda>_. HartInfo),
       slave_req_i := dm_req c, slave_we_i := dm_we c, slave_addr_i := ucast (dm_addr c), slave_be_i := ucast (dm_be c),
       slave_wdata_i := ucast (dm_wdata c),
       top_master := \<lparr>master_gnt_i = sb_gnt_o c, master_r_valid_i = sb_rvalid_q m, master_r_err_i = False,
         master_r_other_err_i = False, master_r_rdata_i = ucast (sb_rdata_o k (dm_rdata g t) m)\<rparr>\<rparr>)"

definition env_clk :: "mm_cfg \<Rightarrow> dm_cfg \<Rightarrow> env_in \<Rightarrow> test_env \<Rightarrow> test_env" where
  "env_clk k g e s = (top_clk g (env_top_in k g e s) (fst s),
     mm_clk k (ndmreset_n e) undriven (env_mm_in g e (fst s)) (snd s))"

text \<open>The requests are those of the wired debug module.\<close>

lemma env_sb_wired:
  "master_req_o (top_bus_out g i t) = master_req_o (env_sb g t)" "master_add_o (top_bus_out g i t) = master_add_o (env_sb g t)"
  "master_we_o (top_bus_out g i t) = master_we_o (env_sb g t)" "master_be_o (top_bus_out g i t) = master_be_o (env_sb g t)"
  "master_wdata_o (top_bus_out g i t) = master_wdata_o (env_sb g t)"
  by (simp_all add: top_bus_out_quiet env_sb_def sba_out_def)

lemma env_mm_in_simps [simp]:
  "sb_req_i (env_mm_in g e t) = master_req_o (env_sb g t)" "sb_addr_i (env_mm_in g e t) = ucast (master_add_o (env_sb g t))"
  "sb_we_i (env_mm_in g e t) = master_we_o (env_sb g t)" "sb_be_i (env_mm_in g e t) = ucast (master_be_o (env_sb g t))"
  "sb_wdata_i (env_mm_in g e t) = ucast (master_wdata_o (env_sb g t))"
  "instr_req_i (env_mm_in g e t) = instr_req_i (core_i e)" "instr_addr_i (env_mm_in g e t) = instr_addr_i (core_i e)"
  "data_req_i (env_mm_in g e t) = data_req_i (core_i e)"
  by (simp_all add: env_mm_in_def Let_def)

lemma env_top_in_simps [simp]:
  "top_dmi_req (env_top_in k g e s) = top_dmi_req (dmi_i e)"
  "master_gnt_i (top_master (env_top_in k g e s)) = sb_gnt_o (env_comb k g e (fst s))"
  "master_r_valid_i (top_master (env_top_in k g e s)) = sb_rvalid_q (snd s)"
  "master_r_rdata_i (top_master (env_top_in k g e s)) = ucast (sb_rdata_o k (dm_rdata g (fst s)) (snd s))"
  by (simp_all add: env_top_in_def Let_def case_prod_beta)

lemma env_clk_simps [simp]:
  "fst (env_clk k g e s) = top_clk g (env_top_in k g e s) (fst s)"
  "snd (env_clk k g e s) = mm_clk k (ndmreset_n e) undriven (env_mm_in g e (fst s)) (snd s)"
  by (simp_all add: env_clk_def)

section \<open>Byte lanes\<close>

lemma small32: "j < 8 \<Longrightarrow> unat (of_nat j :: u32) = j"
  by (simp add: unsigned_of_nat take_bit_nat_eq_self)

lemma lane_shift:
  fixes x b :: u32
  assumes "l + n \<le> 4"
  shows "(let j = unat (x - b) in if j < 4 \<and> l \<le> j \<and> j < l + n then f (j - l) else y) =
    (if unat (x - (b + of_nat l)) < n then f (unat (x - (b + of_nat l))) else y)"
proof (cases "unat (x - (b + of_nat l)) < n")
  case True
  let ?d = "unat (x - (b + of_nat l))"
  have "x - b = (x - (b + of_nat l)) + of_nat l" by simp
  also have "\<dots> = of_nat (?d + l)" by simp
  finally have x: "x - b = of_nat (?d + l)" .
  have "unat (x - b) = ?d + l"
    unfolding x by (rule small32) (use True assms in linarith)
  then show ?thesis using True assms by (simp add: Let_def)
next
  case False
  have "\<not> (l \<le> unat (x - b) \<and> unat (x - b) < l + n)"
  proof
    let ?j = "unat (x - b)"
    assume j: "l \<le> ?j \<and> ?j < l + n"
    have "x - (b + of_nat l) = of_nat ?j - of_nat l" by simp
    also have "\<dots> = of_nat (?j - l)" using j by (simp only: of_nat_diff)
    finally have x: "x - (b + of_nat l) = of_nat (?j - l)" .
    have "unat (x - (b + of_nat l)) = ?j - l"
      unfolding x by (rule small32) (use j assms in linarith)
    then show False using False j by linarith
  qed
  then show ?thesis using False by (auto simp: Let_def)
qed

text \<open>The lanes of the bus and the address of the RAM.\<close>

lemma ram_base:
  assumes "2 \<le> aw" and "take_bit 32 (sbaddress_i c) = sbaddress_i c"
  shows "addr_int aw (ucast (sbaddress_i c)) + of_nat (be_idx 32 c) = take_bit aw (ucast (sbaddress_i c))"
proof -
  let ?a = "take_bit aw (ucast (sbaddress_i c)) :: u32"
  have "take_bit 2 (sbaddress_i c) = ucast (take_bit 2 ?a)"
    using assms(1) by (intro bit_word_eqI) (auto simp: bit_simps)
  then have "be_idx 32 c = unat (ucast (take_bit 2 ?a) :: u64)" by (simp add: be_idx_def be_idx_width_def)
  also have "\<dots> = unat (take_bit 2 ?a)" by (simp add: unsigned_ucast_eq take_bit_nat_eq_self unsigned_take_bit_eq)
  finally have "of_nat (be_idx 32 c) = take_bit 2 ?a" by simp
  then show ?thesis unfolding addr_int_def by (simp only: bits_ident)
qed

section \<open>The debugger writes memory\<close>

lemma quiet_port_simps:
  "sbaddress_i (quiet_port g t) = take_bit (BusWidth g) (sbaddr_q (top_csrs t))"
  "sbaccess_i (quiet_port g t) = sbaccess (sbcs_q (top_csrs t))"
  by (simp_all add: quiet_port_def sba_port_def)

text \<open>A store through the lanes of an access writes the bytes of the access.\<close>

lemma store_access:
  assumes "2 \<le> aw" and "\<not> misaligned 32 c" and "\<not> unsupported_size 32 c"
    and "take_bit 32 (sbaddress_i c) = sbaddress_i c" and "bs = 2 ^ unat (sbaccess_i c)"
  shows "ram_store (addr_int aw (ucast (sbaddress_i c))) (ucast (push_bit (be_idx 32 c) (mask bs) :: u8))
      (ucast (take_bit 32 (push_bit (8 * be_idx 32 c) (take_bit 32 (low_half v d))))) m x =
    (let j = unat (x - take_bit aw (ucast (sbaddress_i c))) in if j < bs then fld (8 * j + 7) (8 * j) v else m x)"
proof -
  let ?l = "be_idx 32 c" and ?b = "addr_int aw (ucast (sbaddress_i c))"
  let ?be = "ucast (push_bit ?l (mask bs) :: u8) :: 4 word"
    and ?w = "ucast (take_bit 32 (push_bit (8 * ?l) (take_bit 32 (low_half v d)))) :: u32"
  have l: "?l + bs \<le> 4" using be_mask_lanes(2) [OF _ assms(2,3)] assms(5) by (simp add: bus_width_ok_def)
  have be: "bit ?be j \<longleftrightarrow> ?l \<le> j \<and> j < ?l + bs" if "j < 4" for j
    using that l by (auto simp: bit_simps)
  have w: "fld (8 * j + 7) (8 * j) ?w = (fld (8 * (j - ?l) + 7) (8 * (j - ?l)) v :: u8)" if "j < 4" "?l \<le> j" for j
  proof (rule bit_word_eqI)
    fix n
    assume n: "n < LENGTH(8)"
    have e: "8 * j + n - 8 * ?l = 8 * (j - ?l) + n" "8 * ?l \<le> 8 * j + n" "8 * j + n < 32" "8 * (j - ?l) + n < 32"
      using that n by (simp_all add: diff_mult_distrib2)
    have "bit (low_half v d) (8 * (j - ?l) + n) = bit v (8 * (j - ?l) + n)"
      using e(4) by (simp add: low_half_def bit_cat_Cons bit_cat_Nil bit_ucast_word)
    then show "bit (fld (8 * j + 7) (8 * j) ?w :: u8) n = bit (fld (8 * (j - ?l) + 7) (8 * (j - ?l)) v :: u8) n"
      using n e by (simp add: bit_fld bit_ucast_word bit_take_bit_iff bit_push_bit_iff)
  qed
  have "ram_store ?b ?be ?w m x = (let j = unat (x - ?b) in
      if j < 4 \<and> ?l \<le> j \<and> j < ?l + bs then fld (8 * (j - ?l) + 7) (8 * (j - ?l)) v else m x)"
    unfolding ram_store_lane Let_def using be w by auto
  then show ?thesis
    unfolding lane_shift [OF l, of x ?b "\<lambda>j. fld (8 * j + 7) (8 * j) v" "m x"] ram_base [OF assms(1,4)] by (simp add: Let_def)
qed

text \<open>C11: the debugger writes the memory of the test environment. Writing \<open>sbdata0\<close> while the bus module is free
  stores, in the next clock cycle, exactly the bytes of the access at \<open>sbaddress\<close> in the RAM, for every
  aligned access of a supported size at a RAM address and whatever the core asks for; all other bytes keep
  their values, and the data port of the core is not granted in this cycle.\<close>

theorem debugger_stores_to_ram:
  assumes "BusWidth g = 32" and "2 \<le> RAM_ADDR_WIDTH k" and "top_active t"
    and "starts_write g (env_top_in k g e0 (t, m)) t"
    and "\<not> misaligned 32 (quiet_port g t)" and "\<not> unsupported_size 32 (quiet_port g t)"
    and "region (ucast (sbaddr_q (top_csrs t))) = Reg_Ram"
  shows "let s1 = env_clk k g e0 (t, m); s2 = env_clk k g e1 s1;
      A = take_bit (RAM_ADDR_WIDTH k) (ucast (sbaddr_q (top_csrs t))) in
    ram_mem (mm_dp (snd s2)) = (\<lambda>x. if unat (x - A) < 2 ^ unat (sbaccess (sbcs_q (top_csrs t)))
      then fld (8 * unat (x - A) + 7) (8 * unat (x - A)) (dmi_data (top_dmi_req (dmi_i e0)))
      else ram_mem (mm_dp (snd s1)) x) \<and>
    \<not> data_gnt_o (env_comb k g e1 (fst s1))"
proof -
  let ?i = "env_top_in k g e0 (t, m)" and ?c = "quiet_port g t"
  let ?t = "top_clk g ?i t" and ?v = "dmi_data (top_dmi_req (dmi_i e0))"
  have q: "sbaddress_i ?c = take_bit 32 (sbaddr_q (top_csrs t))" "sbaccess_i ?c = sbaccess (sbcs_q (top_csrs t))"
    by (simp_all add: quiet_port_simps assms(1))
  have a: "ucast (take_bit 32 w) = (ucast w :: u32)" for w :: u64
    by (intro bit_word_eqI) (auto simp: bit_simps)
  have o1: "master_req_o (env_sb g ?t)" "master_we_o (env_sb g ?t)" "master_add_o (env_sb g ?t) = sbaddress_i ?c"
    "master_be_o (env_sb g ?t) = push_bit (be_idx 32 ?c) (mask (2 ^ unat (sbaccess_i ?c)))"
    "master_wdata_o (env_sb g ?t) = take_bit 32 (push_bit (8 * be_idx 32 ?c) (take_bit 32 (low_half ?v (sbdata_q (top_csrs t)))))"
    using bus_write_out [OF assms(3,4), of "[]" ?i] assms(1,5,6)
    by (simp_all add: Let_def bus_width_ok_def env_sb_wired q)
  have r: "region (sb_addr_i (env_mm_in g e1 ?t)) = Reg_Ram" using assms(7) by (simp add: o1(3) q(1) a)
  have x: "take_bit 32 (sbaddress_i ?c) = sbaddress_i ?c" by (simp add: q)
  have "ram_mem (mm_dp (mm_clk k n undriven (env_mm_in g e1 ?t) s)) = (\<lambda>x.
      let j = unat (x - take_bit (RAM_ADDR_WIDTH k) (ucast (sbaddress_i ?c))) in
      if j < 2 ^ unat (sbaccess_i ?c) then fld (8 * j + 7) (8 * j) ?v else ram_mem (mm_dp s) x)" for n s
    using sb_store [OF _ _ r, of k n undriven s] o1
    by (simp add: fun_eq_iff store_access [OF assms(2,5,6) x refl])
  moreover have "\<not> data_gnt_o (env_comb k g e1 ?t)"
    unfolding env_comb_def by (rule sb_comb(3) [OF _ r]) (simp add: o1(1))
  ultimately show ?thesis by (simp add: Let_def q a cong: if_cong)
qed

section \<open>The debugger reads memory\<close>

text \<open>The grant of a read request: the module waits, with the settings of the access unchanged.\<close>

lemma read_granted:
  assumes "top_active t" and "top_sba t = Sb_Read" and "\<not> rejected (BusWidth g) (quiet_port g t) (top_sba t)"
    and "master_gnt_i (top_master i)"
  shows "top_sba (top_clk g i t) = Sb_WaitRead"
    "sbaddress_i (quiet_port g (top_clk g i t)) = sbaddress_i (quiet_port g t)"
    "sb_settings (sbcs_q (top_csrs (top_clk g i t))) = sb_settings (sbcs_q (top_csrs t))"
proof -
  have busy: "sbbusy_i (csr_port g i t)" and a: "dmactive (dmcontrol_q (top_csrs t))"
    using assms(1,2) by (simp_all add: top_active_def)
  have "rejected (BusWidth g) (top_sba_in g i t) (top_sba t) = rejected (BusWidth g) (quiet_port g t) (top_sba t)"
    unfolding top_sba_in_def quiet_port_def Let_def by (rule rejected_strobes)
  then show "top_sba (top_clk g i t) = Sb_WaitRead"
    using assms(2-4) by (simp add: top_clk_def sba_state_d_def sba_case_def)
  have "sb_address_o (top_sb_out g i t) = take_bit (BusWidth g) (sbaddr_q (top_csrs t))"
    by (simp add: top_sb_out_def sba_out_def sba_port_def sb_response_def assms(2))
  then show "sbaddress_i (quiet_port g (top_clk g i t)) = sbaddress_i (quiet_port g t)"
    by (simp add: quiet_port_simps top_clk_def sb_busy_frame [OF busy a])
  show "sb_settings (sbcs_q (top_csrs (top_clk g i t))) = sb_settings (sbcs_q (top_csrs t))"
    by (simp add: top_clk_def sb_busy_frame [OF busy a])
qed

lemma load_access:
  assumes "2 \<le> aw" and "\<not> misaligned 32 c" and "\<not> unsupported_size 32 c"
    and "take_bit 32 (sbaddress_i c) = sbaddress_i c" and "j < 2 ^ unat (sbaccess_i c)"
  shows "fld (8 * j + 7) (8 * j) (ucast (drop_bit (8 * be_idx 32 c) (take_bit 32
      (ucast (ram_word m (addr_int aw (ucast (sbaddress_i c)))) :: u64))) :: u32) =
    m (take_bit aw (ucast (sbaddress_i c)) + of_nat j)"
proof -
  let ?l = "be_idx 32 c" and ?r = "ram_word m (addr_int aw (ucast (sbaddress_i c)))"
  have l: "?l + j < 4" using be_mask_lanes(2) [OF _ assms(2,3)] assms(5) by (simp add: bus_width_ok_def)
  have "(fld (8 * j + 7) (8 * j) (ucast (drop_bit (8 * ?l) (take_bit 32 (ucast ?r :: u64))) :: u32) :: u8) =
    fld (8 * (?l + j) + 7) (8 * (?l + j)) ?r"
    using l by (intro bit_word_eqI)
      (auto simp: bit_fld bit_ucast_word bit_drop_bit_eq bit_take_bit_iff distrib_left add.assoc)
  also have "\<dots> = m (addr_int aw (ucast (sbaddress_i c)) + of_nat (?l + j))" by (rule ram_word_byte [OF l])
  also have "addr_int aw (ucast (sbaddress_i c)) + of_nat (?l + j) = take_bit aw (ucast (sbaddress_i c)) + of_nat j"
    using ram_base [OF assms(1,4)] by (simp add: add.assoc [symmetric])
  finally show ?thesis .
qed

text \<open>C12: the debugger reads the memory of the test environment. A read request of the bus module at a RAM address
  is granted at once and answered one cycle later; the debugger's read of \<open>sbdata0\<close> in the cycle after is
  answered with success, and the bytes of the access in the answer are the bytes the RAM held at
  \<open>sbaddress\<close> when the request was made, whatever the core asks for in these cycles.\<close>

theorem debugger_loads_from_ram:
  assumes "BusWidth g = 32" and "2 \<le> RAM_ADDR_WIDTH k" and "top_active t" and "top_sba t = Sb_Read"
    and "\<not> misaligned 32 (quiet_port g t)" and "\<not> unsupported_size 32 (quiet_port g t)"
    and "region (ucast (sbaddr_q (top_csrs t))) = Reg_Ram" and "ndmreset_n e0"
    and "s1 = env_clk k g e0 (t, m)" and "s2 = env_clk k g e1 s1"
    and "top_active (fst s1)" and "top_active (fst s2)"
    and "top_dmi g (env_top_in k g e2 s2) (fst s2) DTM_READ SBData0"
    and "\<not> sbbusyerror (sbcs_q (top_csrs (fst s2)))"
  shows "let r = resp_queue_inp (top_comb g (env_top_in k g e2 s2) (fst s2));
      A = take_bit (RAM_ADDR_WIDTH k) (ucast (sbaddr_q (top_csrs t))); n = 2 ^ unat (sbaccess (sbcs_q (top_csrs t))) in
    resp_resp r = DTM_SUCCESS \<and>
    map (\<lambda>j. fld (8 * j + 7) (8 * j) (resp_data r)) [0..<n] = map (\<lambda>j. ram_mem (mm_dp m) (A + of_nat j)) [0..<n]"
proof -
  let ?c = "quiet_port g t" and ?i = "env_top_in k g e0 (t, m)"
  have q: "sbaddress_i ?c = take_bit 32 (sbaddr_q (top_csrs t))" "sbaccess_i ?c = sbaccess (sbcs_q (top_csrs t))"
    by (simp_all add: quiet_port_simps assms(1))
  have a: "ucast (take_bit 32 w) = (ucast w :: u32)" for w :: u64
    by (intro bit_word_eqI) (auto simp: bit_simps)
  have nr: "\<not> rejected (BusWidth g) ?c (top_sba t)" using assms(1,5,6) by (simp add: rejected_def)
  have o1: "master_req_o (env_sb g t)" "\<not> master_we_o (env_sb g t)" "master_add_o (env_sb g t) = sbaddress_i ?c"
    using nr assms(4) by (simp_all add: env_sb_def sba_out_def)
  have r: "region (sb_addr_i (env_mm_in g e0 t)) = Reg_Ram" using assms(7) by (simp add: o1(3) q(1) a)
  have g: "master_gnt_i (top_master ?i)" using sb_comb(1) [OF _ r] by (simp add: env_comb_def o1(1))
  note step = read_granted [OF assms(3,4) nr g]
  have s1: "fst s1 = top_clk g ?i t" "sb_rvalid_q (snd s1)"
    "sb_rdata_o k d (snd s1) = ram_word (ram_mem (mm_dp m)) (addr_int (RAM_ADDR_WIDTH k) (ucast (sbaddress_i ?c)))" for d
    using sb_load(2) [OF _ _ r] o1 assms(8) by (simp_all add: assms(9) sb_answered)
  have s2: "fst s2 = top_clk g (env_top_in k g e1 s1) (fst s1)" "\<not> sb_rvalid_q (snd s2)"
    using step(1) by (simp_all add: assms(10) s1(1) sb_answered env_sb_def sba_out_def)
  have w: "top_sba (fst s1) = Sb_WaitRead" by (simp add: s1(1) step(1))
  let ?r = "resp_queue_inp (top_comb g (env_top_in k g e2 s2) (fst s2))"
  have m: "be_idx_masked 32 (quiet_port g (fst s1)) = be_idx 32 ?c"
  proof -
    have "be_idx_masked 32 (quiet_port g (fst s1)) = be_idx_masked 32 ?c"
      using step(2,3) by (simp add: s1(1) be_idx_masked_def sbaccess_mask_def sb_settings_def quiet_port_simps(2))
    then show ?thesis using be_idx_masked_aligned [OF _ assms(5)] by (simp add: bus_width_ok_def)
  qed
  have out: "resp_resp ?r = DTM_SUCCESS" "resp_data ?r = ucast (drop_bit (8 * be_idx 32 ?c) (take_bit 32
      (ucast (ram_word (ram_mem (mm_dp m)) (addr_int (RAM_ADDR_WIDTH k) (ucast (sbaddress_i ?c)))) :: u64)))"
    using bus_read_out [OF assms(11) w, of "env_top_in k g e1 s1" "env_top_in k g e2 s2" g] s1(2,3) s2 assms(1,12-14) m
    by (simp_all add: Let_def)
  have x: "take_bit 32 (sbaddress_i ?c) = sbaddress_i ?c" by (simp add: q)
  have "fld (8 * j + 7) (8 * j) (resp_data ?r) = ram_mem (mm_dp m) (take_bit (RAM_ADDR_WIDTH k) (ucast (sbaddr_q (top_csrs t))) + of_nat j)"
    if "j < 2 ^ unat (sbaccess (sbcs_q (top_csrs t)))" for j
    unfolding out(2) using load_access [OF assms(2,5,6) x] that by (simp add: q a)
  then show ?thesis using out(1) by (simp add: Let_def)
qed

section \<open>The core fetches from the debug module\<close>

lemma fetch_wired:
  assumes "BusWidth g = 32" and "instr_req_i (core_i e)" and "region (instr_addr_i (core_i e)) = Reg_Debug"
    and "\<not> data_req_i (core_i e)" and "\<not> master_req_o (env_sb g t)" and "ndmreset_n e"
  shows "instr_gnt_o (env_comb k g e t)" and "hart_loads (env_top_in k g e (t, m)) (ucast (instr_addr_i (core_i e)))"
    and "instr_rvalid_q (snd (env_clk k g e (t, m)))"
    and "instr_rdata_o k (dm_rdata g (fst (env_clk k g e (t, m)))) (snd (env_clk k g e (t, m))) =
      hart_fetch g (env_top_in k g e (t, m)) t"
proof -
  have c: "instr_gnt_o (env_comb k g e t)" "instr_rvalid_d (env_comb k g e t)" "dm_req (env_comb k g e t)"
    "\<not> dm_we (env_comb k g e t)" "dm_addr (env_comb k g e t) = instr_addr_i (core_i e)"
    "select_rdata_d (env_comb k g e t) = Rd_DEBUG"
    using assms(2-5) by (simp_all add: env_comb_def mm_comb_of_def Let_def instr_read_def)
  then show "instr_gnt_o (env_comb k g e t)" by simp
  have "ucast (ucast w :: u64) = (ucast w :: 12 word)" for w :: u32
    by (intro bit_word_eqI) (auto simp: bit_simps)
  then show "hart_loads (env_top_in k g e (t, m)) (ucast (instr_addr_i (core_i e)))"
    using c by (simp add: hart_loads_def env_top_in_def Let_def)
  show "instr_rvalid_q (snd (env_clk k g e (t, m)))"
    using c(2) assms(6) by (simp add: mm_clk_def Let_def env_comb_def)
  have "instr_rdata_o k d (mm_clk k True undriven (env_mm_in g e t) m) = d" for d
    using c(6) by (simp add: rdata_defs mm_clk_def Let_def env_comb_def)
  then show "instr_rdata_o k (dm_rdata g (fst (env_clk k g e (t, m)))) (snd (env_clk k g e (t, m))) =
      hart_fetch g (env_top_in k g e (t, m)) t"
    using assms(1,6) by (simp add: dm_rdata_def hart_fetch_def read32_def top_clk_def)
qed

text \<open>A run of the environment is a run of the debug module on the wired inputs.\<close>

definition env_run :: "mm_cfg \<Rightarrow> dm_cfg \<Rightarrow> env_in list \<Rightarrow> test_env \<Rightarrow> test_env" where
  "env_run k g = runs (env_clk k g)"

primrec env_tops :: "mm_cfg \<Rightarrow> dm_cfg \<Rightarrow> env_in list \<Rightarrow> test_env \<Rightarrow> top_in list" where
  "env_tops k g [] s = []"
| "env_tops k g (e # es) s = env_top_in k g e s # env_tops k g es (env_clk k g e s)"

lemma env_run_top: "fst (env_run k g es s) = runs (top_clk g) (env_tops k g es s) (fst s)"
  by (induction es arbitrary: s) (simp_all add: env_run_def)

lemma fetch_refused:
  assumes "instr_req_i (core_i e)" and "region (instr_addr_i (core_i e)) = Reg_Debug"
    and "data_req_i (core_i e) \<or> master_req_o (env_sb g t)"
  shows "\<not> instr_gnt_o (env_comb k g e t)" and "\<not> instr_rvalid_q (snd (env_clk k g e (t, m)))"
proof -
  have "\<not> instr_gnt_o (env_comb k g e t) \<and> \<not> instr_rvalid_d (env_comb k g e t)"
    using assms(1,3) mapped_debug [OF assms(2)] unfolding env_comb_def mm_comb_of_def Let_def
    by (cases "master_req_o (env_sb g t)") (simp_all add: rvalid_instr instr_from_ram_def mm_default_def)
  then show "\<not> instr_gnt_o (env_comb k g e t)" "\<not> instr_rvalid_q (snd (env_clk k g e (t, m)))"
    by (simp_all add: mm_clk_def Let_def env_comb_def)
qed

text \<open>C13: the core runs the command that was accepted. From the moment the debug module is busy until it is idle
  again, a fetch of the core in the debug region of the address map is granted exactly if neither the data
  port of the core nor the system bus has a request in that cycle; outside of a system reset it is answered
  in the next cycle exactly if it was granted; and then, at the address of a slot of the abstract command or
  of the program buffer, the answer is the slot or the word that was stored when the module became busy.\<close>

theorem core_fetches_program:
  assumes "BusWidth g = 32" and "top_busy t" and "runs_ok (top_clk g) (stays_busy g) (env_tops k g es (t, m)) t"
    and "s = env_run k g es (t, m)"
    and "instr_req_i (core_i e)" and "region (instr_addr_i (core_i e)) = Reg_Debug" and "ndmreset_n e"
  shows "let s' = env_clk k g e s; a = ucast (instr_addr_i (core_i e)); gnt = instr_gnt_o (env_comb k g e (fst s)) in
    gnt = (\<not> data_req_i (core_i e) \<and> \<not> master_req_o (env_sb g (fst s))) \<and> instr_rvalid_q (snd s') = gnt \<and>
    (gnt \<and> n < 10 \<and> a = AbstractCmdBaseAddr + 4 * of_nat n \<longrightarrow>
      instr_rdata_o k (dm_rdata g (fst s')) (snd s') = fst (abstract_prog g (command_q (top_csrs t))) ! n) \<and>
    (gnt \<and> n < 8 \<and> a = ProgBufBaseAddr + 4 * of_nat n \<longrightarrow>
      instr_rdata_o k (dm_rdata g (fst s')) (snd s') = progbuf_q (top_csrs t) n)"
proof (cases "\<not> data_req_i (core_i e) \<and> \<not> master_req_o (env_sb g (fst s))")
  case True
  have s: "fst s = runs (top_clk g) (env_tops k g es (t, m)) t" using env_run_top [of k g es "(t, m)"] by (simp add: assms(4))
  note f = fetch_wired(1) [OF assms(1,5,6) True [THEN conjunct1] True [THEN conjunct2] assms(7), of k]
    fetch_wired(2-4) [OF assms(1,5,6) True [THEN conjunct1] True [THEN conjunct2] assms(7), of k "snd s", unfolded prod.collapse]
  show ?thesis
    using True f held_fetch [OF assms(2,3), of "env_top_in k g e s" n] unfolding s [symmetric] Let_def
    by (simp only:) auto
next
  case False
  then have "data_req_i (core_i e) \<or> master_req_o (env_sb g (fst s))" by blast
  then show ?thesis
    using fetch_refused(1) [OF assms(5,6), of g "fst s" k] fetch_refused(2) [OF assms(5,6), of g "fst s" k "snd s"] False
    by (simp add: Let_def del: env_clk_simps)
qed

section \<open>Examples\<close>

text \<open>The parameters of the test environment.\<close>

definition env_dm :: dm_cfg where
  "env_dm = \<lparr>NrHarts = 1, BusWidth = 32, SelectableHarts = (\<lambda>h. h = 0), DmBaseAddress = 0x1000,
     MaxRegisterAccessWidth = 32, ReadByteEnable = True,
     halted_beyond = (\<lambda>_. 0)\<rparr>"

definition env_mm :: mm_cfg where
  "env_mm = \<lparr>RAM_ADDR_WIDTH = 20, JTAG_BOOT = True\<rparr>"

definition idle_core :: mm_in where
  "idle_core = \<lparr>instr_req_i = False, instr_addr_i = 0, data_req_i = False, data_addr_i = 0, data_we_i = False,
     data_be_i = 0, data_wdata_i = 0, sb_req_i = False, sb_addr_i = 0, sb_we_i = False, sb_be_i = 0, sb_wdata_i = 0,
     irq_id_i = 0, irq_ack_i = False\<rparr>"

definition env_cycle :: "mm_in \<Rightarrow> top_in \<Rightarrow> env_in" where
  "env_cycle c d = \<lparr>core_i = c, dmi_i = d, ndmreset_n = True\<rparr>"

definition power_on :: mm_ram where
  "power_on = \<lparr>select_rdata_q = Rd_IDLE, select_wdata_q = Wr_IDLE, data_rvalid_q = False, sb_rvalid_q = False,
     instr_rvalid_q = False, mm_timer = timer_reset, mm_dp = \<lparr>ram_mem = (\<lambda>a. ucast a), rdata_a = 0, rdata_b = 0\<rparr>, mm_boot = 0\<rparr>"

definition at_sram :: "u64 \<Rightarrow> dm_top" where
  "at_sram a = active_top\<lparr>top_csrs := (top_csrs active_top)\<lparr>sbaddr_q := a\<rparr>\<rparr>"

lemma env_cycle_simps [simp]:
  "core_i (env_cycle c d) = c" "dmi_i (env_cycle c d) = d" "ndmreset_n (env_cycle c d)"
  by (simp_all add: env_cycle_def)

lemma env_dmi [simp]: "top_dmi g (env_top_in k g e s) t p a = top_dmi g (dmi_i e) t p a"
  by (simp add: top_dmi_def request_def dm_csr_addr_def env_top_in_def Let_def case_prod_beta)

lemma at_sram_simps [simp]:
  "sbaddr_q (top_csrs (at_sram a)) = a" "sbcs_q (top_csrs (at_sram a)) = sbcs_reset" "top_sba (at_sram a) = Sb_Idle"
  "top_active (at_sram a)"
  by (simp_all add: at_sram_def top_active_def)

lemma env_cfg_simps [simp]: "BusWidth env_dm = 32" "RAM_ADDR_WIDTH env_mm = 20"
  by (simp_all add: env_dm_def env_mm_def)

lemma sram_example:
  "region 0x1C000104 = Reg_Ram" "region 0x1A110338 = Reg_Debug" "sbaccess sbcs_reset = 2" "sberror sbcs_reset = 0"
  "\<not> sbbusyerror sbcs_reset"
  "\<not> misaligned 32 (quiet_port env_dm (at_sram 0x1C000104))" "\<not> unsupported_size 32 (quiet_port env_dm (at_sram 0x1C000104))"
  by (simp_all add: region_def mapped_def map_defs sbcs_reset_def unpack_sbcs_def fld_def misaligned_def unsupported_size_def
      sbaccess_mask_def quiet_port_simps be_idx_width_def mask_numeral)

lemma quiet_step:
  assumes "\<not> accepts i" and "top_active t"
  shows "sbbusyerror (sbcs_q (top_csrs (top_clk g i t))) = sbbusyerror (sbcs_q (top_csrs t))"
  using assms(2) unaccepted(1) [OF assms(1)]
  by (simp add: top_clk_def csrs_clk_def Let_def top_active_def csr_comb_def Dm_Csrs.csr_update_def fix_sbcs_def csr_default_def)

text \<open>The core writes to the same address in the cycle of the bus access: it has to wait.\<close>

theorem debugger_stores_to_ram_witness:
  "let e0 = env_cycle idle_core (host DTM_WRITE SBData0 0xBEEF);
     e1 = env_cycle (idle_core\<lparr>data_req_i := True, data_we_i := True, data_addr_i := 0x104, data_be_i := 15\<rparr>) quiet_top;
     s1 = env_clk env_mm env_dm e0 (at_sram 0x1C000104, power_on);
     m = ram_mem (mm_dp (snd (env_clk env_mm env_dm e1 s1))) in
   m 0x104 = 0xEF \<and> m 0x105 = 0xBE \<and> m 0x106 = 0 \<and> m 0x107 = 0 \<and> m 0x108 = 8 \<and> m 0x103 = 3 \<and>
   \<not> data_gnt_o (env_comb env_mm env_dm e1 (fst s1))"
proof -
  let ?e0 = "env_cycle idle_core (host DTM_WRITE SBData0 0xBEEF)" and ?t = "at_sram 0x1C000104"
  let ?e1 = "env_cycle (idle_core\<lparr>data_req_i := True, data_we_i := True, data_addr_i := 0x104, data_be_i := 15\<rparr>) quiet_top"
  have st: "starts_write env_dm (env_top_in env_mm env_dm ?e0 (?t, power_on)) ?t"
    by (simp add: starts_write_def sb_blocked_def sram_example power_on_def dm_addresses)
  have "\<not> master_req_o (env_sb env_dm ?t)" by (simp add: env_sb_def sba_out_def)
  then have m: "ram_mem (mm_dp (snd (env_clk env_mm env_dm ?e0 (?t, power_on)))) = (\<lambda>a. ucast a)"
    by (simp add: mm_clk_def mm_comb_of_def idle_core_def instr_from_ram_def mm_default_def dp_ram_clk_def power_on_def Let_def)
  show ?thesis
    using debugger_stores_to_ram [OF _ _ _ st, of ?e1] m sram_example
    by (simp add: Let_def host_def fld_def unsigned_minus_1_eq_mask mask_numeral del: env_clk_simps)
qed

theorem debugger_loads_from_ram_witness:
  "let e = env_cycle (idle_core\<lparr>data_req_i := True, data_addr_i := 0x1A110100\<rparr>) quiet_top;
     e2 = env_cycle idle_core (host DTM_READ SBData0 0);
     s2 = env_clk env_mm env_dm e (env_clk env_mm env_dm e (at_sram 0x1C000104\<lparr>top_sba := Sb_Read\<rparr>, power_on));
     r = resp_queue_inp (top_comb env_dm (env_top_in env_mm env_dm e2 s2) (fst s2)) in
   resp_resp r = DTM_SUCCESS \<and> map (\<lambda>j. fld (8 * j + 7) (8 * j) (resp_data r)) [0..<4] = [4, 5, 6, 7 :: u8]"
proof -
  let ?t = "at_sram 0x1C000104\<lparr>top_sba := Sb_Read\<rparr>"
  let ?e = "env_cycle (idle_core\<lparr>data_req_i := True, data_addr_i := 0x1A110100\<rparr>) quiet_top"
  let ?s1 = "env_clk env_mm env_dm ?e (?t, power_on)"
  let ?s2 = "env_clk env_mm env_dm ?e ?s1" and ?e2 = "env_cycle idle_core (host DTM_READ SBData0 0)"
  have c: "quiet_port env_dm ?t = quiet_port env_dm (at_sram 0x1C000104)" "top_active ?t" "top_sba ?t = Sb_Read"
    "sbaddr_q (top_csrs ?t) = 0x1C000104" "sbcs_q (top_csrs ?t) = sbcs_reset"
    by (simp_all add: quiet_port_def top_active_def at_sram_def)
  have nd: "\<not> top_dmi g quiet_top t p a" for g t p a by (simp add: top_dmi_def request_def quiet_top_def)
  have e: "ndmreset_n ?e" "\<not> accepts (env_top_in env_mm env_dm ?e s)" for s
    by (simp_all add: accepts_def env_top_in_def Let_def case_prod_beta quiet_top_def)
  have q: "top_active (fst (env_clk env_mm env_dm ?e s))"
      "sbbusyerror (sbcs_q (top_csrs (fst (env_clk env_mm env_dm ?e s)))) = sbbusyerror (sbcs_q (top_csrs (fst s)))"
    if "top_active (fst s)" for s
    using quiet_step [OF e(2) that, of env_dm] nd stays_active [OF that] by simp_all
  have a: "top_active (fst (?t, power_on))" "\<not> sbbusyerror (sbcs_q (top_csrs (fst (?t, power_on))))"
    by (simp_all add: c sram_example)
  note a1 = q(1) [OF a(1)] and b1 = q(2) [OF a(1)]
  note a2 = q(1) [OF a1] and b2 = q(2) [OF a1]
  have d: "top_dmi env_dm (env_top_in env_mm env_dm ?e2 s) (fst s) DTM_READ SBData0" for s by (simp add: dm_addresses)
  have m: "ram_mem (mm_dp power_on) = (\<lambda>a. ucast a)" by (simp add: power_on_def)
  have r: "region (ucast (sbaddr_q (top_csrs ?t))) = Reg_Ram" by (simp add: c(4) sram_example)
  have mu: "\<not> misaligned 32 (quiet_port env_dm ?t)" "\<not> unsupported_size 32 (quiet_port env_dm ?t)"
    unfolding c(1) using sram_example by simp_all
  have b: "\<not> sbbusyerror (sbcs_q (top_csrs (fst (env_clk env_mm env_dm ?e (env_clk env_mm env_dm ?e (?t, power_on))))))"
    unfolding b2 b1 by (rule a(2))
  have n: "take_bit (RAM_ADDR_WIDTH env_mm) (ucast (sbaddr_q (top_csrs ?t))) = (0x104 :: u32)"
    "2 ^ unat (sbaccess (sbcs_q (top_csrs ?t))) = (4 :: nat)" "2 \<le> RAM_ADDR_WIDTH env_mm"
    by (simp_all add: c sram_example)
  show ?thesis
    using debugger_loads_from_ram [OF env_cfg_simps(1) n(3) c(2,3) mu r e(1) refl refl a1 a2 d b]
    unfolding n(1,2) m Let_def by (simp only:) (simp add: upt_rec)
qed

text \<open>A fetch of the first slot is answered with it; while the data port has a request it is not granted.\<close>

theorem core_fetches_program_witness:
  "let t = active_top\<lparr>top_mem := (top_mem active_top)\<lparr>mem_state_q := Mem_Go\<rparr>\<rparr>;
     c = idle_core\<lparr>instr_req_i := True, instr_addr_i := 0x1A110338\<rparr>;
     s' = env_clk env_mm env_dm (env_cycle c quiet_top) (t, power_on) in
   instr_rdata_o env_mm (dm_rdata env_dm (fst s')) (snd s') = csrw CSR_DSCRATCH1 10 \<and>
   \<not> instr_gnt_o (env_comb env_mm env_dm (env_cycle (c\<lparr>data_req_i := True\<rparr>) quiet_top) t)"
proof -
  let ?t = "active_top\<lparr>top_mem := (top_mem active_top)\<lparr>mem_state_q := Mem_Go\<rparr>\<rparr>"
  let ?c = "idle_core\<lparr>instr_req_i := True, instr_addr_i := 0x1A110338\<rparr>"
  let ?e = "env_cycle ?c quiet_top" and ?d = "env_cycle (?c\<lparr>data_req_i := True\<rparr>) quiet_top"
  have "top_busy ?t" by (simp add: top_busy_def)
  moreover have "\<not> master_req_o (env_sb env_dm ?t)" by (simp add: env_sb_def sba_out_def)
  moreover have "fst (abstract_prog env_dm (command_q (top_csrs ?t))) ! 0 = csrw CSR_DSCRATCH1 10"
    by (simp add: abstract_prog_def unpack_command_def unpack_ac_ar_cmd_def cmd_template_def
        fld_def AccessRegister_def write_reg_cmd_def reserved_regno_def is_a0_def regno_index_def Let_def HasSndScratch_def
        MaxAar_def env_dm_def)
  ultimately show ?thesis
    using core_fetches_program [of env_dm ?t env_mm "[]" power_on "(?t, power_on)" ?e 0] sram_example
      core_fetches_program [of env_dm ?t env_mm "[]" power_on "(?t, power_on)" ?d 0]
    by (simp add: env_run_def idle_core_def map_addresses Let_def del: env_clk_simps)
qed

end
