(* ===== verification/Verilator_Driver.thy ===== *)
theory Verilator_Driver
  imports Prelude
begin

text \<open>
  The simulation driver \<open>tb/tb_top_verilator.cpp\<close>: the clock and reset it generates, its main loop and the
  dump of the memory. The simulated design is generated code: it is a parameter \<open>ev\<close>, what evaluating it
  with the pins \<open>fetch_enable_i\<close>, \<open>clk_i\<close> and \<open>rst_ni\<close> does to its state, and \<open>fin\<close>, whether it has
  called \<open>$finish\<close>. The memory is read through a parameter as well. Tracing is not modelled.
\<close>

section \<open>Clock and reset\<close>

type_synonym pins = "bool \<times> bool \<times> bool"

record 'm driver =
  sim_t :: u64
  fetch_enable :: bool
  clk_pin :: bool
  rst_pin :: bool
  dut :: 'm

definition eval_dut :: "(pins \<Rightarrow> 'm \<Rightarrow> 'm) \<Rightarrow> 'm driver \<Rightarrow> 'm driver" where
  "eval_dut ev d = d\<lparr>dut := ev (fetch_enable d, clk_pin d, rst_pin d) (dut d)\<rparr>"

definition main_init :: "(pins \<Rightarrow> 'm \<Rightarrow> 'm) \<Rightarrow> 'm \<Rightarrow> 'm driver" where
  "main_init ev m = eval_dut ev \<lparr>sim_t = 0, fetch_enable = True, clk_pin = False, rst_pin = False, dut = m\<rparr>"

definition main_step :: "(pins \<Rightarrow> 'm \<Rightarrow> 'm) \<Rightarrow> 'm driver \<Rightarrow> 'm driver" where
  "main_step ev d = (let
     d = (if 40 < sim_t d then d\<lparr>rst_pin := True\<rparr> else d);
     d = d\<lparr>clk_pin := \<not> clk_pin d\<rparr>;
     d = eval_dut ev d
   in d\<lparr>sim_t := sim_t d + 5\<rparr>)"

partial_function (option) main_loop ::
  "(pins \<Rightarrow> 'm \<Rightarrow> 'm) \<Rightarrow> ('m \<Rightarrow> bool) \<Rightarrow> 'm driver \<Rightarrow> 'm driver option" where
  "main_loop ev fin d = (if fin (dut d) then Some d else main_loop ev fin (main_step ev d))"

text \<open>The time stamp is returned as a \<open>double\<close>, with 53 bits of precision: a larger number is rounded to the
  nearest multiple of its last place, and to the even one of two. All of these are natural numbers.\<close>

fun last_place :: "nat \<Rightarrow> nat" where
  "last_place n = (if n < 2 ^ 53 then 0 else Suc (last_place (n div 2)))"

declare last_place.simps [simp del]

definition to_double :: "nat \<Rightarrow> nat" where
  "to_double n = (let u = 2 ^ last_place n; q = n div u; r = n mod u in
     if u < 2 * r \<or> 2 * r = u \<and> odd q then (q + 1) * u else q * u)"

definition sc_time_stamp :: "'m driver \<Rightarrow> nat" where
  "sc_time_stamp d = to_double (unat (sim_t d))"

section \<open>The memory dump\<close>

definition hex_digit :: "nat \<Rightarrow> char" where
  "hex_digit n = ''0123456789abcdef'' ! n"

fun hex_digits :: "nat \<Rightarrow> string" where
  "hex_digits n = (if n < 16 then [hex_digit n] else hex_digits (n div 16) @ [hex_digit (n mod 16)])"

declare hex_digits.simps [simp del]

definition pad2 :: "string \<Rightarrow> string" where
  "pad2 s = replicate (2 - length s) CHR ''0'' @ s"

definition newline :: char where
  "newline = CHR 0x0A"

text \<open>The loop writes one line per address. Each iteration, the opening and the closing of the file may
  raise the exception; \<open>ok\<close> says which operations succeed. What a failing write leaves in the file is
  not modelled.\<close>

datatype file_op = Open_File | Write_Line nat | Close_File
datatype dump_message = Finished_Dumping | Dump_Exception

fun dump_loop :: "(file_op \<Rightarrow> bool) \<Rightarrow> (u32 \<Rightarrow> u32) \<Rightarrow> nat list \<Rightarrow> string \<Rightarrow> string \<times> bool" where
  "dump_loop ok read_byte [] f = (f, True)"
| "dump_loop ok read_byte (i # is) f =
    (if ok (Write_Line i)
     then dump_loop ok read_byte is (f @ pad2 (hex_digits (unat (read_byte (of_nat i)))) @ [newline])
     else (f, False))"

definition dump_size :: nat where
  "dump_size = 1048576"

definition dump_memory :: "(file_op \<Rightarrow> bool) \<Rightarrow> (u32 \<Rightarrow> u32) \<Rightarrow> string \<times> dump_message" where
  "dump_memory ok read_byte =
    (if \<not> ok Open_File then ([], Dump_Exception)
     else case dump_loop ok read_byte [0..<dump_size] [] of (f, written) \<Rightarrow>
       (f, if written \<and> ok Close_File then Finished_Dumping else Dump_Exception))"

text \<open>The program: the dump of the memory as it is after the first evaluation, then the loop. The result
  is the exit code, the dump and the final state.\<close>

definition sim_main :: "(pins \<Rightarrow> 'm \<Rightarrow> 'm) \<Rightarrow> ('m \<Rightarrow> bool) \<Rightarrow> (file_op \<Rightarrow> bool) \<Rightarrow> ('m \<Rightarrow> u32 \<Rightarrow> u32) \<Rightarrow> 'm \<Rightarrow>
    (nat \<times> (string \<times> dump_message) \<times> 'm driver) option" where
  "sim_main ev fin ok read_byte m = (let
     d = main_init ev m;
     file = dump_memory ok (read_byte (dut d))
   in map_option (\<lambda>d. (0, file, d)) (main_loop ev fin d))"

section \<open>What the design sees\<close>

primrec after_steps :: "(pins \<Rightarrow> 'm \<Rightarrow> 'm) \<Rightarrow> 'm \<Rightarrow> nat \<Rightarrow> 'm driver" where
  "after_steps ev m 0 = main_init ev m"
| "after_steps ev m (Suc n) = main_step ev (after_steps ev m n)"

text \<open>The pins of evaluation number \<open>k\<close> of the loop.\<close>

definition loop_pins :: "nat \<Rightarrow> pins" where
  "loop_pins k = (True, even k, 9 \<le> k)"

lemma small_time: "n < 10 \<Longrightarrow> 40 < (5 * of_nat n :: u64) \<longleftrightarrow> 9 \<le> n"
proof -
  assume "n < 10"
  then have "unat (5 * of_nat n :: u64) = 5 * n"
    by (simp add: unat_word_ariths unsigned_of_nat take_bit_nat_eq_self)
  then show ?thesis by (simp add: word_less_nat_alt) arith
qed

lemma driver_pins:
  "sim_t (after_steps ev m n) = 5 * of_nat n \<and> fetch_enable (after_steps ev m n) \<and>
   clk_pin (after_steps ev m n) = odd n \<and> rst_pin (after_steps ev m n) = (10 \<le> n)"
proof (induction n)
  case (Suc n)
  show ?case
  proof (cases "n < 10")
    case True
    then show ?thesis using Suc small_time [OF True]
      by (auto simp: main_step_def eval_dut_def Let_def algebra_simps)
  next
    case False
    then show ?thesis using Suc by (simp add: main_step_def eval_dut_def Let_def algebra_simps)
  qed
qed (simp add: main_init_def eval_dut_def)

lemma driver_dut:
  "dut (after_steps ev m n) = foldl (\<lambda>m p. ev p m) m ((True, False, False) # map loop_pins [0..<n])"
proof (induction n)
  case (Suc n)
  have "dut (main_step ev d) = ev (fetch_enable d, \<not> clk_pin d, rst_pin d \<or> 40 < sim_t d) (dut d)" for d :: "'a driver"
    by (simp add: main_step_def eval_dut_def Let_def)
  moreover have "(10 \<le> n \<or> 40 < (5 * of_nat n :: u64)) = (9 \<le> n)"
    using small_time [of n] by (cases "n < 10") auto
  ultimately show ?case using Suc driver_pins [of ev m n] by (simp add: loop_pins_def)
qed (simp add: main_init_def eval_dut_def)

lemma main_loop_steps:
  assumes "\<And>k. k < n \<Longrightarrow> \<not> fin (dut (after_steps ev m k))"
  shows "main_loop ev fin (main_init ev m) = main_loop ev fin (after_steps ev m n)"
  using assms
proof (induction n)
  case (Suc n)
  then have "main_loop ev fin (main_init ev m) = main_loop ev fin (after_steps ev m n)" by simp
  also have "\<dots> = main_loop ev fin (after_steps ev m (Suc n))"
    using Suc.prems [of n] by (simp add: main_loop.simps [of _ _ "after_steps ev m n"])
  finally show ?case .
qed simp

lemma main_loop_ends:
  assumes "main_loop ev fin s = Some d"
  shows "\<exists>k. d = (main_step ev ^^ k) s \<and> fin (dut d)"
  using assms
proof (induction rule: main_loop.raw_induct [rotated 1, consumes 1])
  case (1 loop ev fin s d)
  show ?case
  proof (cases "fin (dut s)")
    case True
    then show ?thesis using 1(2) by (intro exI [of _ 0]) simp
  next
    case False
    then obtain k where "d = (main_step ev ^^ k) (main_step ev s)" "fin (dut d)" using 1 by fastforce
    then show ?thesis by (intro exI [of _ "Suc k"]) (simp add: funpow_swap1)
  qed
qed

lemma after_steps_power: "after_steps ev m n = (main_step ev ^^ n) (main_init ev m)"
  by (induction n) simp_all

lemma last_place_scale: "last_place n = 0 \<or> 2 ^ 52 * 2 ^ last_place n \<le> n"
proof (induction n rule: last_place.induct)
  case (1 n)
  show ?case
  proof (cases "n < 2 ^ 53")
    case True
    then show ?thesis by (simp add: last_place.simps)
  next
    case False
    then have s: "last_place n = Suc (last_place (n div 2))" by (simp add: last_place.simps [of n])
    have "2 ^ 52 * 2 ^ last_place (n div 2) \<le> n div 2"
      using 1 [OF False] False by (cases "last_place (n div 2) = 0") simp_all
    then show ?thesis by (simp add: s)
  qed
qed

text \<open>The error is at most half of the last place; so numbers below \<open>2 ^ 53\<close> are exact.\<close>

lemma to_double_near: "2 ^ 53 * \<bar>int (to_double n) - int n\<bar> \<le> int n"
proof (cases "last_place n = 0")
  case True
  then show ?thesis by (simp add: to_double_def)
next
  case False
  let ?u = "2 ^ last_place n :: nat"
  have n: "n = n div ?u * ?u + n mod ?u" by (rule div_mult_mod_eq [symmetric])
  have u: "n mod ?u < ?u" by simp
  have near: "2 * \<bar>int d - int m\<bar> \<le> int w"
    if "m = q + r" "r < w" "d = q + w \<and> w \<le> 2 * r \<or> d = q \<and> 2 * r \<le> w" for d m q r w :: nat
    using that by (auto simp: abs_if)
  have "to_double n = n div ?u * ?u + ?u \<and> ?u \<le> 2 * (n mod ?u) \<or> to_double n = n div ?u * ?u \<and> 2 * (n mod ?u) \<le> ?u"
    by (auto simp: to_double_def Let_def)
  then have "2 * \<bar>int (to_double n) - int n\<bar> \<le> int ?u" by (rule near [OF n u])
  moreover have "int (2 ^ 52 * ?u) \<le> int n" using last_place_scale [of n] False by (simp only: of_nat_le_iff) simp
  ultimately show ?thesis by simp
qed

text \<open>C38: the clock and reset of the simulation. The design is evaluated once with the clock low and in
  reset, then with a clock that toggles at every evaluation, five units of time apart; reset is held for
  the first nine evaluations of the loop, that is for exactly five rising edges of the clock, and
  never asserted again, even when the time wraps around. The time stamp is the time modulo \<open>2 ^ 64\<close>
  rounded to a double, with a relative error of at most \<open>1 / 2 ^ 53\<close>, and so exact below \<open>2 ^ 53\<close>. The program returns exactly if the
  design ever finishes, with exit code 0, in the state of the first evaluation after which it has; the
  memory dump is that of the first evaluation.\<close>

theorem simulation_run:
  "dut (after_steps ev m n) = foldl (\<lambda>m p. ev p m) m ((True, False, False) # map (\<lambda>k. (True, even k, 9 \<le> k)) [0..<n]) \<and>
   length (filter even [0..<9]) = 5 \<and> sc_time_stamp (after_steps ev m n) = to_double (5 * n mod 2 ^ 64) \<and>
   2 ^ 53 * \<bar>int (sc_time_stamp (after_steps ev m n)) - int (5 * n mod 2 ^ 64)\<bar> \<le> int (5 * n mod 2 ^ 64) \<and>
   (sim_main ev fin ok rb m = Some (c, file, d) \<longleftrightarrow> c = 0 \<and>
      file = dump_memory ok (rb (ev (True, False, False) m)) \<and> (\<exists>n. d = after_steps ev m n \<and> fin (dut d) \<and>
      list_all (\<lambda>k. \<not> fin (dut (after_steps ev m k))) [0..<n]))"
proof -
  have t: "sc_time_stamp (after_steps ev m n) = to_double (5 * n mod 2 ^ 64)"
  proof -
    have "sim_t (after_steps ev m n) = of_nat (5 * n)" using driver_pins [of ev m n] by simp
    then show ?thesis unfolding sc_time_stamp_def by (simp only: unsigned_of_nat take_bit_eq_mod) simp
  qed
  moreover have "2 ^ 53 * \<bar>int (sc_time_stamp (after_steps ev m n)) - int (5 * n mod 2 ^ 64)\<bar> \<le> int (5 * n mod 2 ^ 64)"
    unfolding t by (rule to_double_near)
  moreover have "length (filter even [0..<9 :: nat]) = 5" by (simp add: upt_rec)
  moreover have stop: "main_loop ev fin (main_init ev m) = Some (after_steps ev m n)"
    if "fin (dut (after_steps ev m n))" "list_all (\<lambda>k. \<not> fin (dut (after_steps ev m k))) [0..<n]" for n
    using main_loop_steps [of n fin ev m] that by (simp add: list_all_iff main_loop.simps)
  moreover have "\<exists>n. d = after_steps ev m n \<and> fin (dut d) \<and> list_all (\<lambda>k. \<not> fin (dut (after_steps ev m k))) [0..<n]"
    if r: "main_loop ev fin (main_init ev m) = Some d"
  proof -
    have "\<exists>k. fin (dut (after_steps ev m k))" using main_loop_ends [OF r] by (auto simp: after_steps_power)
    then obtain k where k: "fin (dut (after_steps ev m k))" "\<And>j. j < k \<Longrightarrow> \<not> fin (dut (after_steps ev m j))"
      using exists_least_iff [of "\<lambda>k. fin (dut (after_steps ev m k))"] by auto
    then show ?thesis using stop [of k] r by (auto simp: list_all_iff)
  qed
  moreover have "(\<lambda>k. (True, even k, 9 \<le> k)) = loop_pins" by (simp add: loop_pins_def fun_eq_iff)
  moreover have "dut (main_init ev m) = ev (True, False, False) m" by (simp add: main_init_def eval_dut_def)
  ultimately show ?thesis unfolding sim_main_def Let_def using driver_dut [of ev m n] by auto
qed

section \<open>Reading the dump back\<close>

definition hex_value :: "char \<Rightarrow> nat" where
  "hex_value c = (let n = of_char c in if n < 58 then n - 48 else n - 87)"

definition parse_hex :: "string \<Rightarrow> nat" where
  "parse_hex s = foldl (\<lambda>v c. 16 * v + hex_value c) 0 s"

fun split_lines :: "string \<Rightarrow> string \<Rightarrow> string list" where
  "split_lines acc [] = (if acc = [] then [] else [acc])"
| "split_lines acc (c # cs) = (if c = newline then acc # split_lines [] cs else split_lines (acc @ [c]) cs)"

lemma split_line: "newline \<notin> set l \<Longrightarrow> split_lines acc (l @ newline # cs) = (acc @ l) # split_lines [] cs"
  by (induction l arbitrary: acc) auto

lemma hex_digit_value: "n < 16 \<Longrightarrow> hex_value (hex_digit n) = n \<and> hex_digit n \<noteq> newline"
proof -
  have "list_all (\<lambda>n. hex_value (hex_digit n) = n \<and> hex_digit n \<noteq> newline) [0..<16]" by code_simp
  then show "n < 16 \<Longrightarrow> hex_value (hex_digit n) = n \<and> hex_digit n \<noteq> newline" by (simp add: list_all_iff)
qed

lemma parse_hex_append: "parse_hex (s @ [c]) = 16 * parse_hex s + hex_value c"
  by (simp add: parse_hex_def)

lemma hex_digits_parse: "parse_hex (hex_digits n) = n \<and> newline \<notin> set (hex_digits n)"
proof (induction n rule: hex_digits.induct)
  case (1 n)
  show ?case
  proof (cases "n < 16")
    case True
    then show ?thesis using hex_digit_value [of n] by (auto simp: hex_digits.simps parse_hex_def)
  next
    case False
    then show ?thesis using 1 hex_digit_value [of "n mod 16"]
      by (auto simp: hex_digits.simps [of n] parse_hex_append)
  qed
qed

lemma pad2_parse: "parse_hex (pad2 s) = parse_hex s" "newline \<notin> set s \<Longrightarrow> newline \<notin> set (pad2 s)"
proof -
  have "hex_value CHR ''0'' = 0" by (simp add: hex_value_def)
  then have "foldl (\<lambda>v c. 16 * v + hex_value c) 0 (replicate k CHR ''0'') = 0" for k by (induction k) simp_all
  then show "parse_hex (pad2 s) = parse_hex s" by (simp add: pad2_def parse_hex_def)
  show "newline \<notin> set s \<Longrightarrow> newline \<notin> set (pad2 s)" by (auto simp: pad2_def newline_def)
qed

lemma byte_digits: "n < 256 \<Longrightarrow> length (pad2 (hex_digits n)) = 2"
proof -
  assume "n < 256"
  then have "n div 16 < 16" by simp
  then show ?thesis by (simp add: pad2_def hex_digits.simps [of n] hex_digits.simps [of "n div 16"])
qed

text \<open>The lines the loop has written when it stops at the first failing write.\<close>

definition dump_line :: "(u32 \<Rightarrow> u32) \<Rightarrow> nat \<Rightarrow> string" where
  "dump_line read_byte i = pad2 (hex_digits (unat (read_byte (of_nat i))))"

lemma dump_loop_lines:
  "dump_loop ok rd is f = (f @ concat (map (\<lambda>i. dump_line rd i @ [newline]) (takeWhile (\<lambda>i. ok (Write_Line i)) is)),
     list_all (\<lambda>i. ok (Write_Line i)) is)"
  by (induction "is" arbitrary: f) (simp_all add: dump_line_def)

lemma split_dump:
  "map parse_hex (split_lines [] (concat (map (\<lambda>i. dump_line rd i @ [newline]) is))) = map (\<lambda>i. unat (rd (of_nat i))) is"
proof (induction "is")
  case (Cons i "is")
  have "newline \<notin> set (dump_line rd i)" using hex_digits_parse pad2_parse(2) by (simp add: dump_line_def)
  then show ?case using Cons split_line [of "dump_line rd i" "[]"]
    by (simp add: dump_line_def pad2_parse(1) hex_digits_parse)
qed simp

text \<open>C39: the dump can be read back. The lines of the file, read as hexadecimal numbers, are the values of the
  memory from address 0 on, in order, up to the first write that fails; the program reports success
  exactly if the file could be opened, written completely and closed, and then all 1048576 values are
  there. A byte takes exactly two digits.\<close>

theorem dump_read_back:
  "let (f, msg) = dump_memory ok read_byte; vs = map parse_hex (split_lines [] f) in
    vs = (if ok Open_File then map (\<lambda>i. unat (read_byte (of_nat i)))
      (takeWhile (\<lambda>i. ok (Write_Line i)) [0..<dump_size]) else []) \<and>
    (msg = Finished_Dumping) = (ok Open_File \<and> list_all (\<lambda>i. ok (Write_Line i)) [0..<dump_size] \<and> ok Close_File) \<and>
    (msg = Finished_Dumping \<longrightarrow> length vs = dump_size) \<and>
    length (pad2 (hex_digits (unat (b :: u8)))) = 2"
proof -
  have "length (pad2 (hex_digits (unat b))) = 2"
    using unsigned_less [of b, where ?'a = nat] by (intro byte_digits) simp
  moreover have len: "length (split_lines [] (concat (map (\<lambda>i. dump_line rd i @ [newline]) is))) = length is" for rd "is"
    using arg_cong [OF split_dump [of rd "is"], of length] by simp
  moreover have "length (takeWhile (\<lambda>i. ok (Write_Line i)) [0..<dump_size]) = dump_size"
    if "list_all (\<lambda>i. ok (Write_Line i)) [0..<dump_size]"
  proof -
    have tw: "takeWhile (\<lambda>i. ok (Write_Line i)) [0..<dump_size] = [0..<dump_size]"
      using that by (simp add: list_all_iff)
    show ?thesis unfolding tw by simp
  qed
  ultimately show ?thesis
    by (simp add: dump_memory_def dump_loop_lines split_dump Let_def)
qed

theorem dump_read_back_witness:
  "snd (dump_memory (\<lambda>p. True) (\<lambda>a. 7)) = Finished_Dumping \<and>
   length (split_lines [] (fst (dump_memory (\<lambda>p. True) (\<lambda>a. 7)))) = 1048576"
  using dump_read_back [of "\<lambda>p. True" "\<lambda>a. 7" 0]
  by (simp add: split_beta Let_def dump_size_def list_all_iff)

end
