(* ===== verification/Spec2Isabelle.thy ===== *)
theory Spec2Isabelle
  imports Prelude Bitbang_Session Encoding_Insn Encoding_Csr Encoding_Fields Pkg_Encoding Park_Loop
    Syscalls Dmi_Jtag Dmi_Cdc Dm_Obi_Top Socket_Session Sim_Jtag Hart_Session Test_Env Verilator_Driver
begin

text \<open>
  A model of the RISC-V debug system in this repository and the theorems that make its parts correct.

  \<^bold>\<open>The program.\<close> A debugger on a host controls harts through a chain of parts. The test bench
  server \<open>tb/remote_bitbang/remote_bitbang.c\<close>, called by \<open>tb/SimJTAG.sv\<close>, takes one command byte at a time
  from a socket and drives the JTAG pins. The test access port \<open>src/dmi_jtag_tap.sv\<close> scans bits in and out of the instruction and
  data registers, and \<open>src/dmi_jtag.sv\<close> turns a scanned DMI word into a request to the debug module. The
  debug module decodes requests in \<open>src/dm_csrs.sv\<close>, reads and writes system memory through
  \<open>src/dm_sba.sv\<close>, and controls the harts through the memory of \<open>src/dm_mem.sv\<close>. A halted hart runs the
  park loop of \<open>debug_rom/debug_rom.S\<close>, which polls the flags the debug module sets and runs the abstract
  commands, whose instructions the functions of \<open>src/dm_pkg.sv\<close> generate. \<open>src/dm_top.sv\<close> wires the
  debug module together and \<open>src/dm_obi_top.sv\<close> puts it on an OBI bus. The driver
  \<open>tb/tb_top_verilator.cpp\<close> clocks and resets the simulated system. Programs under test use the
  system calls of \<open>tb/prog/syscalls.c\<close>; \<open>debug_rom/encoding.h\<close> names all instructions and registers.

  \<^bold>\<open>The theories.\<close>
  \<^item> \<open>Prelude\<close>: bit fields, concatenation and little-endian bytes of words, shared by all parts.
  \<^item> \<open>Remote_Bitbang\<close>, \<open>Bitbang_Session\<close>: \<open>remote_bitbang.c\<close> and \<open>sim_jtag.c\<close> over a record of POSIX
    operations. Loops that may not end are partial functions, so that a call that never returns has the
    value \<open>None\<close>. The session theory refines the server to the protocol machine of remote bitbang.
    \<open>Sim_Jtag\<close> is the clocked module that calls it, with the exact cycles of the calls.
  \<^item> \<open>Encoding_Insn\<close>, \<open>Encoding_Csr\<close>, \<open>Encoding_Fields\<close>: \<open>encoding.h\<close> as tables of its macros, with
    unambiguous decoding of 32-bit words, the privilege convention of CSR numbers and disjoint field
    masks.
  \<^item> \<open>Dm_Pkg\<close>, \<open>Dm_Regs\<close>: \<open>dm_pkg.sv\<close>: packed structures are records with a pack and an unpack function.
    \<open>Pkg_Encoding\<close> checks its instruction generators against \<open>encoding.h\<close>.
  \<^item> \<open>Riscv\<close>: the instructions the debug ROM and the abstract commands use, on a 64-bit hart with
    byte-addressed memory and a log of its stores.
  \<^item> \<open>Debug_Rom\<close>, \<open>Park_Loop\<close>: the source of the ROM with an assembler for it, the two C headers, the two
    hardware modules and the generator \<open>gen_rom.py\<close>, and the contract of the park loop as seen from the
    debug module: signals in order, registers restored.
  \<^item> \<open>Dmi_Jtag_Tap\<close>, \<open>Dmi_Jtag\<close>: the test access port and the debug transport module, one function for
    each clock edge; whole scans are runs of those functions. \<open>Dmi_Cdc\<close> is the edge detector of the
    crossing that flushes pending responses.
  \<^item> \<open>Dm_Sba\<close>: the system bus access module with its bus as a parameter.
  \<^item> \<open>Dm_Csrs\<close>: the registers behind the debug module interface. \<open>csr_comb\<close> is the combinational block in
    its order, \<open>csrs_clk\<close> the clock edge. Accesses while a command or a bus access runs are refused, errors
    are sticky, the halt summaries agree with the set of halted harts where the array they reduce has
    a row; \<open>halted_beyond\<close> is what it returns beyond its end.
  \<^item> \<open>Dm_Mem\<close>: the debug memory: the flags, the halted harts, the state machine of a command and the words
    the harts read. A hart counts as halted by the last event heard about it.
  \<^item> \<open>Abstract_Command\<close>: the slots of a command, run on the hart of \<open>Riscv\<close>, transfer exactly the named
    register.
  \<^item> \<open>Held\<close>: the contract of a value that stays while its environment keeps to a condition, a locale.
    \<open>Dm_Top\<close> interprets it three times: the program of a command while it runs, the data registers
    between writes, the bus request until it is granted, all while the module is active; \<open>Hart_Session\<close> once: the flags a hart polls.
  \<^item> \<open>Dm_Top\<close>: the whole debug module as one clocked machine over the debugger, the harts and the bus, and
    what each of them can rely on. \<open>Dm_Obi_Top\<close>: its OBI wrapper.
  \<^item> \<open>Dm_Progress\<close>: what a single request of the debugger or signal of a hart does to the whole module, as
    the steps the session theories are built from.
  \<^item> \<open>Debug_Session\<close>, \<open>Hart_Session\<close>: debugger, debug module and hart together. The first runs the command
    alone: reading and writing a register. The second runs the park loop on the module: a halted hart
    that polls finds the go or resume flag, jumps into the command or leaves debug mode, what it
    signals is what the debugger reads, and a command whose CSR access faults is undone and reported.
  \<^item> \<open>Host_Session\<close>, \<open>Socket_Session\<close>: from the JTAG pins, and from the bytes on the socket of the server, to
    the debug module. A session of scans shows the host the answers the module gives to direct accesses.
  \<^item> \<open>Mm_Ram\<close>, \<open>Test_Env\<close>: the address map, RAM, boot ROM and arbiter of the test bench (\<open>tb/mm_ram.sv\<close> and its
    parts), and the debug module wired to them as in \<open>tb/tb_test_env.sv\<close>: what the debugger stores and
    loads over the system bus is what the RAM holds, and the core fetches the accepted program.
  \<^item> \<open>Verilator_Driver\<close>: clock, reset, main loop and memory dump of the simulation.
  \<^item> \<open>Syscalls\<close>: every function of \<open>syscalls.c\<close> on a 32-bit machine with memory-mapped output.

  \<^bold>\<open>Conventions.\<close> Registers are record fields named as in the source with the suffix \<open>_q\<close>; a clocked
  block is a function from the inputs and the registers to the next registers, a combinational block a
  function of the same arguments. Vectors are words of their width. The data words of the system bus are
  64-bit words truncated to the bus width. Parameters of the modules are the record \<open>dm_cfg\<close>; bus widths
  are 32 and 64, the number of harts is free unless a theorem bounds it. No definition uses fuel: loops
  of the programs are structural, partial functions, or iterations whose number a theorem states.

  \<^bold>\<open>Not modelled.\<close> The response FIFO of \<open>dm_csrs.sv\<close> and the cells of the clock domain crossing
  \<open>dmi_cdc.sv\<close> are code of another repository: the full flag of the FIFO is an input, what is pushed into
  it an output; what the crossing shows the transport module is an input of every clock, and
  \<open>carries\<close> of \<open>Host_Session\<close> states what is relied on: a request arrives once, and its answer
  is shown while the host waits in Run-Test/Idle. The Xilinx tap \<open>dmi_bscane_tap.sv\<close> wraps a vendor primitive. The
  CSR access macros of \<open>encoding.h\<close> are inline assembly for a compiler and an assembler to resolve. The
  verification components and the test program are not part of the debug system; the core and the reset
  generator of the test environment are code of other repositories, so their signals are inputs of
  \<open>Test_Env\<close>. Error messages of the server, signal delays and waveform tracing are not
  part of the models; \<open>testmode_i\<close> is 0 throughout.
\<close>

end
